(* ===== verification/Py_Prelude.thy ===== *)
theory Py_Prelude
  imports Main "HOL-Library.Word" "HOL-Library.AList"
begin

text \<open>
  The parts of the Python language and of its standard library that both packages of the
  repository (the attestation package \<open>pytdxattest\<close> and the key enrolment package
  \<open>ovmfkeyenroll\<close>) rely on: exceptions as values of a result type, byte strings and
  slices, little- and big-endian integers, the \<open>struct\<close> module, hexadecimal
  formatting, and text as UTF-8.  The generic lemmas about them carry the proofs of the
  component theories.
\<close>

section \<open>Exceptions and results\<close>

text \<open>
  A Python exception that leaves a function is the value \<open>Inl e\<close>; a normal return
  is \<open>Inr x\<close>.  \<open>rbind\<close> runs the second computation on the value of the first and
  stops at the first exception, as statement sequencing does.  \<open>ConfigException\<close> and \<open>ApiException\<close> are those of the Kubernetes client, the second with its
  \<open>reason\<close>; \<open>APIError\<close> is of the Docker client, \<open>ConstructorError\<close> of the YAML loader and \<open>SSHException\<close>, with
  its text, of paramiko.  \<open>Raised msg\<close> is a plain \<open>Exception(msg)\<close>.
\<close>

datatype py_error =
    AssertionError
  | AttributeError
  | IndexError
  | KeyError
  | TypeError
  | ValueError
  | StructError
  | UnicodeDecodeError
  | OverflowError
  | OSError
  | NotImplementedError
  | SystemExit
  | ZeroDivisionError
  | ConfigException
  | ApiException "string option"
  | APIError
  | ConstructorError
  | SSHException string
  | Raised string

type_synonym 'a result = "py_error + 'a"

named_theorems result_simps \<open>evaluation of the result monad and of its checks\<close>

definition rbind :: "'a result \<Rightarrow> ('a \<Rightarrow> 'b result) \<Rightarrow> 'b result" where
  "rbind m f = (case m of Inl e \<Rightarrow> Inl e | Inr x \<Rightarrow> f x)"

definition py_assert :: "bool \<Rightarrow> unit result" where
  "py_assert b = (if b then Inr () else Inl AssertionError)"

definition key_of :: "('k \<times> 'v) list \<Rightarrow> 'k \<Rightarrow> 'v result" where
  "key_of d k = (case map_of d k of None \<Rightarrow> Inl KeyError | Some v \<Rightarrow> Inr v)"

definition item_of :: "'a list \<Rightarrow> nat \<Rightarrow> 'a result" where
  "item_of xs i = (if i < length xs then Inr (xs ! i) else Inl IndexError)"

fun rmap :: "('a \<Rightarrow> 'b result) \<Rightarrow> 'a list \<Rightarrow> 'b list result" where
  "rmap f [] = Inr []"
| "rmap f (x # xs) = rbind (f x) (\<lambda>y. rbind (rmap f xs) (\<lambda>ys. Inr (y # ys)))"

lemma rbind_Inr [simp, result_simps]: "rbind (Inr x) f = f x"
  by (simp add: rbind_def)

lemma rbind_Inl [simp, result_simps]: "rbind (Inl e) f = Inl e"
  by (simp add: rbind_def)

lemma rbind_Inr_iff: "rbind m f = Inr y \<longleftrightarrow> (\<exists>x. m = Inr x \<and> f x = Inr y)"
  by (cases m) auto

lemma rbind_InrE:
  assumes "rbind m f = Inr y"
  obtains x where "m = Inr x" and "f x = Inr y"
  using assms by (auto simp: rbind_Inr_iff)

lemma rbind_split:
  "P (rbind m f) \<longleftrightarrow> (\<forall>e. m = Inl e \<longrightarrow> P (Inl e)) \<and> (\<forall>x. m = Inr x \<longrightarrow> P (f x))"
  by (cases m) auto

lemma rbind_assoc: "rbind (rbind m f) g = rbind m (\<lambda>x. rbind (f x) g)"
  by (cases m) auto

lemma rbind_cong [fundef_cong]:
  "m = m' \<Longrightarrow> (\<And>x. m' = Inr x \<Longrightarrow> f x = g x) \<Longrightarrow> rbind m f = rbind m' g"
  by (cases m') auto

lemma py_assert_True [simp, result_simps]: "b \<Longrightarrow> py_assert b = Inr ()"
  by (simp add: py_assert_def)

lemma py_assert_False [simp, result_simps]: "\<not> b \<Longrightarrow> py_assert b = Inl AssertionError"
  by (simp add: py_assert_def)

lemma py_assert_Inr_iff [simp]: "py_assert b = Inr u \<longleftrightarrow> b"
  by (simp add: py_assert_def)

lemma rmap_Inr_iff_map:
  "rmap f xs = Inr ys \<longleftrightarrow> map f xs = map Inr ys"
proof (induction xs arbitrary: ys)
  case Nil
  then show ?case by auto
next
  case (Cons x xs)
  then show ?case
    by (cases ys) (auto simp: rbind_Inr_iff)
qed

lemma rmap_Inr_map: "(\<And>x. x \<in> set xs \<Longrightarrow> f x = Inr (g x)) \<Longrightarrow> rmap f xs = Inr (map g xs)"
  by (induction xs) auto

section \<open>Byte strings\<close>

type_synonym byte = "8 word"
type_synonym bytes = "8 word list"

text \<open>\<open>data[a:b]\<close> for non-negative bounds; a slice never raises.\<close>

definition py_slice :: "'a list \<Rightarrow> nat \<Rightarrow> nat \<Rightarrow> 'a list" where
  "py_slice xs a b = take (b - a) (drop a xs)"

text \<open>\<open>buffer[a:b] = v\<close> on a \<open>bytearray\<close>, for non-negative bounds: the bounds are
  clipped to the length, and \<open>v\<close> replaces the slice even when it has another length.\<close>

definition py_slice_assign :: "'a list \<Rightarrow> nat \<Rightarrow> nat \<Rightarrow> 'a list \<Rightarrow> 'a list" where
  "py_slice_assign xs a b v = take a xs @ v @ drop (max a b) xs"

lemma length_py_slice: "length (py_slice xs a b) = min (b - a) (length xs - a)"
  by (auto simp: py_slice_def)

lemma length_py_slice_inside [simp]:
  "a \<le> b \<Longrightarrow> b \<le> length xs \<Longrightarrow> length (py_slice xs a b) = b - a"
  by (simp add: py_slice_def)

lemma py_slice_0: "py_slice xs 0 b = take b xs"
  by (simp add: py_slice_def)

lemma py_slice_append_left: "b \<le> length xs \<Longrightarrow> py_slice (xs @ ys) a b = py_slice xs a b"
  by (cases "a \<le> b") (auto simp: py_slice_def)

lemma py_slice_append_right:
  "length xs \<le> a \<Longrightarrow> py_slice (xs @ ys) a b = py_slice ys (a - length xs) (b - length xs)"
  by (auto simp: py_slice_def)

lemma py_slice_append_middle [simp]:
  "py_slice (xs @ ys @ zs) (length xs) (length xs + length ys) = ys"
  by (simp add: py_slice_def)

lemma py_slice_slice:
  "a + d \<le> b \<Longrightarrow> py_slice (py_slice xs a b) c d = py_slice xs (a + c) (a + d)"
  by (cases "c \<le> d") (auto simp: py_slice_def take_drop min_def add.commute)

lemma py_slice_join:
  assumes "a \<le> b" and "b \<le> c"
  shows "py_slice xs a b @ py_slice xs b c = py_slice xs a c"
proof -
  have "c - a = (b - a) + (c - b)" and "drop b xs = drop (b - a) (drop a xs)"
    using assms by simp_all
  then show ?thesis
    by (simp only: py_slice_def take_add)
qed

lemma py_slice_full: "py_slice xs 0 (length xs) = xs"
  by (simp add: py_slice_def)

lemma nth_py_slice: "i < b - a \<Longrightarrow> a + i < length xs \<Longrightarrow> py_slice xs a b ! i = xs ! (a + i)"
  by (simp add: py_slice_def)

lemma py_slice_drop: "py_slice (drop n xs) a b = py_slice xs (n + a) (n + b)"
  by (simp add: py_slice_def add.commute)

lemma length_py_slice_assign:
  "a \<le> b \<Longrightarrow> b \<le> length xs \<Longrightarrow> length (py_slice_assign xs a b v) = length xs - (b - a) + length v"
  by (simp add: py_slice_assign_def max_def)

section \<open>Integers as bytes\<close>

fun le_val :: "bytes \<Rightarrow> nat" where
  "le_val [] = 0"
| "le_val (b # bs) = unat b + 256 * le_val bs"

fun le_bytes :: "nat \<Rightarrow> nat \<Rightarrow> bytes" where
  "le_bytes 0 n = []"
| "le_bytes (Suc w) n = word_of_nat (n mod 256) # le_bytes w (n div 256)"

definition be_val :: "bytes \<Rightarrow> nat" where
  "be_val bs = le_val (rev bs)"

definition be_bytes :: "nat \<Rightarrow> nat \<Rightarrow> bytes" where
  "be_bytes w n = rev (le_bytes w n)"

lemma length_le_bytes [simp]: "length (le_bytes w n) = w"
  by (induction w arbitrary: n) auto

lemma length_be_bytes [simp]: "length (be_bytes w n) = w"
  by (simp add: be_bytes_def)

lemma unat_byte_of_nat: "unat (word_of_nat n :: byte) = n mod 256"
  by (simp add: unat_of_nat)

lemma byte_of_unat [simp]: "(word_of_nat (unat b) :: byte) = b"
  by simp

lemma unat_byte_less [simp]: "unat (b :: byte) < 256"
  using unsigned_less [of b, where 'a = nat] by simp

lemma le_val_bound: "le_val bs < 256 ^ length bs"
proof (induction bs)
  case Nil
  then show ?case by simp
next
  case (Cons b bs)
  have "unat b + 256 * le_val bs < 256 * (le_val bs + 1)"
    using unat_byte_less [of b] by simp
  also have "\<dots> \<le> 256 * 256 ^ length bs"
    using Cons.IH by (intro mult_le_mono2) simp
  finally show ?case by simp
qed

lemma le_val_le_bytes_mod: "le_val (le_bytes w n) = n mod 256 ^ w"
proof (induction w arbitrary: n)
  case 0
  then show ?case by simp
next
  case (Suc w)
  then show ?case
    by (simp add: unat_byte_of_nat mod_mult2_eq)
qed

lemma le_bytes_le_val [simp]: "length bs = w \<Longrightarrow> le_bytes w (le_val bs) = bs"
proof (induction bs arbitrary: w)
  case Nil
  then show ?case by simp
next
  case (Cons b bs)
  then obtain w' where w: "w = Suc w'" "length bs = w'" by auto
  have "(unat b + 256 * le_val bs) mod 256 = unat b"
    by (simp add: mod_less)
  moreover have "(unat b + 256 * le_val bs) div 256 = le_val bs"
    by simp
  ultimately show ?case
    using Cons.IH [OF w(2)] w by simp
qed

lemma le_val_le_bytes [simp]: "n < 256 ^ w \<Longrightarrow> le_val (le_bytes w n) = n"
  by (simp add: le_val_le_bytes_mod)

lemma le_bytes_eq_iff: "a < 256 ^ w \<Longrightarrow> b < 256 ^ w \<Longrightarrow> le_bytes w a = le_bytes w b \<longleftrightarrow> a = b"
  by (metis le_val_le_bytes)

lemma be_val_be_bytes [simp]: "n < 256 ^ w \<Longrightarrow> be_val (be_bytes w n) = n"
  by (simp add: be_val_def be_bytes_def)

lemma be_bytes_be_val [simp]: "length bs = w \<Longrightarrow> be_bytes w (be_val bs) = bs"
  by (simp add: be_val_def be_bytes_def)

lemma be_val_bound: "be_val bs < 256 ^ length bs"
  using le_val_bound [of "rev bs"] by (simp add: be_val_def)

lemma le_val_append: "le_val (xs @ ys) = le_val xs + 256 ^ length xs * le_val ys"
  by (induction xs) (auto simp: algebra_simps)

lemma le_val_replicate_0 [simp]: "le_val (replicate n 0) = 0"
  by (induction n) auto

text \<open>
  The contract of a fixed-width integer codec, little- or big-endian.  A reader at an offset
  gets back what a writer placed there, whatever surrounds it.
\<close>

locale int_codec =
  fixes enc :: "nat \<Rightarrow> nat \<Rightarrow> bytes"
    and dec :: "bytes \<Rightarrow> nat"
  assumes length_enc: "length (enc w n) = w"
    and dec_enc: "n < 256 ^ w \<Longrightarrow> dec (enc w n) = n"
    and enc_dec: "length bs = w \<Longrightarrow> enc w (dec bs) = bs"
    and dec_bound: "dec bs < 256 ^ length bs"
begin

lemma enc_inj: "m < 256 ^ w \<Longrightarrow> n < 256 ^ w \<Longrightarrow> enc w m = enc w n \<Longrightarrow> m = n"
  by (metis dec_enc)

lemma dec_inj: "length xs = length ys \<Longrightarrow> dec xs = dec ys \<Longrightarrow> xs = ys"
  by (metis enc_dec)

lemma read_at:
  assumes "n < 256 ^ w" and "length pre = a" and "b = a + w"
  shows "dec (py_slice (pre @ enc w n @ post) a b) = n"
proof -
  have "py_slice (pre @ enc w n @ post) a b = enc w n"
    using assms(2,3) length_enc [of w n] py_slice_append_middle [of pre "enc w n" post] by simp
  then show ?thesis using assms(1) by (simp add: dec_enc)
qed

lemma take_enc: "n < 256 ^ w \<Longrightarrow> dec (take w (enc w n @ post)) = n"
  by (simp add: length_enc dec_enc)

end

interpretation le: int_codec le_bytes le_val
  by unfold_locales (simp_all add: le_val_bound)

interpretation be: int_codec be_bytes be_val
  by unfold_locales (simp_all add: be_val_bound)

end
