(* ===== verification/Py_Struct.thy ===== *)
theory Py_Struct
  imports Py_Prelude
begin

text \<open>
  The \<open>struct\<close> module, for the formats the repository uses: unsigned integers of
  1, 2, 4 or 8 bytes in little-endian order (\<open>B H I L Q\<close>; both the explicit
  little-endian formats and the native ones on x86-64), fixed-length byte strings
  (\<open>ns\<close>, \<open>c\<close>), and the padding bytes that native alignment inserts.  A format is a
  list of fields, a packed tuple a list of values.
\<close>

datatype sfield = UInt nat | RawBytes nat | PadBytes nat

datatype sval = SInt int | SBytes bytes

fun field_size :: "sfield \<Rightarrow> nat" where
  "field_size (UInt w) = w"
| "field_size (RawBytes n) = n"
| "field_size (PadBytes n) = n"

definition calcsize :: "sfield list \<Rightarrow> nat" where
  "calcsize fmt = sum_list (map field_size fmt)"

fun unpack_fields :: "sfield list \<Rightarrow> bytes \<Rightarrow> sval list" where
  "unpack_fields [] bs = []"
| "unpack_fields (UInt w # fs) bs = SInt (int (le_val (take w bs))) # unpack_fields fs (drop w bs)"
| "unpack_fields (RawBytes n # fs) bs = SBytes (take n bs) # unpack_fields fs (drop n bs)"
| "unpack_fields (PadBytes n # fs) bs = unpack_fields fs (drop n bs)"

definition struct_unpack :: "sfield list \<Rightarrow> bytes \<Rightarrow> sval list result" where
  "struct_unpack fmt bs = (if length bs = calcsize fmt then Inr (unpack_fields fmt bs) else Inl StructError)"

fun pack_field :: "sfield \<Rightarrow> sval \<Rightarrow> bytes result" where
  "pack_field (UInt w) (SInt n) =
     (if 0 \<le> n \<and> n < 256 ^ w then Inr (le_bytes w (nat n)) else Inl StructError)"
| "pack_field (RawBytes n) (SBytes bs) = Inr (take n (bs @ replicate n 0))"
| "pack_field _ _ = Inl StructError"

fun struct_pack :: "sfield list \<Rightarrow> sval list \<Rightarrow> bytes result" where
  "struct_pack [] [] = Inr []"
| "struct_pack (PadBytes n # fs) vs = rbind (struct_pack fs vs) (\<lambda>r. Inr (replicate n 0 @ r))"
| "struct_pack (f # fs) (v # vs) =
     rbind (pack_field f v) (\<lambda>b. rbind (struct_pack fs vs) (\<lambda>r. Inr (b @ r)))"
| "struct_pack _ _ = Inl StructError"

fun int_of :: "sval \<Rightarrow> int" where
  "int_of (SInt n) = n"
| "int_of (SBytes bs) = 0"

fun bytes_of :: "sval \<Rightarrow> bytes" where
  "bytes_of (SBytes bs) = bs"
| "bytes_of (SInt n) = []"

definition nat_of :: "sval \<Rightarrow> nat" where
  "nat_of v = nat (int_of v)"

lemma nat_of_SInt [simp]: "nat_of (SInt n) = nat n"
  by (simp add: nat_of_def)

lemma calcsize_simps [simp]:
  "calcsize [] = 0"
  "calcsize (f # fs) = field_size f + calcsize fs"
  by (simp_all add: calcsize_def)

text \<open>The values that a format can carry without loss, and the two round trips.\<close>

fun field_fits :: "sfield \<Rightarrow> sval \<Rightarrow> bool" where
  "field_fits (UInt w) (SInt n) = (0 \<le> n \<and> n < 256 ^ w)"
| "field_fits (RawBytes n) (SBytes bs) = (length bs = n)"
| "field_fits _ _ = False"

fun struct_fits :: "sfield list \<Rightarrow> sval list \<Rightarrow> bool" where
  "struct_fits [] [] = True"
| "struct_fits (PadBytes n # fs) vs = struct_fits fs vs"
| "struct_fits (f # fs) (v # vs) = (field_fits f v \<and> struct_fits fs vs)"
| "struct_fits _ _ = False"

lemma pack_field_fits:
  "field_fits f v \<Longrightarrow> \<exists>b. pack_field f v = Inr b \<and> length b = field_size f \<and>
     (\<forall>fs r. unpack_fields (f # fs) (b @ r) = v # unpack_fields fs r)"
  by (cases "(f, v)" rule: field_fits.cases) (auto simp: nat_less_iff)

lemma length_pack_field: "pack_field f v = Inr b \<Longrightarrow> length b = field_size f"
  by (cases "(f, v)" rule: pack_field.cases) (auto split: if_splits)

lemmas length_pack_field_cases =
  length_pack_field [where f = "UInt w" for w, simplified]
  length_pack_field [where f = "RawBytes n" for n, simplified]

lemma length_struct_pack: "struct_pack fmt vs = Inr bs \<Longrightarrow> length bs = calcsize fmt"
  by (induction fmt vs arbitrary: bs rule: struct_pack.induct)
    (auto simp: rbind_Inr_iff dest: length_pack_field_cases)

lemma struct_pack_fits:
  "struct_fits fmt vs \<Longrightarrow> \<exists>bs. struct_pack fmt vs = Inr bs \<and> unpack_fields fmt (bs @ r) = vs"
proof (induction fmt vs rule: struct_fits.induct)
  case 1
  then show ?case by simp
next
  case (2 n fs vs)
  then show ?case by fastforce
next
  case "3_1"
  then show ?case
    by (fastforce dest!: pack_field_fits)
next
  case "3_2"
  then show ?case
    by (fastforce dest!: pack_field_fits)
qed auto

lemma struct_unpack_pack:
  assumes "struct_fits fmt vs"
  obtains bs where "struct_pack fmt vs = Inr bs" and "struct_unpack fmt bs = Inr vs"
proof -
  obtain bs where "struct_pack fmt vs = Inr bs" and "unpack_fields fmt bs = vs"
    using struct_pack_fits [OF assms, of "[]"] by auto
  then show ?thesis
    using that by (simp add: struct_unpack_def length_struct_pack)
qed

lemma unpack_fields_fits:
  "length bs = calcsize fmt \<Longrightarrow> struct_fits fmt (unpack_fields fmt bs)"
proof (induction fmt bs rule: unpack_fields.induct)
  case (2 w fs bs)
  then show ?case
    using le_val_bound [of "take w bs"] by (simp flip: of_nat_power add: nat_less_iff)
qed auto

lemma struct_unpack_Inr_iff [simp]:
  "struct_unpack fmt bs = Inr vs \<longleftrightarrow> length bs = calcsize fmt \<and> unpack_fields fmt bs = vs"
  by (simp add: struct_unpack_def)

lemma struct_pack_unpack:
  "list_all (\<lambda>f. case f of PadBytes n \<Rightarrow> False | _ \<Rightarrow> True) fmt \<Longrightarrow> length bs = calcsize fmt \<Longrightarrow>
     struct_pack fmt (unpack_fields fmt bs) = Inr bs"
proof (induction fmt bs rule: unpack_fields.induct)
  case (2 w fs bs)
  have "le_val (take w bs) < 256 ^ w"
    using 2 le_val_bound [of "take w bs"] by simp
  then have "int (le_val (take w bs)) < 256 ^ w"
    by (simp flip: of_nat_power add: of_nat_less_iff [of _ "256 ^ w", symmetric])
  with 2 show ?case by simp
qed auto

end
