(* ===== verification/Py_Text.thy ===== *)
theory Py_Text
  imports Py_Prelude
begin

text \<open>
  Python text as it is used in the repository: a \<open>str\<close> is represented by its UTF-8
  encoding, a list of \<open>char\<close>, so that \<open>encode\<close> is the identity on codes
  and \<open>decode\<close> a validity check.  Case mapping is that of ASCII letters, the only ones
  the repository's keywords, GUIDs and hexadecimal strings have.
\<close>

section \<open>Characters and bytes\<close>

definition ord_byte :: "char \<Rightarrow> byte" where
  "ord_byte c = word_of_nat (of_char c)"

definition chr_byte :: "byte \<Rightarrow> char" where
  "chr_byte b = char_of (unat b)"

definition encode :: "string \<Rightarrow> bytes" where
  "encode s = map ord_byte s"

lemma chr_ord_byte [simp]: "chr_byte (ord_byte c) = c"
  by (simp add: chr_byte_def ord_byte_def unat_byte_of_nat)

lemma ord_chr_byte [simp]: "ord_byte (chr_byte b) = b"
  by (simp add: chr_byte_def ord_byte_def of_char_of)

lemma ord_byte_inject [simp]: "ord_byte c = ord_byte d \<longleftrightarrow> c = d"
  by (metis chr_ord_byte)

lemma length_encode [simp]: "length (encode s) = length s"
  by (simp add: encode_def)

lemma encode_inject [simp]: "encode s = encode t \<longleftrightarrow> s = t"
  by (simp add: encode_def inj_map_eq_map inj_def)

lemma encode_simps [simp]:
  "encode [] = []"
  "encode (c # s) = ord_byte c # encode s"
  "encode (s @ t) = encode s @ encode t"
  by (simp_all add: encode_def)

section \<open>UTF-8 decoding\<close>

text \<open>The well-formed byte sequences of the Unicode standard: no overlong forms, no
  surrogates, nothing above U+10FFFF.\<close>

definition utf8_cont :: "byte \<Rightarrow> bool" where
  "utf8_cont b \<longleftrightarrow> 0x80 \<le> b \<and> b \<le> 0xBF"

fun utf8_valid :: "bytes \<Rightarrow> bool" where
  "utf8_valid [] = True"
| "utf8_valid (a # rest) =
     (if a \<le> 0x7F then utf8_valid rest
      else if 0xC2 \<le> a \<and> a \<le> 0xDF then
        (case rest of b # r \<Rightarrow> utf8_cont b \<and> utf8_valid r | [] \<Rightarrow> False)
      else if 0xE0 \<le> a \<and> a \<le> 0xEF then
        (case rest of
           b # c # r \<Rightarrow>
             utf8_cont b \<and> (a = 0xE0 \<longrightarrow> 0xA0 \<le> b) \<and> (a = 0xED \<longrightarrow> b \<le> 0x9F) \<and>
             utf8_cont c \<and> utf8_valid r
         | _ \<Rightarrow> False)
      else if 0xF0 \<le> a \<and> a \<le> 0xF4 then
        (case rest of
           b # c # d # r \<Rightarrow>
             utf8_cont b \<and> (a = 0xF0 \<longrightarrow> 0x90 \<le> b) \<and> (a = 0xF4 \<longrightarrow> b \<le> 0x8F) \<and>
             utf8_cont c \<and> utf8_cont d \<and> utf8_valid r
         | _ \<Rightarrow> False)
      else False)"

definition decode :: "bytes \<Rightarrow> string result" where
  "decode bs = (if utf8_valid bs then Inr (map chr_byte bs) else Inl UnicodeDecodeError)"

lemma utf8_valid_ascii: "\<forall>b\<in>set bs. b \<le> 0x7F \<Longrightarrow> utf8_valid bs"
  by (induction bs) auto

lemma decode_encode_ascii: "\<forall>c\<in>set s. ord_byte c \<le> 0x7F \<Longrightarrow> decode (encode s) = Inr s"
  by (simp add: decode_def utf8_valid_ascii encode_def comp_def)

section \<open>Lower case\<close>

definition lower_char :: "char \<Rightarrow> char" where
  "lower_char c = (let n = (of_char c :: nat) in if 65 \<le> n \<and> n \<le> 90 then char_of (n + 32) else c)"

definition lower :: "string \<Rightarrow> string" where
  "lower s = map lower_char s"

lemma lower_char_idem [simp]: "lower_char (lower_char c) = lower_char c"
  by (auto simp: lower_char_def Let_def)

lemma lower_idem [simp]: "lower (lower s) = lower s"
  by (simp add: lower_def)

lemma length_lower [simp]: "length (lower s) = length s"
  by (simp add: lower_def)

section \<open>Hexadecimal digits\<close>

definition hex_digit :: "nat \<Rightarrow> char" where
  "hex_digit n = (if n < 10 then char_of (48 + n) else char_of (87 + n))"

definition hex_digit_upper :: "nat \<Rightarrow> char" where
  "hex_digit_upper n = (if n < 10 then char_of (48 + n) else char_of (55 + n))"

definition hex_value :: "char \<Rightarrow> nat option" where
  "hex_value c =
     (let n = (of_char c :: nat) in
      if 48 \<le> n \<and> n \<le> 57 then Some (n - 48)
      else if 97 \<le> n \<and> n \<le> 102 then Some (n - 87)
      else if 65 \<le> n \<and> n \<le> 70 then Some (n - 55)
      else None)"

lemma hex_value_digit [simp]: "n < 16 \<Longrightarrow> hex_value (hex_digit n) = Some n"
  by (auto simp: hex_value_def hex_digit_def of_char_of Let_def)

lemma hex_value_digit_upper [simp]: "n < 16 \<Longrightarrow> hex_value (hex_digit_upper n) = Some n"
  by (auto simp: hex_value_def hex_digit_upper_def of_char_of Let_def)

lemma hex_value_less: "hex_value c = Some n \<Longrightarrow> n < 16"
  by (auto simp: hex_value_def Let_def split: if_splits)

lemma hex_digit_value: "hex_value c = Some n \<Longrightarrow> hex_digit n = lower_char c"
proof -
  assume "hex_value c = Some n"
  then show ?thesis
    by (auto simp: hex_value_def hex_digit_def lower_char_def Let_def split: if_splits)
qed

text \<open>The digits of a number, most significant first, and the zero-padded formats
  \<open>%0wx\<close> and \<open>%0wX\<close>.\<close>

fun hex_digits :: "(nat \<Rightarrow> char) \<Rightarrow> nat \<Rightarrow> string" where
  "hex_digits dig n = (if n < 16 then [dig n] else hex_digits dig (n div 16) @ [dig (n mod 16)])"

declare hex_digits.simps [simp del]

definition zfill :: "nat \<Rightarrow> string \<Rightarrow> string" where
  "zfill w s = replicate (w - length s) (CHR ''0'') @ s"

definition fmt_hex :: "nat \<Rightarrow> nat \<Rightarrow> string" where
  "fmt_hex w n = zfill w (hex_digits hex_digit n)"

definition fmt_HEX :: "nat \<Rightarrow> nat \<Rightarrow> string" where
  "fmt_HEX w n = zfill w (hex_digits hex_digit_upper n)"

text \<open>For a number that fits its width the padded format has exactly one digit per
  nibble.\<close>

fun hexn :: "(nat \<Rightarrow> char) \<Rightarrow> nat \<Rightarrow> nat \<Rightarrow> string" where
  "hexn dig 0 n = []"
| "hexn dig (Suc w) n = hexn dig w (n div 16) @ [dig (n mod 16)]"

lemma length_hexn [simp]: "length (hexn dig w n) = w"
  by (induction w arbitrary: n) auto

lemma hexn_0: "hexn dig w 0 = replicate w (dig 0)"
  by (induction w) (auto simp flip: replicate_append_same)

lemma zfill_hex_digits:
  assumes "n < 16 ^ w" and "0 < w" and "dig 0 = CHR ''0''"
  shows "length (hex_digits dig n) \<le> w \<and> zfill w (hex_digits dig n) = hexn dig w n"
  using assms(1,2)
proof (induction w arbitrary: n)
  case 0
  then show ?case by simp
next
  case (Suc w)
  show ?case
  proof (cases "n < 16")
    case True
    then show ?thesis
      using assms(3) by (simp add: hex_digits.simps [of dig n] zfill_def hexn_0)
  next
    case False
    with Suc.prems have n: "n div 16 < 16 ^ w" and "0 < w"
      by (auto simp: less_mult_imp_div_less mult.commute intro: Suc_lessI)
        (metis One_nat_def gr_zeroI mult_1_right power_0)
    from Suc.IH [OF this] False show ?thesis
      by (simp add: hex_digits.simps [of dig n] zfill_def)
  qed
qed

lemma hex_digit_0 [simp]: "hex_digit 0 = CHR ''0''" and hex_digit_upper_0 [simp]: "hex_digit_upper 0 = CHR ''0''"
  by code_simp+

lemma fmt_hex_hexn: "n < 16 ^ w \<Longrightarrow> 0 < w \<Longrightarrow> fmt_hex w n = hexn hex_digit w n"
  by (simp add: fmt_hex_def zfill_hex_digits)

lemma fmt_HEX_hexn: "n < 16 ^ w \<Longrightarrow> 0 < w \<Longrightarrow> fmt_HEX w n = hexn hex_digit_upper w n"
  by (simp add: fmt_HEX_def zfill_hex_digits)

text \<open>The value of a digit string, as \<open>int(s, 16)\<close> computes it on plain digits.\<close>

fun hex_fold :: "nat \<Rightarrow> string \<Rightarrow> nat option" where
  "hex_fold acc [] = Some acc"
| "hex_fold acc (c # s) =
     (case hex_value c of None \<Rightarrow> None | Some d \<Rightarrow> hex_fold (16 * acc + d) s)"

lemma hex_fold_append:
  "hex_fold acc (s @ t) = (case hex_fold acc s of None \<Rightarrow> None | Some a \<Rightarrow> hex_fold a t)"
  by (induction s arbitrary: acc) (auto split: option.splits)

lemma hex_fold_hexn:
  assumes "\<And>d. d < 16 \<Longrightarrow> hex_value (dig d) = Some d"
  shows "n < 16 ^ w \<Longrightarrow> hex_fold acc (hexn dig w n) = Some (16 ^ w * acc + n)"
proof (induction w arbitrary: n)
  case 0
  then show ?case by simp
next
  case (Suc w)
  then have "n div 16 < 16 ^ w" by (simp add: less_mult_imp_div_less mult.commute)
  with Suc.IH show ?case
    by (simp add: hex_fold_append assms)
qed

text \<open>\<open>bytes.hex\<close>-like two-digit rendering of every byte.\<close>

definition hex_of_bytes :: "bytes \<Rightarrow> string" where
  "hex_of_bytes bs = concat (map (\<lambda>b. fmt_hex 2 (unat b)) bs)"

text \<open>\<open>bytearray.fromhex\<close>: pairs of digits, ASCII white space between pairs.\<close>

definition is_space :: "char \<Rightarrow> bool" where
  "is_space c \<longleftrightarrow> (of_char c :: nat) \<in> {9, 10, 11, 12, 13, 32}"

fun fromhex :: "string \<Rightarrow> bytes result" where
  "fromhex [] = Inr []"
| "fromhex (c # s) =
     (if is_space c then fromhex s
      else case hex_value c of
        None \<Rightarrow> Inl ValueError
      | Some h \<Rightarrow> (case s of
          [] \<Rightarrow> Inl ValueError
        | d # s' \<Rightarrow> (case hex_value d of
            None \<Rightarrow> Inl ValueError
          | Some l \<Rightarrow> rbind (fromhex s') (\<lambda>r. Inr (word_of_nat (16 * h + l) # r)))))"

lemma hexn_2: "hexn dig 2 n = [dig (n div 16 mod 16), dig (n mod 16)]"
  by (simp add: numeral_2_eq_2)

lemma not_space_hex_digit: "n < 16 \<Longrightarrow> \<not> is_space (hex_digit n)"
  by (auto simp: is_space_def hex_digit_def of_char_of)

lemma fmt_hex_2: "n < 256 \<Longrightarrow> fmt_hex 2 n = [hex_digit (n div 16), hex_digit (n mod 16)]"
  by (simp add: fmt_hex_hexn hexn_2)

lemma length_hex_of_bytes [simp]: "length (hex_of_bytes bs) = 2 * length bs"
  by (induction bs) (auto simp: hex_of_bytes_def fmt_hex_2)

lemma fromhex_hex_of_bytes: "fromhex (hex_of_bytes bs) = Inr bs"
proof (induction bs)
  case Nil
  then show ?case by (simp add: hex_of_bytes_def)
next
  case (Cons b bs)
  have "unat b div 16 < 16"
    using unat_byte_less [of b] by linarith
  with Cons show ?case
    by (simp add: hex_of_bytes_def fmt_hex_2 not_space_hex_digit)
qed

section \<open>Searching and splitting\<close>

text \<open>\<open>s.split(c)\<close> for a one-character separator, and \<open>t in s\<close>.\<close>

fun split_on :: "char \<Rightarrow> string \<Rightarrow> string list" where
  "split_on sep [] = [[]]"
| "split_on sep (c # s) =
     (if c = sep then [] # split_on sep s
      else case split_on sep s of [] \<Rightarrow> [[c]] | w # ws \<Rightarrow> (c # w) # ws)"

fun starts_with :: "string \<Rightarrow> string \<Rightarrow> bool" where
  "starts_with [] s = True"
| "starts_with (c # t) [] = False"
| "starts_with (c # t) (d # s) = (c = d \<and> starts_with t s)"

fun contains :: "string \<Rightarrow> string \<Rightarrow> bool" where
  "contains t [] = (t = [])"
| "contains t (c # s) = (starts_with t (c # s) \<or> contains t s)"

lemma split_on_not_Nil [simp]: "split_on sep s \<noteq> []"
  by (induction s) (auto split: list.splits)

lemma starts_with_iff: "starts_with t s \<longleftrightarrow> (\<exists>r. s = t @ r)"
  by (induction t s rule: starts_with.induct) auto

lemma contains_iff: "contains t s \<longleftrightarrow> (\<exists>p r. s = p @ t @ r)"
proof (induction s)
  case Nil
  then show ?case by simp
next
  case (Cons c s)
  show ?case
  proof
    assume "contains t (c # s)"
    then consider r where "c # s = t @ r" | p r where "s = p @ t @ r"
      using Cons by (auto simp: starts_with_iff)
    then show "\<exists>p r. c # s = p @ t @ r"
      by cases (metis append_Nil, metis append_Cons)
  next
    assume "\<exists>p r. c # s = p @ t @ r"
    then obtain p r where pr: "c # s = p @ t @ r" by blast
    show "contains t (c # s)"
    proof (cases p)
      case Nil
      then have "starts_with t (c # s)"
        using pr by (auto simp: starts_with_iff)
      then show ?thesis by simp
    next
      case p: (Cons d p')
      then have "\<exists>p r. s = p @ t @ r" using pr by auto
      then show ?thesis using Cons.IH by simp
    qed
  qed
qed

text \<open>\<open>s.strip()\<close> removes white space at both ends, here that of ASCII.\<close>

definition py_space :: "char \<Rightarrow> bool" where
  "py_space c \<longleftrightarrow> (of_char c :: nat) \<in> {9, 10, 11, 12, 13, 28, 29, 30, 31, 32}"

definition py_strip :: "string \<Rightarrow> string" where
  "py_strip s = rev (dropWhile py_space (rev (dropWhile py_space s)))"

text \<open>\<open>s.replace(t, '')\<close>.\<close>

function py_replace :: "string \<Rightarrow> string \<Rightarrow> string" where
  "py_replace t [] = []"
| "py_replace t (c # s) =
     (if t \<noteq> [] \<and> starts_with t (c # s) then py_replace t (drop (length t) (c # s))
      else c # py_replace t s)"
  by pat_completeness auto
termination
  by (relation "measure (\<lambda>(t, s). length s)") (auto simp: neq_Nil_conv)

text \<open>Splitting at a separator.\<close>

lemma split_on_append_sep: "split_on c (a @ c # b) = split_on c a @ split_on c b"
  by (induction a) (auto split: list.splits)

lemma split_on_no_sep: "c \<notin> set w \<Longrightarrow> split_on c w = [w]"
  by (induction w) auto

lemma split_on_words: "w \<in> set (split_on c s) \<Longrightarrow> c \<notin> set w"
proof (induction s arbitrary: w)
  case (Cons d s)
  then show ?case by (cases "split_on c s") (auto split: if_splits)
qed simp

text \<open>Reading a text file: the line ends become line feeds, and \<open>readlines()\<close> keeps them.  \<open>s.split()\<close> gives the
  words between white space.\<close>

fun universal_newlines :: "string \<Rightarrow> string" where
  "universal_newlines [] = []"
| "universal_newlines (c # s) =
     (if (of_char c :: nat) = 13 then
        (case s of
           [] \<Rightarrow> [char_of (10 :: nat)]
         | d # s' \<Rightarrow>
             char_of (10 :: nat) # (if (of_char d :: nat) = 10 then universal_newlines s' else universal_newlines s))
      else c # universal_newlines s)"

fun read_lines :: "string \<Rightarrow> string list" where
  "read_lines [] = []"
| "read_lines (c # s) =
     (if (of_char c :: nat) = 10 then [c] # read_lines s
      else case read_lines s of
        [] \<Rightarrow> [[c]]
      | l # ls \<Rightarrow> (c # l) # ls)"

fun split_space :: "string \<Rightarrow> string list" where
  "split_space [] = []"
| "split_space (c # s) =
     (if py_space c then split_space s
      else case s of
        [] \<Rightarrow> [[c]]
      | d # _ \<Rightarrow> if py_space d then [c] # split_space s
               else case split_space s of [] \<Rightarrow> [[c]] | w # ws \<Rightarrow> (c # w) # ws)"

section \<open>Decimal numbers\<close>

fun dec_digits :: "nat \<Rightarrow> string" where
  "dec_digits n = (if n < 10 then [char_of (48 + n)] else dec_digits (n div 10) @ [char_of (48 + n mod 10)])"

declare dec_digits.simps [simp del]

definition fmt_dec :: "int \<Rightarrow> string" where
  "fmt_dec n = (if n < 0 then ''-'' @ dec_digits (nat (- n)) else dec_digits (nat n))"

text \<open>\<open>int(s)\<close> in base 10: surrounding white space, a sign, and single underscores between digits.  The flag
  tells that a digit came before.\<close>

fun dec_literal :: "bool \<Rightarrow> nat \<Rightarrow> string \<Rightarrow> nat option" where
  "dec_literal after acc [] = (if after then Some acc else None)"
| "dec_literal after acc (c # s) =
     (if c = CHR ''_'' then (if after then dec_literal False acc s else None)
      else if 48 \<le> (of_char c :: nat) \<and> (of_char c :: nat) \<le> 57 then dec_literal True (10 * acc + (of_char c - 48)) s
      else None)"

definition int_base10 :: "string \<Rightarrow> int result" where
  "int_base10 s =
     (let t = py_strip s;
          r = (if starts_with ''-'' t then map_option (\<lambda>n. - int n) (dec_literal False 0 (drop 1 t))
               else if starts_with ''+'' t then map_option int (dec_literal False 0 (drop 1 t))
               else map_option int (dec_literal False 0 t))
      in case r of None \<Rightarrow> Inl ValueError | Some n \<Rightarrow> Inr n)"

end
