(* ===== verification/Sha2.thy ===== *)
theory Sha2
  imports Py_Prelude
begin

text \<open>
  The two hash functions of \<open>hashlib\<close> that the attestation package uses, SHA-384 (the
  RTMR extend operation and its replay) and SHA-512 (the report data of a quote), after
  FIPS 180-4: both run the 64-bit compression function over 1024-bit blocks and differ
  in the initial value and in the length of the digest.
\<close>

unbundle bit_operations_syntax

type_synonym w64 = "64 word"

text \<open>The round constants, four words to a row.\<close>

definition row_words :: "nat \<Rightarrow> w64 list" where
  "row_words row = map (\<lambda>i. word_of_nat (row div 2 ^ (64 * (3 - i)))) [0..<4]"

definition sha512_K :: "w64 list" where
  "sha512_K = concat (map row_words
    [0x428a2f98d728ae227137449123ef65cdb5c0fbcfec4d3b2fe9b5dba58189dbbc,
     0x3956c25bf348b53859f111f1b605d019923f82a4af194f9bab1c5ed5da6d8118,
     0xd807aa98a303024212835b0145706fbe243185be4ee4b28c550c7dc3d5ffb4e2,
     0x72be5d74f27b896f80deb1fe3b1696b19bdc06a725c71235c19bf174cf692694,
     0xe49b69c19ef14ad2efbe4786384f25e30fc19dc68b8cd5b5240ca1cc77ac9c65,
     0x2de92c6f592b02754a7484aa6ea6e4835cb0a9dcbd41fbd476f988da831153b5,
     0x983e5152ee66dfaba831c66d2db43210b00327c898fb213fbf597fc7beef0ee4,
     0xc6e00bf33da88fc2d5a79147930aa72506ca6351e003826f142929670a0e6e70,
     0x27b70a8546d22ffc2e1b21385c26c9264d2c6dfc5ac42aed53380d139d95b3df,
     0x650a73548baf63de766a0abb3c77b2a881c2c92e47edaee692722c851482353b,
     0xa2bfe8a14cf10364a81a664bbc423001c24b8b70d0f89791c76c51a30654be30,
     0xd192e819d6ef5218d69906245565a910f40e35855771202a106aa07032bbd1b8,
     0x19a4c116b8d2d0c81e376c085141ab532748774cdf8eeb9934b0bcb5e19b48a8,
     0x391c0cb3c5c95a634ed8aa4ae3418acb5b9cca4f7763e373682e6ff3d6b2b8a3,
     0x748f82ee5defb2fc78a5636f43172f6084c87814a1f0ab728cc702081a6439ec,
     0x90befffa23631e28a4506cebde82bde9bef9a3f7b2c67915c67178f2e372532b,
     0xca273eceea26619cd186b8c721c0c207eada7dd6cde0eb1ef57d4f7fee6ed178,
     0x06f067aa72176fba0a637dc5a2c898a6113f9804bef90dae1b710b35131c471b,
     0x28db77f523047d8432caab7b40c724933c9ebe0a15c9bebc431d67c49c100d4c,
     0x4cc5d4becb3e42b6597f299cfc657e2a5fcb6fab3ad6faec6c44198c4a475817])"

definition sha512_init :: "w64 list" where
  "sha512_init =
    [0x6a09e667f3bcc908, 0xbb67ae8584caa73b, 0x3c6ef372fe94f82b, 0xa54ff53a5f1d36f1,
     0x510e527fade682d1, 0x9b05688c2b3e6c1f, 0x1f83d9abfb41bd6b, 0x5be0cd19137e2179]"

definition sha384_init :: "w64 list" where
  "sha384_init =
    [0xcbbb9d5dc1059ed8, 0x629a292a367cd507, 0x9159015a3070dd17, 0x152fecd8f70e5939,
     0x67332667ffc00b31, 0x8eb44a8768581511, 0xdb0c2e0d64f98fa7, 0x47b5481dbefa4fa4]"

definition rotr64 :: "nat \<Rightarrow> w64 \<Rightarrow> w64" where
  "rotr64 n x = drop_bit n x OR push_bit (64 - n) x"

definition big_sigma0 :: "w64 \<Rightarrow> w64" where
  "big_sigma0 x = rotr64 28 x XOR rotr64 34 x XOR rotr64 39 x"

definition big_sigma1 :: "w64 \<Rightarrow> w64" where
  "big_sigma1 x = rotr64 14 x XOR rotr64 18 x XOR rotr64 41 x"

definition small_sigma0 :: "w64 \<Rightarrow> w64" where
  "small_sigma0 x = rotr64 1 x XOR rotr64 8 x XOR drop_bit 7 x"

definition small_sigma1 :: "w64 \<Rightarrow> w64" where
  "small_sigma1 x = rotr64 19 x XOR rotr64 61 x XOR drop_bit 6 x"

text \<open>The schedule keeps the last sixteen words, oldest first.\<close>

fun schedule :: "nat \<Rightarrow> w64 list \<Rightarrow> w64 list" where
  "schedule 0 ws = []"
| "schedule (Suc n) ws =
     (let w = small_sigma1 (ws ! 14) + ws ! 9 + small_sigma0 (ws ! 1) + ws ! 0
      in ws ! 0 # schedule n (tl ws @ [w]))"

type_synonym hstate = "w64 \<times> w64 \<times> w64 \<times> w64 \<times> w64 \<times> w64 \<times> w64 \<times> w64"

definition sha512_round :: "w64 \<times> w64 \<Rightarrow> hstate \<Rightarrow> hstate" where
  "sha512_round kw s = (case (kw, s) of ((k, w), (a, b, c, d, e, f, g, h)) \<Rightarrow>
     let t1 = h + big_sigma1 e + ((e AND f) XOR (NOT e AND g)) + k + w;
         t2 = big_sigma0 a + ((a AND b) XOR (a AND c) XOR (b AND c))
     in (t1 + t2, a, b, c, d + t1, e, f, g))"

fun blocks_of :: "nat \<Rightarrow> 'a list \<Rightarrow> 'a list list" where
  "blocks_of n xs = (if n = 0 \<or> xs = [] then [] else take n xs # blocks_of n (drop n xs))"

declare blocks_of.simps [simp del]

definition hash_to_state :: "w64 list \<Rightarrow> hstate" where
  "hash_to_state hs = (hs ! 0, hs ! 1, hs ! 2, hs ! 3, hs ! 4, hs ! 5, hs ! 6, hs ! 7)"

definition sha512_block :: "bytes \<Rightarrow> w64 list \<Rightarrow> w64 list" where
  "sha512_block blk hs =
     (let ws = schedule 80 (map (\<lambda>b. word_of_nat (be_val b)) (blocks_of 8 blk));
          (a, b, c, d, e, f, g, h) = fold sha512_round (zip sha512_K ws) (hash_to_state hs)
      in map2 (+) hs [a, b, c, d, e, f, g, h])"

definition sha512_pad :: "bytes \<Rightarrow> bytes" where
  "sha512_pad m =
     (let n = length m; z = (239 - n mod 128) mod 128
      in m @ [0x80] @ replicate z 0 @ be_bytes 16 (8 * n))"

definition sha512_words :: "w64 list \<Rightarrow> bytes \<Rightarrow> w64 list" where
  "sha512_words iv m = fold sha512_block (blocks_of 128 (sha512_pad m)) iv"

definition words_to_bytes :: "w64 list \<Rightarrow> bytes" where
  "words_to_bytes ws = concat (map (\<lambda>w. be_bytes 8 (unat w)) ws)"

definition sha512 :: "bytes \<Rightarrow> bytes" where
  "sha512 m = words_to_bytes (sha512_words sha512_init m)"

definition sha384 :: "bytes \<Rightarrow> bytes" where
  "sha384 m = take 48 (words_to_bytes (sha512_words sha384_init m))"

section \<open>Digest lengths\<close>

lemma length_sha512_block [simp]: "length hs = 8 \<Longrightarrow> length (sha512_block blk hs) = 8"
  by (simp add: sha512_block_def Let_def split: prod.split)

lemma length_sha512_words: "length iv = 8 \<Longrightarrow> length (sha512_words iv m) = 8"
proof -
  have "length hs = 8 \<Longrightarrow> length (fold sha512_block bs hs) = 8" for bs hs
    by (induction bs arbitrary: hs) auto
  then show "length iv = 8 \<Longrightarrow> ?thesis" by (simp add: sha512_words_def)
qed

lemma length_words_to_bytes: "length (words_to_bytes ws) = 8 * length ws"
  by (induction ws) (auto simp: words_to_bytes_def)

lemma length_sha512 [simp]: "length (sha512 m) = 64"
  by (simp add: sha512_def length_words_to_bytes length_sha512_words sha512_init_def)

lemma length_sha384 [simp]: "length (sha384 m) = 48"
  by (simp add: sha384_def length_words_to_bytes length_sha512_words sha384_init_def)

text \<open>The padded message is a whole number of blocks.\<close>

lemma sha512_pad_blocks: "128 dvd length (sha512_pad m)"
proof -
  define n r z where "n = length m" and "r = n mod 128" and "z = (239 - r) mod 128"
  have r: "r < 128" by (simp add: r_def)
  have z: "z = (if r \<le> 111 then 111 - r else 239 - r)"
  proof (cases "r \<le> 111")
    case True
    then have "239 - r = 128 + (111 - r)" by simp
    then have "z = (111 - r) mod 128" by (simp only: z_def mod_add_self1)
    then show ?thesis using True by simp
  next
    case False
    then show ?thesis using r by (simp add: z_def)
  qed
  have "n = 128 * (n div 128) + r" by (simp add: r_def)
  moreover have "length (sha512_pad m) = n + 1 + z + 16"
    by (simp add: sha512_pad_def Let_def n_def r_def z_def)
  ultimately have "length (sha512_pad m) = 128 * (n div 128) + (if r \<le> 111 then 128 else 256)"
    using r z by (simp split: if_splits)
  then show ?thesis by simp
qed

end
