(* ===== verification/Binary_Blob.thy ===== *)
theory Binary_Blob
  imports Py_Struct Py_Text Sha2
begin

text \<open>
  \<open>pytdxattest/binaryblob.py\<close>: a byte string with a base address, the readers that
  the event log, CCEL and report parsers are built on, and the hexadecimal dump.  A reader
  returns the value and the position after it; a failed bounds check is an
  \<open>AssertionError\<close>.
\<close>

section \<open>The class \<open>BinaryBlob\<close>\<close>

record binary_blob =
  blob_data :: bytes
  base_address :: nat

definition BinaryBlob :: "bytes \<Rightarrow> nat \<Rightarrow> binary_blob" where
  "BinaryBlob data base = \<lparr>blob_data = data, base_address = base\<rparr>"

definition blob_length :: "binary_blob \<Rightarrow> nat" where
  "blob_length self = length (blob_data self)"

text \<open>The expression \<open>s % n\<close> for a string that has no conversion specifier: Python
  refuses the surplus argument.\<close>

definition percent_no_specifier :: "string \<Rightarrow> nat \<Rightarrow> string result" where
  "percent_no_specifier s n = Inl TypeError"

definition to_hex_string :: "binary_blob \<Rightarrow> string result" where
  "to_hex_string self =
     rbind (rmap (\<lambda>b. percent_no_specifier (fmt_hex 2 (unat b)) (unat b)) (blob_data self))
       (\<lambda>parts. Inr (concat parts))"

definition get_uint16 :: "binary_blob \<Rightarrow> nat \<Rightarrow> (nat \<times> nat) result" where
  "get_uint16 self pos =
     rbind (py_assert (pos + 2 \<le> blob_length self)) (\<lambda>_.
     rbind (struct_unpack [UInt 2] (py_slice (blob_data self) pos (pos + 2))) (\<lambda>vs.
     Inr (nat_of (vs ! 0), pos + 2)))"

definition get_uint8 :: "binary_blob \<Rightarrow> nat \<Rightarrow> (nat \<times> nat) result" where
  "get_uint8 self pos =
     rbind (py_assert (pos + 1 \<le> blob_length self)) (\<lambda>_.
     rbind (item_of (blob_data self) pos) (\<lambda>b.
     Inr (unat b, pos + 1)))"

definition get_uint32 :: "binary_blob \<Rightarrow> nat \<Rightarrow> (nat \<times> nat) result" where
  "get_uint32 self pos =
     rbind (py_assert (pos + 4 \<le> blob_length self)) (\<lambda>_.
     rbind (struct_unpack [UInt 4] (py_slice (blob_data self) pos (pos + 4))) (\<lambda>vs.
     Inr (nat_of (vs ! 0), pos + 4)))"

definition get_uint64 :: "binary_blob \<Rightarrow> nat \<Rightarrow> (nat \<times> nat) result" where
  "get_uint64 self pos =
     rbind (py_assert (pos + 8 \<le> blob_length self)) (\<lambda>_.
     rbind (struct_unpack [UInt 8] (py_slice (blob_data self) pos (pos + 8))) (\<lambda>vs.
     Inr (nat_of (vs ! 0), pos + 8)))"

text \<open>\<open>get_bytes\<close> returns Python's \<open>None\<close> for a count of zero; every caller
  unpacks the result into two variables, which raises \<open>TypeError\<close> on \<open>None\<close>.\<close>

definition get_bytes :: "binary_blob \<Rightarrow> nat \<Rightarrow> nat \<Rightarrow> (bytes \<times> nat) option result" where
  "get_bytes self pos count =
     (if count = 0 then Inr None
      else rbind (py_assert (pos + count \<le> blob_length self)) (\<lambda>_.
        Inr (Some (py_slice (blob_data self) pos (pos + count), pos + count))))"

definition unpack_pair :: "'a option \<Rightarrow> 'a result" where
  "unpack_pair r = (case r of None \<Rightarrow> Inl TypeError | Some p \<Rightarrow> Inr p)"

section \<open>The hexadecimal dump\<close>

definition is_printable :: "byte \<Rightarrow> bool" where
  "is_printable b \<longleftrightarrow> (0x20 \<le> b \<and> b \<le> 0x7E) \<or> b \<in> {0x9, 0xA, 0xB, 0xC, 0xD}"

definition dump_char :: "byte \<Rightarrow> string" where
  "dump_char b = (if is_printable b \<and> b \<notin> {0xC, 0xB, 0xA, 0xD, 0x9} then [chr_byte b] else ''.'')"

definition line_prefix :: "nat \<Rightarrow> nat \<Rightarrow> string" where
  "line_prefix base index = fmt_HEX 8 (index div 16 * 16 + base) @ ''  ''"

record dump_state =
  d_index :: nat
  d_linestr :: string
  d_printstr :: string
  d_log :: "string list"

definition dump_step :: "nat \<Rightarrow> dump_state \<Rightarrow> byte \<Rightarrow> dump_state" where
  "dump_step base s b =
     (let s = (if d_index s mod 16 = 0 then
                 (let s = (if length (d_linestr s) \<noteq> 0
                           then s\<lparr>d_log := d_log s @ [d_linestr s @ '' '' @ d_printstr s], d_printstr := ''''\<rparr>
                           else s)
                  in s\<lparr>d_linestr := line_prefix base (d_index s)\<rparr>)
               else s);
          s = s\<lparr>d_linestr := d_linestr s @ fmt_HEX 2 (unat b) @ '' ''\<rparr>;
          s = s\<lparr>d_printstr := d_printstr s @ dump_char b\<rparr>
      in s\<lparr>d_index := d_index s + 1\<rparr>)"

definition blob_dump :: "binary_blob \<Rightarrow> string list" where
  "blob_dump self =
     (let s = foldl (dump_step (base_address self))
                \<lparr>d_index = 0, d_linestr = '''', d_printstr = '''', d_log = []\<rparr> (blob_data self);
          index = d_index s
      in if index mod 16 \<noteq> 0 then
           (let blank = concat (replicate (16 - index mod 16) ''   '')
            in d_log s @ [d_linestr s @ blank @ '' '' @ d_printstr s])
         else if index = blob_length self then d_log s @ [d_linestr s @ '' '' @ d_printstr s]
         else d_log s)"

section \<open>The readers\<close>

named_theorems blob_simps \<open>evaluation of the readers of a blob\<close>

lemma BinaryBlob_simps [simp, blob_simps]:
  "blob_data (BinaryBlob d a) = d"
  "base_address (BinaryBlob d a) = a"
  "blob_length (BinaryBlob d a) = length d"
  by (simp_all add: BinaryBlob_def blob_length_def)

text \<open>
  The contract of a reader of \<open>w\<close> bytes: the little-endian value at the position and
  the position after it, or an \<open>AssertionError\<close> when the blob is too short.  The
  parsers use a reader through the lemmas of this locale only.
\<close>

locale blob_reader =
  fixes rd :: "binary_blob \<Rightarrow> nat \<Rightarrow> (nat \<times> nat) result"
    and w :: nat
  assumes rd_ok: "pos + w \<le> blob_length b \<Longrightarrow>
      rd b pos = Inr (le_val (py_slice (blob_data b) pos (pos + w)), pos + w)"
    and rd_short: "\<not> pos + w \<le> blob_length b \<Longrightarrow> rd b pos = Inl AssertionError"
begin

lemma Inr_iff:
  "rd b pos = Inr (v, q) \<longleftrightarrow>
     pos + w \<le> blob_length b \<and> q = pos + w \<and> v = le_val (py_slice (blob_data b) pos (pos + w))"
  using rd_ok [of pos b] rd_short [of pos b] by (cases "pos + w \<le> blob_length b") auto

lemma value_bound: "rd b pos = Inr (v, q) \<Longrightarrow> v < 256 ^ w"
  using le_val_bound [of "py_slice (blob_data b) pos (pos + w)"]
  by (auto simp: Inr_iff blob_length_def)

lemma progress: "rd b pos = Inr (v, q) \<Longrightarrow> q = pos + w"
  by (simp add: Inr_iff)

lemma read_encoded:
  assumes "blob_data b = pre @ le_bytes w n @ post" and "length pre = pos" and "n < 256 ^ w"
  shows "rd b pos = Inr (n, pos + w)"
  using assms le.read_at [of n w pre pos "pos + w" post] by (simp add: rd_ok blob_length_def)

end

lemma unpack_single_uint:
  "length bs = w \<Longrightarrow> struct_unpack [UInt w] bs = Inr [SInt (int (le_val bs))]"
  by simp

lemma py_slice_1: "pos < length xs \<Longrightarrow> py_slice xs pos (Suc pos) = [xs ! pos]"
  by (simp add: py_slice_def take_Suc_conv_app_nth)

interpretation u8: blob_reader get_uint8 1
  by unfold_locales (simp_all add: get_uint8_def item_of_def blob_length_def py_slice_1)

interpretation u16: blob_reader get_uint16 2
  by unfold_locales (simp_all add: get_uint16_def unpack_single_uint blob_length_def)

interpretation u32: blob_reader get_uint32 4
  by unfold_locales (simp_all add: get_uint32_def unpack_single_uint blob_length_def)

interpretation u64: blob_reader get_uint64 8
  by unfold_locales (simp_all add: get_uint64_def unpack_single_uint blob_length_def)

text \<open>The byte-string reader, as its callers see it after unpacking the pair.\<close>

definition get_bytes2 :: "binary_blob \<Rightarrow> nat \<Rightarrow> nat \<Rightarrow> (bytes \<times> nat) result" where
  "get_bytes2 self pos count = rbind (get_bytes self pos count) unpack_pair"

lemma get_bytes2_eq:
  "get_bytes2 b pos n =
     (if n = 0 then Inl TypeError
      else if pos + n \<le> blob_length b then Inr (py_slice (blob_data b) pos (pos + n), pos + n)
      else Inl AssertionError)"
  by (simp add: get_bytes2_def get_bytes_def unpack_pair_def)

lemma get_bytes2_Inr_iff:
  "get_bytes2 b pos n = Inr (v, q) \<longleftrightarrow>
     0 < n \<and> pos + n \<le> blob_length b \<and> q = pos + n \<and> v = py_slice (blob_data b) pos (pos + n)"
  by (auto simp: get_bytes2_eq)

lemma get_bytes2_encoded:
  "blob_data b = pre @ v @ post \<Longrightarrow> length pre = pos \<Longrightarrow> v \<noteq> [] \<Longrightarrow>
     get_bytes2 b pos (length v) = Inr (v, pos + length v)"
  by (auto simp: get_bytes2_eq blob_length_def)

lemma get_bytes2_pos [blob_simps]:
  "0 < n \<Longrightarrow> pos + n \<le> blob_length b \<Longrightarrow>
     get_bytes2 b pos n = Inr (py_slice (blob_data b) pos (pos + n), pos + n)"
  by (simp add: get_bytes2_eq)

section \<open>The dump against a line-by-line specification\<close>

text \<open>One line per sixteen bytes: address, the bytes in hexadecimal padded to sixteen
  columns, the printable characters.\<close>

definition dump_line :: "nat \<Rightarrow> bytes \<Rightarrow> string" where
  "dump_line addr chunk =
     fmt_HEX 8 addr @ ''  '' @ concat (map (\<lambda>b. fmt_HEX 2 (unat b) @ '' '') chunk) @
     concat (replicate (16 - length chunk) ''   '') @ '' '' @ concat (map dump_char chunk)"

fun dump_lines :: "nat \<Rightarrow> bytes list \<Rightarrow> string list" where
  "dump_lines addr [] = []"
| "dump_lines addr (c # cs) = dump_line addr c # dump_lines (addr + 16) cs"

lemma dump_step_within:
  "d_index s mod 16 \<noteq> 0 \<Longrightarrow> dump_step base s b =
     s\<lparr>d_index := d_index s + 1, d_linestr := d_linestr s @ fmt_HEX 2 (unat b) @ '' '',
       d_printstr := d_printstr s @ dump_char b\<rparr>"
  by (simp add: dump_step_def Let_def)

lemma foldl_dump_within:
  "d_index s mod 16 \<noteq> 0 \<Longrightarrow> d_index s mod 16 + length bs \<le> 16 \<Longrightarrow>
     foldl (dump_step base) s bs =
     s\<lparr>d_index := d_index s + length bs,
       d_linestr := d_linestr s @ concat (map (\<lambda>b. fmt_HEX 2 (unat b) @ '' '') bs),
       d_printstr := d_printstr s @ concat (map dump_char bs)\<rparr>"
proof (induction bs arbitrary: s)
  case Nil
  then show ?case by simp
next
  case (Cons b bs)
  show ?case
  proof (cases "bs = []")
    case True
    then show ?thesis using Cons.prems by (simp add: dump_step_within)
  next
    case False
    then have "0 < length bs" by simp
    with Cons.prems(2) have "d_index s mod 16 < 15" unfolding list.size by linarith
    then have "Suc (d_index s) mod 16 = Suc (d_index s mod 16)"
      by (simp add: mod_Suc)
    then show ?thesis
      using Cons.prems by (simp add: dump_step_within Cons.IH)
  qed
qed

text \<open>The lines finished so far, once the pending one is counted.\<close>

definition flushed :: "dump_state \<Rightarrow> string list" where
  "flushed s = d_log s @ (if d_linestr s = '''' then [] else [d_linestr s @ '' '' @ d_printstr s])"

lemma foldl_dump_chunk:
  assumes "d_index s mod 16 = 0" and "d_linestr s = '''' \<Longrightarrow> d_printstr s = ''''"
    and "c \<noteq> []" and "length c \<le> 16"
  shows "foldl (dump_step base) s c =
     \<lparr>d_index = d_index s + length c,
      d_linestr = line_prefix base (d_index s) @ concat (map (\<lambda>b. fmt_HEX 2 (unat b) @ '' '') c),
      d_printstr = concat (map dump_char c), d_log = flushed s\<rparr>"
proof -
  obtain b bs where c: "c = b # bs" using assms(3) by (cases c) auto
  have step: "dump_step base s b =
     \<lparr>d_index = d_index s + 1, d_linestr = line_prefix base (d_index s) @ fmt_HEX 2 (unat b) @ '' '',
      d_printstr = dump_char b, d_log = flushed s\<rparr>"
    using assms(1,2) by (auto simp: dump_step_def Let_def flushed_def)
  have "Suc (d_index s) mod 16 = 1"
    using assms(1) by (simp add: mod_Suc)
  then show ?thesis
    using assms(4) c by (simp add: step foldl_dump_within)
qed

lemma line_prefix_neq_Nil [simp]: "line_prefix base i \<noteq> ''''"
  by (simp add: line_prefix_def)

lemma blocks_of_Nil [simp]: "blocks_of n [] = []"
  by (simp add: blocks_of.simps)

lemma blocks_of_neq_Nil:
  "0 < n \<Longrightarrow> xs \<noteq> [] \<Longrightarrow> blocks_of n xs = take n xs # blocks_of n (drop n xs)"
  by (simp add: blocks_of.simps [of n xs])

lemma length_take_block: "0 < n \<Longrightarrow> c \<in> set (blocks_of n xs) \<Longrightarrow> length c \<le> n"
  by (induction n xs rule: blocks_of.induct) (subst (asm) (2) blocks_of.simps, auto split: if_splits)

lemma concat_blocks_of: "0 < n \<Longrightarrow> concat (blocks_of n xs) = xs"
proof (induction n xs rule: blocks_of.induct)
  case (1 n xs)
  then show ?case by (cases "xs = []") (simp_all add: blocks_of_neq_Nil)
qed

definition dump_finish :: "dump_state \<Rightarrow> string list" where
  "dump_finish s = d_log s @
     [d_linestr s @
      (if d_index s mod 16 = 0 then '''' else concat (replicate (16 - d_index s mod 16) ''   '')) @
      '' '' @ d_printstr s]"

lemma dump_index: "d_index (foldl (dump_step base) s bs) = d_index s + length bs"
  by (induction bs arbitrary: s) (simp_all add: dump_step_def Let_def)

lemma blob_dump_finish:
  "blob_dump self =
     dump_finish (foldl (dump_step (base_address self))
       \<lparr>d_index = 0, d_linestr = '''', d_printstr = '''', d_log = []\<rparr> (blob_data self))"
  by (simp add: blob_dump_def dump_finish_def Let_def dump_index blob_length_def)

lemma dump_finish_lines:
  assumes "data \<noteq> []" and "d_index s mod 16 = 0" and "d_linestr s = '''' \<Longrightarrow> d_printstr s = ''''"
  shows "dump_finish (foldl (dump_step base) s data) =
    flushed s @ dump_lines (base + d_index s) (blocks_of 16 data)"
  using assms
proof (induction "16::nat" data arbitrary: s rule: blocks_of.induct)
  case (1 data)
  let ?c = "take 16 data" and ?r = "drop 16 data"
  define s1 where "s1 = foldl (dump_step base) s ?c"
  have s1: "s1 = \<lparr>d_index = d_index s + length ?c,
      d_linestr = line_prefix base (d_index s) @ concat (map (\<lambda>b. fmt_HEX 2 (unat b) @ '' '') ?c),
      d_printstr = concat (map dump_char ?c), d_log = flushed s\<rparr>"
    unfolding s1_def using "1.prems" by (intro foldl_dump_chunk) auto
  have pre: "line_prefix base (d_index s) = fmt_HEX 8 (base + d_index s) @ ''  ''"
    using "1.prems"(2) by (auto simp: line_prefix_def add.commute elim!: dvdE simp flip: dvd_eq_mod_eq_0)
  have all: "foldl (dump_step base) s data = foldl (dump_step base) s1 ?r"
    unfolding s1_def by (simp flip: foldl_append)
  have blk: "blocks_of 16 data = ?c # blocks_of 16 ?r"
    using "1.prems"(1) by (simp add: blocks_of_neq_Nil)
  show ?case
  proof (cases "?r = []")
    case True
    then have "length data \<le> 16" by simp
    then consider "length data = 16" | "length data < 16" by linarith
    then show ?thesis
    proof cases
      case 1
      then show ?thesis
        using "1.prems"(2) True by (simp add: all blk s1 dump_finish_def dump_line_def pre mod_add_eq)
    next
      case 2
      have "(d_index s + length data) mod 16 = length data"
        using "1.prems"(2) 2 by (simp add: mod_add_eq [symmetric])
      then show ?thesis
        using "1.prems"(1) 2 True by (simp add: all blk s1 dump_finish_def dump_line_def pre)
    qed
  next
    case False
    then have len: "length ?c = 16" by simp
    have mod: "d_index s1 mod 16 = 0"
      using "1.prems"(2) len by (simp add: s1)
    have "flushed s1 = flushed s @ [dump_line (base + d_index s) ?c]"
      using len by (simp add: s1 flushed_def dump_line_def pre)
    moreover have "dump_finish (foldl (dump_step base) s1 ?r) =
        flushed s1 @ dump_lines (base + d_index s1) (blocks_of 16 ?r)"
      by (rule "1.hyps") (use "1.prems"(1) False mod in \<open>simp_all add: s1\<close>)
    ultimately show ?thesis
      using len by (simp add: all blk s1 add.assoc)
  qed
qed

text \<open>C20: the dump of a blob is the line-by-line specification: one line for every
  sixteen bytes in order, each with its address, its bytes and its printable characters;
  an empty blob gives a single line with one blank.\<close>

theorem blob_dump_lines:
  "blob_dump b =
     (if blob_data b = [] then ['' '']
      else dump_lines (base_address b) (blocks_of 16 (blob_data b)))"
proof (cases "blob_data b = []")
  case True
  then show ?thesis by (simp add: blob_dump_finish dump_finish_def)
next
  case False
  then show ?thesis
    by (simp add: blob_dump_finish dump_finish_lines flushed_def)
qed

end
