(* ===== verification/Td_Event_Log.thy ===== *)
theory Td_Event_Log
  imports Binary_Blob
begin

text \<open>
  \<open>pytdxattest/tdeventlog.py\<close>: the event types and algorithm names, and the two kinds of
  entries of the TD event log, the specification id header (which declares the digest
  sizes) and the event entry (digests and event data), with their parsers and dumps.
  The classes extend \<open>TDEventLogBase\<close>, and so do the records.
\<close>

section \<open>Event types and algorithms\<close>

definition EV_NO_ACTION :: nat where
  "EV_NO_ACTION = 0x3"

definition EV_EFI_EVENT_BASE :: nat where
  "EV_EFI_EVENT_BASE = 0x80000000"

definition EVENT_TABLE :: "(nat \<times> string) list" where
  "EVENT_TABLE =
     [(0x0, ''EV_PREBOOT_CERT''), (0x1, ''EV_POST_CODE''), (0x2, ''EV_UNUSED''),
      (EV_NO_ACTION, ''EV_NO_ACTION''), (0x4, ''EV_SEPARATOR''), (0x5, ''EV_ACTION''),
      (0x6, ''EV_EVENT_TAG''), (0x7, ''EV_S_CRTM_CONTENTS''), (0x8, ''EV_S_CRTM_VERSION''),
      (0x9, ''EV_CPU_MICROCODE''), (0xa, ''EV_PLATFORM_CONFIG_FLAGS''),
      (0xb, ''EV_TABLE_OF_DEVICES''), (0xc, ''EV_COMPACT_HASH''), (0xd, ''EV_IPL''),
      (0xe, ''EV_IPL_PARTITION_DATA''), (0xf, ''EV_NONHOST_CODE''),
      (0x10, ''EV_NONHOST_CONFIG''), (0x11, ''EV_NONHOST_INFO''),
      (0x12, ''EV_OMIT_BOOT_DEVICE_EVENTS''), (EV_EFI_EVENT_BASE, ''EV_EFI_EVENT_BASE''),
      (EV_EFI_EVENT_BASE + 0x1, ''EV_EFI_VARIABLE_DRIVER_CONFIG''),
      (EV_EFI_EVENT_BASE + 0x2, ''EV_EFI_VARIABLE_BOOT''),
      (EV_EFI_EVENT_BASE + 0x3, ''EV_EFI_BOOT_SERVICES_APPLICATION''),
      (EV_EFI_EVENT_BASE + 0x4, ''EV_EFI_BOOT_SERVICES_DRIVER''),
      (EV_EFI_EVENT_BASE + 0x5, ''EV_EFI_RUNTIME_SERVICES_DRIVER''),
      (EV_EFI_EVENT_BASE + 0x6, ''EV_EFI_GPT_EVENT''),
      (EV_EFI_EVENT_BASE + 0x7, ''EV_EFI_ACTION''),
      (EV_EFI_EVENT_BASE + 0x8, ''EV_EFI_PLATFORM_FIRMWARE_BLOB''),
      (EV_EFI_EVENT_BASE + 0x9, ''EV_EFI_HANDOFF_TABLES''),
      (EV_EFI_EVENT_BASE + 0xe0, ''EV_EFI_VARIABLE_AUTHORITY'')]"

definition get_type_string :: "nat \<Rightarrow> string" where
  "get_type_string event_type =
     (case map_of EVENT_TABLE event_type of Some s \<Rightarrow> s | None \<Rightarrow> ''UNKNOWN'')"

definition TPM_ALG_TABLE :: "(nat \<times> string) list" where
  "TPM_ALG_TABLE =
     [(0x1, ''TPM_ALG_RSA''), (0x3, ''TPM_ALG_TDES''), (0xB, ''TPM_ALG_SHA256''),
      (0xC, ''TPM_ALG_SHA384''), (0xD, ''TPM_ALG_SHA512'')]"

definition get_algorithm_string :: "nat \<Rightarrow> string" where
  "get_algorithm_string algoid =
     (case map_of TPM_ALG_TABLE algoid of Some s \<Rightarrow> s | None \<Rightarrow> ''UNKNOWN'')"

section \<open>The entries\<close>

record event_log_base =
  ev_address :: nat
  ev_length :: nat
  ev_data :: "bytes option"
  ev_rtmr :: int
  ev_etype :: nat
  ev_digest_count :: nat

record spec_id_header = event_log_base +
  algorithms_number :: nat
  digest_sizes :: "(nat \<times> nat) list"

record event_log_entry = event_log_base +
  specid_header :: "spec_id_header option"
  digests :: "bytes list"
  event_size :: nat
  event :: "bytes option"
  algorithms_id :: nat

definition TDEventLogSpecIdHeader :: "nat \<Rightarrow> spec_id_header" where
  "TDEventLogSpecIdHeader address =
     \<lparr>ev_address = address, ev_length = 0, ev_data = None, ev_rtmr = 0, ev_etype = 0,
      ev_digest_count = 0, algorithms_number = 0, digest_sizes = []\<rparr>"

definition TDEventLogEntry :: "nat \<Rightarrow> spec_id_header option \<Rightarrow> event_log_entry" where
  "TDEventLogEntry address specid =
     \<lparr>ev_address = address, ev_length = 0, ev_data = None, ev_rtmr = 0, ev_etype = 0,
      ev_digest_count = 0, specid_header = specid, digests = [], event_size = 0, event = None,
      algorithms_id = 0\<rparr>"

definition parse_header ::
  "'a event_log_base_scheme \<Rightarrow> bytes \<Rightarrow> ('a event_log_base_scheme \<times> binary_blob \<times> nat) result" where
  "parse_header self data =
     (let blob = BinaryBlob data (ev_address self) in
      rbind (get_uint32 blob 0) (\<lambda>(td_register_index, index).
      rbind (get_uint32 blob index) (\<lambda>(etype, index).
      rbind (get_uint32 blob index) (\<lambda>(digest_count, index).
      Inr (self\<lparr>ev_etype := etype, ev_digest_count := digest_count,
                ev_rtmr := int td_register_index - 1\<rparr>, blob, index)))))"

text \<open>The algorithm loop of the header; the dictionary keeps the order of insertion.\<close>

fun read_algorithms ::
  "nat \<Rightarrow> binary_blob \<Rightarrow> nat \<Rightarrow> (nat \<times> nat) list \<Rightarrow> ((nat \<times> nat) list \<times> nat) result" where
  "read_algorithms 0 blob index sizes = Inr (sizes, index)"
| "read_algorithms (Suc n) blob index sizes =
     rbind (get_uint16 blob index) (\<lambda>(algoid, index).
     rbind (get_uint16 blob index) (\<lambda>(digestsize, index).
     read_algorithms n blob index (AList.update algoid digestsize sizes)))"

definition specid_parse :: "spec_id_header \<Rightarrow> bytes \<Rightarrow> (spec_id_header \<times> nat) result" where
  "specid_parse self data =
     rbind (parse_header self data) (\<lambda>(self, blob, index).
     let index = index + 20; index = index + 24 in
     rbind (get_uint32 blob index) (\<lambda>(number, index).
     rbind (read_algorithms number blob index (digest_sizes self)) (\<lambda>(sizes, index).
     rbind (get_uint8 blob index) (\<lambda>(vendorsize, index).
     let index = index + vendorsize in
     Inr (self\<lparr>algorithms_number := number, digest_sizes := sizes, ev_length := index,
               ev_data := Some (py_slice data 0 index)\<rparr>, index)))))"

text \<open>The digest loop of an entry.  Without a header the attribute access fails; the
  algorithm must be one the header declares.\<close>

fun read_digests ::
  "nat \<Rightarrow> spec_id_header option \<Rightarrow> binary_blob \<Rightarrow> nat \<Rightarrow> nat \<times> bytes list \<Rightarrow>
   ((nat \<times> bytes list) \<times> nat) result" where
  "read_digests 0 specid blob index (algo, ds) = Inr ((algo, ds), index)"
| "read_digests (Suc n) specid blob index (algo, ds) =
     rbind (get_uint16 blob index) (\<lambda>(algoid, index).
     case specid of
       None \<Rightarrow> Inl AttributeError
     | Some h \<Rightarrow>
         rbind (py_assert (map_of (digest_sizes h) algoid \<noteq> None)) (\<lambda>_.
         rbind (key_of (digest_sizes h) algoid) (\<lambda>digest_size.
         rbind (get_bytes2 blob index digest_size) (\<lambda>(digest_data, index).
         read_digests n specid blob index (algoid, ds @ [digest_data])))))"

definition entry_parse :: "event_log_entry \<Rightarrow> bytes \<Rightarrow> (event_log_entry \<times> nat) result" where
  "entry_parse self data =
     rbind (parse_header self data) (\<lambda>(self, blob, index).
     rbind (read_digests (ev_digest_count self) (specid_header self) blob index
              (algorithms_id self, digests self)) (\<lambda>((algo, ds), index).
     rbind (get_uint32 blob index) (\<lambda>(size, index).
     rbind (get_bytes2 blob index size) (\<lambda>(ev, index).
     Inr (self\<lparr>algorithms_id := algo, digests := ds, event_size := size, event := Some ev,
               ev_length := index, ev_data := Some (py_slice data 0 index)\<rparr>, index)))))"

section \<open>Dumps\<close>

definition base_dump :: "'a event_log_base_scheme \<Rightarrow> string list result" where
  "base_dump self =
     (let rule = ''RAW DATA: ----------------------------------------------'' in
      case ev_data self of
        None \<Rightarrow> Inl TypeError
      | Some d \<Rightarrow> Inr ([rule] @ blob_dump (BinaryBlob d (ev_address self)) @ [rule]))"

definition specid_dump :: "spec_id_header \<Rightarrow> string list result" where
  "specid_dump self =
     rbind (base_dump self) (\<lambda>raw.
     Inr ([''RTMR              : '' @ fmt_dec (ev_rtmr self),
           ''Type              : '' @ fmt_dec (int (ev_etype self)) @ '' ('' @ get_type_string (ev_etype self) @ '')'',
           ''Length            : '' @ fmt_dec (int (ev_length self)),
           ''Algorithms Number : '' @ fmt_dec (int (algorithms_number self))] @
          map (\<lambda>(algoid, size). ''  Algorithms[0x'' @ fmt_HEX 0 algoid @ ''] Size: '' @ fmt_dec (int (size * 8)))
            (digest_sizes self) @
          raw))"

fun digest_dumps :: "nat \<Rightarrow> bytes list \<Rightarrow> string list" where
  "digest_dumps count [] = []"
| "digest_dumps count (d # ds) =
     (''Digest['' @ fmt_dec (int count) @ ''] :'') # blob_dump (BinaryBlob d 0) @ digest_dumps (count + 1) ds"

definition entry_dump :: "event_log_entry \<Rightarrow> string list result" where
  "entry_dump self =
     rbind (base_dump self) (\<lambda>raw.
     Inr ([''RTMR              : '' @ fmt_dec (ev_rtmr self),
           ''Type              : 0x'' @ fmt_HEX 0 (ev_etype self) @ '' ('' @ get_type_string (ev_etype self) @ '')'',
           ''Length            : '' @ fmt_dec (int (ev_length self)),
           ''Algorithms ID     : '' @ fmt_dec (int (algorithms_id self)) @ '' ('' @
             get_algorithm_string (algorithms_id self) @ '')''] @
          digest_dumps 0 (digests self) @ raw @ ['''']))"

section \<open>What the parsers consume\<close>

lemma parse_header_Inr_iff:
  "parse_header self data = Inr (self', blob, index) \<longleftrightarrow>
     12 \<le> length data \<and> blob = BinaryBlob data (ev_address self) \<and> index = 12 \<and>
     self' = self\<lparr>ev_etype := le_val (py_slice data 4 8), ev_digest_count := le_val (py_slice data 8 12),
                  ev_rtmr := int (le_val (py_slice data 0 4)) - 1\<rparr>"
  by (auto simp: parse_header_def Let_def rbind_Inr_iff u32.Inr_iff)

lemma read_algorithms_progress:
  "read_algorithms n blob index sizes = Inr (sizes', index') \<Longrightarrow> index' = index + 4 * n"
  by (induction n arbitrary: index sizes) (fastforce simp: rbind_Inr_iff u16.Inr_iff)+

lemma read_digests_progress:
  "read_digests n specid blob index acc = Inr (acc', index') \<Longrightarrow> index + 3 * n \<le> index'"
proof (induction n arbitrary: index acc)
  case 0
  then show ?case by (cases acc) simp
next
  case (Suc n)
  then show ?case
    by (cases acc)
      (fastforce simp: rbind_Inr_iff u16.Inr_iff get_bytes2_Inr_iff split: option.splits)
qed

text \<open>Every parsed record has a positive length, the length it reports: the loop over the
  log makes progress.\<close>

lemma specid_parse_length:
  "specid_parse self data = Inr (h, n) \<Longrightarrow> ev_length h = n \<and> 61 \<le> n"
  by (auto simp: specid_parse_def Let_def rbind_Inr_iff parse_header_Inr_iff u32.Inr_iff u8.Inr_iff
      dest!: read_algorithms_progress)

lemma entry_parse_length:
  "entry_parse self data = Inr (e, n) \<Longrightarrow> ev_length e = n \<and> 17 \<le> n \<and> n \<le> length data"
  by (auto simp: entry_parse_def rbind_Inr_iff parse_header_Inr_iff u32.Inr_iff get_bytes2_Inr_iff
      dest!: read_digests_progress)

section \<open>The wire format\<close>

text \<open>
  A description of an event and its encoding, as the firmware writes it: register index,
  event type, number of digests, the digests each with its algorithm, event size, event.
  The header record: register index, type, 48 bytes of digest and signature, the
  algorithm table, vendor data.
\<close>

record event_desc =
  x_register :: nat
  x_etype :: nat
  x_digests :: "(nat \<times> bytes) list"
  x_event :: bytes

definition enc_event :: "event_desc \<Rightarrow> bytes" where
  "enc_event d = le_bytes 4 (x_register d) @ le_bytes 4 (x_etype d) @
     le_bytes 4 (length (x_digests d)) @
     concat (map (\<lambda>(a, b). le_bytes 2 a @ b) (x_digests d)) @
     le_bytes 4 (length (x_event d)) @ x_event d"

definition wf_event :: "(nat \<times> nat) list \<Rightarrow> event_desc \<Rightarrow> bool" where
  "wf_event sizes d \<longleftrightarrow>
     x_register d < 256 ^ 4 \<and> x_etype d < 256 ^ 4 \<and> length (x_digests d) < 256 ^ 4 \<and>
     list_all (\<lambda>(a, b). a < 256 ^ 2 \<and> b \<noteq> [] \<and> map_of sizes a = Some (length b)) (x_digests d) \<and>
     x_event d \<noteq> [] \<and> length (x_event d) < 256 ^ 4"

record header_desc =
  s_register :: nat
  s_filler :: bytes
  s_algorithms :: "(nat \<times> nat) list"
  s_vendor :: bytes

definition enc_specid :: "header_desc \<Rightarrow> bytes" where
  "enc_specid h = le_bytes 4 (s_register h) @ le_bytes 4 EV_NO_ACTION @ s_filler h @
     le_bytes 4 (length (s_algorithms h)) @
     concat (map (\<lambda>(a, n). le_bytes 2 a @ le_bytes 2 n) (s_algorithms h)) @
     le_bytes 1 (length (s_vendor h)) @ s_vendor h"

definition wf_specid :: "header_desc \<Rightarrow> bool" where
  "wf_specid h \<longleftrightarrow>
     s_register h < 256 ^ 4 \<and> length (s_filler h) = 48 \<and> length (s_algorithms h) < 256 ^ 4 \<and>
     list_all (\<lambda>(a, n). a < 256 ^ 2 \<and> n < 256 ^ 2) (s_algorithms h) \<and> length (s_vendor h) < 256"

definition sizes_of :: "(nat \<times> nat) list \<Rightarrow> (nat \<times> nat) list" where
  "sizes_of algs = foldl (\<lambda>s (a, n). AList.update a n s) [] algs"

lemma read_algorithms_encoded:
  "list_all (\<lambda>(a, n). a < 256 ^ 2 \<and> n < 256 ^ 2) algs \<Longrightarrow>
   blob_data blob = pre @ concat (map (\<lambda>(a, n). le_bytes 2 a @ le_bytes 2 n) algs) @ post \<Longrightarrow>
   length pre = index \<Longrightarrow>
   read_algorithms (length algs) blob index sizes =
     Inr (foldl (\<lambda>s (a, n). AList.update a n s) sizes algs, index + 4 * length algs)"
proof (induction algs arbitrary: pre index sizes)
  case Nil
  then show ?case by simp
next
  case (Cons p algs)
  obtain a n where p: "p = (a, n)" by force
  let ?tail = "concat (map (\<lambda>(a, n). le_bytes 2 a @ le_bytes 2 n) algs) @ post"
  have "get_uint16 blob index = Inr (a, index + 2)"
    using Cons.prems p by (intro u16.read_encoded [of _ pre _ "le_bytes 2 n @ ?tail"]) auto
  moreover have "get_uint16 blob (index + 2) = Inr (n, index + 2 + 2)"
    using Cons.prems p by (intro u16.read_encoded [of _ "pre @ le_bytes 2 a" _ ?tail]) auto
  moreover have "read_algorithms (length algs) blob (index + 2 + 2) (AList.update a n sizes) =
      Inr (foldl (\<lambda>s (a, n). AList.update a n s) (AList.update a n sizes) algs,
        index + 2 + 2 + 4 * length algs)"
    using Cons.prems p by (intro Cons.IH [of "pre @ le_bytes 2 a @ le_bytes 2 n"]) auto
  ultimately show ?case by (simp add: p)
qed

lemma read_digests_encoded:
  "list_all (\<lambda>(a, b). a < 256 ^ 2 \<and> b \<noteq> [] \<and> map_of (digest_sizes h) a = Some (length b)) ds \<Longrightarrow>
   blob_data blob = pre @ concat (map (\<lambda>(a, b). le_bytes 2 a @ b) ds) @ post \<Longrightarrow>
   length pre = index \<Longrightarrow>
   read_digests (length ds) (Some h) blob index (algo, acc) =
     Inr ((if ds = [] then algo else fst (last ds), acc @ map snd ds),
          index + length (concat (map (\<lambda>(a, b). le_bytes 2 a @ b) ds)))"
proof (induction ds arbitrary: pre index algo acc)
  case Nil
  then show ?case by simp
next
  case (Cons p ds)
  obtain a b where p: "p = (a, b)" by force
  let ?tail = "concat (map (\<lambda>(a, b). le_bytes 2 a @ b) ds) @ post"
  have 1: "get_uint16 blob index = Inr (a, index + 2)"
    using Cons.prems p by (intro u16.read_encoded [of _ pre _ "b @ ?tail"]) auto
  have 2: "get_bytes2 blob (index + 2) (length b) = Inr (b, index + 2 + length b)"
    using Cons.prems p by (intro get_bytes2_encoded [of _ "pre @ le_bytes 2 a" _ ?tail]) auto
  have 3: "read_digests (length ds) (Some h) blob (index + 2 + length b) (a, acc @ [b]) =
      Inr ((if ds = [] then a else fst (last ds), (acc @ [b]) @ map snd ds),
        index + 2 + length b + length (concat (map (\<lambda>(a, b). le_bytes 2 a @ b) ds)))"
    using Cons.prems p by (intro Cons.IH [of "pre @ le_bytes 2 a @ b"]) auto
  have "map_of (digest_sizes h) a = Some (length b)"
    using Cons.prems p by simp
  with 1 2 3 show ?case by (simp add: p key_of_def)
qed

lemma parse_header_encoded:
  assumes "data = le_bytes 4 r @ le_bytes 4 t @ le_bytes 4 n @ rest"
    and "r < 256 ^ 4" and "t < 256 ^ 4" and "n < 256 ^ 4"
  shows "parse_header self data =
    Inr (self\<lparr>ev_etype := t, ev_digest_count := n, ev_rtmr := int r - 1\<rparr>,
         BinaryBlob data (ev_address self), 12)"
proof -
  have "le_val (py_slice data 0 4) = r"
    using assms le.read_at [of r 4 "[]" 0 4] by simp
  moreover have "le_val (py_slice data 4 8) = t"
    using assms le.read_at [of t 4 "le_bytes 4 r" 4 8] by simp
  moreover have "le_val (py_slice data 8 12) = n"
    using assms le.read_at [of n 4 "le_bytes 4 r @ le_bytes 4 t" 8 12] by simp
  ultimately show ?thesis
    using assms(1) by (simp add: parse_header_Inr_iff)
qed

text \<open>The entry that the parser builds from a description.\<close>

definition entry_of :: "nat \<Rightarrow> spec_id_header \<Rightarrow> event_desc \<Rightarrow> event_log_entry" where
  "entry_of address h d =
     \<lparr>ev_address = address, ev_length = length (enc_event d), ev_data = Some (enc_event d),
      ev_rtmr = int (x_register d) - 1, ev_etype = x_etype d, ev_digest_count = length (x_digests d),
      specid_header = Some h, digests = map snd (x_digests d), event_size = length (x_event d),
      event = Some (x_event d),
      algorithms_id = (if x_digests d = [] then 0 else fst (last (x_digests d)))\<rparr>"

definition header_of :: "nat \<Rightarrow> header_desc \<Rightarrow> spec_id_header" where
  "header_of address s =
     \<lparr>ev_address = address, ev_length = length (enc_specid s), ev_data = Some (enc_specid s),
      ev_rtmr = int (s_register s) - 1, ev_etype = EV_NO_ACTION,
      ev_digest_count = le_val (take 4 (s_filler s)),
      algorithms_number = length (s_algorithms s), digest_sizes = sizes_of (s_algorithms s)\<rparr>"

text \<open>Parsing the encoding of a well-formed event, whatever follows it in the log,
  gives back its register index (minus one), type, digests in order and event data, and
  consumes exactly the encoding.\<close>

lemma entry_parse_encoded:
  assumes "wf_event (digest_sizes h) d"
  shows "entry_parse (TDEventLogEntry address (Some h)) (enc_event d @ rest) =
    Inr (entry_of address h d, length (enc_event d))"
proof -
  let ?ds = "concat (map (\<lambda>(a, b). le_bytes 2 a @ b) (x_digests d))"
  let ?hd = "le_bytes 4 (x_register d) @ le_bytes 4 (x_etype d) @ le_bytes 4 (length (x_digests d))"
  let ?sz = "le_bytes 4 (length (x_event d))"
  define data where "data = enc_event d @ rest"
  define blob where "blob = BinaryBlob data address"
  have data: "data = ?hd @ ?ds @ ?sz @ x_event d @ rest"
    by (simp add: data_def enc_event_def)
  have wf: "x_register d < 256 ^ 4" "x_etype d < 256 ^ 4" "length (x_digests d) < 256 ^ 4"
    "list_all (\<lambda>(a, b). a < 256 ^ 2 \<and> b \<noteq> [] \<and> map_of (digest_sizes h) a = Some (length b)) (x_digests d)"
    "x_event d \<noteq> []" "length (x_event d) < 256 ^ 4"
    using assms by (simp_all add: wf_event_def)
  have 1: "parse_header (TDEventLogEntry address (Some h)) data =
      Inr ((TDEventLogEntry address (Some h))\<lparr>ev_etype := x_etype d,
        ev_digest_count := length (x_digests d), ev_rtmr := int (x_register d) - 1\<rparr>, blob, 12)"
    using parse_header_encoded [OF _ wf(1-3), where data = data and
        rest = "?ds @ ?sz @ x_event d @ rest" and self = "TDEventLogEntry address (Some h)"]
    by (simp add: data blob_def TDEventLogEntry_def)
  have 2: "read_digests (length (x_digests d)) (Some h) blob 12 (0, []) =
      Inr ((if x_digests d = [] then 0 else fst (last (x_digests d)), map snd (x_digests d)),
           12 + length ?ds)"
    using read_digests_encoded [OF wf(4), of blob ?hd "?sz @ x_event d @ rest" 12]
    by (simp add: blob_def data)
  have 3: "get_uint32 blob (12 + length ?ds) = Inr (length (x_event d), 12 + length ?ds + 4)"
    using wf(6) by (intro u32.read_encoded [of _ "?hd @ ?ds" _ "x_event d @ rest"])
      (simp_all add: blob_def data)
  have 4: "get_bytes2 blob (12 + length ?ds + 4) (length (x_event d)) =
      Inr (x_event d, 12 + length ?ds + 4 + length (x_event d))"
    using wf(5) by (intro get_bytes2_encoded [of _ "?hd @ ?ds @ ?sz" _ rest])
      (simp_all add: blob_def data)
  have len: "length (enc_event d) = 12 + length ?ds + 4 + length (x_event d)"
    by (simp add: enc_event_def)
  have "py_slice data 0 (length (enc_event d)) = enc_event d"
    by (simp add: py_slice_def data_def)
  then show ?thesis
    using 1 2 3 4 unfolding data_def [symmetric] len
    by (simp add: entry_parse_def TDEventLogEntry_def entry_of_def len)
qed

text \<open>Parsing the encoding of a well-formed specification id header gives back the
  declared digest sizes and consumes exactly the encoding, vendor data included.\<close>

lemma specid_parse_encoded:
  assumes "wf_specid s"
  shows "specid_parse (TDEventLogSpecIdHeader address) (enc_specid s @ rest) =
    Inr (header_of address s, length (enc_specid s))"
proof -
  let ?as = "concat (map (\<lambda>(a, n). le_bytes 2 a @ le_bytes 2 n) (s_algorithms s))"
  let ?f = "s_filler s" and ?n = "length (s_algorithms s)" and ?v = "length (s_vendor s)"
  let ?hd = "le_bytes 4 (s_register s) @ le_bytes 4 EV_NO_ACTION @ ?f"
  define data where "data = enc_specid s @ rest"
  define blob where "blob = BinaryBlob data address"
  have data: "data = ?hd @ le_bytes 4 ?n @ ?as @ le_bytes 1 ?v @ s_vendor s @ rest"
    by (simp add: data_def enc_specid_def)
  have wf: "s_register s < 256 ^ 4" "length ?f = 48" "?n < 256 ^ 4"
    "list_all (\<lambda>(a, n). a < 256 ^ 2 \<and> n < 256 ^ 2) (s_algorithms s)" "?v < 256"
    using assms by (simp_all add: wf_specid_def)
  have las: "length ?as = 4 * ?n"
    by (simp add: length_concat comp_def case_prod_beta sum_list_triv)
  have f: "?f = le_bytes 4 (le_val (take 4 ?f)) @ drop 4 ?f"
    using wf(2) by simp
  have 1: "parse_header (TDEventLogSpecIdHeader address) data =
      Inr ((TDEventLogSpecIdHeader address)\<lparr>ev_etype := EV_NO_ACTION,
        ev_digest_count := le_val (take 4 ?f), ev_rtmr := int (s_register s) - 1\<rparr>, blob, 12)"
    using parse_header_encoded [of data "s_register s" EV_NO_ACTION "le_val (take 4 ?f)"
        "drop 4 ?f @ le_bytes 4 ?n @ ?as @ le_bytes 1 ?v @ s_vendor s @ rest"
        "TDEventLogSpecIdHeader address"]
      wf(1,2) f le_val_bound [of "take 4 ?f"]
    by (simp add: data blob_def TDEventLogSpecIdHeader_def EV_NO_ACTION_def)
  have 2: "get_uint32 blob 56 = Inr (?n, 60)"
    using u32.read_encoded [of blob ?hd ?n "?as @ le_bytes 1 ?v @ s_vendor s @ rest" 56] wf(2,3)
    by (simp add: blob_def data)
  have 3: "read_algorithms ?n blob 60 [] = Inr (sizes_of (s_algorithms s), 60 + 4 * ?n)"
    using read_algorithms_encoded [OF wf(4), of blob "?hd @ le_bytes 4 ?n" "le_bytes 1 ?v @ s_vendor s @ rest" 60]
      wf(2) by (simp add: blob_def data sizes_of_def)
  have 4: "get_uint8 blob (60 + 4 * ?n) = Inr (?v, 60 + 4 * ?n + 1)"
    using wf(2,5) las by (intro u8.read_encoded [of _ "?hd @ le_bytes 4 ?n @ ?as" _ "s_vendor s @ rest"])
      (simp_all add: blob_def data)
  have len: "length (enc_specid s) = 60 + 4 * ?n + 1 + ?v"
    using las wf(2) by (simp add: enc_specid_def)
  have "py_slice data 0 (length (enc_specid s)) = enc_specid s"
    by (simp add: py_slice_def data_def)
  then show ?thesis
    using 1 2 3 4 unfolding data_def [symmetric] len
    by (simp add: specid_parse_def TDEventLogSpecIdHeader_def header_of_def len Let_def)
qed

end
