(* ===== verification/Py_Os.thy ===== *)
theory Py_Os
  imports Binary_Blob
begin

text \<open>
  The operating system as the attestation package sees it: which paths exist, what a file
  holds, whether a device opens, and the kernel behind \<open>ioctl\<close>.  The kernel is not part
  of the repository, so it is a field of the environment, over a state \<open>'k\<close> of its own;
  theorems that rely on its documented behaviour name it as a hypothesis.
  The buffers of \<open>ctypes.create_string_buffer\<close> live in a byte-addressed memory, at
  addresses that the environment chooses.
\<close>

type_synonym memory = "nat \<Rightarrow> byte"

definition mem_read :: "memory \<Rightarrow> nat \<Rightarrow> nat \<Rightarrow> bytes" where
  "mem_read m a n = map (\<lambda>i. m (a + i)) [0..<n]"

definition mem_write :: "memory \<Rightarrow> nat \<Rightarrow> bytes \<Rightarrow> memory" where
  "mem_write m a bs = (\<lambda>x. if a \<le> x \<and> x < a + length bs then bs ! (x - a) else m x)"

text \<open>An \<open>ioctl\<close> gets the device, the request number, the argument buffer and the
  process memory.  It fails with an \<open>OSError\<close> (\<open>None\<close>) or returns the argument
  buffer and the memory as the kernel leaves them.\<close>

record 'k os_env =
  path_exists :: "string \<Rightarrow> bool"
  file_content :: "string \<Rightarrow> bytes option"
  can_open :: "string \<Rightarrow> bool"
  ioctl :: "'k \<Rightarrow> string \<Rightarrow> nat \<Rightarrow> bytes \<Rightarrow> memory \<Rightarrow> 'k \<times> (bytes \<times> memory) option"
  addr_reportdata :: nat
  addr_tdreport :: nat
  addr_tdquote :: nat

record 'k world =
  kernel :: 'k
  mem :: memory

definition create_string_buffer :: "memory \<Rightarrow> nat \<Rightarrow> nat \<Rightarrow> memory" where
  "create_string_buffer m addr n = mem_write m addr (replicate n 0)"

lemma length_mem_read [simp]: "length (mem_read m a n) = n"
  by (simp add: mem_read_def)

lemma mem_read_write_same [simp]: "length bs = n \<Longrightarrow> mem_read (mem_write m a bs) a n = bs"
  by (rule nth_equalityI) (auto simp: mem_read_def mem_write_def)

lemma mem_read_write_other:
  "a + n \<le> b \<or> b + length bs \<le> a \<Longrightarrow> mem_read (mem_write m b bs) a n = mem_read m a n"
  by (auto simp: mem_read_def mem_write_def)

lemma mem_read_write_prefix:
  "length bs \<le> n \<Longrightarrow> mem_read (mem_write m a bs) a n = bs @ drop (length bs) (mem_read m a n)"
  by (rule nth_equalityI) (auto simp: mem_read_def mem_write_def nth_append)

lemma mem_read_append: "mem_read m a (n + k) = mem_read m a n @ mem_read m (a + n) k"
  by (rule nth_equalityI) (auto simp: mem_read_def nth_append)

text \<open>The request numbers: \<open>int.from_bytes(struct.pack('Hcb', h, b'T', nr), 'big')\<close>.\<close>

definition cmd_of :: "nat \<Rightarrow> nat \<Rightarrow> nat" where
  "cmd_of h nr =
     (case struct_pack [UInt 2, RawBytes 1, UInt 1] [SInt (int h), SBytes (encode ''T''), SInt (int nr)] of
        Inl e \<Rightarrow> 0 | Inr bs \<Rightarrow> be_val bs)"

lemma cmd_of_eq:
  assumes "h < 65536" and "nr < 256"
  shows "cmd_of h nr = (h mod 256) * 2 ^ 24 + (h div 256) * 2 ^ 16 + 0x54 * 2 ^ 8 + nr"
proof -
  have 2: "le_bytes 2 h = [word_of_nat (h mod 256), word_of_nat (h div 256)]"
    using assms by (simp add: numeral_2_eq_2)
  have 1: "le_bytes 1 nr = [word_of_nat nr]"
    using assms by simp
  have T: "encode ''T'' = [0x54]"
    by (simp add: encode_def ord_byte_def)
  show ?thesis
    using assms by (simp add: cmd_of_def 1 2 T be_val_def unat_byte_of_nat del: encode_simps)
qed

end
