(* ===== verification/Ccel.thy ===== *)
theory Ccel
  imports Py_Os
begin

text \<open>
  \<open>pytdxattest/ccel.py\<close>: the ACPI table that locates the event log area.  A CCEL object is
  a blob; its properties read fixed offsets.
\<close>

definition ccel_revision :: "binary_blob \<Rightarrow> nat result" where
  "ccel_revision self = rbind (get_uint8 self 8) (\<lambda>(revision, _). Inr revision)"

definition ccel_checksum :: "binary_blob \<Rightarrow> nat result" where
  "ccel_checksum self = rbind (get_uint8 self 9) (\<lambda>(checksum, _). Inr checksum)"

definition oem_id :: "binary_blob \<Rightarrow> bytes result" where
  "oem_id self = rbind (get_bytes2 self 10 6) (\<lambda>(oem, _). Inr oem)"

definition cc_type :: "binary_blob \<Rightarrow> nat result" where
  "cc_type self = rbind (get_uint8 self 36) (\<lambda>(t, _). Inr t)"

definition cc_subtype :: "binary_blob \<Rightarrow> nat result" where
  "cc_subtype self = rbind (get_uint8 self 37) (\<lambda>(t, _). Inr t)"

definition log_area_minimum_length :: "binary_blob \<Rightarrow> nat result" where
  "log_area_minimum_length self = rbind (get_uint64 self 40) (\<lambda>(laml, _). Inr laml)"

definition log_area_start_address :: "binary_blob \<Rightarrow> nat result" where
  "log_area_start_address self = rbind (get_uint64 self 48) (\<lambda>(lasa, _). Inr lasa)"

text \<open>The conjunction is evaluated from the left, so \<open>data[4]\<close> is read only after the
  signature matched.\<close>

definition ccel_is_valid :: "binary_blob \<Rightarrow> bool result" where
  "ccel_is_valid self =
     (if \<not> (blob_length self > 0) then Inr False
      else if py_slice (blob_data self) 0 4 \<noteq> encode ''CCEL'' then Inr False
      else rbind (item_of (blob_data self) 4) (\<lambda>b. Inr (blob_length self = unat b)))"

text \<open>\<open>%s\<close> of a byte string is its \<open>repr\<close>, which is not formatted here: the byte
  string itself stands for it.\<close>

datatype ccel_line = Text string | OemId bytes

definition ccel_dump :: "binary_blob \<Rightarrow> ccel_line list result" where
  "ccel_dump self =
     (let raw = map Text (blob_dump self) in
      rbind (ccel_is_valid self) (\<lambda>valid.
      if \<not> valid then Inr (raw @ [Text ''CCEL is not valid''])
      else
        rbind (ccel_revision self) (\<lambda>rev.
        rbind (ccel_checksum self) (\<lambda>sum.
        rbind (oem_id self) (\<lambda>oem.
        rbind (cc_type self) (\<lambda>ty.
        rbind (cc_subtype self) (\<lambda>sub.
        rbind (log_area_minimum_length self) (\<lambda>laml.
        rbind (log_area_start_address self) (\<lambda>lasa.
        Inr (raw @
          [Text (''Revision:     '' @ fmt_dec (int rev)),
           Text (''Length:       '' @ fmt_dec (int (blob_length self))),
           Text (''Checksum:     '' @ fmt_HEX 2 sum),
           OemId oem,
           Text (''CC Type:      '' @ fmt_dec (int ty)),
           Text (''CC Sub-type:  '' @ fmt_dec (int sub)),
           Text (''Log Lenght:   0x'' @ fmt_HEX 8 laml),
           Text (''Log Address:  0x'' @ fmt_HEX 8 lasa)]))))))))))"

definition CCEL_ACPI_FILE :: string where
  "CCEL_ACPI_FILE = ''/sys/firmware/acpi/tables/CCEL''"

definition create_from_acpi_file :: "'k os_env \<Rightarrow> string \<Rightarrow> binary_blob option result" where
  "create_from_acpi_file env acpi_file =
     (if \<not> path_exists env acpi_file then Inr None
      else case file_content env acpi_file of
        None \<Rightarrow> Inr None
      | Some data \<Rightarrow>
          rbind (py_assert (length data > 0 \<and> py_slice data 0 4 = encode ''CCEL'')) (\<lambda>_.
          Inr (Some (BinaryBlob data 0))))"

section \<open>The table on the wire\<close>

record ccel_desc =
  c_length :: nat
  c_revision :: nat
  c_checksum :: nat
  c_oem :: bytes
  c_filler :: bytes
  c_type :: nat
  c_subtype :: nat
  c_reserved :: bytes
  c_laml :: nat
  c_lasa :: nat

definition enc_ccel :: "ccel_desc \<Rightarrow> bytes" where
  "enc_ccel c = encode ''CCEL'' @ le_bytes 4 (c_length c) @ le_bytes 1 (c_revision c) @
     le_bytes 1 (c_checksum c) @ c_oem c @ c_filler c @ le_bytes 1 (c_type c) @ le_bytes 1 (c_subtype c) @
     c_reserved c @ le_bytes 8 (c_laml c) @ le_bytes 8 (c_lasa c)"

definition wf_ccel :: "ccel_desc \<Rightarrow> bool" where
  "wf_ccel c \<longleftrightarrow> c_length c < 256 ^ 4 \<and> c_revision c < 256 \<and> c_checksum c < 256 \<and> length (c_oem c) = 6 \<and>
     length (c_filler c) = 20 \<and> c_type c < 256 \<and> c_subtype c < 256 \<and> length (c_reserved c) = 2 \<and>
     c_laml c < 256 ^ 8 \<and> c_lasa c < 256 ^ 8"

lemma length_encode_CCEL [simp]: "length (encode ''CCEL'') = 4"
  by (simp add: encode_def)

lemma length_enc_ccel: "wf_ccel c \<Longrightarrow> length (enc_ccel c) = 56"
  by (simp add: wf_ccel_def enc_ccel_def)

lemma log_area_minimum_length_enc:
  assumes "wf_ccel c"
  shows "log_area_minimum_length (BinaryBlob (enc_ccel c @ rest) base) = Inr (c_laml c)"
proof -
  let ?pre = "encode ''CCEL'' @ le_bytes 4 (c_length c) @ le_bytes 1 (c_revision c) @
     le_bytes 1 (c_checksum c) @ c_oem c @ c_filler c @ le_bytes 1 (c_type c) @ le_bytes 1 (c_subtype c) @
     c_reserved c"
  have "get_uint64 (BinaryBlob (enc_ccel c @ rest) base) 40 = Inr (c_laml c, 40 + 8)"
    using assms by (intro u64.read_encoded [of _ ?pre _ "le_bytes 8 (c_lasa c) @ rest"])
      (simp_all add: enc_ccel_def wf_ccel_def)
  then show ?thesis by (simp add: log_area_minimum_length_def)
qed

lemma log_area_start_address_enc:
  assumes "wf_ccel c"
  shows "log_area_start_address (BinaryBlob (enc_ccel c @ rest) base) = Inr (c_lasa c)"
proof -
  let ?pre = "encode ''CCEL'' @ le_bytes 4 (c_length c) @ le_bytes 1 (c_revision c) @
     le_bytes 1 (c_checksum c) @ c_oem c @ c_filler c @ le_bytes 1 (c_type c) @ le_bytes 1 (c_subtype c) @
     c_reserved c @ le_bytes 8 (c_laml c)"
  have "get_uint64 (BinaryBlob (enc_ccel c @ rest) base) 48 = Inr (c_lasa c, 48 + 8)"
    using assms by (intro u64.read_encoded [of _ ?pre _ "rest"]) (simp_all add: enc_ccel_def wf_ccel_def)
  then show ?thesis by (simp add: log_area_start_address_def)
qed

lemma create_from_acpi_file_enc:
  "path_exists env f \<Longrightarrow> file_content env f = Some (enc_ccel c @ rest) \<Longrightarrow>
     create_from_acpi_file env f = Inr (Some (BinaryBlob (enc_ccel c @ rest) 0))"
  by (simp add: create_from_acpi_file_def enc_ccel_def py_slice_def)

lemma nth_0_le_bytes: "0 < w \<Longrightarrow> le_bytes w n ! 0 = word_of_nat (n mod 256)"
  by (cases w) auto

lemma ccel_is_valid_enc:
  assumes "wf_ccel c"
  shows "ccel_is_valid (BinaryBlob (enc_ccel c @ rest) base) = Inr (56 + length rest = c_length c mod 256)"
proof -
  have "(enc_ccel c @ rest) ! 4 = le_bytes 4 (c_length c) ! 0"
    by (simp add: enc_ccel_def nth_append)
  then have "item_of (enc_ccel c @ rest) 4 = Inr (word_of_nat (c_length c mod 256))"
    using length_enc_ccel [OF assms] by (simp add: item_of_def nth_0_le_bytes)
  moreover have "py_slice (enc_ccel c @ rest) 0 4 = encode ''CCEL''"
    by (simp add: enc_ccel_def py_slice_def)
  ultimately show ?thesis
    using length_enc_ccel [OF assms]
    by (simp add: ccel_is_valid_def blob_length_def unat_byte_of_nat)
qed

lemma ccel_bytes_enc:
  assumes "wf_ccel c"
  shows "ccel_revision (BinaryBlob (enc_ccel c @ rest) base) = Inr (c_revision c)"
    and "ccel_checksum (BinaryBlob (enc_ccel c @ rest) base) = Inr (c_checksum c)"
    and "oem_id (BinaryBlob (enc_ccel c @ rest) base) = Inr (c_oem c)"
    and "cc_type (BinaryBlob (enc_ccel c @ rest) base) = Inr (c_type c)"
    and "cc_subtype (BinaryBlob (enc_ccel c @ rest) base) = Inr (c_subtype c)"
proof -
  let ?b = "BinaryBlob (enc_ccel c @ rest) base"
  let ?p8 = "encode ''CCEL'' @ le_bytes 4 (c_length c)"
  let ?p9 = "?p8 @ le_bytes 1 (c_revision c)"
  let ?p10 = "?p9 @ le_bytes 1 (c_checksum c)"
  let ?p36 = "?p10 @ c_oem c @ c_filler c"
  let ?p37 = "?p36 @ le_bytes 1 (c_type c)"
  let ?p38 = "?p37 @ le_bytes 1 (c_subtype c)"
  let ?t38 = "c_reserved c @ le_bytes 8 (c_laml c) @ le_bytes 8 (c_lasa c) @ rest"
  note wf = assms [unfolded wf_ccel_def]
  have "get_uint8 ?b 8 = Inr (c_revision c, 8 + 1)"
    using wf by (intro u8.read_encoded [of _ ?p8]) (simp_all add: enc_ccel_def)
  then show "ccel_revision ?b = Inr (c_revision c)" by (simp add: ccel_revision_def)
  have "get_uint8 ?b 9 = Inr (c_checksum c, 9 + 1)"
    using wf by (intro u8.read_encoded [of _ ?p9]) (simp_all add: enc_ccel_def)
  then show "ccel_checksum ?b = Inr (c_checksum c)" by (simp add: ccel_checksum_def)
  have "get_bytes2 ?b 10 (length (c_oem c)) = Inr (c_oem c, 10 + length (c_oem c))"
    using wf by (intro get_bytes2_encoded [of _ ?p10]) (auto simp: enc_ccel_def)
  then show "oem_id ?b = Inr (c_oem c)" using wf by (simp add: oem_id_def)
  have "get_uint8 ?b 36 = Inr (c_type c, 36 + 1)"
    using wf by (intro u8.read_encoded [of _ ?p36]) (simp_all add: enc_ccel_def)
  then show "cc_type ?b = Inr (c_type c)" by (simp add: cc_type_def)
  have "get_uint8 ?b 37 = Inr (c_subtype c, 37 + 1)"
    using wf by (intro u8.read_encoded [of _ ?p37 _ ?t38]) (simp_all add: enc_ccel_def)
  then show "cc_subtype ?b = Inr (c_subtype c)" by (simp add: cc_subtype_def)
qed

text \<open>Opening the ACPI table file of an encoded CCEL table and reading its properties
  gives every field of the table: revision, checksum, OEM id, type, subtype, and the
  64-bit length and address of the log area.\<close>

theorem ccel_fields:
  assumes "wf_ccel c" and "path_exists env f" and "file_content env f = Some (enc_ccel c @ rest)"
  shows "rbind (create_from_acpi_file env f) (\<lambda>t. Inr
      (let b = the t in (ccel_revision b, ccel_checksum b, oem_id b, cc_type b, cc_subtype b,
        log_area_minimum_length b, log_area_start_address b))) =
    Inr (Inr (c_revision c), Inr (c_checksum c), Inr (c_oem c), Inr (c_type c), Inr (c_subtype c),
      Inr (c_laml c), Inr (c_lasa c))"
  using assms
  by (simp add: create_from_acpi_file_enc ccel_bytes_enc log_area_minimum_length_enc
      log_area_start_address_enc Let_def)

definition demo_ccel :: ccel_desc where
  "demo_ccel =
     \<lparr>c_length = 56, c_revision = 1, c_checksum = 0x5a, c_oem = encode ''INTEL '', c_filler = replicate 20 0,
      c_type = 2, c_subtype = 0, c_reserved = [0, 0], c_laml = 0x10000, c_lasa = 0x7d7f4000\<rparr>"

lemma wf_demo_ccel: "wf_ccel demo_ccel"
  by (simp add: wf_ccel_def demo_ccel_def encode_def)

theorem ccel_fields_witness:
  "let env = \<lparr>path_exists = (\<lambda>_. True), file_content = (\<lambda>_. Some (enc_ccel demo_ccel)),
      can_open = (\<lambda>_. True), ioctl = (\<lambda>k _ _ _ _. (k, None)),
      addr_reportdata = 0, addr_tdreport = 0, addr_tdquote = 0\<rparr> :: unit os_env
   in rbind (create_from_acpi_file env CCEL_ACPI_FILE) (\<lambda>t. Inr
      (let b = the t in (ccel_revision b, ccel_checksum b, oem_id b, cc_type b, cc_subtype b,
        log_area_minimum_length b, log_area_start_address b))) =
    Inr (Inr 1, Inr 0x5a, Inr (encode ''INTEL ''), Inr 2, Inr 0, Inr 0x10000, Inr 0x7d7f4000)"
  using ccel_fields [OF wf_demo_ccel, where env = "\<lparr>path_exists = (\<lambda>_. True),
      file_content = (\<lambda>_. Some (enc_ccel demo_ccel)), can_open = (\<lambda>_. True),
      ioctl = (\<lambda>k _ _ _ _. (k, None)), addr_reportdata = 0, addr_tdreport = 0, addr_tdquote = 0\<rparr> :: unit os_env"
      and f = CCEL_ACPI_FILE and rest = "[]"]
  by (simp add: Let_def) (simp add: demo_ccel_def)

text \<open>The validity check compares the size of the table with the low byte of its
  length field only: a table of 256 bytes or more is never valid, and one whose length field is
  56 plus a multiple of 256 passes with 56 bytes.\<close>

theorem ccel_is_valid_low_byte:
  assumes "wf_ccel c"
  shows "ccel_is_valid (BinaryBlob (enc_ccel c @ rest) base) = Inr (56 + length rest = c_length c mod 256)"
  using assms by (rule ccel_is_valid_enc)

theorem ccel_is_valid_low_byte_witness:
  "ccel_is_valid (BinaryBlob (enc_ccel demo_ccel @ []) 0) = Inr True \<and>
   ccel_is_valid (BinaryBlob (enc_ccel (demo_ccel\<lparr>c_length := 56 + 256\<rparr>) @ []) 0) = Inr True \<and>
   ccel_is_valid (BinaryBlob (enc_ccel (demo_ccel\<lparr>c_length := 56 + 256\<rparr>) @ replicate 256 0) 0) = Inr False"
proof -
  have wf: "wf_ccel (demo_ccel\<lparr>c_length := 56 + 256\<rparr>)"
    by (simp add: wf_ccel_def demo_ccel_def encode_def)
  have len: "c_length demo_ccel = 56"
    by (simp add: demo_ccel_def)
  show ?thesis
    unfolding ccel_is_valid_low_byte [OF wf] ccel_is_valid_low_byte [OF wf_demo_ccel] len by simp
qed

end
