(* ===== verification/Rtmr.thy ===== *)
theory Rtmr
  imports Py_Os
begin

text \<open>
  \<open>pytdxattest/rtmr.py\<close> and \<open>examples/extend_ima.py\<close>: the comparison of two RTMR
  values, the extend operation on the guest device, and the utility that extends the IMA
  measurements of the kernel.
\<close>

definition RTMR_COUNT :: nat where
  "RTMR_COUNT = 4"

definition RTMR_LENGTH_BY_BYTES :: nat where
  "RTMR_LENGTH_BY_BYTES = 48"

definition TDX_ATTEST_FILE :: string where
  "TDX_ATTEST_FILE = ''/dev/tdx_guest''"

definition EXTEND_SUCCESS :: string where
  "EXTEND_SUCCESS = ''RTMR_EXTEND_SUCCESS''"

definition EXTEND_FAILURE :: string where
  "EXTEND_FAILURE = ''RTMR_EXTEND_FAILURE''"

definition EXTEND_FAILURE_WITH_WRONG_INPUT :: string where
  "EXTEND_FAILURE_WITH_WRONG_INPUT = ''RTMR_EXTEND_FAILURE_WITH_WRONG_INPUT''"

definition RTMR :: "bytes \<Rightarrow> binary_blob" where
  "RTMR data = BinaryBlob data 0"

definition rtmr_eq :: "binary_blob \<Rightarrow> binary_blob \<Rightarrow> bool result" where
  "rtmr_eq self other =
     rbind (get_bytes2 self 0 RTMR_LENGTH_BY_BYTES) (\<lambda>(bytearray_1, _).
     rbind (get_bytes2 other 0 RTMR_LENGTH_BY_BYTES) (\<lambda>(bytearray_2, _).
     Inr (bytearray_1 = bytearray_2)))"

text \<open>The data that one extend request carries: the hash of the string, the decoded
  digest, or the raw bytes; the last two must be 48 bytes long.  \<open>Inr None\<close> is the early
  return with \<open>EXTEND_FAILURE_WITH_WRONG_INPUT\<close>.\<close>

definition extend_data ::
  "string option \<Rightarrow> string option \<Rightarrow> string option \<Rightarrow> bytes option result" where
  "extend_data raw_extend_data str_extend_data digest_extend_data =
     (case str_extend_data of
        Some s \<Rightarrow> Inr (Some (sha384 (encode s)))
      | None \<Rightarrow>
          (case digest_extend_data of
             Some d \<Rightarrow>
               rbind (fromhex d) (\<lambda>data.
               Inr (if length data \<noteq> RTMR_LENGTH_BY_BYTES then None else Some data))
           | None \<Rightarrow>
               (case raw_extend_data of
                  None \<Rightarrow> Inl AttributeError
                | Some r \<Rightarrow>
                    let data = encode r in
                    Inr (if length data \<noteq> RTMR_LENGTH_BY_BYTES then None else Some data))))"

definition TDX_CMD_EXTEND_RTMR :: nat where
  "TDX_CMD_EXTEND_RTMR = cmd_of 0x3180 3"

definition extend_rtmr ::
  "'k os_env \<Rightarrow> string option \<Rightarrow> string option \<Rightarrow> string option \<Rightarrow> int \<Rightarrow> 'k world \<Rightarrow>
   (string option \<times> 'k world) result" where
  "extend_rtmr env raw_extend_data str_extend_data digest_extend_data extend_rtmr_index w =
     (if \<not> path_exists env TDX_ATTEST_FILE then Inr (None, w)
      else if \<not> can_open env TDX_ATTEST_FILE then Inr (None, w)
      else
        rbind (extend_data raw_extend_data str_extend_data digest_extend_data) (\<lambda>ed.
        case ed of
          None \<Rightarrow> Inr (Some EXTEND_FAILURE_WITH_WRONG_INPUT, w)
        | Some data \<Rightarrow>
            rbind (struct_pack [RawBytes 48, UInt 1] [SBytes data, SInt extend_rtmr_index]) (\<lambda>req.
            case ioctl env (kernel w) TDX_ATTEST_FILE TDX_CMD_EXTEND_RTMR req (mem w) of
              (k, None) \<Rightarrow> Inr (Some EXTEND_FAILURE, w\<lparr>kernel := k\<rparr>)
            | (k, Some (_, m)) \<Rightarrow> Inr (Some EXTEND_SUCCESS, w\<lparr>kernel := k, mem := m\<rparr>))))"

section \<open>The IMA utility\<close>

definition DEFAULT_PATH_FOR_MEASUREMENT :: string where
  "DEFAULT_PATH_FOR_MEASUREMENT = ''/sys/kernel/security/ima/ascii_runtime_measurements''"

definition EXCEPTION_KEY_WORD :: string where
  "EXCEPTION_KEY_WORD = ''boot_aggregate''"

definition measurement_of_line :: "string \<Rightarrow> string option result" where
  "measurement_of_line line =
     (if contains EXCEPTION_KEY_WORD line then Inr None
      else rbind (item_of (split_on (CHR '' '') line) 3) (\<lambda>c. Inr (Some c)))"

definition fetch_ima_measurements :: "'k os_env \<Rightarrow> string list option result" where
  "fetch_ima_measurements env =
     (if \<not> path_exists env DEFAULT_PATH_FOR_MEASUREMENT then Inr None
      else case file_content env DEFAULT_PATH_FOR_MEASUREMENT of
        None \<Rightarrow> Inl OSError
      | Some data \<Rightarrow>
          rbind (decode data) (\<lambda>text.
          rbind (rmap measurement_of_line (read_lines (universal_newlines text))) (\<lambda>ms.
          Inr (Some (map the (filter (\<lambda>m. m \<noteq> None) ms))))))"

fun extend_contents :: "'k os_env \<Rightarrow> string list \<Rightarrow> int \<Rightarrow> 'k world \<Rightarrow> 'k world result" where
  "extend_contents env [] rtmr_index w = Inr w"
| "extend_contents env (content # rest) rtmr_index w =
     (if \<not> contains ''sha384'' content then extend_contents env rest rtmr_index w
      else
        rbind (item_of (split_on (CHR '':'') content) 1) (\<lambda>digest.
        rbind (extend_rtmr env (Some '''') (Some '''') (Some digest) rtmr_index w) (\<lambda>(res, w).
        extend_contents env rest rtmr_index w)))"

definition extend_measurements_to_rtmr ::
  "'k os_env \<Rightarrow> string list option \<Rightarrow> int \<Rightarrow> 'k world \<Rightarrow> 'k world result" where
  "extend_measurements_to_rtmr env contents rtmr_index w =
     (case contents of
        None \<Rightarrow> Inr w
      | Some cs \<Rightarrow>
          if cs = [] then Inr w
          else if rtmr_index < 2 then Inr w
          else extend_contents env cs rtmr_index w)"

section \<open>Measurement registers as hash chains\<close>

text \<open>
  A register holds \<open>n\<close> bytes and is only ever replaced by the hash of its value and the
  measurement.  What two equal registers say about the measurements that led to them
  depends on nothing else.
\<close>

definition roll :: "(bytes \<Rightarrow> bytes) \<Rightarrow> bytes \<Rightarrow> bytes list \<Rightarrow> bytes" where
  "roll H r ds = foldl (\<lambda>r d. H (r @ d)) r ds"

text \<open>The inputs of the hash along the chain, and that two lists of inputs collide.\<close>

fun hashed :: "(bytes \<Rightarrow> bytes) \<Rightarrow> bytes \<Rightarrow> bytes list \<Rightarrow> bytes list" where
  "hashed H r [] = []"
| "hashed H r (d # ds) = (r @ d) # hashed H (H (r @ d)) ds"

definition collide :: "(bytes \<Rightarrow> bytes) \<Rightarrow> bytes list \<Rightarrow> bytes list \<Rightarrow> bool" where
  "collide H xs ys \<longleftrightarrow> list_ex (\<lambda>x. list_ex (\<lambda>y. x \<noteq> y \<and> H x = H y) ys) xs"

lemma roll_snoc: "roll H r (ds @ [d]) = H (roll H r ds @ d)"
  by (simp add: roll_def)

lemma roll_append: "roll H r (ds @ es) = roll H (roll H r ds) es"
  by (simp add: roll_def)

lemma hashed_snoc: "hashed H r (ds @ [d]) = hashed H r ds @ [roll H r ds @ d]"
  by (induction ds arbitrary: r) (auto simp: roll_def)

lemma hashed_append: "hashed H r (ds @ es) = hashed H r ds @ hashed H (roll H r ds) es"
  by (induction ds arbitrary: r) (auto simp: roll_def)

lemma roll_in_hashed: "ds \<noteq> [] \<Longrightarrow> \<exists>x\<in>set (hashed H r ds). roll H r ds = H x"
  by (cases ds rule: rev_cases) (auto simp: roll_snoc hashed_snoc)

lemma collide_mono: "collide H xs ys \<Longrightarrow> set xs \<subseteq> set xs' \<Longrightarrow> set ys \<subseteq> set ys' \<Longrightarrow> collide H xs' ys'"
  by (auto simp: collide_def list_ex_iff)

locale hash_chain =
  fixes H :: "bytes \<Rightarrow> bytes" and n :: nat
  assumes length_H: "length (H x) = n"
begin

lemma length_roll [simp]: "length r = n \<Longrightarrow> length (roll H r ds) = n"
  by (induction ds arbitrary: r) (auto simp: roll_def length_H)

text \<open>Equal registers come from equal measurement lists, up to a longer common history of
  one of them, or there is a collision among the inputs.\<close>

lemma roll_eq:
  assumes "length r = n" and "length s = n" and "roll H r ds = roll H s es"
  shows "collide H (hashed H r ds) (hashed H s es) \<or>
    (\<exists>us. ds = us @ es \<and> roll H r us = s) \<or> (\<exists>us. es = us @ ds \<and> roll H s us = r)"
  using assms(3)
proof (induction ds arbitrary: es rule: rev_induct)
  case Nil
  then show ?case by (auto simp: roll_def)
next
  case (snoc d ds)
  show ?case
  proof (cases es rule: rev_cases)
    case Nil
    then show ?thesis using snoc.prems by (auto simp: roll_def)
  next
    case es: (snoc es' e)
    have H: "H (roll H r ds @ d) = H (roll H s es' @ e)"
      using snoc.prems by (simp add: es roll_snoc)
    show ?thesis
    proof (cases "roll H r ds @ d = roll H s es' @ e")
      case False
      then have "collide H (hashed H r (ds @ [d])) (hashed H s es)"
        using H by (auto simp: es collide_def hashed_snoc)
      then show ?thesis by blast
    next
      case True
      then have "roll H r ds = roll H s es'" and [simp]: "e = d"
        using assms(1,2) by (simp_all add: append_eq_append_conv)
      from snoc.IH [OF this(1)] show ?thesis
        by (auto simp: es hashed_snoc intro: collide_mono)
    qed
  qed
qed

lemma roll_eq_from_reset:
  assumes "length z = n" and "roll H z ds = roll H z es"
  shows "ds = es \<or> collide H (hashed H z ds) (hashed H z es) \<or>
    list_ex (\<lambda>x. H x = z) (hashed H z ds @ hashed H z es)"
proof -
  have hit: "list_ex (\<lambda>x. H x = z) (hashed H z (us @ vs))" if "roll H z us = z" and "us \<noteq> []" for us vs
    using roll_in_hashed [OF that(2), of H z] that(1) by (auto simp: hashed_append list_ex_iff)
  show ?thesis
    using roll_eq [OF assms(1,1,2)] hit [of _ es] hit [of _ ds] by (auto simp: list_ex_append)
qed

end

interpretation reg: hash_chain sha384 RTMR_LENGTH_BY_BYTES
  by unfold_locales (simp add: length_sha384 RTMR_LENGTH_BY_BYTES_def)

section \<open>Extending a register through the driver\<close>

text \<open>
  What the driver documents for the extend request, over the registers \<open>reg k\<close> of a
  kernel state: 48 bytes of data and a register index, which replace the register by the hash
  of its value and the data and leave the others alone.
\<close>

definition rtmr_driver :: "'k os_env \<Rightarrow> ('k \<Rightarrow> int \<Rightarrow> bytes) \<Rightarrow> bool" where
  "rtmr_driver env reg \<longleftrightarrow>
     (\<forall>k data i m. length data = 48 \<and> i < 4 \<longrightarrow>
        (\<exists>k' m'. ioctl env k TDX_ATTEST_FILE TDX_CMD_EXTEND_RTMR (data @ [word_of_nat i]) m = (k', Some (data @ [word_of_nat i], m')) \<and>
           reg k' = (reg k)(int i := sha384 (reg k (int i) @ data))))"

definition rtmr_device :: "'k os_env \<Rightarrow> bool" where
  "rtmr_device env \<longleftrightarrow> path_exists env TDX_ATTEST_FILE \<and> can_open env TDX_ATTEST_FILE"

lemma pack_extend_req:
  "length data = 48 \<Longrightarrow> struct_pack [RawBytes 48, UInt 1] [SBytes data, SInt i] =
     (if 0 \<le> i \<and> i < 256 then Inr (data @ [word_of_nat (nat i)]) else Inl StructError)"
  by (auto simp: nat_less_iff)

lemma extend_data_length: "extend_data raw str dig = Inr (Some data) \<Longrightarrow> length data = 48"
  by (auto simp: extend_data_def length_sha384 RTMR_LENGTH_BY_BYTES_def rbind_Inr_iff Let_def
      split: option.splits if_splits)

lemma extend_rtmr_eq:
  assumes "rtmr_device env" and "extend_data raw str dig = Inr (Some data)"
  shows "extend_rtmr env raw str dig i w =
    (if 0 \<le> i \<and> i < 256 then
       (case ioctl env (kernel w) TDX_ATTEST_FILE TDX_CMD_EXTEND_RTMR (data @ [word_of_nat (nat i)]) (mem w) of
          (k, None) \<Rightarrow> Inr (Some EXTEND_FAILURE, w\<lparr>kernel := k\<rparr>)
        | (k, Some (_, m)) \<Rightarrow> Inr (Some EXTEND_SUCCESS, w\<lparr>kernel := k, mem := m\<rparr>))
     else Inl StructError)"
  using assms extend_data_length [OF assms(2)] pack_extend_req [of data i]
  by (simp add: extend_rtmr_def rtmr_device_def)

lemma extend_rtmr_driver:
  assumes "rtmr_driver env reg" and "rtmr_device env" and "extend_data raw str dig = Inr (Some data)"
    and "0 \<le> i" and "i < 4"
  shows "\<exists>k m. extend_rtmr env raw str dig i w = Inr (Some EXTEND_SUCCESS, w\<lparr>kernel := k, mem := m\<rparr>) \<and>
    reg k = (reg (kernel w))(i := sha384 (reg (kernel w) i @ data))"
proof -
  have "nat i < 4" using assms(4,5) by simp
  then obtain k m where "ioctl env (kernel w) TDX_ATTEST_FILE TDX_CMD_EXTEND_RTMR (data @ [word_of_nat (nat i)]) (mem w) =
      (k, Some (data @ [word_of_nat (nat i)], m))"
    "reg k = (reg (kernel w))(int (nat i) := sha384 (reg (kernel w) (int (nat i)) @ data))"
    using assms(1) extend_data_length [OF assms(3)] unfolding rtmr_driver_def by metis
  then show ?thesis
    using assms(4,5) by (auto simp: extend_rtmr_eq [OF assms(2,3)])
qed

text \<open>A client that extends digests one after the other.\<close>

fun extend_digests :: "'k os_env \<Rightarrow> bytes list \<Rightarrow> int \<Rightarrow> 'k world \<Rightarrow> 'k world result" where
  "extend_digests env [] i w = Inr w"
| "extend_digests env (d # ds) i w =
     rbind (extend_rtmr env None None (Some (hex_of_bytes d)) i w) (\<lambda>(_, w). extend_digests env ds i w)"

lemma extend_digests_chain:
  assumes "rtmr_driver env reg" and "rtmr_device env" and "0 \<le> i" and "i < 4"
  shows "list_all (\<lambda>d. length d = 48) ds \<Longrightarrow>
    \<exists>w'. extend_digests env ds i w = Inr w' \<and>
      reg (kernel w') = (reg (kernel w))(i := roll sha384 (reg (kernel w) i) ds)"
proof (induction ds arbitrary: w)
  case Nil
  show ?case by (simp add: roll_def)
next
  case (Cons d ds)
  have "extend_data None None (Some (hex_of_bytes d)) = Inr (Some d)"
    using Cons.prems by (simp add: extend_data_def fromhex_hex_of_bytes RTMR_LENGTH_BY_BYTES_def)
  from extend_rtmr_driver [OF assms(1,2) this assms(3,4), of w] obtain k m
    where 1: "extend_rtmr env None None (Some (hex_of_bytes d)) i w =
        Inr (Some EXTEND_SUCCESS, w\<lparr>kernel := k, mem := m\<rparr>)"
      and 2: "reg k = (reg (kernel w))(i := sha384 (reg (kernel w) i @ d))" by blast
  have "list_all (\<lambda>d. length d = 48) ds" using Cons.prems by simp
  from Cons.IH [OF this, of "w\<lparr>kernel := k, mem := m\<rparr>"] show ?case
    by (auto simp: 1 2 roll_def fun_eq_iff)
qed


text \<open>A driver over four registers.\<close>

definition register_ioctl ::
  "(int \<Rightarrow> bytes) \<Rightarrow> string \<Rightarrow> nat \<Rightarrow> bytes \<Rightarrow> memory \<Rightarrow> (int \<Rightarrow> bytes) \<times> (bytes \<times> memory) option" where
  "register_ioctl k dev cmd req m =
     (if dev = TDX_ATTEST_FILE \<and> cmd = TDX_CMD_EXTEND_RTMR \<and> length req = 49 \<and> unat (req ! 48) < 4
      then (let i = int (unat (req ! 48)) in (k(i := sha384 (k i @ take 48 req)), Some (req, m)))
      else (k, None))"

definition register_env :: "(int \<Rightarrow> bytes) os_env" where
  "register_env =
     \<lparr>path_exists = (\<lambda>p. p = TDX_ATTEST_FILE), file_content = (\<lambda>_. None), can_open = (\<lambda>p. p = TDX_ATTEST_FILE),
      ioctl = register_ioctl, addr_reportdata = 0, addr_tdreport = 0, addr_tdquote = 0\<rparr>"

lemma register_env_ok: "rtmr_driver register_env (\<lambda>k. k)" "rtmr_device register_env"
proof -
  have "\<exists>k' m'. ioctl register_env k TDX_ATTEST_FILE TDX_CMD_EXTEND_RTMR (data @ [word_of_nat i]) m =
      (k', Some (data @ [word_of_nat i], m')) \<and> k' = k(int i := sha384 (k (int i) @ data))"
    if "length data = 48 \<and> i < 4" for k data i m
  proof -
    have "unat (word_of_nat i :: byte) = i" using that by (simp add: unat_byte_of_nat)
    then show ?thesis
      using that by (simp add: register_env_def register_ioctl_def nth_append Let_def)
  qed
  then show "rtmr_driver register_env (\<lambda>k. k)" unfolding rtmr_driver_def by blast
  show "rtmr_device register_env" by (simp add: rtmr_device_def register_env_def)
qed




text \<open>C16: a digest or a raw string that is not 48 bytes long is refused with
  \<open>EXTEND_FAILURE_WITH_WRONG_INPUT\<close>, without touching the device, and this answer is
  given in no other case.\<close>

theorem extend_rtmr_wrong_input:
  assumes "rtmr_device env"
  shows "extend_rtmr env raw str dig i w = Inr (Some EXTEND_FAILURE_WITH_WRONG_INPUT, w') \<longleftrightarrow>
    w' = w \<and> str = None \<and>
    (case dig of
       Some d \<Rightarrow> (case fromhex d of Inr bs \<Rightarrow> length bs \<noteq> 48 | Inl _ \<Rightarrow> False)
     | None \<Rightarrow> (case raw of Some r \<Rightarrow> length (encode r) \<noteq> 48 | None \<Rightarrow> False))"
proof (cases "extend_data raw str dig")
  case (Inl e)
  then have "extend_rtmr env raw str dig i w = Inl e"
    using assms by (simp add: extend_rtmr_def rtmr_device_def)
  then show ?thesis
    using Inl by (auto simp: extend_data_def Let_def RTMR_LENGTH_BY_BYTES_def split: option.splits sum.splits)
next
  case (Inr r)
  show ?thesis
  proof (cases r)
    case None
    then have "extend_rtmr env raw str dig i w = Inr (Some EXTEND_FAILURE_WITH_WRONG_INPUT, w)"
      using assms Inr by (simp add: extend_rtmr_def rtmr_device_def)
    then show ?thesis
      using Inr None by (auto simp: extend_data_def Let_def RTMR_LENGTH_BY_BYTES_def rbind_Inr_iff
          split: option.splits sum.splits if_splits)
  next
    case (Some data)
    then have "extend_rtmr env raw str dig i w \<noteq> Inr (Some EXTEND_FAILURE_WITH_WRONG_INPUT, w')"
      using extend_rtmr_eq [OF assms, of raw str dig data i w] Inr
      by (auto simp: EXTEND_SUCCESS_def EXTEND_FAILURE_def EXTEND_FAILURE_WITH_WRONG_INPUT_def
          split: prod.splits option.splits)
    then show ?thesis
      using Inr Some by (auto simp: extend_data_def Let_def RTMR_LENGTH_BY_BYTES_def rbind_Inr_iff
          split: option.splits sum.splits if_splits)
  qed
qed

theorem extend_rtmr_wrong_input_witness:
  "extend_rtmr register_env (Some ''short'') None None 2 \<lparr>kernel = (\<lambda>_. []), mem = (\<lambda>_. 0)\<rparr> =
     Inr (Some EXTEND_FAILURE_WITH_WRONG_INPUT, \<lparr>kernel = (\<lambda>_. []), mem = (\<lambda>_. 0)\<rparr>)"
  by (simp add: extend_rtmr_wrong_input [OF register_env_ok(2)])

section \<open>The IMA utility\<close>

text \<open>The measurements that the utility extends: those of the hash \<open>sha384\<close>.\<close>

definition is_sha384 :: "string \<Rightarrow> bool" where
  "is_sha384 content \<longleftrightarrow> contains ''sha384'' content"

lemma extend_contents_driver:
  assumes "rtmr_driver env reg" and "rtmr_device env" and "0 \<le> i" and "i < 4"
  shows "list_all (\<lambda>c. is_sha384 c \<longrightarrow> 1 < length (split_on (CHR '':'') c)) cs \<Longrightarrow>
    \<exists>w'. extend_contents env cs i w = Inr w' \<and>
      reg (kernel w') =
        (reg (kernel w))(i := roll sha384 (reg (kernel w) i) (map (\<lambda>_. sha384 []) (filter is_sha384 cs)))"
proof (induction cs arbitrary: w)
  case Nil
  show ?case by (simp add: roll_def)
next
  case (Cons c cs)
  then have cs: "list_all (\<lambda>c. is_sha384 c \<longrightarrow> 1 < length (split_on (CHR '':'') c)) cs" by simp
  show ?case
  proof (cases "is_sha384 c")
    case False
    then show ?thesis using Cons.IH [OF cs] by (simp add: is_sha384_def)
  next
    case True
    let ?d = "split_on (CHR '':'') c ! 1"
    have d: "item_of (split_on (CHR '':'') c) 1 = Inr ?d"
      using True Cons.prems by (simp add: item_of_def)
    have "extend_data (Some '''') (Some '''') (Some ?d) = Inr (Some (sha384 []))"
      by (simp add: extend_data_def)
    from extend_rtmr_driver [OF assms(1,2) this assms(3,4), of w] obtain k m
      where 1: "extend_rtmr env (Some '''') (Some '''') (Some ?d) i w =
          Inr (Some EXTEND_SUCCESS, w\<lparr>kernel := k, mem := m\<rparr>)"
        and 2: "reg k = (reg (kernel w))(i := sha384 (reg (kernel w) i @ sha384 []))" by blast
    have step: "extend_contents env (c # cs) i w = extend_contents env cs i (w\<lparr>kernel := k, mem := m\<rparr>)"
      using True d 1 by (simp add: is_sha384_def)
    from Cons.IH [OF cs, of "w\<lparr>kernel := k, mem := m\<rparr>"] True show ?thesis
      unfolding step by (auto simp: 2 roll_def fun_eq_iff)
  qed
qed

text \<open>C22: the IMA utility does not measure what it reads: whatever the digests of the
  \<open>sha384\<close> measurements are, each of them extends the register with the hash of
  the empty string, so the register depends on their number only.\<close>

theorem extend_ima_ignores_digests:
  assumes "rtmr_driver env reg" and "rtmr_device env" and "2 \<le> i" and "i < 4" and "cs \<noteq> []"
    and "list_all (\<lambda>c. is_sha384 c \<longrightarrow> 1 < length (split_on (CHR '':'') c)) cs"
  shows "\<exists>w'. extend_measurements_to_rtmr env (Some cs) i w = Inr w' \<and>
    reg (kernel w') i = roll sha384 (reg (kernel w) i) (replicate (length (filter is_sha384 cs)) (sha384 []))"
proof -
  have "0 \<le> i" using assms(3) by simp
  from extend_contents_driver [OF assms(1,2) this assms(4,6), of w] show ?thesis
    using assms(3,5) by (auto simp: extend_measurements_to_rtmr_def map_replicate_const)
qed

theorem extend_ima_ignores_digests_witness:
  "\<exists>w'. extend_measurements_to_rtmr register_env (Some [''sha384:00ff'', ''sha1:17'', ''sha384:d2'']) 3
      \<lparr>kernel = (\<lambda>_. replicate 48 0), mem = (\<lambda>_. 0)\<rparr> = Inr w' \<and>
    kernel w' 3 = roll sha384 (replicate 48 0) [sha384 [], sha384 []]"
  using extend_ima_ignores_digests [OF register_env_ok, of 3 "[''sha384:00ff'', ''sha1:17'', ''sha384:d2'']"
      "\<lparr>kernel = (\<lambda>_. replicate 48 0), mem = (\<lambda>_. 0)\<rparr>"]
  by (simp add: is_sha384_def numeral_2_eq_2)

end
