(* ===== verification/Device_Node.thy ===== *)
theory Device_Node
  imports Py_Os
begin

text \<open>
  \<open>pytdxattest/utility.py\<close>: the guest device in its kernel variants, the requests for a TD
  report and a TD quote, the messages exchanged with the quote generation service, and the
  version table of the TDX module.
\<close>

section \<open>Constants\<close>

definition DEVICE_NODE_NAME_DEPRECATED :: string where
  "DEVICE_NODE_NAME_DEPRECATED = ''/dev/tdx-attest''"

definition DEVICE_NODE_NAME_1_0 :: string where
  "DEVICE_NODE_NAME_1_0 = ''/dev/tdx-guest''"

definition DEVICE_NODE_NAME_1_5 :: string where
  "DEVICE_NODE_NAME_1_5 = ''/dev/tdx_guest''"

definition TDX_CMD_GET_REPORT_V1_0 :: nat where
  "TDX_CMD_GET_REPORT_V1_0 = cmd_of 0x08c0 1"

definition TDX_CMD_GET_QUOTE_V1_0 :: nat where
  "TDX_CMD_GET_QUOTE_V1_0 = cmd_of 0x0880 2"

definition TDX_CMD_GET_REPORT0_V1_5 :: nat where
  "TDX_CMD_GET_REPORT0_V1_5 = cmd_of 0x40c4 1"

definition TCB_INFO_VALID_VAL_1_0 :: bytes where
  "TCB_INFO_VALID_VAL_1_0 = [0xff, 0x01, 0, 0, 0, 0, 0, 0]"

definition TCB_INFO_VALID_VAL_1_5 :: bytes where
  "TCB_INFO_VALID_VAL_1_5 = [0xff, 0x01, 0x03, 0, 0, 0, 0, 0]"

definition TDX_REPORTDATA_LEN :: nat where
  "TDX_REPORTDATA_LEN = 64"

definition TDX_REPORT_LEN :: nat where
  "TDX_REPORT_LEN = 1024"

definition TDX_QUOTE_LEN :: nat where
  "TDX_QUOTE_LEN = 4 * 4096"

section \<open>The device node\<close>

definition GET_TDREPORT :: string where
  "GET_TDREPORT = ''get tdreport''"

definition GET_TDQUOTE :: string where
  "GET_TDQUOTE = ''get tdquote''"

definition DEVICE_OPERATOR_MAPS :: "(string \<times> (string \<times> nat) list) list" where
  "DEVICE_OPERATOR_MAPS =
     [(DEVICE_NODE_NAME_1_0,
       [(GET_TDREPORT, TDX_CMD_GET_REPORT_V1_0), (GET_TDQUOTE, TDX_CMD_GET_QUOTE_V1_0)]),
      (DEVICE_NODE_NAME_1_5, [(GET_TDREPORT, TDX_CMD_GET_REPORT0_V1_5)])]"

text \<open>The buffers of the class are kept as addresses into the process memory.\<close>

record device_node =
  device_node_name :: "string option"
  operators :: "(string \<times> nat) list option"
  dn_tdreport :: "nat option"
  dn_reportdata :: "nat option"
  dn_tdquote :: "nat option"

fun first_existing :: "'k os_env \<Rightarrow> (string \<times> (string \<times> nat) list) list \<Rightarrow> (string \<times> (string \<times> nat) list) option" where
  "first_existing env [] = None"
| "first_existing env (dm # dms) =
     (if path_exists env (fst dm) then Some dm else first_existing env dms)"

definition determine_device_node :: "'k os_env \<Rightarrow> device_node \<Rightarrow> device_node" where
  "determine_device_node env self =
     (if path_exists env DEVICE_NODE_NAME_DEPRECATED then self
      else
        (let self = (case first_existing env DEVICE_OPERATOR_MAPS of
                       None \<Rightarrow> self
                     | Some dm \<Rightarrow> self\<lparr>device_node_name := Some (fst dm), operators := Some (snd dm)\<rparr>)
         in if device_node_name self = None then
              (case first_existing env DEVICE_OPERATOR_MAPS of
                 None \<Rightarrow> self
               | Some dm \<Rightarrow> self\<lparr>device_node_name := Some (fst dm), operators := Some (snd dm)\<rparr>)
            else self))"

definition DeviceNode :: "'k os_env \<Rightarrow> device_node" where
  "DeviceNode env =
     (determine_device_node env
        \<lparr>device_node_name = None, operators = None, dn_tdreport = None, dn_reportdata = None,
         dn_tdquote = None\<rparr>)
       \<lparr>dn_tdreport := None, dn_reportdata := None, dn_tdquote := None\<rparr>"

section \<open>The TD report request\<close>

definition REPORT_REQ_FORMAT :: "sfield list" where
  "REPORT_REQ_FORMAT = [UInt 1, PadBytes 7, UInt 8, UInt 8, UInt 8, UInt 8]"

text \<open>The request of the 1.0 device is an immutable byte string of two pointers into
  zeroed buffers, that of the 1.5 device a mutable array which the kernel fills.\<close>

definition create_tdx_report_req ::
  "'k os_env \<Rightarrow> device_node \<Rightarrow> bytes option \<Rightarrow> memory \<Rightarrow> (bytes option \<times> device_node \<times> memory) result" where
  "create_tdx_report_req env self report_data m =
     (let rd = (case report_data of None \<Rightarrow> [] | Some d \<Rightarrow> d) in
      if length rd > TDX_REPORTDATA_LEN then Inr (None, self, m)
      else if device_node_name self = Some DEVICE_NODE_NAME_1_0 then
        (let m = create_string_buffer m (addr_reportdata env) TDX_REPORTDATA_LEN;
             m = mem_write m (addr_reportdata env) rd;
             m = create_string_buffer m (addr_tdreport env) TDX_REPORT_LEN;
             self = self\<lparr>dn_reportdata := Some (addr_reportdata env), dn_tdreport := Some (addr_tdreport env)\<rparr>
         in rbind (struct_pack REPORT_REQ_FORMAT
                [SInt 0, SInt (int (addr_reportdata env)), SInt (int TDX_REPORTDATA_LEN),
                 SInt (int (addr_tdreport env)), SInt (int TDX_REPORT_LEN)]) (\<lambda>req.
            Inr (Some req, self, m)))
      else if device_node_name self = Some DEVICE_NODE_NAME_1_5 then
        (let req = replicate (TDX_REPORTDATA_LEN + TDX_REPORT_LEN) 0
         in Inr (Some (py_slice_assign req 0 (length rd) rd), self, m))
      else Inr (None, self, m))"

definition get_tdreport_bytes_from_req :: "device_node \<Rightarrow> bytes \<Rightarrow> memory \<Rightarrow> bytes option result" where
  "get_tdreport_bytes_from_req self req m =
     (if device_node_name self = Some DEVICE_NODE_NAME_1_0 then
        rbind (struct_unpack REPORT_REQ_FORMAT req) (\<lambda>parts.
        Inr (Some (mem_read m (nat_of (parts ! 3)) TDX_REPORT_LEN)))
      else if device_node_name self = Some DEVICE_NODE_NAME_1_5 then
        Inr (Some (drop TDX_REPORTDATA_LEN req))
      else Inr None)"

definition get_tdreport_bytes ::
  "'k os_env \<Rightarrow> device_node \<Rightarrow> bytes option \<Rightarrow> 'k world \<Rightarrow>
   (bytes option \<times> device_node \<times> 'k world) result" where
  "get_tdreport_bytes env self report_data w =
     (case (device_node_name self, operators self) of
        (Some name, Some ops) \<Rightarrow>
          rbind (key_of ops GET_TDREPORT) (\<lambda>operator.
          if \<not> can_open env name then Inr (None, self, w)
          else
            rbind (create_tdx_report_req env self report_data (mem w)) (\<lambda>(req, self, m).
            case req of
              None \<Rightarrow> Inl TypeError
            | Some req \<Rightarrow>
                (case ioctl env (kernel w) name operator req m of
                   (k, None) \<Rightarrow> Inr (None, self, w\<lparr>kernel := k, mem := m\<rparr>)
                 | (k, Some (arg, m)) \<Rightarrow>
                     (let req = (if name = DEVICE_NODE_NAME_1_5 then arg else req) in
                      rbind (get_tdreport_bytes_from_req self req m) (\<lambda>report.
                      Inr (report, self, w\<lparr>kernel := k, mem := m\<rparr>))))))
      | _ \<Rightarrow> Inr (None, self, w))"

section \<open>The TD quote request\<close>

definition qgs_format :: "nat \<Rightarrow> sfield list" where
  "qgs_format n = [UInt 2, UInt 2, UInt 4, UInt 4, UInt 4, UInt 4, UInt 4, RawBytes n]"

definition qgs_msg_quote_req :: "bytes \<Rightarrow> bytes result" where
  "qgs_msg_quote_req tdreport =
     (let report_size = length tdreport;
          msg_size = 16 + 8 + report_size
      in struct_pack (qgs_format report_size)
           [SInt 1, SInt 0, SInt 0, SInt (int msg_size), SInt 0, SInt (int report_size), SInt 0,
            SBytes tdreport])"

definition qgs_msg_quote_resp :: "bytes \<Rightarrow> bytes option result" where
  "qgs_msg_quote_resp buf =
     (if length buf < 16 + 8 then Inl StructError
      else
        rbind (struct_unpack (qgs_format (length buf - (16 + 8))) buf) (\<lambda>vs.
        let major_version = int_of (vs ! 0); minor_version = int_of (vs ! 1);
            msg_type = int_of (vs ! 2); error_code = int_of (vs ! 4);
            quote_size = nat_of (vs ! 6); quote = bytes_of (vs ! 7)
        in if major_version \<noteq> 1 \<and> minor_version \<noteq> 0 \<and> msg_type \<noteq> 1 \<and> error_code \<noteq> 0
           then Inr None else Inr (Some (take quote_size quote))))"

definition quote_hdr_format :: "nat \<Rightarrow> sfield list" where
  "quote_hdr_format n = [UInt 8, UInt 8, UInt 4, UInt 4, RawBytes 4, RawBytes n]"

definition create_tdx_quote_req ::
  "'k os_env \<Rightarrow> device_node \<Rightarrow> bytes \<Rightarrow> memory \<Rightarrow> (bytes option \<times> device_node \<times> memory) result" where
  "create_tdx_quote_req env self tdreport m =
     (let report_size = length tdreport in
      rbind (qgs_msg_quote_req tdreport) (\<lambda>qgs_msg.
      let in_len = length qgs_msg + 4 in
      if device_node_name self = Some DEVICE_NODE_NAME_1_0 then
        rbind (struct_pack (quote_hdr_format report_size)
                 [SInt 1, SInt 0, SInt (int in_len), SInt 0,
                  SBytes (be_bytes 4 (length qgs_msg)), SBytes qgs_msg]) (\<lambda>tdquote_hdr.
        if length tdquote_hdr > TDX_QUOTE_LEN then Inl ValueError
        else
          (let m = create_string_buffer m (addr_tdquote env) TDX_QUOTE_LEN;
               m = mem_write m (addr_tdquote env) tdquote_hdr
           in rbind (struct_pack [UInt 8, UInt 8] [SInt (int (addr_tdquote env)), SInt (int TDX_QUOTE_LEN)])
                (\<lambda>req. Inr (Some req, self\<lparr>dn_tdquote := Some (addr_tdquote env)\<rparr>, m))))
      else Inr (None, self, m)))"

definition get_tdquote_bytes_from_req :: "device_node \<Rightarrow> bytes \<Rightarrow> memory \<Rightarrow> bytes option result" where
  "get_tdquote_bytes_from_req self req m =
     (if device_node_name self = Some DEVICE_NODE_NAME_1_0 then
        rbind (struct_unpack [UInt 8, UInt 8] req) (\<lambda>parts.
        let buf_addr = nat_of (parts ! 0); buf_len = nat_of (parts ! 1);
            buf = mem_read m buf_addr buf_len
        in if buf_len < 24 then Inl StructError
           else
             rbind (struct_unpack [UInt 8, UInt 8, UInt 4, UInt 4, RawBytes (buf_len - 24)] buf) (\<lambda>vs.
             let out_len = int_of (vs ! 3); data = bytes_of (vs ! 4);
                 data_len = int (be_val (take 4 data))
             in if data_len \<noteq> out_len - 4 then Inr None
                else qgs_msg_quote_resp (drop 4 data)))
      else Inr None)"

definition get_tdquote_bytes ::
  "'k os_env \<Rightarrow> device_node \<Rightarrow> bytes option \<Rightarrow> 'k world \<Rightarrow>
   (bytes option \<times> device_node \<times> 'k world) result" where
  "get_tdquote_bytes env self report_data w =
     rbind (get_tdreport_bytes env self report_data w) (\<lambda>(tdreport, self, w).
     case tdreport of
       None \<Rightarrow> Inr (None, self, w)
     | Some tdreport \<Rightarrow>
         rbind (create_tdx_quote_req env self tdreport (mem w)) (\<lambda>(tdquote_req, self, m).
         let w = w\<lparr>mem := m\<rparr> in
         case (device_node_name self, operators self) of
           (Some name, Some ops) \<Rightarrow>
             if \<not> can_open env name then Inr (None, self, w)
             else
               rbind (key_of ops GET_TDQUOTE) (\<lambda>operator.
               case tdquote_req of
                 None \<Rightarrow> Inl TypeError
               | Some req \<Rightarrow>
                   (case ioctl env (kernel w) name operator req (mem w) of
                      (k, None) \<Rightarrow> Inr (None, self, w\<lparr>kernel := k\<rparr>)
                    | (k, Some (_, m)) \<Rightarrow>
                        rbind (get_tdquote_bytes_from_req self req m) (\<lambda>quote.
                        Inr (quote, self, w\<lparr>kernel := k, mem := m\<rparr>))))
         | _ \<Rightarrow> Inl TypeError))"

definition get_tee_tcb_info_valid_val :: "device_node \<Rightarrow> bytes" where
  "get_tee_tcb_info_valid_val self =
     (if device_node_name self = Some DEVICE_NODE_NAME_DEPRECATED then [0]
      else if device_node_name self = Some DEVICE_NODE_NAME_1_0 then TCB_INFO_VALID_VAL_1_0
      else if device_node_name self = Some DEVICE_NODE_NAME_1_5 then TCB_INFO_VALID_VAL_1_5
      else [0])"

section \<open>The module version\<close>

record module_version =
  release_names :: "string list"
  major :: nat
  minor :: nat
  is_debug :: bool

definition VALID_SVN_LENGTH :: nat where
  "VALID_SVN_LENGTH = 16"

definition VALID_MODULE_VERSIONS :: "module_version list" where
  "VALID_MODULE_VERSIONS =
     [\<lparr>release_names = [''1.0''], major = 0, minor = 0, is_debug = True\<rparr>,
      \<lparr>release_names = [''1.0''], major = 0, minor = 3, is_debug = False\<rparr>,
      \<lparr>release_names = [''1.4'', ''1.5''], major = 1, minor = 0, is_debug = True\<rparr>,
      \<lparr>release_names = [''1.4'', ''1.5''], major = 1, minor = 3, is_debug = False\<rparr>,
      \<lparr>release_names = [''2.0''], major = 2, minor = 0, is_debug = True\<rparr>,
      \<lparr>release_names = [''2.0''], major = 2, minor = 3, is_debug = False\<rparr>]"

definition version_to_hex :: "module_version \<Rightarrow> nat" where
  "version_to_hex self = major self * 16 * 16 + minor self"

text \<open>\<open>int.to_bytes(2, 'little')\<close> raises when the number does not fit.\<close>

fun find_version :: "module_version list \<Rightarrow> bytes \<Rightarrow> module_version option result" where
  "find_version [] version_bytes = Inr None"
| "find_version (v # vs) version_bytes =
     (if version_to_hex v \<ge> 256 ^ 2 then Inl OverflowError
      else if le_bytes 2 (version_to_hex v) = version_bytes then Inr (Some v)
      else find_version vs version_bytes)"

definition version_from_bytes :: "bytes \<Rightarrow> (module_version option \<times> bool) result" where
  "version_from_bytes tee_tcb_svn =
     (if length tee_tcb_svn \<noteq> VALID_SVN_LENGTH then Inr (None, False)
      else
        rbind (find_version VALID_MODULE_VERSIONS (py_slice tee_tcb_svn 0 2)) (\<lambda>r.
        Inr (r, r \<noteq> None)))"

fun join_with :: "string \<Rightarrow> string list \<Rightarrow> string" where
  "join_with sep [] = ''''"
| "join_with sep [s] = s"
| "join_with sep (s # ss) = s @ sep @ join_with sep ss"

definition version_str :: "module_version \<Rightarrow> string" where
  "version_str self =
     ''module version: { '' @ ''release_names: '' @ join_with '' or '' (release_names self) @ '','' @
     ''major: '' @ fmt_dec (int (major self)) @ '','' @ ''minor: '' @ fmt_dec (int (minor self)) @ '','' @
     ''is_debug: '' @ (if is_debug self then ''True'' else ''False'') @ '' }''"

section \<open>Choosing the device\<close>

lemma device_names_distinct [simp]:
  "DEVICE_NODE_NAME_1_0 \<noteq> DEVICE_NODE_NAME_DEPRECATED" "DEVICE_NODE_NAME_1_5 \<noteq> DEVICE_NODE_NAME_DEPRECATED"
  "DEVICE_NODE_NAME_1_0 \<noteq> DEVICE_NODE_NAME_1_5" "DEVICE_NODE_NAME_1_5 \<noteq> DEVICE_NODE_NAME_1_0"
  "DEVICE_NODE_NAME_DEPRECATED \<noteq> DEVICE_NODE_NAME_1_0" "DEVICE_NODE_NAME_DEPRECATED \<noteq> DEVICE_NODE_NAME_1_5"
  by (simp_all add: DEVICE_NODE_NAME_1_0_def DEVICE_NODE_NAME_1_5_def DEVICE_NODE_NAME_DEPRECATED_def)

lemma request_numbers:
  "TDX_CMD_GET_REPORT_V1_0 = 0xC0085401" "TDX_CMD_GET_QUOTE_V1_0 = 0x80085402"
  "TDX_CMD_GET_REPORT0_V1_5 = 0xC4405401"
  by (simp_all add: TDX_CMD_GET_REPORT_V1_0_def TDX_CMD_GET_QUOTE_V1_0_def TDX_CMD_GET_REPORT0_V1_5_def cmd_of_eq)

definition fresh_node :: "string \<Rightarrow> (string \<times> nat) list \<Rightarrow> device_node" where
  "fresh_node name ops =
     \<lparr>device_node_name = Some name, operators = Some ops, dn_tdreport = None, dn_reportdata = None, dn_tdquote = None\<rparr>"

definition no_node :: device_node where
  "no_node = \<lparr>device_node_name = None, operators = None, dn_tdreport = None, dn_reportdata = None, dn_tdquote = None\<rparr>"

lemma DeviceNode_eq:
  "DeviceNode env =
     (if path_exists env DEVICE_NODE_NAME_DEPRECATED then no_node
      else if path_exists env DEVICE_NODE_NAME_1_0 then
        fresh_node DEVICE_NODE_NAME_1_0
          [(GET_TDREPORT, TDX_CMD_GET_REPORT_V1_0), (GET_TDQUOTE, TDX_CMD_GET_QUOTE_V1_0)]
      else if path_exists env DEVICE_NODE_NAME_1_5 then
        fresh_node DEVICE_NODE_NAME_1_5 [(GET_TDREPORT, TDX_CMD_GET_REPORT0_V1_5)]
      else no_node)"
  by (simp add: DeviceNode_def determine_device_node_def DEVICE_OPERATOR_MAPS_def fresh_node_def
      no_node_def Let_def)

section \<open>The TD report, against the contract of the kernel driver\<close>

definition padded :: "bytes \<Rightarrow> bytes" where
  "padded rd = rd @ replicate (TDX_REPORTDATA_LEN - length rd) 0"

text \<open>
  What the guest driver documents, for the report \<open>rep d\<close> that the TDX module makes from
  64 bytes of report data: the 1.0 request holds a pointer to the report data (offset 8) and
  one to the report (offset 24); the 1.5 request holds both in place.
\<close>

definition tdx_driver :: "'k os_env \<Rightarrow> (bytes \<Rightarrow> bytes) \<Rightarrow> bool" where
  "tdx_driver env rep \<longleftrightarrow>
     (\<forall>d. length (rep d) = TDX_REPORT_LEN) \<and>
     (\<forall>k req m. ioctl env k DEVICE_NODE_NAME_1_0 TDX_CMD_GET_REPORT_V1_0 req m =
        (k, Some (req, mem_write m (le_val (py_slice req 24 32))
                         (rep (mem_read m (le_val (py_slice req 8 16)) TDX_REPORTDATA_LEN))))) \<and>
     (\<forall>k req m. ioctl env k DEVICE_NODE_NAME_1_5 TDX_CMD_GET_REPORT0_V1_5 req m =
        (k, Some (take TDX_REPORTDATA_LEN req @ rep (take TDX_REPORTDATA_LEN req), m)))"

text \<open>Two live buffers of the process do not overlap, and an address is 64 bits wide.\<close>

definition buffers_apart :: "'k os_env \<Rightarrow> bool" where
  "buffers_apart env \<longleftrightarrow>
     addr_reportdata env < 256 ^ 8 \<and> addr_tdreport env < 256 ^ 8 \<and>
     (addr_reportdata env + TDX_REPORTDATA_LEN \<le> addr_tdreport env \<or>
      addr_tdreport env + TDX_REPORT_LEN \<le> addr_reportdata env)"

lemma length_padded: "length rd \<le> TDX_REPORTDATA_LEN \<Longrightarrow> length (padded rd) = TDX_REPORTDATA_LEN"
  by (simp add: padded_def)

lemma mem_read_report_data:
  "length rd \<le> TDX_REPORTDATA_LEN \<Longrightarrow>
     mem_read (mem_write (create_string_buffer m a TDX_REPORTDATA_LEN) a rd) a TDX_REPORTDATA_LEN = padded rd"
  by (simp add: mem_read_write_prefix create_string_buffer_def padded_def)

lemma pack_report_req:
  assumes "a < 256 ^ 8" and "b < 256 ^ 8"
  shows "struct_pack REPORT_REQ_FORMAT [SInt 0, SInt (int a), SInt (int TDX_REPORTDATA_LEN), SInt (int b),
           SInt (int TDX_REPORT_LEN)] =
    Inr (le_bytes 1 0 @ replicate 7 0 @ le_bytes 8 a @ le_bytes 8 TDX_REPORTDATA_LEN @ le_bytes 8 b @
         le_bytes 8 TDX_REPORT_LEN)"
  using assms by (simp add: REPORT_REQ_FORMAT_def TDX_REPORTDATA_LEN_def TDX_REPORT_LEN_def)

lemma report_req_pointers:
  fixes a b :: nat
  assumes "a < 256 ^ 8" and "b < 256 ^ 8"
    and "req = le_bytes 1 0 @ replicate 7 0 @ le_bytes 8 a @ le_bytes 8 n @ le_bytes 8 b @ le_bytes 8 k"
  shows "le_val (py_slice req 8 16) = a" and "le_val (py_slice req 24 32) = b" and "length req = 40"
    and "struct_unpack REPORT_REQ_FORMAT req = Inr (unpack_fields REPORT_REQ_FORMAT req)"
    and "nat_of (unpack_fields REPORT_REQ_FORMAT req ! 3) = b"
proof -
  show "le_val (py_slice req 8 16) = a"
    using assms le.read_at [of a 8 "le_bytes 1 0 @ replicate 7 0" 8 16] by simp
  show "le_val (py_slice req 24 32) = b"
    using assms le.read_at [of b 8 "le_bytes 1 0 @ replicate 7 0 @ le_bytes 8 a @ le_bytes 8 n" 24 32] by simp
  show "length req = 40" using assms(3) by simp
  then show "struct_unpack REPORT_REQ_FORMAT req = Inr (unpack_fields REPORT_REQ_FORMAT req)"
    by (simp add: REPORT_REQ_FORMAT_def)
  show "nat_of (unpack_fields REPORT_REQ_FORMAT req ! 3) = b"
    using assms by (simp add: REPORT_REQ_FORMAT_def drop_append)
qed

lemma get_tdreport_bytes_1_5:
  assumes "tdx_driver env rep" and "can_open env DEVICE_NODE_NAME_1_5" and "length rd \<le> TDX_REPORTDATA_LEN"
    and "self = fresh_node DEVICE_NODE_NAME_1_5 [(GET_TDREPORT, TDX_CMD_GET_REPORT0_V1_5)]"
  shows "get_tdreport_bytes env self (Some rd) w = Inr (Some (rep (padded rd)), self, w)"
proof -
  let ?req = "py_slice_assign (replicate (TDX_REPORTDATA_LEN + TDX_REPORT_LEN) 0) 0 (length rd) rd"
  have "?req = padded rd @ replicate TDX_REPORT_LEN 0"
    using assms(3) by (simp add: py_slice_assign_def padded_def replicate_add [symmetric])
  then have "take TDX_REPORTDATA_LEN ?req = padded rd"
    using length_padded [OF assms(3)] by simp
  then show ?thesis
    using assms length_padded [OF assms(3)]
    by (simp add: get_tdreport_bytes_def fresh_node_def create_tdx_report_req_def key_of_def
        tdx_driver_def get_tdreport_bytes_from_req_def Let_def)
qed

lemma get_tdreport_bytes_1_0:
  assumes "tdx_driver env rep" and "can_open env DEVICE_NODE_NAME_1_0" and "length rd \<le> TDX_REPORTDATA_LEN"
    and "buffers_apart env"
    and "self = fresh_node DEVICE_NODE_NAME_1_0 ((GET_TDREPORT, TDX_CMD_GET_REPORT_V1_0) # ops)"
  shows "\<exists>m. get_tdreport_bytes env self (Some rd) w =
    Inr (Some (rep (padded rd)),
         self\<lparr>dn_reportdata := Some (addr_reportdata env), dn_tdreport := Some (addr_tdreport env)\<rparr>,
         w\<lparr>mem := m\<rparr>)"
proof -
  let ?a = "addr_reportdata env" and ?b = "addr_tdreport env"
  have ab: "?a < 256 ^ 8" "?b < 256 ^ 8"
    using assms(4) by (simp_all add: buffers_apart_def)
  define req where "req = le_bytes 1 0 @ replicate 7 0 @ le_bytes 8 ?a @ le_bytes 8 TDX_REPORTDATA_LEN @
    le_bytes 8 ?b @ le_bytes 8 TDX_REPORT_LEN"
  define m1 where "m1 = mem_write (create_string_buffer (mem w) ?a TDX_REPORTDATA_LEN) ?a rd"
  define m2 where "m2 = create_string_buffer m1 ?b TDX_REPORT_LEN"
  note ptrs = report_req_pointers [OF ab req_def]
  have "mem_read m2 ?a TDX_REPORTDATA_LEN = padded rd"
    using assms(3,4) mem_read_report_data
    by (auto simp: m2_def m1_def create_string_buffer_def [of _ ?b] mem_read_write_other buffers_apart_def)
  then have "ioctl env (kernel w) DEVICE_NODE_NAME_1_0 TDX_CMD_GET_REPORT_V1_0 req m2 =
      (kernel w, Some (req, mem_write m2 ?b (rep (padded rd))))"
    using assms(1) by (simp add: tdx_driver_def ptrs)
  moreover have "create_tdx_report_req env self (Some rd) (mem w) =
      Inr (Some req, self\<lparr>dn_reportdata := Some ?a, dn_tdreport := Some ?b\<rparr>, m2)"
    using assms(3,5) pack_report_req [OF ab]
    by (simp add: create_tdx_report_req_def fresh_node_def req_def m2_def m1_def Let_def)
  moreover have "length (rep (padded rd)) = TDX_REPORT_LEN"
    using assms(1) by (simp add: tdx_driver_def)
  ultimately show ?thesis
    using assms(2,5) ptrs
    by (auto simp: get_tdreport_bytes_def fresh_node_def key_of_def get_tdreport_bytes_from_req_def
        simp del: struct_unpack_Inr_iff)
qed

definition report_data_of :: "bytes option \<Rightarrow> bytes" where
  "report_data_of r = (case r of None \<Rightarrow> [] | Some d \<Rightarrow> d)"

lemma get_tdreport_bytes_None:
  "get_tdreport_bytes env self None w = get_tdreport_bytes env self (Some []) w"
proof -
  have "create_tdx_report_req env self None = create_tdx_report_req env self (Some [])"
    by (simp add: create_tdx_report_req_def fun_eq_iff)
  then show ?thesis unfolding get_tdreport_bytes_def by (simp only:)
qed

lemma get_tdreport_bytes_ok:
  assumes "tdx_driver env rep" and "device_node_name (DeviceNode env) = Some name" and "can_open env name"
    and "length (report_data_of rd) \<le> TDX_REPORTDATA_LEN" and "buffers_apart env"
  shows "\<exists>dn m. get_tdreport_bytes env (DeviceNode env) rd w =
      Inr (Some (rep (padded (report_data_of rd))), dn, w\<lparr>mem := m\<rparr>) \<and>
    device_node_name dn = Some name \<and> operators dn = operators (DeviceNode env)"
proof -
  have rd: "get_tdreport_bytes env (DeviceNode env) rd w =
      get_tdreport_bytes env (DeviceNode env) (Some (report_data_of rd)) w"
    by (cases rd) (simp_all add: report_data_of_def get_tdreport_bytes_None)
  show ?thesis
  proof (cases "path_exists env DEVICE_NODE_NAME_1_0")
    case True
    then have "name = DEVICE_NODE_NAME_1_0" and dn: "DeviceNode env = fresh_node DEVICE_NODE_NAME_1_0
        [(GET_TDREPORT, TDX_CMD_GET_REPORT_V1_0), (GET_TDQUOTE, TDX_CMD_GET_QUOTE_V1_0)]"
      using assms(2) by (auto simp: DeviceNode_eq no_node_def fresh_node_def split: if_splits)
    then show ?thesis
      using get_tdreport_bytes_1_0 [OF assms(1) _ assms(4,5) dn, of w] assms(3) rd
      by (auto simp: dn) (auto simp: fresh_node_def)
  next
    case False
    then have "name = DEVICE_NODE_NAME_1_5" and dn: "DeviceNode env = fresh_node DEVICE_NODE_NAME_1_5
        [(GET_TDREPORT, TDX_CMD_GET_REPORT0_V1_5)]"
      using assms(2) by (auto simp: DeviceNode_eq no_node_def fresh_node_def split: if_splits)
    then show ?thesis
      using get_tdreport_bytes_1_5 [OF assms(1) _ assms(4) dn, of w] assms(3) rd
      by (auto simp: dn intro!: exI [of _ "mem w"]) (auto simp: fresh_node_def)
  qed
qed

text \<open>C9: with a guest driver that keeps its contract, asking the device that the package
  chose for a TD report returns the report that the TDX module makes for the given report data,
  padded with zeros to 64 bytes, on the 1.0 device (through two pointers) and on the 1.5
  device (in place) alike.\<close>

theorem get_tdreport_bytes_correct:
  assumes "tdx_driver env rep" and "device_node_name (DeviceNode env) = Some name" and "can_open env name"
    and "length (report_data_of rd) \<le> TDX_REPORTDATA_LEN" and "buffers_apart env"
  shows "\<exists>dn m. get_tdreport_bytes env (DeviceNode env) rd w =
      Inr (Some (rep (padded (report_data_of rd))), dn, w\<lparr>mem := m\<rparr>)"
  using get_tdreport_bytes_ok [OF assms] by blast

text \<open>A driver that keeps the contract, for both devices.\<close>

definition driver_ioctl ::
  "(bytes \<Rightarrow> bytes) \<Rightarrow> unit \<Rightarrow> string \<Rightarrow> nat \<Rightarrow> bytes \<Rightarrow> memory \<Rightarrow> unit \<times> (bytes \<times> memory) option" where
  "driver_ioctl rep k dev cmd req m =
     (k, if dev = DEVICE_NODE_NAME_1_0 \<and> cmd = TDX_CMD_GET_REPORT_V1_0
         then Some (req, mem_write m (le_val (py_slice req 24 32))
                           (rep (mem_read m (le_val (py_slice req 8 16)) TDX_REPORTDATA_LEN)))
         else if dev = DEVICE_NODE_NAME_1_5 \<and> cmd = TDX_CMD_GET_REPORT0_V1_5
         then Some (take TDX_REPORTDATA_LEN req @ rep (take TDX_REPORTDATA_LEN req), m)
         else None)"

definition driver_env :: "(bytes \<Rightarrow> bytes) \<Rightarrow> string list \<Rightarrow> (string \<times> bytes) list \<Rightarrow> unit os_env" where
  "driver_env rep devs files =
     \<lparr>path_exists = (\<lambda>p. p \<in> set devs \<or> p \<in> fst ` set files), file_content = map_of files,
      can_open = (\<lambda>p. p \<in> set devs), ioctl = driver_ioctl rep,
      addr_reportdata = 0x1000, addr_tdreport = 0x2000, addr_tdquote = 0x3000\<rparr>"

lemma driver_env_ok:
  "(\<And>d. length (rep d) = TDX_REPORT_LEN) \<Longrightarrow> tdx_driver (driver_env rep devs files) rep"
  "buffers_apart (driver_env rep devs files)"
  by (simp_all add: tdx_driver_def driver_env_def driver_ioctl_def buffers_apart_def
      TDX_REPORTDATA_LEN_def TDX_REPORT_LEN_def)

definition echo_report :: "bytes \<Rightarrow> bytes" where
  "echo_report d = take TDX_REPORT_LEN (replicate 0x80 0 @ d @ replicate TDX_REPORT_LEN 0)"

lemma length_echo_report [simp]: "length (echo_report d) = TDX_REPORT_LEN"
  by (simp add: echo_report_def)

theorem get_tdreport_bytes_correct_witness:
  "\<exists>dn m. get_tdreport_bytes (driver_env echo_report [DEVICE_NODE_NAME_1_0] [])
        (DeviceNode (driver_env echo_report [DEVICE_NODE_NAME_1_0] [])) (Some [1, 2])
        \<lparr>kernel = (), mem = (\<lambda>_. 0)\<rparr> =
      Inr (Some (echo_report (padded [1, 2])), dn, \<lparr>kernel = (), mem = m\<rparr>)"
proof -
  let ?env = "driver_env echo_report [DEVICE_NODE_NAME_1_0] []"
  have name: "device_node_name (DeviceNode ?env) = Some DEVICE_NODE_NAME_1_0"
    by (simp add: DeviceNode_eq driver_env_def fresh_node_def)
  have opn: "can_open ?env DEVICE_NODE_NAME_1_0"
    by (simp add: driver_env_def)
  have len: "length (report_data_of (Some [1, 2])) \<le> TDX_REPORTDATA_LEN"
    by (simp add: report_data_of_def TDX_REPORTDATA_LEN_def)
  show ?thesis
    using get_tdreport_bytes_correct [OF driver_env_ok(1) name opn len driver_env_ok(2),
        of "\<lparr>kernel = (), mem = (\<lambda>_. 0)\<rparr>"]
    by (simp add: report_data_of_def)
qed

text \<open>without a usable device asking for a TD report returns no report and changes
  nothing; with one, report data of more than 64 bytes raises a \<open>TypeError\<close>, because the missing
  request is passed on to \<open>ioctl\<close>.\<close>

theorem get_tdreport_bytes_failures:
  assumes "device_node_name (DeviceNode env) = None \<or> \<not> can_open env (the (device_node_name (DeviceNode env))) \<or>
    TDX_REPORTDATA_LEN < length (report_data_of rd)"
  shows "get_tdreport_bytes env (DeviceNode env) rd w =
    (if device_node_name (DeviceNode env) \<noteq> None \<and> can_open env (the (device_node_name (DeviceNode env)))
     then Inl TypeError else Inr (None, DeviceNode env, w))"
  using assms
  by (auto simp: get_tdreport_bytes_def DeviceNode_eq no_node_def fresh_node_def key_of_def
      create_tdx_report_req_def report_data_of_def Let_def split: option.splits)

theorem get_tdreport_bytes_failures_witness:
  "get_tdreport_bytes (driver_env echo_report [] []) (DeviceNode (driver_env echo_report [] [])) None
      \<lparr>kernel = (), mem = (\<lambda>_. 0)\<rparr> =
     Inr (None, no_node, \<lparr>kernel = (), mem = (\<lambda>_. 0)\<rparr>) \<and>
   get_tdreport_bytes (driver_env echo_report [DEVICE_NODE_NAME_1_5] [])
      (DeviceNode (driver_env echo_report [DEVICE_NODE_NAME_1_5] [])) (Some (replicate 65 0))
      \<lparr>kernel = (), mem = (\<lambda>_. 0)\<rparr> = Inl TypeError"
  using get_tdreport_bytes_failures [of "driver_env echo_report [] []" None]
    get_tdreport_bytes_failures [of "driver_env echo_report [DEVICE_NODE_NAME_1_5] []" "Some (replicate 65 0)"]
  by (simp add: DeviceNode_eq driver_env_def no_node_def fresh_node_def report_data_of_def TDX_REPORTDATA_LEN_def)

section \<open>The TD quote\<close>

definition qgs_hdr :: "nat \<Rightarrow> bytes" where
  "qgs_hdr n = le_bytes 2 1 @ le_bytes 2 0 @ le_bytes 4 0 @ le_bytes 4 (24 + n) @ le_bytes 4 0 @
     le_bytes 4 n @ le_bytes 4 0"

lemma qgs_msg_quote_req_eq:
  assumes "24 + length report < 256 ^ 4"
  shows "qgs_msg_quote_req report = Inr (qgs_hdr (length report) @ report)"
proof -
  have "int (length report) < 4294967296" "24 + int (length report) < 4294967296"
    using assms by simp_all
  then show ?thesis
    by (simp add: qgs_msg_quote_req_def qgs_format_def qgs_hdr_def Let_def nat_add_distrib)
qed

lemma length_qgs_hdr [simp]: "length (qgs_hdr n) = 24"
  by (simp add: qgs_hdr_def)

text \<open>The quote buffer that a request leaves in memory.\<close>

definition quote_buffer :: "bytes \<Rightarrow> bytes" where
  "quote_buffer report =
     le_bytes 8 1 @ le_bytes 8 0 @ le_bytes 4 (28 + length report) @ le_bytes 4 0 @
     be_bytes 4 (24 + length report) @ qgs_hdr (length report) @ take (length report - 24) report"

lemma create_tdx_quote_req_buffer:
  assumes "device_node_name self = Some DEVICE_NODE_NAME_1_0" and "addr_tdquote env < 256 ^ 8"
    and "24 \<le> length report" and "28 + length report \<le> TDX_QUOTE_LEN"
  shows "\<exists>self' m'. create_tdx_quote_req env self report m =
      Inr (Some (le_bytes 8 (addr_tdquote env) @ le_bytes 8 TDX_QUOTE_LEN), self', m') \<and>
    self' = self\<lparr>dn_tdquote := Some (addr_tdquote env)\<rparr> \<and>
    mem_read m' (addr_tdquote env) TDX_QUOTE_LEN =
      quote_buffer report @ replicate (TDX_QUOTE_LEN - length (quote_buffer report)) 0 \<and>
    length (quote_buffer report) = 28 + length report"
proof -
  let ?n = "length report"
  have n: "?n \<le> 16356" and msg: "qgs_msg_quote_req report = Inr (qgs_hdr ?n @ report)"
    using assms(4) by (simp_all add: TDX_QUOTE_LEN_def qgs_msg_quote_req_eq)
  have len: "length (quote_buffer report) = 28 + ?n"
    using assms(3) by (simp add: quote_buffer_def)
  have "int ?n < 4294967268" using n by simp
  then have hdr: "struct_pack (quote_hdr_format ?n)
      [SInt 1, SInt 0, SInt (int (24 + ?n + 4)), SInt 0, SBytes (be_bytes 4 (24 + ?n)),
       SBytes (qgs_hdr ?n @ report)] = Inr (quote_buffer report)"
    using assms(3)
    by (simp add: quote_hdr_format_def quote_buffer_def nat_add_distrib algebra_simps)
  have "struct_pack [UInt 8, UInt 8] [SInt (int (addr_tdquote env)), SInt (int TDX_QUOTE_LEN)] =
      Inr (le_bytes 8 (addr_tdquote env) @ le_bytes 8 TDX_QUOTE_LEN)"
    using assms(2) by (simp add: TDX_QUOTE_LEN_def)
  then show ?thesis
    using assms(1,4) msg hdr len
    by (simp add: create_tdx_quote_req_def Let_def mem_read_write_prefix create_string_buffer_def)
qed

text \<open>C19: the quote request of the 1.0 device announces the whole message to the quote
  generation service (24 bytes of header and the report) but copies only as many bytes as the report
  has, so the last 24 bytes of the report are missing from the buffer, which is zero from there
  on.\<close>

theorem create_tdx_quote_req_truncates:
  assumes "device_node_name self = Some DEVICE_NODE_NAME_1_0" and "addr_tdquote env < 256 ^ 8"
    and "24 \<le> length report" and "28 + length report \<le> TDX_QUOTE_LEN"
  shows "\<exists>self' m'. create_tdx_quote_req env self report m =
      Inr (Some (le_bytes 8 (addr_tdquote env) @ le_bytes 8 TDX_QUOTE_LEN), self', m') \<and>
    mem_read m' (addr_tdquote env) TDX_QUOTE_LEN =
      quote_buffer report @ replicate (TDX_QUOTE_LEN - length (quote_buffer report)) 0 \<and>
    length (quote_buffer report) = 28 + length report"
  using create_tdx_quote_req_buffer [OF assms, of m] by blast

theorem create_tdx_quote_req_truncates_witness:
  "let env = driver_env echo_report [DEVICE_NODE_NAME_1_0] []; report = replicate 1000 0 @ replicate 24 7 in
   \<exists>self' m'. create_tdx_quote_req env (DeviceNode env) report (\<lambda>_. 0) =
      Inr (Some (le_bytes 8 0x3000 @ le_bytes 8 TDX_QUOTE_LEN), self', m') \<and>
    mem_read m' 0x3000 TDX_QUOTE_LEN =
      quote_buffer (replicate 1024 0) @ replicate (TDX_QUOTE_LEN - 1052) 0"
proof -
  let ?env = "driver_env echo_report [DEVICE_NODE_NAME_1_0] []" and ?r = "replicate 1000 0 @ replicate 24 7 :: bytes"
  have name: "device_node_name (DeviceNode ?env) = Some DEVICE_NODE_NAME_1_0" and addr: "addr_tdquote ?env = 0x3000"
    by (simp_all add: DeviceNode_eq driver_env_def fresh_node_def)
  have "quote_buffer ?r = quote_buffer (replicate 1024 0)" and "length (quote_buffer (replicate 1024 0)) = 1052"
    by (simp_all add: quote_buffer_def)
  then show ?thesis
    using create_tdx_quote_req_truncates [OF name, of ?env ?r "\<lambda>_. 0"]
    by (simp add: addr TDX_QUOTE_LEN_def Let_def)
qed

text \<open>A response of the quote generation service: major and minor version, type, size, error code,
  size of the selected id, size of the quote, and the rest of the buffer.\<close>

record qgs_resp =
  q_major :: nat
  q_minor :: nat
  q_type :: nat
  q_size :: nat
  q_error :: nat
  q_id_size :: nat
  q_quote_size :: nat
  q_payload :: bytes

definition enc_resp :: "qgs_resp \<Rightarrow> bytes" where
  "enc_resp q = le_bytes 2 (q_major q) @ le_bytes 2 (q_minor q) @ le_bytes 4 (q_type q) @
     le_bytes 4 (q_size q) @ le_bytes 4 (q_error q) @ le_bytes 4 (q_id_size q) @
     le_bytes 4 (q_quote_size q) @ q_payload q"

definition wf_resp :: "qgs_resp \<Rightarrow> bool" where
  "wf_resp q \<longleftrightarrow> q_major q < 256 ^ 2 \<and> q_minor q < 256 ^ 2 \<and> q_type q < 256 ^ 4 \<and> q_size q < 256 ^ 4 \<and>
     q_error q < 256 ^ 4 \<and> q_id_size q < 256 ^ 4 \<and> q_quote_size q < 256 ^ 4"

definition refused :: "qgs_resp \<Rightarrow> bool" where
  "refused q \<longleftrightarrow> q_major q \<noteq> 1 \<and> q_minor q \<noteq> 0 \<and> q_type q \<noteq> 1 \<and> q_error q \<noteq> 0"

lemma qgs_msg_quote_resp_enc:
  assumes "wf_resp q"
  shows "qgs_msg_quote_resp (enc_resp q) =
    Inr (if refused q then None else Some (take (q_quote_size q) (q_payload q)))"
proof -
  have "struct_unpack (qgs_format (length (enc_resp q) - 24)) (enc_resp q) =
      Inr [SInt (int (q_major q)), SInt (int (q_minor q)), SInt (int (q_type q)), SInt (int (q_size q)),
        SInt (int (q_error q)), SInt (int (q_id_size q)), SInt (int (q_quote_size q)), SBytes (q_payload q)]"
    using assms by (simp add: qgs_format_def enc_resp_def wf_resp_def)
  moreover have "\<not> length (enc_resp q) < 24"
    by (simp add: enc_resp_def)
  ultimately show ?thesis
    by (simp add: qgs_msg_quote_resp_def refused_def Let_def del: struct_unpack_Inr_iff)
qed

text \<open>The quote buffer as the host fills it.\<close>

definition host_buffer :: "nat \<Rightarrow> nat \<Rightarrow> nat \<Rightarrow> nat \<Rightarrow> nat \<Rightarrow> qgs_resp \<Rightarrow> bytes" where
  "host_buffer version status in_len out_len data_len q =
     le_bytes 8 version @ le_bytes 8 status @ le_bytes 4 in_len @ le_bytes 4 out_len @
     be_bytes 4 data_len @ enc_resp q"

lemma get_tdquote_bytes_from_req_host:
  assumes "device_node_name self = Some DEVICE_NODE_NAME_1_0" and "wf_resp q" and "addr < 256 ^ 8"
    and "version < 256 ^ 8" and "status < 256 ^ 8" and "in_len < 256 ^ 4" and "out_len < 256 ^ 4"
    and "data_len < 256 ^ 4" and "n = length (host_buffer version status in_len out_len data_len q)"
    and "n < 256 ^ 8" and "mem_read m addr n = host_buffer version status in_len out_len data_len q"
  shows "get_tdquote_bytes_from_req self (le_bytes 8 addr @ le_bytes 8 n) m =
    Inr (if out_len = data_len + 4 \<and> \<not> refused q then Some (take (q_quote_size q) (q_payload q)) else None)"
proof -
  have n: "n = 28 + length (enc_resp q)"
    using assms(9) by (simp add: host_buffer_def)
  have req: "struct_unpack [UInt 8, UInt 8] (le_bytes 8 addr @ le_bytes 8 n) = Inr [SInt (int addr), SInt (int n)]"
    using assms(3,10) by simp
  have buf: "struct_unpack [UInt 8, UInt 8, UInt 4, UInt 4, RawBytes (n - 24)] (mem_read m addr n) =
      Inr [SInt (int version), SInt (int status), SInt (int in_len), SInt (int out_len),
        SBytes (be_bytes 4 data_len @ enc_resp q)]"
    using assms(4-8) n unfolding assms(11) by (simp add: host_buffer_def)
  have "24 \<le> n"
    using n by simp
  moreover have "int data_len = int out_len - 4 \<longleftrightarrow> out_len = data_len + 4"
    by auto
  ultimately show ?thesis
    using assms(1,8) req buf qgs_msg_quote_resp_enc [OF assms(2)]
    by (simp add: get_tdquote_bytes_from_req_def Let_def del: struct_unpack_Inr_iff)
qed


definition error_resp :: qgs_resp where
  "error_resp = \<lparr>q_major = 1, q_minor = 0, q_type = 1, q_size = 27, q_error = 5, q_id_size = 0,
     q_quote_size = 3, q_payload = [1, 2, 3, 0]\<rparr>"


text \<open>on a 1.5 device asking for a quote always ends in a \<open>KeyError\<close>, after the
  report was fetched, because the table of operations of this device has no quote entry: the
  message that 1.5 is not supported is never the outcome.\<close>

theorem get_tdquote_bytes_1_5:
  assumes "tdx_driver env rep" and "device_node_name (DeviceNode env) = Some DEVICE_NODE_NAME_1_5"
    and "can_open env DEVICE_NODE_NAME_1_5" and "length (report_data_of rd) \<le> TDX_REPORTDATA_LEN"
    and "buffers_apart env"
  shows "get_tdquote_bytes env (DeviceNode env) rd w = Inl KeyError"
proof -
  let ?r = "rep (padded (report_data_of rd))"
  obtain dn m where report: "get_tdreport_bytes env (DeviceNode env) rd w = Inr (Some ?r, dn, w\<lparr>mem := m\<rparr>)"
    and dn: "device_node_name dn = Some DEVICE_NODE_NAME_1_5" "operators dn = operators (DeviceNode env)"
    using get_tdreport_bytes_ok [OF assms] by blast
  have "length ?r = 1024"
    using assms(1) by (simp add: tdx_driver_def TDX_REPORT_LEN_def)
  then have "create_tdx_quote_req env dn ?r m = Inr (None, dn, m)"
    by (simp add: create_tdx_quote_req_def qgs_msg_quote_req_eq dn Let_def)
  moreover have "operators dn = Some [(GET_TDREPORT, TDX_CMD_GET_REPORT0_V1_5)]"
    using assms(2) dn(2) by (auto simp: DeviceNode_eq no_node_def fresh_node_def split: if_splits)
  ultimately show ?thesis
    using assms(3) report dn(1)
    by (simp add: get_tdquote_bytes_def key_of_def GET_TDREPORT_def GET_TDQUOTE_def)
qed

theorem get_tdquote_bytes_1_5_witness:
  "get_tdquote_bytes (driver_env echo_report [DEVICE_NODE_NAME_1_5] [])
     (DeviceNode (driver_env echo_report [DEVICE_NODE_NAME_1_5] [])) None \<lparr>kernel = (), mem = (\<lambda>_. 0)\<rparr>
   = Inl KeyError"
  by (rule get_tdquote_bytes_1_5 [OF driver_env_ok(1) _ _ _ driver_env_ok(2)])
    (simp_all add: DeviceNode_eq driver_env_def fresh_node_def report_data_of_def)

section \<open>The version table\<close>

lemma find_version_find:
  "list_all (\<lambda>v. version_to_hex v < 256 ^ 2) vs \<Longrightarrow>
     find_version vs bs = Inr (find (\<lambda>v. le_bytes 2 (version_to_hex v) = bs) vs)"
  by (induction vs) auto

lemma VALID_MODULE_VERSIONS_ok:
  "list_all (\<lambda>v. version_to_hex v < 256 ^ 2) VALID_MODULE_VERSIONS"
  "distinct (map version_to_hex VALID_MODULE_VERSIONS)"
  by (simp_all add: VALID_MODULE_VERSIONS_def version_to_hex_def)

lemma find_distinct_key:
  "distinct (map f xs) \<Longrightarrow> x \<in> set xs \<Longrightarrow> find (\<lambda>y. f y = f x) xs = Some x"
  by (induction xs) (auto simp: rev_image_eqI)


text \<open>the version of the TDX module is recognised from a security version number
  exactly when this has 16 bytes and starts with the little-endian code of one of the known
  releases, and then it is that release.\<close>

theorem version_from_bytes_iff:
  "version_from_bytes svn = Inr (Some v, True) \<longleftrightarrow>
     v \<in> set VALID_MODULE_VERSIONS \<and> length svn = 16 \<and> take 2 svn = le_bytes 2 (version_to_hex v)"
proof -
  let ?vs = VALID_MODULE_VERSIONS
  have eq: "find (\<lambda>u. le_bytes 2 (version_to_hex u) = le_bytes 2 (version_to_hex v)) ?vs = Some v" if "v \<in> set ?vs"
  proof -
    have "distinct (map (\<lambda>u. le_bytes 2 (version_to_hex u)) ?vs)"
      using VALID_MODULE_VERSIONS_ok
      by (simp add: distinct_map inj_on_def list_all_iff le_bytes_eq_iff)
    then show ?thesis using that by (rule find_distinct_key)
  qed
  have "find (\<lambda>u. le_bytes 2 (version_to_hex u) = take 2 svn) ?vs = Some v \<longleftrightarrow>
      v \<in> set ?vs \<and> take 2 svn = le_bytes 2 (version_to_hex v)"
    using eq by (auto simp: find_Some_iff dest: sym [of _ "take 2 svn"])
  then show ?thesis
    by (auto simp: version_from_bytes_def find_version_find [OF VALID_MODULE_VERSIONS_ok(1)]
        VALID_SVN_LENGTH_def py_slice_0)
qed

end
