(* ===== verification/Td_Report.thy ===== *)
theory Td_Report
  imports Device_Node
begin

text \<open>
  \<open>pytdxattest/tdreport.py\<close>: the four structures of a TD report.  Each parser reads its
  fields one after the other from offset 0; a field that a device variant does not have
  stays \<open>None\<close>.
\<close>

text \<open>A run of \<open>self.f, offset = self.get_bytes(offset, n)\<close> statements.\<close>

fun read_fields :: "binary_blob \<Rightarrow> nat \<Rightarrow> nat list \<Rightarrow> (bytes list \<times> nat) result" where
  "read_fields blob offset [] = Inr ([], offset)"
| "read_fields blob offset (n # ns) =
     rbind (get_bytes2 blob offset n) (\<lambda>(v, offset).
     rbind (read_fields blob offset ns) (\<lambda>(vs, offset).
     Inr (v # vs, offset)))"

record report_mac_struct =
  report_type :: bytes
  reserverd1 :: bytes
  cpusvn :: bytes
  tee_tcb_info_hash :: bytes
  tee_info_hash :: bytes
  report_data :: bytes
  reserverd2 :: bytes
  mac :: bytes

definition ReportMacStruct :: "bytes \<Rightarrow> report_mac_struct result" where
  "ReportMacStruct data =
     rbind (read_fields (BinaryBlob data 0) 0 [0x8, 0x8, 0x10, 0x30, 0x30, 0x40, 0x20, 0x20]) (\<lambda>(vs, _).
     Inr \<lparr>report_type = vs ! 0, reserverd1 = vs ! 1, cpusvn = vs ! 2, tee_tcb_info_hash = vs ! 3,
          tee_info_hash = vs ! 4, report_data = vs ! 5, reserverd2 = vs ! 6, mac = vs ! 7\<rparr>)"

record tee_tcb_info =
  tcb_device :: "string option"
  tcb_module_version :: "module_version option"
  tcb_valid :: "bytes option"
  tee_tcb_svn :: "bytes option"
  mrseam :: "bytes option"
  mrsignerseam :: "bytes option"
  tcb_attributes :: "bytes option"
  tee_tcb_svn2 :: "bytes option"
  tcb_reserved :: "bytes option"

definition TeeTcbInfo :: "bytes \<Rightarrow> string option \<Rightarrow> tee_tcb_info result" where
  "TeeTcbInfo data device =
     (let blob = BinaryBlob data 0;
          self = \<lparr>tcb_device = device, tcb_module_version = None, tcb_valid = None, tee_tcb_svn = None,
                  mrseam = None, mrsignerseam = None, tcb_attributes = None, tee_tcb_svn2 = None,
                  tcb_reserved = None\<rparr>
      in if device = Some DEVICE_NODE_NAME_DEPRECATED then Inr self
         else
           rbind (read_fields blob 0 [0x8, 0x10, 0x30, 0x30, 0x8]) (\<lambda>(vs, offset).
           let self = self\<lparr>tcb_valid := Some (vs ! 0), tee_tcb_svn := Some (vs ! 1),
                           mrseam := Some (vs ! 2), mrsignerseam := Some (vs ! 3),
                           tcb_attributes := Some (vs ! 4)\<rparr> in
           rbind (if device = Some DEVICE_NODE_NAME_1_0 then
                    rbind (read_fields blob offset [0x6f]) (\<lambda>(us, _).
                    Inr (self\<lparr>tcb_reserved := Some (us ! 0)\<rparr>))
                  else if device = Some DEVICE_NODE_NAME_1_5 then
                    rbind (read_fields blob offset [0x10, 0x5f]) (\<lambda>(us, _).
                    Inr (self\<lparr>tee_tcb_svn2 := Some (us ! 0), tcb_reserved := Some (us ! 1)\<rparr>))
                  else Inr self) (\<lambda>self.
           rbind (version_from_bytes (vs ! 1)) (\<lambda>(v, _).
           Inr (self\<lparr>tcb_module_version := v\<rparr>)))))"

record td_info =
  td_device :: "string option"
  td_attributes :: "bytes option"
  xfam :: "bytes option"
  mrtd :: "bytes option"
  mrconfigid :: "bytes option"
  mrowner :: "bytes option"
  mrownerconfig :: "bytes option"
  rtmr_0 :: "bytes option"
  rtmr_1 :: "bytes option"
  rtmr_2 :: "bytes option"
  rtmr_3 :: "bytes option"
  servtd_hash :: "bytes option"
  td_reserved :: "bytes option"

definition TdInfo :: "bytes \<Rightarrow> string option \<Rightarrow> td_info result" where
  "TdInfo data device =
     (let blob = BinaryBlob data 0;
          self = \<lparr>td_device = device, td_attributes = None, xfam = None, mrtd = None,
                  mrconfigid = None, mrowner = None, mrownerconfig = None, rtmr_0 = None,
                  rtmr_1 = None, rtmr_2 = None, rtmr_3 = None, servtd_hash = None,
                  td_reserved = None\<rparr>
      in if device = Some DEVICE_NODE_NAME_DEPRECATED then Inr self
         else
           rbind (read_fields blob 0 [0x8, 0x8, 0x30, 0x30, 0x30, 0x30, 0x30, 0x30, 0x30, 0x30]) (\<lambda>(vs, offset).
           let self = self\<lparr>td_attributes := Some (vs ! 0), xfam := Some (vs ! 1), mrtd := Some (vs ! 2),
                           mrconfigid := Some (vs ! 3), mrowner := Some (vs ! 4),
                           mrownerconfig := Some (vs ! 5), rtmr_0 := Some (vs ! 6),
                           rtmr_1 := Some (vs ! 7), rtmr_2 := Some (vs ! 8), rtmr_3 := Some (vs ! 9)\<rparr> in
           if device = Some DEVICE_NODE_NAME_1_0 then
             rbind (read_fields blob offset [0x70]) (\<lambda>(us, _).
             Inr (self\<lparr>td_reserved := Some (us ! 0)\<rparr>))
           else if device = Some DEVICE_NODE_NAME_1_5 then
             rbind (read_fields blob offset [0x30, 0x40]) (\<lambda>(us, _).
             Inr (self\<lparr>servtd_hash := Some (us ! 0), td_reserved := Some (us ! 1)\<rparr>))
           else Inr self))"

record td_report =
  tr_blob :: binary_blob
  tr_device_node :: device_node
  tr_report_mac_struct :: report_mac_struct
  tr_tee_tcb_info :: tee_tcb_info
  tr_reserved :: bytes
  tr_td_info :: td_info

text \<open>\<open>self.device_node == DEV_DEPRECATED\<close> compares an object with a string and is never
  true, so the parser always runs.  With \<open>data\<close> \<open>None\<close> the first length check raises
  \<open>TypeError\<close>.\<close>

definition TdReport :: "bytes option \<Rightarrow> device_node \<Rightarrow> td_report result" where
  "TdReport data dn =
     (case data of
        None \<Rightarrow> Inl TypeError
      | Some data \<Rightarrow>
          (let blob = BinaryBlob data 0 in
           rbind (get_bytes2 blob 0 0x100) (\<lambda>(d, offset).
           rbind (ReportMacStruct d) (\<lambda>mac_struct.
           rbind (get_bytes2 blob offset 0xef) (\<lambda>(d, offset).
           rbind (TeeTcbInfo d (device_node_name dn)) (\<lambda>tcb.
           rbind (get_bytes2 blob offset 0x11) (\<lambda>(rsv, offset).
           rbind (get_bytes2 blob offset 0x200) (\<lambda>(d, offset).
           rbind (TdInfo d (device_node_name dn)) (\<lambda>info.
           Inr \<lparr>tr_blob = blob, tr_device_node = dn, tr_report_mac_struct = mac_struct, tr_tee_tcb_info = tcb,
                tr_reserved = rsv, tr_td_info = info\<rparr>)))))))))"

definition get_td_report :: "'k os_env \<Rightarrow> bytes option \<Rightarrow> 'k world \<Rightarrow> (td_report \<times> 'k world) result" where
  "get_td_report env rdata w =
     (let dn = DeviceNode env in
      rbind (get_tdreport_bytes env dn rdata w) (\<lambda>(tdreport_bytes, dn, w).
      rbind (TdReport tdreport_bytes dn) (\<lambda>report.
      Inr (report, w))))"

section \<open>Layout of the fields\<close>

text \<open>Consecutive slices, as the field table of a structure lists them.\<close>

fun field_slices :: "bytes \<Rightarrow> nat \<Rightarrow> nat list \<Rightarrow> bytes list" where
  "field_slices data off [] = []"
| "field_slices data off (n # ns) = py_slice data off (off + n) # field_slices data (off + n) ns"

lemma read_fields_ok:
  "\<forall>n\<in>set ns. 0 < n \<Longrightarrow> off + sum_list ns \<le> length (blob_data b) \<Longrightarrow>
     read_fields b off ns = Inr (field_slices (blob_data b) off ns, off + sum_list ns)"
proof (induction ns arbitrary: off)
  case Nil
  then show ?case by simp
next
  case (Cons n ns)
  then show ?case by (simp add: get_bytes2_eq blob_length_def)
qed

lemma concat_field_slices:
  "concat (field_slices data off ns) = py_slice data off (off + sum_list ns)"
proof (induction ns arbitrary: off)
  case Nil
  then show ?case by (simp add: py_slice_def)
next
  case (Cons n ns)
  then show ?case
    using py_slice_join [of off "off + n" "off + (n + sum_list ns)" data] by (simp add: add.assoc)
qed

lemma length_field_slices: "length (field_slices data off ns) = length ns"
  by (induction ns arbitrary: off) auto

lemma nth_field_slices:
  "i < length ns \<Longrightarrow> field_slices data off ns ! i =
     py_slice data (off + sum_list (take i ns)) (off + sum_list (take (Suc i) ns))"
proof (induction ns arbitrary: off i)
  case Nil
  then show ?case by simp
next
  case (Cons n ns)
  then show ?case by (cases i) (simp_all add: add.assoc)
qed

lemma read_fields_short:
  "\<forall>n\<in>set ns. 0 < n \<Longrightarrow> off \<le> length (blob_data b) \<Longrightarrow> length (blob_data b) < off + sum_list ns \<Longrightarrow>
     read_fields b off ns = Inl AssertionError"
proof (induction ns arbitrary: off)
  case Nil
  then show ?case by simp
next
  case (Cons n ns)
  then show ?case
    by (cases "off + n \<le> length (blob_data b)") (simp_all add: get_bytes2_eq blob_length_def)
qed

declare read_fields.simps [simp del]

text \<open>The field tables of the class comments, and what the parsers make of them.\<close>

definition mac_struct_at :: "bytes \<Rightarrow> report_mac_struct" where
  "mac_struct_at d =
     \<lparr>report_type = py_slice d 0x0 0x8, reserverd1 = py_slice d 0x8 0x10, cpusvn = py_slice d 0x10 0x20,
      tee_tcb_info_hash = py_slice d 0x20 0x50, tee_info_hash = py_slice d 0x50 0x80,
      report_data = py_slice d 0x80 0xc0, reserverd2 = py_slice d 0xc0 0xe0, mac = py_slice d 0xe0 0x100\<rparr>"

definition td_info_at :: "bytes \<Rightarrow> string \<Rightarrow> td_info" where
  "td_info_at d device =
     \<lparr>td_device = Some device, td_attributes = Some (py_slice d 0x0 0x8), xfam = Some (py_slice d 0x8 0x10),
      mrtd = Some (py_slice d 0x10 0x40), mrconfigid = Some (py_slice d 0x40 0x70),
      mrowner = Some (py_slice d 0x70 0xa0), mrownerconfig = Some (py_slice d 0xa0 0xd0),
      rtmr_0 = Some (py_slice d 0xd0 0x100), rtmr_1 = Some (py_slice d 0x100 0x130),
      rtmr_2 = Some (py_slice d 0x130 0x160), rtmr_3 = Some (py_slice d 0x160 0x190),
      servtd_hash = (if device = DEVICE_NODE_NAME_1_5 then Some (py_slice d 0x190 0x1c0) else None),
      td_reserved = Some (if device = DEVICE_NODE_NAME_1_5 then py_slice d 0x1c0 0x200
                          else py_slice d 0x190 0x200)\<rparr>"

definition tcb_info_at :: "bytes \<Rightarrow> string \<Rightarrow> module_version option \<Rightarrow> tee_tcb_info" where
  "tcb_info_at d device v =
     \<lparr>tcb_device = Some device, tcb_module_version = v, tcb_valid = Some (py_slice d 0x0 0x8),
      tee_tcb_svn = Some (py_slice d 0x8 0x18), mrseam = Some (py_slice d 0x18 0x48),
      mrsignerseam = Some (py_slice d 0x48 0x78), tcb_attributes = Some (py_slice d 0x78 0x80),
      tee_tcb_svn2 = (if device = DEVICE_NODE_NAME_1_5 then Some (py_slice d 0x80 0x90) else None),
      tcb_reserved = Some (if device = DEVICE_NODE_NAME_1_5 then py_slice d 0x90 0xef
                           else py_slice d 0x80 0xef)\<rparr>"

lemma ReportMacStruct_at: "length d = 0x100 \<Longrightarrow> ReportMacStruct d = Inr (mac_struct_at d)"
  by (simp add: ReportMacStruct_def read_fields_ok mac_struct_at_def)

lemma TdInfo_at:
  "length d = 0x200 \<Longrightarrow> device \<in> {DEVICE_NODE_NAME_1_0, DEVICE_NODE_NAME_1_5} \<Longrightarrow>
     TdInfo d (Some device) = Inr (td_info_at d device)"
  by (auto simp: TdInfo_def read_fields_ok td_info_at_def Let_def)

lemma find_version_VALID: "\<exists>r. find_version VALID_MODULE_VERSIONS bs = Inr r"
  by (simp add: VALID_MODULE_VERSIONS_def version_to_hex_def)

lemma version_from_bytes_total: "\<exists>r b. version_from_bytes svn = Inr (r, b)"
  using find_version_VALID [of "py_slice svn 0 2"] by (auto simp: version_from_bytes_def)

definition module_version_of :: "bytes \<Rightarrow> module_version option" where
  "module_version_of svn = (case version_from_bytes svn of Inr (v, _) \<Rightarrow> v | Inl _ \<Rightarrow> None)"

lemma TeeTcbInfo_at:
  assumes "length d = 0xef" and "device \<in> {DEVICE_NODE_NAME_1_0, DEVICE_NODE_NAME_1_5}"
  shows "TeeTcbInfo d (Some device) =
    Inr (tcb_info_at d device (module_version_of (py_slice d 0x8 0x18)))"
proof -
  obtain r b where "version_from_bytes (py_slice d 0x8 0x18) = Inr (r, b)"
    using version_from_bytes_total by blast
  then show ?thesis
    using assms by (auto simp: TeeTcbInfo_def read_fields_ok tcb_info_at_def Let_def module_version_of_def)
qed

section \<open>The whole report\<close>

definition td_report_at :: "bytes \<Rightarrow> device_node \<Rightarrow> string \<Rightarrow> td_report" where
  "td_report_at d dn device =
     \<lparr>tr_blob = BinaryBlob d 0, tr_device_node = dn, tr_report_mac_struct = mac_struct_at (py_slice d 0 0x100),
      tr_tee_tcb_info = tcb_info_at (py_slice d 0x100 0x1ef) device (module_version_of (py_slice d 0x108 0x118)),
      tr_reserved = py_slice d 0x1ef 0x200, tr_td_info = td_info_at (py_slice d 0x200 0x400) device\<rparr>"

lemma TdReport_at:
  assumes "device_node_name dn = Some device" and "device \<in> {DEVICE_NODE_NAME_1_0, DEVICE_NODE_NAME_1_5}"
  shows "TdReport (Some data) dn =
    (if 0x400 \<le> length data then Inr (td_report_at data dn device) else Inl AssertionError)"
proof (cases "0x400 \<le> length data")
  case True
  then show ?thesis
    using assms(1) TeeTcbInfo_at [OF _ assms(2)] TdInfo_at [OF _ assms(2)]
    by (simp add: TdReport_def get_bytes2_eq blob_length_def ReportMacStruct_at td_report_at_def
        py_slice_slice)
next
  case False
  then show ?thesis
    using assms(1) TeeTcbInfo_at [OF _ assms(2)] TdInfo_at [OF _ assms(2)]
    by (simp add: TdReport_def get_bytes2_eq blob_length_def ReportMacStruct_at Let_def)
qed

text \<open>C10: a TD report read through a 1.0 or 1.5 device is parsed exactly when it has at
  least 1024 bytes, and then every structure is the slice of the report at its documented
  offset (the measurement registers at 0x2d0, 0x300, 0x330 and 0x360); a shorter report
  raises an \<open>AssertionError\<close>.\<close>

theorem TdReport_layout:
  assumes "device_node_name dn = Some device" and "device \<in> {DEVICE_NODE_NAME_1_0, DEVICE_NODE_NAME_1_5}"
  shows "TdReport (Some data) dn =
    (if 0x400 \<le> length data then Inr (td_report_at data dn device) else Inl AssertionError)"
  using assms by (rule TdReport_at)

theorem TdReport_layout_witness:
  "let dn = \<lparr>device_node_name = Some DEVICE_NODE_NAME_1_5, operators = None, dn_tdreport = None,
             dn_reportdata = None, dn_tdquote = None\<rparr>
   in TdReport (Some (replicate 0x400 7)) dn
        = Inr (td_report_at (replicate 0x400 7) dn DEVICE_NODE_NAME_1_5) \<and>
      TdReport (Some (replicate 0x3ff 7)) dn = Inl AssertionError"
  using TdReport_layout [of _ DEVICE_NODE_NAME_1_5] by (simp add: Let_def)

text \<open>The bytes of a parsed report, field after field.\<close>

definition opt_bytes :: "bytes option \<Rightarrow> bytes" where
  "opt_bytes b = (case b of None \<Rightarrow> [] | Some d \<Rightarrow> d)"

definition mac_struct_bytes :: "report_mac_struct \<Rightarrow> bytes" where
  "mac_struct_bytes r =
     report_type r @ reserverd1 r @ cpusvn r @ tee_tcb_info_hash r @ tee_info_hash r @
     report_data r @ reserverd2 r @ mac r"

definition tcb_info_bytes :: "tee_tcb_info \<Rightarrow> bytes" where
  "tcb_info_bytes r =
     concat (map opt_bytes [tcb_valid r, tee_tcb_svn r, mrseam r, mrsignerseam r, tcb_attributes r,
                            tee_tcb_svn2 r, tcb_reserved r])"

definition td_info_bytes :: "td_info \<Rightarrow> bytes" where
  "td_info_bytes r =
     concat (map opt_bytes [td_attributes r, xfam r, mrtd r, mrconfigid r, mrowner r, mrownerconfig r,
                            rtmr_0 r, rtmr_1 r, rtmr_2 r, rtmr_3 r, servtd_hash r, td_reserved r])"

definition td_report_bytes :: "td_report \<Rightarrow> bytes" where
  "td_report_bytes r =
     mac_struct_bytes (tr_report_mac_struct r) @ tcb_info_bytes (tr_tee_tcb_info r) @ tr_reserved r @
     td_info_bytes (tr_td_info r)"

lemma py_slice_join_append:
  "a \<le> b \<Longrightarrow> b \<le> c \<Longrightarrow> py_slice xs a b @ py_slice xs b c @ ys = py_slice xs a c @ ys"
  using py_slice_join [of a b c xs] by (metis append.assoc)

lemmas slice_joins = py_slice_join py_slice_join_append

lemma mac_struct_bytes_at: "mac_struct_bytes (mac_struct_at d) = py_slice d 0 0x100"
  by (simp add: mac_struct_bytes_def mac_struct_at_def slice_joins)

lemma tcb_info_bytes_at: "tcb_info_bytes (tcb_info_at d device v) = py_slice d 0 0xef"
  by (cases "device = DEVICE_NODE_NAME_1_5")
    (simp_all add: tcb_info_bytes_def tcb_info_at_def slice_joins opt_bytes_def)

lemma td_info_bytes_at: "td_info_bytes (td_info_at d device) = py_slice d 0 0x200"
  by (cases "device = DEVICE_NODE_NAME_1_5")
    (simp_all add: td_info_bytes_def td_info_at_def slice_joins opt_bytes_def)

text \<open>No byte of a report is lost or read twice: the fields of a parsed report, written
  one after the other, are the first 1024 bytes of the input.\<close>

theorem TdReport_bytes:
  assumes "device_node_name dn = Some device" and "device \<in> {DEVICE_NODE_NAME_1_0, DEVICE_NODE_NAME_1_5}"
    and "TdReport (Some data) dn = Inr r"
  shows "td_report_bytes r = take 0x400 data"
proof -
  have "r = td_report_at data dn device"
    using TdReport_at [OF assms(1,2)] assms(3) by (simp split: if_splits)
  then have "td_report_bytes r = py_slice data 0 0x400"
    by (simp add: td_report_bytes_def td_report_at_def mac_struct_bytes_at tcb_info_bytes_at
        td_info_bytes_at py_slice_slice slice_joins)
  then show ?thesis by (simp add: py_slice_0)
qed

theorem TdReport_bytes_witness:
  "let dn = \<lparr>device_node_name = Some DEVICE_NODE_NAME_1_0, operators = None, dn_tdreport = None,
             dn_reportdata = None, dn_tdquote = None\<rparr>;
       data = replicate 0x410 (3 :: byte)
   in td_report_bytes (td_report_at data dn DEVICE_NODE_NAME_1_0) = take 0x400 data"
  unfolding Let_def
  by (rule TdReport_bytes [of "\<lparr>device_node_name = Some DEVICE_NODE_NAME_1_0, operators = None,
      dn_tdreport = None, dn_reportdata = None, dn_tdquote = None\<rparr>" DEVICE_NODE_NAME_1_0])
    (simp_all add: TdReport_at)

lemma DeviceNode_name_cases:
  "device_node_name (DeviceNode env) = Some name \<Longrightarrow> name \<in> {DEVICE_NODE_NAME_1_0, DEVICE_NODE_NAME_1_5}"
  by (auto simp: DeviceNode_eq no_node_def fresh_node_def split: if_splits)

lemma get_td_report_ok:
  assumes "tdx_driver env rep" and "device_node_name (DeviceNode env) = Some name" and "can_open env name"
    and "length (report_data_of rd) \<le> TDX_REPORTDATA_LEN" and "buffers_apart env"
  shows "\<exists>dn m. get_td_report env rd w =
    Inr (td_report_at (rep (padded (report_data_of rd))) dn name, w\<lparr>mem := m\<rparr>)"
proof -
  obtain dn m where "get_tdreport_bytes env (DeviceNode env) rd w =
      Inr (Some (rep (padded (report_data_of rd))), dn, w\<lparr>mem := m\<rparr>)" and dn: "device_node_name dn = Some name"
    using get_tdreport_bytes_ok [OF assms] by blast
  moreover have "0x400 \<le> length (rep (padded (report_data_of rd)))"
    using assms(1) by (simp add: tdx_driver_def TDX_REPORT_LEN_def)
  ultimately show ?thesis
    using TdReport_at [OF dn DeviceNode_name_cases [OF assms(2)]] by (auto simp: get_td_report_def)
qed

end
