(* ===== verification/Measurement_Actor.thy ===== *)
theory Measurement_Actor
  imports Td_Event_Log Ccel Rtmr Td_Report
begin

text \<open>
  \<open>pytdxattest/actor.py\<close>: reading the event log area, replaying it into the four RTMR
  values, and verifying them against the values of the TD report.
\<close>

section \<open>Reading the log\<close>

record event_log_actor =
  act_data :: "bytes option"
  log_base :: nat
  log_length :: nat
  act_specid_header :: "spec_id_header option"
  event_logs :: "event_log_entry list"
  act_rtmrs :: "(int \<times> binary_blob) list"

definition TDEventLogActor :: "nat \<Rightarrow> nat \<Rightarrow> event_log_actor" where
  "TDEventLogActor base len =
     \<lparr>act_data = None, log_base = base, log_length = len, act_specid_header = None,
      event_logs = [], act_rtmrs = []\<rparr>"

definition CCEL_DATA_FILE :: string where
  "CCEL_DATA_FILE = ''/sys/firmware/acpi/tables/data/CCEL''"

definition actor_read :: "'k os_env \<Rightarrow> event_log_actor \<Rightarrow> (bytes option \<times> event_log_actor) result" where
  "actor_read env self =
     rbind (py_assert (path_exists env CCEL_DATA_FILE)) (\<lambda>_.
     case file_content env CCEL_DATA_FILE of
       None \<Rightarrow> Inr (None, self)
     | Some data \<Rightarrow>
         rbind (py_assert (length data > 0)) (\<lambda>_.
         Inr (Some data, self\<lparr>act_data := Some data\<rparr>)))"

function process_loop ::
  "nat \<Rightarrow> nat \<Rightarrow> bytes \<Rightarrow> nat \<Rightarrow> spec_id_header option \<Rightarrow> event_log_entry list \<Rightarrow>
   (spec_id_header option \<times> event_log_entry list) result" where
  "process_loop log_len base data index hdr logs =
     (if index < log_len then
        (let start = index; blob = BinaryBlob data base in
         rbind (get_uint32 blob index) (\<lambda>(rtmr, index).
         rbind (get_uint32 blob index) (\<lambda>(etype, index).
         if rtmr = 0xFFFFFFFF then Inr (hdr, logs)
         else if etype = EV_NO_ACTION then
           rbind (specid_parse (TDEventLogSpecIdHeader (base + start)) (drop start data)) (\<lambda>(h, _).
           process_loop log_len base data (start + ev_length h) (Some h) logs)
         else
           rbind (entry_parse (TDEventLogEntry (base + start) hdr) (drop start data)) (\<lambda>(e, _).
           process_loop log_len base data (start + ev_length e) hdr (logs @ [e])))))
      else Inr (hdr, logs))"
  by pat_completeness auto
termination
  by (relation "measure (\<lambda>(log_len, base, data, index, hdr, logs). log_len - index)")
    (auto dest!: specid_parse_length entry_parse_length)

declare process_loop.simps [simp del]

definition process :: "'k os_env \<Rightarrow> event_log_actor \<Rightarrow> event_log_actor result" where
  "process env self =
     (if act_specid_header self \<noteq> None then Inr self
      else
        rbind (actor_read env self) (\<lambda>(r, self).
        case r of
          None \<Rightarrow> Inr self
        | Some data \<Rightarrow>
            rbind (process_loop (log_length self) (log_base self) data 0
                     (act_specid_header self) (event_logs self)) (\<lambda>(hdr, logs).
            Inr (self\<lparr>act_specid_header := hdr, event_logs := logs\<rparr>))))"

section \<open>Replaying\<close>

fun replay_digests :: "bytes \<Rightarrow> event_log_entry list \<Rightarrow> bytes result" where
  "replay_digests rtmr [] = Inr rtmr"
| "replay_digests rtmr (event_log # rest) =
     rbind (item_of (digests event_log) 0) (\<lambda>digest.
     replay_digests (sha384 (rtmr @ digest)) rest)"

definition replay_single_rtmr :: "event_log_entry list \<Rightarrow> binary_blob result" where
  "replay_single_rtmr logs =
     rbind (replay_digests (replicate RTMR_LENGTH_BY_BYTES 0) logs) (\<lambda>rtmr.
     Inr (RTMR rtmr))"

fun classify :: "(int \<times> event_log_entry list) list \<Rightarrow> event_log_entry list \<Rightarrow>
    (int \<times> event_log_entry list) list result" where
  "classify by_index [] = Inr by_index"
| "classify by_index (event_log # rest) =
     rbind (key_of by_index (ev_rtmr event_log)) (\<lambda>bucket.
     classify (AList.update (ev_rtmr event_log) (bucket @ [event_log]) by_index) rest)"

definition replay :: "'k os_env \<Rightarrow> event_log_actor \<Rightarrow> event_log_actor result" where
  "replay env self =
     rbind (process env self) (\<lambda>self.
     rbind (classify (map (\<lambda>i. (int i, [])) [0..<RTMR_COUNT]) (event_logs self)) (\<lambda>by_index.
     rbind (rmap (\<lambda>(rtmr_index, logs). rbind (replay_single_rtmr logs) (\<lambda>v. Inr (rtmr_index, v))) by_index)
       (\<lambda>rtmrs. Inr (self\<lparr>act_rtmrs := rtmrs\<rparr>))))"

definition get_rtmr_by_index :: "event_log_actor \<Rightarrow> int \<Rightarrow> binary_blob result" where
  "get_rtmr_by_index self index = key_of (act_rtmrs self) index"

section \<open>Dumping\<close>

fun dump_entries :: "nat \<Rightarrow> nat \<Rightarrow> nat \<Rightarrow> event_log_entry list \<Rightarrow> string list result" where
  "dump_entries base count start [] = Inr []"
| "dump_entries base count start (e # es) =
     rbind (entry_dump e) (\<lambda>ls.
     rbind (dump_entries base (count + 1) (start + ev_length e) es) (\<lambda>rest.
     Inr ((''==== TDX Event Log Entry - '' @ fmt_dec (int count) @ '' [0x'' @ fmt_HEX 0 (base + start) @ ''] ====''
          ) # ls @ rest)))"

definition dump_td_event_logs :: "'k os_env \<Rightarrow> event_log_actor \<Rightarrow> (string list \<times> event_log_actor) result" where
  "dump_td_event_logs env self =
     rbind (process env self) (\<lambda>self.
     case act_specid_header self of
       None \<Rightarrow> Inl AttributeError
     | Some h \<Rightarrow>
         rbind (specid_dump h) (\<lambda>ls.
         rbind (dump_entries (log_base self) 1 (ev_length h) (event_logs self)) (\<lambda>es.
         Inr ((''==== TDX Event Log Entry - 0 [0x'' @ fmt_HEX 0 (log_base self) @ ''] ====''
               ) # ls @ es, self))))"

definition dump_rtmrs :: "'k os_env \<Rightarrow> event_log_actor \<Rightarrow> (string list \<times> event_log_actor) result" where
  "dump_rtmrs env self =
     rbind (replay env self) (\<lambda>self.
     Inr (concat (map (\<lambda>(i, r). (''==== RTMR['' @ fmt_dec i @ ''] ====''
                        ) # blob_dump r @ ['''']) (act_rtmrs self)), self))"

section \<open>Verification\<close>

text \<open>The outcome of a verification is what it logs: one line for each register.\<close>

definition verify_single_rtmr :: "int \<Rightarrow> binary_blob \<Rightarrow> binary_blob \<Rightarrow> string result" where
  "verify_single_rtmr rtmr_index rtmr_value_1 rtmr_value_2 =
     rbind (rtmr_eq rtmr_value_1 rtmr_value_2) (\<lambda>eq.
     Inr (if eq then ''RTMR['' @ fmt_dec rtmr_index @ ''] passed the verification.''
          else ''RTMR['' @ fmt_dec rtmr_index @ ''] did not pass the verification''))"

definition bytearray_of :: "bytes option \<Rightarrow> bytes result" where
  "bytearray_of b = (case b of None \<Rightarrow> Inl TypeError | Some d \<Rightarrow> Inr d)"

definition verify_against :: "event_log_actor \<Rightarrow> int \<Rightarrow> bytes option \<Rightarrow> string result" where
  "verify_against actor i reported =
     rbind (get_rtmr_by_index actor i) (\<lambda>v.
     rbind (bytearray_of reported) (\<lambda>r.
     verify_single_rtmr i v (RTMR r)))"

definition verify_rtmr :: "'k os_env \<Rightarrow> 'k world \<Rightarrow> (string list \<times> 'k world) result" where
  "verify_rtmr env w =
     rbind (create_from_acpi_file env CCEL_ACPI_FILE) (\<lambda>ccelobj.
     case ccelobj of
       None \<Rightarrow> Inr ([], w)
     | Some ccel \<Rightarrow>
         rbind (log_area_start_address ccel) (\<lambda>lasa.
         rbind (log_area_minimum_length ccel) (\<lambda>laml.
         rbind (replay env (TDEventLogActor lasa laml)) (\<lambda>actor.
         rbind (get_td_report env None w) (\<lambda>(td_report, w).
         let info = tr_td_info td_report in
         rbind (verify_against actor 0 (rtmr_0 info)) (\<lambda>l0.
         rbind (verify_against actor 1 (rtmr_1 info)) (\<lambda>l1.
         rbind (verify_against actor 2 (rtmr_2 info)) (\<lambda>l2.
         rbind (verify_against actor 3 (rtmr_3 info)) (\<lambda>l3.
         Inr ([l0, l1, l2, l3], w))))))))))"

section \<open>The log area, from the wire format to the entries\<close>

fun entries_at :: "nat \<Rightarrow> spec_id_header \<Rightarrow> event_desc list \<Rightarrow> event_log_entry list" where
  "entries_at address h [] = []"
| "entries_at address h (d # ds) =
     entry_of address h d # entries_at (address + length (enc_event d)) h ds"

definition enc_log :: "header_desc \<Rightarrow> event_desc list \<Rightarrow> bytes" where
  "enc_log s ds = enc_specid s @ concat (map enc_event ds)"

definition wf_log_event :: "(nat \<times> nat) list \<Rightarrow> event_desc \<Rightarrow> bool" where
  "wf_log_event sizes d \<longleftrightarrow> wf_event sizes d \<and> x_register d \<noteq> 0xFFFFFFFF \<and> x_etype d \<noteq> EV_NO_ACTION"

definition wf_log :: "header_desc \<Rightarrow> event_desc list \<Rightarrow> bool" where
  "wf_log s ds \<longleftrightarrow> wf_specid s \<and> s_register s \<noteq> 0xFFFFFFFF \<and>
     list_all (wf_log_event (sizes_of (s_algorithms s))) ds"

text \<open>The log ends at the end of the area, or with the register index 0xFFFFFFFF of
  erased memory.\<close>

definition log_ends :: "nat \<Rightarrow> nat \<Rightarrow> bytes \<Rightarrow> bool" where
  "log_ends log_len used tail \<longleftrightarrow>
     used = log_len \<or>
     used < log_len \<and> 8 \<le> length tail \<and> take 4 tail = le_bytes 4 0xFFFFFFFF"

lemma process_loop_end:
  assumes "data = pre @ tail" and "log_ends log_len (length pre) tail"
  shows "process_loop log_len base data (length pre) hdr logs = Inr (hdr, logs)"
proof (cases "length pre < log_len")
  case False
  then show ?thesis by (simp add: process_loop.simps)
next
  case True
  then have tail: "8 \<le> length tail" "take 4 tail = le_bytes 4 0xFFFFFFFF"
    using assms(2) by (auto simp: log_ends_def)
  have "get_uint32 (BinaryBlob data base) (length pre) = Inr (0xFFFFFFFF, length pre + 4)"
    using assms(1) tail append_take_drop_id [of 4 tail]
    by (intro u32.read_encoded [of _ pre _ "drop 4 tail"]) auto
  moreover have "\<exists>v. get_uint32 (BinaryBlob data base) (length pre + 4) = Inr (v, length pre + 8)"
    using assms(1) tail(1) by (simp add: u32.Inr_iff)
  ultimately show ?thesis
    using True by (auto simp: process_loop.simps)
qed

lemma process_loop_events:
  "list_all (wf_log_event (digest_sizes h)) ds \<Longrightarrow>
   data = pre @ concat (map enc_event ds) @ tail \<Longrightarrow>
   log_ends log_len (length pre + length (concat (map enc_event ds))) tail \<Longrightarrow>
   process_loop log_len base data (length pre) (Some h) logs =
     Inr (Some h, logs @ entries_at (base + length pre) h ds)"
proof (induction ds arbitrary: pre logs)
  case Nil
  then show ?case using process_loop_end [of data pre tail log_len base "Some h" logs] by simp
next
  case (Cons d ds)
  let ?rest = "concat (map enc_event ds) @ tail"
  have wf: "wf_event (digest_sizes h) d" "x_register d \<noteq> 0xFFFFFFFF" "x_etype d \<noteq> EV_NO_ACTION"
    "x_register d < 256 ^ 4" "x_etype d < 256 ^ 4"
    using Cons.prems(1) by (simp_all add: wf_log_event_def wf_event_def)
  obtain body where enc: "enc_event d = le_bytes 4 (x_register d) @ le_bytes 4 (x_etype d) @ body"
    by (simp add: enc_event_def)
  have 1: "get_uint32 (BinaryBlob data base) (length pre) = Inr (x_register d, length pre + 4)"
    using wf(4) Cons.prems(2)
    by (intro u32.read_encoded [of _ pre _ "le_bytes 4 (x_etype d) @ body @ ?rest"]) (simp_all add: enc)
  have 2: "get_uint32 (BinaryBlob data base) (length pre + 4) = Inr (x_etype d, length pre + 4 + 4)"
    using wf(5) Cons.prems(2)
    by (intro u32.read_encoded [of _ "pre @ le_bytes 4 (x_register d)" _ "body @ ?rest"]) (simp_all add: enc)
  have 3: "entry_parse (TDEventLogEntry (base + length pre) (Some h)) (drop (length pre) data) =
      Inr (entry_of (base + length pre) h d, length (enc_event d))"
    using entry_parse_encoded [OF wf(1)] Cons.prems(2) by simp
  have 4: "process_loop log_len base data (length (pre @ enc_event d)) (Some h)
      (logs @ [entry_of (base + length pre) h d]) =
      Inr (Some h, (logs @ [entry_of (base + length pre) h d]) @ entries_at (base + length (pre @ enc_event d)) h ds)"
    using Cons.prems by (intro Cons.IH) (simp_all add: add.assoc)
  have "length pre < log_len"
    using Cons.prems(3) enc by (auto simp: log_ends_def)
  with 1 2 3 4 wf(2,3) show ?case
    by (subst process_loop.simps) (simp add: Let_def entry_of_def add.assoc)
qed

lemma process_loop_log:
  assumes "wf_log s ds" and "log_ends log_len (length (enc_log s ds)) tail"
  shows "process_loop log_len base (enc_log s ds @ tail) 0 None [] =
    Inr (Some (header_of base s), entries_at (base + length (enc_specid s)) (header_of base s) ds)"
proof -
  let ?data = "enc_log s ds @ tail" and ?rest = "concat (map enc_event ds) @ tail"
  have wf: "wf_specid s" "s_register s \<noteq> 0xFFFFFFFF" "s_register s < 256 ^ 4"
    "list_all (wf_log_event (digest_sizes (header_of base s))) ds"
    using assms(1) by (simp_all add: wf_log_def wf_specid_def header_of_def)
  obtain body where enc: "enc_specid s = le_bytes 4 (s_register s) @ le_bytes 4 EV_NO_ACTION @ body"
    by (simp add: enc_specid_def)
  have data: "?data = enc_specid s @ ?rest"
    by (simp add: enc_log_def)
  have 1: "get_uint32 (BinaryBlob ?data base) 0 = Inr (s_register s, 0 + 4)"
    using wf(3) by (intro u32.read_encoded [of _ "[]" _ "le_bytes 4 EV_NO_ACTION @ body @ ?rest"])
      (simp_all add: data enc)
  have 2: "get_uint32 (BinaryBlob ?data base) 4 = Inr (EV_NO_ACTION, 4 + 4)"
    by (intro u32.read_encoded [of _ "le_bytes 4 (s_register s)" _ "body @ ?rest"])
      (simp_all add: data enc EV_NO_ACTION_def)
  have 3: "specid_parse (TDEventLogSpecIdHeader (base + 0)) (drop 0 ?data) =
      Inr (header_of base s, length (enc_specid s))"
    using specid_parse_encoded [OF wf(1)] data by simp
  have 4: "process_loop log_len base ?data (length (enc_specid s)) (Some (header_of base s)) [] =
      Inr (Some (header_of base s), [] @ entries_at (base + length (enc_specid s)) (header_of base s) ds)"
    using assms(2) wf(4) data by (intro process_loop_events [where tail = tail])
      (simp_all add: enc_log_def)
  have "0 < log_len"
    using assms(2) enc by (auto simp: log_ends_def enc_log_def)
  with 1 2 3 4 wf(2) show ?thesis
    by (subst process_loop.simps) (simp add: Let_def header_of_def)
qed

lemma process_enc_log:
  assumes "path_exists env CCEL_DATA_FILE" and "file_content env CCEL_DATA_FILE = Some (enc_log s ds @ tail)"
    and "wf_log s ds" and "log_ends len (length (enc_log s ds)) tail"
  shows "process env (TDEventLogActor base len) =
    Inr ((TDEventLogActor base len)
      \<lparr>act_data := Some (enc_log s ds @ tail), act_specid_header := Some (header_of base s),
       event_logs := entries_at (base + length (enc_specid s)) (header_of base s) ds\<rparr>)"
proof -
  have "enc_log s ds @ tail \<noteq> []"
    by (simp add: enc_log_def enc_specid_def)
  then show ?thesis
    using assms process_loop_log [OF assms(3,4), of base]
    by (simp add: process_def actor_read_def TDEventLogActor_def)
qed

text \<open>C4: reading a log area that holds the encoding of a header and of any number of
  events, followed by the end of the area or by erased memory, gives back the header and
  exactly these events, in order, each at its address.\<close>

theorem process_encoded_log:
  assumes "path_exists env CCEL_DATA_FILE" and "file_content env CCEL_DATA_FILE = Some (enc_log s ds @ tail)"
    and "wf_log s ds" and "log_ends len (length (enc_log s ds)) tail"
  shows "process env (TDEventLogActor base len) =
    Inr ((TDEventLogActor base len)
      \<lparr>act_data := Some (enc_log s ds @ tail), act_specid_header := Some (header_of base s),
       event_logs := entries_at (base + length (enc_specid s)) (header_of base s) ds\<rparr>)"
  using assms by (rule process_enc_log)

section \<open>What replaying computes\<close>

text \<open>The first digests of the events of one register, in the order of the log, and the
  value of the register after them.\<close>

definition digests_for :: "int \<Rightarrow> event_log_entry list \<Rightarrow> bytes list" where
  "digests_for i logs = map (\<lambda>e. hd (digests e)) (filter (\<lambda>e. ev_rtmr e = i) logs)"

definition reset_value :: bytes where
  "reset_value = replicate RTMR_LENGTH_BY_BYTES 0"

definition rtmr_after :: "int \<Rightarrow> event_log_entry list \<Rightarrow> bytes" where
  "rtmr_after i logs = roll sha384 reset_value (digests_for i logs)"

lemma length_reset_value [simp]: "length reset_value = RTMR_LENGTH_BY_BYTES"
  by (simp add: reset_value_def)

lemma length_rtmr_after [simp]: "length (rtmr_after i logs) = RTMR_LENGTH_BY_BYTES"
  by (simp add: rtmr_after_def reg.length_roll)

lemma replay_digests_eq:
  "replay_digests r logs =
     (if list_all (\<lambda>e. digests e \<noteq> []) logs
      then Inr (roll sha384 r (map (\<lambda>e. hd (digests e)) logs)) else Inl IndexError)"
  by (induction logs arbitrary: r) (auto simp: item_of_def roll_def hd_conv_nth)

lemma update_map_keys:
  "distinct ks \<Longrightarrow> k \<in> set ks \<Longrightarrow>
     AList.update k v (map (\<lambda>k. (k, f k)) ks) = map (\<lambda>k'. (k', (f(k := v)) k')) ks"
  by (induction ks) auto

lemma classify_eq:
  "distinct ks \<Longrightarrow>
   classify (map (\<lambda>k. (k, f k)) ks) logs =
     (if list_all (\<lambda>e. ev_rtmr e \<in> set ks) logs
      then Inr (map (\<lambda>k. (k, f k @ filter (\<lambda>e. ev_rtmr e = k) logs)) ks) else Inl KeyError)"
proof (induction logs arbitrary: f)
  case Nil
  then show ?case by simp
next
  case (Cons e logs)
  show ?case
  proof (cases "ev_rtmr e \<in> set ks")
    case True
    then have "key_of (map (\<lambda>k. (k, f k)) ks) (ev_rtmr e) = Inr (f (ev_rtmr e))"
      by (simp add: key_of_def map_of_map_restrict)
    then show ?thesis
      using True Cons.IH [OF Cons.prems, of "f(ev_rtmr e := f (ev_rtmr e) @ [e])"]
      by (auto simp: update_map_keys [OF Cons.prems])
  next
    case False
    then have "map_of (map (\<lambda>k. (k, f k)) ks) (ev_rtmr e) = None"
      by (simp add: map_of_map_restrict)
    then show ?thesis using False by (simp add: key_of_def)
  qed
qed

definition in_registers :: "event_log_entry \<Rightarrow> bool" where
  "in_registers e \<longleftrightarrow> ev_rtmr e \<in> {0, 1, 2, 3}"

lemma registers_upt: "map int [0..<RTMR_COUNT] = [0, 1, 2, 3]"
  by (simp add: RTMR_COUNT_def upt_rec)

lemma classify_registers:
  "classify (map (\<lambda>i. (int i, [])) [0..<RTMR_COUNT]) logs =
     (if list_all in_registers logs
      then Inr (map (\<lambda>i. (i, filter (\<lambda>e. ev_rtmr e = i) logs)) [0, 1, 2, 3]) else Inl KeyError)"
proof -
  have "map (\<lambda>i. (int i, [] :: event_log_entry list)) [0..<RTMR_COUNT] = map (\<lambda>k. (k, [])) (map int [0..<RTMR_COUNT])"
    by simp
  then show ?thesis
    using classify_eq [of "[0, 1, 2, 3]" "\<lambda>_. []" logs]
    unfolding registers_upt by (simp add: in_registers_def [abs_def])
qed

lemma rmap_replay_single:
  "list_all in_registers logs \<Longrightarrow>
   rmap (\<lambda>(i, ls). rbind (replay_single_rtmr ls) (\<lambda>v. Inr (i, v)))
     (map (\<lambda>i. (i, filter (\<lambda>e. ev_rtmr e = i) logs)) [0, 1, 2, 3]) =
   (if list_all (\<lambda>e. digests e \<noteq> []) logs
    then Inr (map (\<lambda>i. (i, RTMR (rtmr_after i logs))) [0, 1, 2, 3]) else Inl IndexError)"
  by (auto simp: replay_single_rtmr_def replay_digests_eq rtmr_after_def digests_for_def
      reset_value_def list_all_iff in_registers_def)

lemma replay_eq:
  "replay env self =
     rbind (process env self) (\<lambda>a.
       if \<not> list_all in_registers (event_logs a) then Inl KeyError
       else if \<not> list_all (\<lambda>e. digests e \<noteq> []) (event_logs a) then Inl IndexError
       else Inr (a\<lparr>act_rtmrs := map (\<lambda>i. (i, RTMR (rtmr_after i (event_logs a)))) [0, 1, 2, 3]\<rparr>))"
proof (cases "process env self")
  case (Inr a)
  then show ?thesis
    using classify_registers [of "event_logs a"] rmap_replay_single [of "event_logs a"]
    by (simp add: replay_def del: list.map rmap.simps)
qed (simp add: replay_def)

text \<open>C2: replaying a log reads it and then either raises a \<open>KeyError\<close> (an event for
  a register other than 0 to 3), an \<open>IndexError\<close> (an event without a digest), or
  sets each of the four registers to the SHA-384 chain, from 48 zero bytes, over the first
  digests of the events for this register in the order of the log.\<close>

theorem replay_spec:
  "replay env self =
     rbind (process env self) (\<lambda>a.
       if \<not> list_all in_registers (event_logs a) then Inl KeyError
       else if \<not> list_all (\<lambda>e. digests e \<noteq> []) (event_logs a) then Inl IndexError
       else Inr (a\<lparr>act_rtmrs := map (\<lambda>i. (i, RTMR (rtmr_after i (event_logs a)))) [0, 1, 2, 3]\<rparr>))"
  by (rule replay_eq)

lemma replay_InrD:
  "replay env self = Inr a \<Longrightarrow> i \<in> {0, 1, 2, 3} \<Longrightarrow>
     get_rtmr_by_index a i = Inr (RTMR (rtmr_after i (event_logs a)))"
  by (auto simp: replay_eq rbind_Inr_iff get_rtmr_by_index_def key_of_def split: if_splits)

lemma RTMR_inject [simp]: "RTMR a = RTMR b \<longleftrightarrow> a = b"
  by (simp add: RTMR_def BinaryBlob_def)

text \<open>C3: two logs that replay to the same value of a register hold the same digests for
  it in the same order, unless two different inputs of the two replays collide under
  SHA-384 or one of them hashes to 48 zero bytes: no event can be dropped, added, changed
  or reordered without breaking SHA-384.\<close>

theorem replay_binding:
  assumes "replay env1 self1 = Inr a1" and "replay env2 self2 = Inr a2" and "i \<in> {0, 1, 2, 3}"
    and "get_rtmr_by_index a1 i = get_rtmr_by_index a2 i"
  shows "digests_for i (event_logs a1) = digests_for i (event_logs a2) \<or>
    collide sha384 (hashed sha384 reset_value (digests_for i (event_logs a1)))
                   (hashed sha384 reset_value (digests_for i (event_logs a2))) \<or>
    list_ex (\<lambda>x. sha384 x = reset_value)
      (hashed sha384 reset_value (digests_for i (event_logs a1)) @
       hashed sha384 reset_value (digests_for i (event_logs a2)))"
proof -
  have "rtmr_after i (event_logs a1) = rtmr_after i (event_logs a2)"
    using replay_InrD [OF assms(1,3)] replay_InrD [OF assms(2,3)] assms(4) by simp
  then show ?thesis
    unfolding rtmr_after_def by (rule reg.roll_eq_from_reset [OF length_reset_value])
qed

section \<open>Verification, end to end\<close>

text \<open>The digest of an event that the replay uses, the register that a log of events leads to,
  and the register that a TD report holds.\<close>

definition first_digest :: "event_desc \<Rightarrow> bytes" where
  "first_digest d = snd (hd (x_digests d))"

definition measured :: "nat \<Rightarrow> event_desc list \<Rightarrow> bytes" where
  "measured i ds =
     roll sha384 reset_value (map first_digest (filter (\<lambda>d. x_register d = i + 1) ds))"

definition reported :: "nat \<Rightarrow> bytes \<Rightarrow> bytes" where
  "reported i report = py_slice report (0x2d0 + 0x30 * i) (0x300 + 0x30 * i)"

definition verdict :: "nat \<Rightarrow> bool \<Rightarrow> string" where
  "verdict i ok =
     (if ok then ''RTMR['' @ fmt_dec (int i) @ ''] passed the verification.''
      else ''RTMR['' @ fmt_dec (int i) @ ''] did not pass the verification'')"

definition replayable :: "event_desc \<Rightarrow> bool" where
  "replayable d \<longleftrightarrow> 1 \<le> x_register d \<and> x_register d \<le> 4 \<and> x_digests d \<noteq> []"

lemma digests_for_entries_at:
  "list_all replayable ds \<Longrightarrow>
     digests_for (int i) (entries_at a h ds) = map first_digest (filter (\<lambda>d. x_register d = i + 1) ds)"
proof (induction ds arbitrary: a)
  case Nil
  then show ?case by (simp add: digests_for_def)
next
  case (Cons d ds)
  have "int (x_register d) - 1 = int i \<longleftrightarrow> x_register d = Suc i"
    by auto
  then show ?case
    using Cons by (auto simp: digests_for_def entry_of_def first_digest_def replayable_def hd_map)
qed

lemma rtmr_after_entries_at:
  "list_all replayable ds \<Longrightarrow> rtmr_after (int i) (entries_at a h ds) = measured i ds"
  by (simp add: rtmr_after_def measured_def digests_for_entries_at)

lemma entries_at_replayable:
  "list_all replayable ds \<Longrightarrow> list_all in_registers (entries_at a h ds) \<and>
     list_all (\<lambda>e. digests e \<noteq> []) (entries_at a h ds)"
proof (induction ds arbitrary: a)
  case (Cons d ds)
  then have "x_register d = 1 \<or> x_register d = 2 \<or> x_register d = 3 \<or> x_register d = 4"
    by (auto simp: replayable_def)
  then show ?case
    using Cons by (auto simp: in_registers_def entry_of_def replayable_def)
qed simp

lemma verify_single:
  "length a = RTMR_LENGTH_BY_BYTES \<Longrightarrow> length b = RTMR_LENGTH_BY_BYTES \<Longrightarrow>
     verify_single_rtmr (int i) (RTMR a) (RTMR b) = Inr (verdict i (a = b))"
  by (simp add: verify_single_rtmr_def rtmr_eq_def get_bytes2_eq blob_length_def RTMR_def py_slice_0
      RTMR_LENGTH_BY_BYTES_def verdict_def)

lemma verify_against_ok:
  assumes "get_rtmr_by_index actor (int i) = Inr (RTMR a)" and "length a = RTMR_LENGTH_BY_BYTES"
    and "length b = RTMR_LENGTH_BY_BYTES"
  shows "verify_against actor (int i) (Some b) = Inr (verdict i (a = b))"
  using assms by (simp add: verify_against_def bytearray_of_def verify_single)

lemma length_measured [simp]: "length (measured i ds) = RTMR_LENGTH_BY_BYTES"
  by (simp add: measured_def reg.length_roll)

text \<open>The platform of a verification: the ACPI table, the log area that it describes, and a
  device with a driver that keeps its contract.\<close>

definition measured_platform ::
  "'k os_env \<Rightarrow> (bytes \<Rightarrow> bytes) \<Rightarrow> ccel_desc \<Rightarrow> header_desc \<Rightarrow> event_desc list \<Rightarrow> bool" where
  "measured_platform env rep c s ds \<longleftrightarrow>
     tdx_driver env rep \<and> buffers_apart env \<and>
     device_node_name (DeviceNode env) \<noteq> None \<and> can_open env (the (device_node_name (DeviceNode env))) \<and>
     wf_ccel c \<and> path_exists env CCEL_ACPI_FILE \<and> file_content env CCEL_ACPI_FILE = Some (enc_ccel c) \<and>
     wf_log s ds \<and> list_all replayable ds \<and> path_exists env CCEL_DATA_FILE \<and>
     (\<exists>tail. file_content env CCEL_DATA_FILE = Some (enc_log s ds @ tail) \<and>
             log_ends (c_laml c) (length (enc_log s ds)) tail)"

lemma replay_platform:
  assumes "measured_platform env rep c s ds"
  shows "\<exists>actor. replay env (TDEventLogActor (c_lasa c) (c_laml c)) = Inr actor \<and>
    list_all (\<lambda>i. get_rtmr_by_index actor (int i) = Inr (RTMR (measured i ds))) [0, 1, 2, 3]"
proof -
  obtain tail where tail: "file_content env CCEL_DATA_FILE = Some (enc_log s ds @ tail)"
      "log_ends (c_laml c) (length (enc_log s ds)) tail"
    and log: "path_exists env CCEL_DATA_FILE" "wf_log s ds" "list_all replayable ds"
    using assms by (auto simp: measured_platform_def)
  let ?es = "entries_at (c_lasa c + length (enc_specid s)) (header_of (c_lasa c) s) ds"
  have rt: "rtmr_after 0 ?es = measured 0 ds" "rtmr_after 1 ?es = measured 1 ds"
    "rtmr_after 2 ?es = measured 2 ds" "rtmr_after 3 ?es = measured 3 ds"
    using rtmr_after_entries_at [OF log(3), of 0] rtmr_after_entries_at [OF log(3), of 1]
      rtmr_after_entries_at [OF log(3), of 2] rtmr_after_entries_at [OF log(3), of 3] by simp_all
  then show ?thesis
    using process_enc_log [OF log(1) tail(1) log(2) tail(2), of "c_lasa c"]
      entries_at_replayable [OF log(3)]
    by (simp add: replay_eq get_rtmr_by_index_def key_of_def)
qed

lemma td_report_registers:
  assumes "length report = TDX_REPORT_LEN"
  shows "rtmr_0 (tr_td_info (td_report_at report dn name)) = Some (reported 0 report)"
    and "rtmr_1 (tr_td_info (td_report_at report dn name)) = Some (reported 1 report)"
    and "rtmr_2 (tr_td_info (td_report_at report dn name)) = Some (reported 2 report)"
    and "rtmr_3 (tr_td_info (td_report_at report dn name)) = Some (reported 3 report)"
    and "i \<le> 3 \<Longrightarrow> length (reported i report) = RTMR_LENGTH_BY_BYTES"
  using assms by (simp_all add: td_report_at_def td_info_at_def reported_def py_slice_slice
      RTMR_LENGTH_BY_BYTES_def TDX_REPORT_LEN_def)

lemma verify_rtmr_platform:
  assumes "measured_platform env rep c s ds"
  shows "\<exists>m. verify_rtmr env w =
    Inr (map (\<lambda>i. verdict i (measured i ds = reported i (rep (padded [])))) [0, 1, 2, 3], w\<lparr>mem := m\<rparr>)"
proof -
  obtain actor where actor: "replay env (TDEventLogActor (c_lasa c) (c_laml c)) = Inr actor"
    and reg: "get_rtmr_by_index actor 0 = Inr (RTMR (measured 0 ds))"
      "get_rtmr_by_index actor 1 = Inr (RTMR (measured 1 ds))"
      "get_rtmr_by_index actor 2 = Inr (RTMR (measured 2 ds))"
      "get_rtmr_by_index actor 3 = Inr (RTMR (measured 3 ds))"
    using replay_platform [OF assms] by auto
  obtain name where name: "device_node_name (DeviceNode env) = Some name" "can_open env name"
    using assms by (auto simp: measured_platform_def)
  have env: "tdx_driver env rep" "buffers_apart env" "wf_ccel c" "path_exists env CCEL_ACPI_FILE"
    "file_content env CCEL_ACPI_FILE = Some (enc_ccel c @ [])"
    using assms by (simp_all add: measured_platform_def)
  let ?report = "rep (padded [])"
  have len: "length ?report = TDX_REPORT_LEN"
    using env(1) by (simp add: tdx_driver_def)
  obtain dn m where report: "get_td_report env None w = Inr (td_report_at ?report dn name, w\<lparr>mem := m\<rparr>)"
    using get_td_report_ok [OF env(1) name _ env(2), of None w] by (auto simp: report_data_of_def)
  note regs = td_report_registers [OF len]
  have v: "verify_against actor 0 (Some (reported 0 ?report)) = Inr (verdict 0 (measured 0 ds = reported 0 ?report))"
    "verify_against actor 1 (Some (reported 1 ?report)) = Inr (verdict 1 (measured 1 ds = reported 1 ?report))"
    "verify_against actor 2 (Some (reported 2 ?report)) = Inr (verdict 2 (measured 2 ds = reported 2 ?report))"
    "verify_against actor 3 (Some (reported 3 ?report)) = Inr (verdict 3 (measured 3 ds = reported 3 ?report))"
    using verify_against_ok [of actor 0 "measured 0 ds" "reported 0 ?report"]
      verify_against_ok [of actor 1 "measured 1 ds" "reported 1 ?report"]
      verify_against_ok [of actor 2 "measured 2 ds" "reported 2 ?report"]
      verify_against_ok [of actor 3 "measured 3 ds" "reported 3 ?report"] reg regs(5) by simp_all
  show ?thesis
    using actor report v
      create_from_acpi_file_enc [OF env(4,5)] log_area_start_address_enc [OF env(3), of "[]"]
      log_area_minimum_length_enc [OF env(3), of "[]"]
    by (auto simp: verify_rtmr_def regs(1-4) Let_def)
qed

text \<open>C1: end to end, on a platform whose ACPI table locates a well-formed log of replayable
  events and whose driver keeps its contract, the verification terminates with exactly one verdict
  line for each of the registers 0 to 3, in this order: a register passes exactly when the SHA-384
  chain over the digests of its events equals the 48 bytes at its offset of the TD report.\<close>

theorem verify_rtmr_verdicts:
  assumes "measured_platform env rep c s ds"
  shows "\<exists>m. verify_rtmr env w =
    Inr (map (\<lambda>i. verdict i (measured i ds = reported i (rep (padded [])))) [0, 1, 2, 3], w\<lparr>mem := m\<rparr>)"
  using assms by (rule verify_rtmr_platform)

text \<open>A platform with one event in register 0, and a report that holds its measurement.\<close>

definition demo_header :: header_desc where
  "demo_header = \<lparr>s_register = 1, s_filler = replicate 48 0, s_algorithms = [(0xc, 48)], s_vendor = []\<rparr>"

definition demo_event :: event_desc where
  "demo_event = \<lparr>x_register = 1, x_etype = 1, x_digests = [(0xc, replicate 48 5)], x_event = [1, 2, 3]\<rparr>"

definition demo_report :: "bytes \<Rightarrow> bytes" where
  "demo_report d = replicate 0x2d0 0 @ measured 0 [demo_event] @ replicate 0x100 0"

definition demo_env :: "unit os_env" where
  "demo_env = driver_env demo_report [DEVICE_NODE_NAME_1_5]
     [(CCEL_ACPI_FILE, enc_ccel demo_ccel),
      (CCEL_DATA_FILE, enc_log demo_header [demo_event] @ le_bytes 4 0xFFFFFFFF @ replicate 4 0xff)]"

lemma wf_demo_log: "wf_log demo_header [demo_event]"
  by (simp add: wf_log_def wf_specid_def wf_log_event_def wf_event_def demo_header_def demo_event_def
      sizes_of_def EV_NO_ACTION_def)

lemma demo_log_ends:
  "log_ends (c_laml demo_ccel) (length (enc_log demo_header [demo_event])) (le_bytes 4 0xFFFFFFFF @ replicate 4 0xff)"
  by (simp add: log_ends_def enc_log_def enc_specid_def enc_event_def demo_header_def demo_event_def demo_ccel_def)

lemma demo_driver: "tdx_driver demo_env demo_report" "buffers_apart demo_env"
  unfolding demo_env_def
  by (rule driver_env_ok, simp add: demo_report_def TDX_REPORT_LEN_def RTMR_LENGTH_BY_BYTES_def)
    (rule driver_env_ok)

lemma demo_files:
  "path_exists demo_env CCEL_ACPI_FILE" "path_exists demo_env CCEL_DATA_FILE"
  "file_content demo_env CCEL_ACPI_FILE = Some (enc_ccel demo_ccel)"
  "file_content demo_env CCEL_DATA_FILE =
     Some (enc_log demo_header [demo_event] @ le_bytes 4 0xFFFFFFFF @ replicate 4 0xff)"
  by (simp_all add: demo_env_def driver_env_def CCEL_ACPI_FILE_def CCEL_DATA_FILE_def)

lemma demo_device:
  "device_node_name (DeviceNode demo_env) = Some DEVICE_NODE_NAME_1_5" "can_open demo_env DEVICE_NODE_NAME_1_5"
  by (simp_all add: demo_env_def driver_env_def DeviceNode_eq fresh_node_def CCEL_ACPI_FILE_def
      CCEL_DATA_FILE_def DEVICE_NODE_NAME_DEPRECATED_def DEVICE_NODE_NAME_1_0_def DEVICE_NODE_NAME_1_5_def)

lemma demo_platform: "measured_platform demo_env demo_report demo_ccel demo_header [demo_event]"
  using wf_demo_ccel wf_demo_log demo_log_ends demo_driver demo_files demo_device
  by (auto simp: measured_platform_def replayable_def demo_event_def)

theorem verify_rtmr_verdicts_witness:
  "\<exists>m. verify_rtmr demo_env \<lparr>kernel = (), mem = (\<lambda>_. 0)\<rparr> =
     Inr ([''RTMR[0] passed the verification.'', ''RTMR[1] passed the verification.'',
           ''RTMR[2] passed the verification.'', ''RTMR[3] passed the verification.''],
          \<lparr>kernel = (), mem = m\<rparr>)"
proof -
  have "reported 0 (demo_report d) = measured 0 [demo_event]" for d
    by (simp add: reported_def demo_report_def py_slice_def RTMR_LENGTH_BY_BYTES_def)
  moreover have "reported i (demo_report d) = measured i [demo_event]" if "i \<in> {1, 2, 3}" for i d
    using that by (auto simp: reported_def demo_report_def py_slice_def measured_def demo_event_def
        roll_def reset_value_def RTMR_LENGTH_BY_BYTES_def)
  ultimately show ?thesis
    using verify_rtmr_verdicts [OF demo_platform, of "\<lparr>kernel = (), mem = (\<lambda>_. 0)\<rparr>"]
    by (simp add: verdict_def fmt_dec_def dec_digits.simps char_of_def bit_0)
qed

theorem process_encoded_log_witness:
  "process demo_env (TDEventLogActor 0x1000 0x200) =
    Inr ((TDEventLogActor 0x1000 0x200)
      \<lparr>act_data := Some (enc_log demo_header [demo_event] @ le_bytes 4 0xFFFFFFFF @ replicate 4 0xff),
       act_specid_header := Some (header_of 0x1000 demo_header),
       event_logs := [entry_of 0x1041 (header_of 0x1000 demo_header) demo_event]\<rparr>)"
proof -
  have ends: "log_ends 0x200 (length (enc_log demo_header [demo_event])) (le_bytes 4 0xFFFFFFFF @ replicate 4 0xff)"
    by (simp add: log_ends_def enc_log_def enc_specid_def enc_event_def demo_header_def demo_event_def)
  have "length (enc_specid demo_header) = 0x41"
    by (simp add: enc_specid_def demo_header_def)
  then show ?thesis
    using process_encoded_log [OF demo_files(2,4) wf_demo_log ends, of "0x1000"] by simp
qed

lemma demo_replay:
  "replay demo_env (TDEventLogActor base 0x10000) =
    Inr ((TDEventLogActor base 0x10000)
      \<lparr>act_data := Some (enc_log demo_header [demo_event] @ le_bytes 4 0xFFFFFFFF @ replicate 4 0xff),
       act_specid_header := Some (header_of base demo_header),
       event_logs := [entry_of (base + length (enc_specid demo_header)) (header_of base demo_header) demo_event],
       act_rtmrs := map (\<lambda>i. (int i, RTMR (measured i [demo_event]))) [0, 1, 2, 3]\<rparr>)"
proof -
  have ok: "list_all replayable [demo_event]" and len: "c_laml demo_ccel = 0x10000"
    by (simp_all add: replayable_def demo_event_def demo_ccel_def)
  let ?es = "entries_at (base + length (enc_specid demo_header)) (header_of base demo_header) [demo_event]"
  have "map (\<lambda>i. (i, RTMR (rtmr_after i ?es))) [0, 1, 2, 3] =
      map (\<lambda>i. (int i, RTMR (measured i [demo_event]))) [0, 1, 2, 3]"
    using rtmr_after_entries_at [OF ok, of 0] rtmr_after_entries_at [OF ok, of 1]
      rtmr_after_entries_at [OF ok, of 2] rtmr_after_entries_at [OF ok, of 3] by simp
  then show ?thesis
    using process_enc_log [OF demo_files(2,4) wf_demo_log demo_log_ends, where base = base] len
      entries_at_replayable [OF ok, of "base + length (enc_specid demo_header)" "header_of base demo_header"]
    by (simp add: replay_eq)
qed

theorem replay_binding_witness:
  "let a1 = projr (replay demo_env (TDEventLogActor 0 0x10000));
       a2 = projr (replay demo_env (TDEventLogActor 0x1000 0x10000))
   in a1 \<noteq> a2 \<and>
     (digests_for 0 (event_logs a1) = digests_for 0 (event_logs a2) \<or>
      collide sha384 (hashed sha384 reset_value (digests_for 0 (event_logs a1)))
        (hashed sha384 reset_value (digests_for 0 (event_logs a2))) \<or>
      list_ex (\<lambda>x. sha384 x = reset_value)
        (hashed sha384 reset_value (digests_for 0 (event_logs a1)) @
         hashed sha384 reset_value (digests_for 0 (event_logs a2))))"
  using replay_binding [OF demo_replay [of 0] demo_replay [of "0x1000"], of 0]
  unfolding Let_def demo_replay by (simp add: get_rtmr_by_index_def TDEventLogActor_def)

end
