(* ===== verification/Td_Quote.thy ===== *)
theory Td_Quote
  imports Device_Node
begin

text \<open>
  \<open>pytdxattest/tdquote.py\<close>: a quote over a nonce and user data, or over report data that
  the caller gives.
\<close>

record td_quote =
  tq_blob :: binary_blob
  tq_device_node :: device_node

definition quote_report_data :: "bytes option \<Rightarrow> bytes option \<Rightarrow> bytes option \<Rightarrow> bytes option" where
  "quote_report_data nonce user_data report_data =
     (if report_data \<noteq> None then report_data
      else if nonce = None \<and> user_data = None then None
      else Some (sha512 ((case nonce of None \<Rightarrow> [] | Some n \<Rightarrow> n) @ (case user_data of None \<Rightarrow> [] | Some u \<Rightarrow> u))))"

definition get_quote ::
  "'k os_env \<Rightarrow> bytes option \<Rightarrow> bytes option \<Rightarrow> bytes option \<Rightarrow> 'k world \<Rightarrow> (td_quote option \<times> 'k world) result" where
  "get_quote env nonce user_data report_data w =
     (let report_data = quote_report_data nonce user_data report_data; dn = DeviceNode env in
      rbind (get_tdquote_bytes env dn report_data w) (\<lambda>(tdquote_bytes, dn, w).
      Inr (case tdquote_bytes of
             None \<Rightarrow> (None, w)
           | Some b \<Rightarrow> (Some \<lparr>tq_blob = BinaryBlob b 0, tq_device_node = dn\<rparr>, w))))"

section \<open>The whole exchange on a 1.0 device\<close>

text \<open>
  What the driver documents for a quote request: it holds the address and the size of a buffer,
  which the host replaces by its answer \<open>host\<close>.
\<close>

definition quote_driver :: "'k os_env \<Rightarrow> (bytes \<Rightarrow> bytes) \<Rightarrow> bool" where
  "quote_driver env host \<longleftrightarrow>
     (\<forall>k a n m. a < 256 ^ 8 \<and> n < 256 ^ 8 \<longrightarrow>
        ioctl env k DEVICE_NODE_NAME_1_0 TDX_CMD_GET_QUOTE_V1_0 (le_bytes 8 a @ le_bytes 8 n) m =
          (k, Some (le_bytes 8 a @ le_bytes 8 n, mem_write m a (host (mem_read m a n)))))"

definition answers :: "(bytes \<Rightarrow> bytes) \<Rightarrow> (bytes \<Rightarrow> qgs_resp) \<Rightarrow> bool" where
  "answers host resp \<longleftrightarrow>
     (\<forall>b. length b = TDX_QUOTE_LEN \<longrightarrow> length (host b) = TDX_QUOTE_LEN \<and> wf_resp (resp b) \<and>
        (\<exists>v s il dl. v < 256 ^ 8 \<and> s < 256 ^ 8 \<and> il < 256 ^ 4 \<and> dl + 4 < 256 ^ 4 \<and>
           host b = host_buffer v s il (dl + 4) dl (resp b)))"

lemma quote_report_data_length:
  "(case report_data of None \<Rightarrow> True | Some d \<Rightarrow> length d \<le> TDX_REPORTDATA_LEN) \<Longrightarrow>
     length (report_data_of (quote_report_data nonce user_data report_data)) \<le> TDX_REPORTDATA_LEN"
  by (auto simp: quote_report_data_def report_data_of_def length_sha512 TDX_REPORTDATA_LEN_def
      split: option.splits)

text \<open>The buffer that the host sees for a report.\<close>

definition asked :: "bytes \<Rightarrow> bytes" where
  "asked r = quote_buffer r @ replicate (TDX_QUOTE_LEN - length (quote_buffer r)) 0"

lemma quote_exchange:
  assumes "quote_driver env host" and "answers host resp" and "device_node_name dn = Some DEVICE_NODE_NAME_1_0"
    and "addr_tdquote env < 256 ^ 8" and "length r = TDX_REPORT_LEN"
  shows "\<exists>dn' m' m''. create_tdx_quote_req env dn r m =
      Inr (Some (le_bytes 8 (addr_tdquote env) @ le_bytes 8 TDX_QUOTE_LEN), dn', m') \<and>
    device_node_name dn' = Some DEVICE_NODE_NAME_1_0 \<and> operators dn' = operators dn \<and>
    ioctl env k DEVICE_NODE_NAME_1_0 TDX_CMD_GET_QUOTE_V1_0
      (le_bytes 8 (addr_tdquote env) @ le_bytes 8 TDX_QUOTE_LEN) m' =
      (k, Some (le_bytes 8 (addr_tdquote env) @ le_bytes 8 TDX_QUOTE_LEN, m'')) \<and>
    get_tdquote_bytes_from_req dn' (le_bytes 8 (addr_tdquote env) @ le_bytes 8 TDX_QUOTE_LEN) m'' =
      Inr (if refused (resp (asked r)) then None
           else Some (take (q_quote_size (resp (asked r))) (q_payload (resp (asked r)))))"
proof -
  let ?a = "addr_tdquote env" and ?n = TDX_QUOTE_LEN
  have n: "?n < 256 ^ 8" by (simp add: TDX_QUOTE_LEN_def)
  obtain m' where 1: "create_tdx_quote_req env dn r m =
      Inr (Some (le_bytes 8 ?a @ le_bytes 8 ?n), dn\<lparr>dn_tdquote := Some ?a\<rparr>, m')"
    and m': "mem_read m' ?a ?n = asked r" and len: "length (asked r) = ?n"
    using create_tdx_quote_req_buffer [OF assms(3,4), of r m] assms(5)
    by (auto simp: TDX_REPORT_LEN_def TDX_QUOTE_LEN_def asked_def)
  define m'' where "m'' = mem_write m' ?a (host (asked r))"
  have 2: "ioctl env k DEVICE_NODE_NAME_1_0 TDX_CMD_GET_QUOTE_V1_0 (le_bytes 8 ?a @ le_bytes 8 ?n) m' =
      (k, Some (le_bytes 8 ?a @ le_bytes 8 ?n, m''))"
    using assms(1,4) n m' by (simp add: quote_driver_def m''_def)
  obtain v s il dl where host: "length (host (asked r)) = ?n" "wf_resp (resp (asked r))"
    "v < 256 ^ 8" "s < 256 ^ 8" "il < 256 ^ 4" "dl + 4 < 256 ^ 4"
    "host (asked r) = host_buffer v s il (dl + 4) dl (resp (asked r))"
    using assms(2) len unfolding answers_def by metis
  then have len2: "?n = length (host_buffer v s il (dl + 4) dl (resp (asked r)))"
    and dl: "dl < 256 ^ 4" by simp_all
  have m'': "mem_read m'' ?a ?n = host_buffer v s il (dl + 4) dl (resp (asked r))"
    using host(1,7) by (simp add: m''_def)
  have "device_node_name (dn\<lparr>dn_tdquote := Some ?a\<rparr>) = Some DEVICE_NODE_NAME_1_0"
    using assms(3) by simp
  note 3 = get_tdquote_bytes_from_req_host [OF this host(2) assms(4) host(3-6) dl len2 n m'']
  from 1 2 3 show ?thesis
    using assms(3) by (intro exI [of _ "dn\<lparr>dn_tdquote := Some ?a\<rparr>"] exI [of _ m'] exI [of _ m'']) simp
qed

lemma get_quote_exchange:
  assumes "tdx_driver env rep" and "quote_driver env host" and "answers host resp"
    and "device_node_name (DeviceNode env) = Some DEVICE_NODE_NAME_1_0"
    and "can_open env DEVICE_NODE_NAME_1_0" and "buffers_apart env" and "addr_tdquote env < 256 ^ 8"
  shows "\<exists>dn w'. get_quote env (Some nonce) (Some user_data) None w =
    Inr (let q = resp (asked (rep (sha512 (nonce @ user_data)))) in
         if refused q then None
         else Some \<lparr>tq_blob = BinaryBlob (take (q_quote_size q) (q_payload q)) 0, tq_device_node = dn\<rparr>, w')"
proof -
  let ?rd = "sha512 (nonce @ user_data)"
  have rd: "quote_report_data (Some nonce) (Some user_data) None = Some ?rd"
    by (simp add: quote_report_data_def)
  have len: "length (report_data_of (Some ?rd)) \<le> TDX_REPORTDATA_LEN"
    by (simp add: report_data_of_def length_sha512 TDX_REPORTDATA_LEN_def)
  have "padded ?rd = ?rd"
    by (simp add: padded_def length_sha512 TDX_REPORTDATA_LEN_def)
  then obtain dn m where report: "get_tdreport_bytes env (DeviceNode env) (Some ?rd) w = Inr (Some (rep ?rd), dn, w\<lparr>mem := m\<rparr>)"
    and dn: "device_node_name dn = Some DEVICE_NODE_NAME_1_0" "operators dn = operators (DeviceNode env)"
    using get_tdreport_bytes_ok [OF assms(1,4,5) len assms(6), of w] by (auto simp: report_data_of_def)
  have ops: "operators (DeviceNode env) = Some [(GET_TDREPORT, TDX_CMD_GET_REPORT_V1_0), (GET_TDQUOTE, TDX_CMD_GET_QUOTE_V1_0)]"
    using assms(4) by (auto simp: DeviceNode_eq no_node_def fresh_node_def split: if_splits)
  have "length (rep ?rd) = TDX_REPORT_LEN" using assms(1) by (simp add: tdx_driver_def)
  from quote_exchange [OF assms(2,3) dn(1) assms(7) this, of m "kernel w"] obtain dn' m' m'' where
    1: "create_tdx_quote_req env dn (rep ?rd) m =
        Inr (Some (le_bytes 8 (addr_tdquote env) @ le_bytes 8 TDX_QUOTE_LEN), dn', m')"
      "device_node_name dn' = Some DEVICE_NODE_NAME_1_0" "operators dn' = operators dn"
      "ioctl env (kernel w) DEVICE_NODE_NAME_1_0 TDX_CMD_GET_QUOTE_V1_0
        (le_bytes 8 (addr_tdquote env) @ le_bytes 8 TDX_QUOTE_LEN) m' =
        (kernel w, Some (le_bytes 8 (addr_tdquote env) @ le_bytes 8 TDX_QUOTE_LEN, m''))"
    and 2: "get_tdquote_bytes_from_req dn' (le_bytes 8 (addr_tdquote env) @ le_bytes 8 TDX_QUOTE_LEN) m'' =
        Inr (if refused (resp (asked (rep ?rd))) then None
             else Some (take (q_quote_size (resp (asked (rep ?rd)))) (q_payload (resp (asked (rep ?rd))))))"
    by blast
  have "get_tdquote_bytes env (DeviceNode env) (Some ?rd) w =
      Inr (if refused (resp (asked (rep ?rd))) then None
           else Some (take (q_quote_size (resp (asked (rep ?rd)))) (q_payload (resp (asked (rep ?rd))))), dn',
           w\<lparr>kernel := kernel w, mem := m''\<rparr>)"
    using assms(5) report dn ops 1 2
    by (simp add: get_tdquote_bytes_def key_of_def GET_TDREPORT_def GET_TDQUOTE_def)
  then show ?thesis
    by (auto simp: get_quote_def rd Let_def)
qed


text \<open>A host that returns the buffer it was given, and a device in front of it.\<close>

definition echo_resp :: "bytes \<Rightarrow> qgs_resp" where
  "echo_resp b = \<lparr>q_major = 1, q_minor = 0, q_type = 1, q_size = 1076, q_error = 0, q_id_size = 0,
     q_quote_size = 1052, q_payload = take 16332 b\<rparr>"

definition echo_host :: "bytes \<Rightarrow> bytes" where
  "echo_host b = host_buffer 1 0 1052 (1076 + 4) 1076 (echo_resp b)"

definition quote_env :: "unit os_env" where
  "quote_env = (driver_env echo_report [DEVICE_NODE_NAME_1_0] [])
     \<lparr>ioctl := (\<lambda>k dev cmd req m.
        if cmd = TDX_CMD_GET_QUOTE_V1_0
        then (k, Some (req, mem_write m (le_val (take 8 req))
                     (echo_host (mem_read m (le_val (take 8 req)) (le_val (drop 8 req))))))
        else driver_ioctl echo_report k dev cmd req m), can_open := (\<lambda>_. True)\<rparr>"

lemma quote_env_ok:
  "tdx_driver quote_env echo_report" "quote_driver quote_env echo_host" "answers echo_host echo_resp"
  "device_node_name (DeviceNode quote_env) = Some DEVICE_NODE_NAME_1_0"
  "can_open quote_env DEVICE_NODE_NAME_1_0" "buffers_apart quote_env" "addr_tdquote quote_env < 256 ^ 8"
proof -
  show "tdx_driver quote_env echo_report"
    using driver_env_ok(1) [of echo_report "[DEVICE_NODE_NAME_1_0]" "[]"]
    by (simp add: tdx_driver_def quote_env_def driver_env_def request_numbers)
  show "quote_driver quote_env echo_host"
    by (simp add: quote_driver_def quote_env_def)
  show "answers echo_host echo_resp"
    unfolding answers_def
  proof (intro allI impI conjI exI)
    fix b :: bytes assume b: "length b = TDX_QUOTE_LEN"
    then show "length (echo_host b) = TDX_QUOTE_LEN" and "wf_resp (echo_resp b)"
      by (simp_all add: echo_host_def echo_resp_def host_buffer_def enc_resp_def TDX_QUOTE_LEN_def wf_resp_def)
    show "echo_host b = host_buffer 1 0 1052 (1076 + 4) 1076 (echo_resp b)"
      by (simp add: echo_host_def)
  qed simp_all
qed (simp_all add: quote_env_def driver_env_def DeviceNode_eq fresh_node_def buffers_apart_def
    TDX_REPORTDATA_LEN_def TDX_REPORT_LEN_def)

lemma quote_env_answer:
  "\<not> refused (echo_resp (asked (echo_report d)))"
  "take (q_quote_size (echo_resp (asked (echo_report d)))) (q_payload (echo_resp (asked (echo_report d)))) =
     quote_buffer (echo_report d)"
proof -
  show "\<not> refused (echo_resp (asked (echo_report d)))"
    by (simp add: refused_def echo_resp_def)
  have "length (quote_buffer (echo_report d)) = 1052"
    by (simp add: quote_buffer_def TDX_REPORT_LEN_def)
  then show "take (q_quote_size (echo_resp (asked (echo_report d)))) (q_payload (echo_resp (asked (echo_report d)))) =
      quote_buffer (echo_report d)"
    by (simp add: asked_def echo_resp_def)
qed


end
