(* ===== verification/Py_Base64.thy ===== *)
theory Py_Base64
  imports Py_Text
begin

text \<open>
  \<open>base64.b64decode\<close> of the standard library, as its lenient decoder works: characters
  outside the alphabet are skipped, a complete padding ends the data, and a truncated group of four
  raises \<open>binascii.Error\<close>, a \<open>ValueError\<close>.  Numbers below 64 stand for the
  alphabet.
\<close>

definition b64_value :: "char \<Rightarrow> nat option" where
  "b64_value c =
     (let n = of_char c :: nat in
      if 65 \<le> n \<and> n \<le> 90 then Some (n - 65)
      else if 97 \<le> n \<and> n \<le> 122 then Some (n - 71)
      else if 48 \<le> n \<and> n \<le> 57 then Some (n + 4)
      else if n = 43 then Some 62
      else if n = 47 then Some 63
      else None)"

definition b64_char :: "nat \<Rightarrow> char" where
  "b64_char v =
     (if v < 26 then char_of (v + 65) else if v < 52 then char_of (v + 71)
      else if v < 62 then char_of (v - 4) else if v = 62 then CHR ''+'' else CHR ''/'')"

text \<open>The decoder: position in the group of four, the bits left over, the padding characters
  seen in a row, and the bytes so far.\<close>

fun b64_loop :: "nat \<Rightarrow> nat \<Rightarrow> nat \<Rightarrow> bytes \<Rightarrow> string \<Rightarrow> bytes result" where
  "b64_loop quad left pads acc [] = (if quad = 0 then Inr acc else Inl ValueError)"
| "b64_loop quad left pads acc (c # s) =
     (if c = CHR ''='' then
        (if quad \<ge> 2 then
           (if quad + (pads + 1) \<ge> 4 then Inr acc else b64_loop quad left (pads + 1) acc s)
         else b64_loop quad left pads acc s)
      else case b64_value c of
        None \<Rightarrow> b64_loop quad left pads acc s
      | Some v \<Rightarrow>
          (if quad = 0 then b64_loop 1 v 0 acc s
           else if quad = 1 then b64_loop 2 (v mod 16) 0 (acc @ [word_of_nat (left * 4 + v div 16)]) s
           else if quad = 2 then b64_loop 3 (v mod 4) 0 (acc @ [word_of_nat (left * 16 + v div 4)]) s
           else b64_loop 0 0 0 (acc @ [word_of_nat (left * 64 + v)]) s))"

text \<open>A string with a character outside ASCII is a \<open>ValueError\<close> too.\<close>

definition b64decode :: "string \<Rightarrow> bytes result" where
  "b64decode s =
     (if list_all (\<lambda>c. (of_char c :: nat) < 128) s then b64_loop 0 0 0 [] s else Inl ValueError)"

fun b64encode :: "bytes \<Rightarrow> string" where
  "b64encode [] = []"
| "b64encode [a] =
     [b64_char (unat a div 4), b64_char (unat a mod 4 * 16), CHR ''='', CHR ''='']"
| "b64encode [a, b] =
     [b64_char (unat a div 4), b64_char (unat a mod 4 * 16 + unat b div 16), b64_char (unat b mod 16 * 4), CHR ''='']"
| "b64encode (a # b # c # s) =
     [b64_char (unat a div 4), b64_char (unat a mod 4 * 16 + unat b div 16),
      b64_char (unat b mod 16 * 4 + unat c div 64), b64_char (unat c mod 64)] @ b64encode s"

lemma b64_value_char: "v < 64 \<Longrightarrow> b64_value (b64_char v) = Some v"
  by (auto simp: b64_value_def b64_char_def Let_def of_char_of)

lemma b64_char_not_pad: "v < 64 \<Longrightarrow> b64_char v \<noteq> CHR ''=''"
  using b64_value_char [of v] by (auto simp: b64_value_def)

lemma b64_loop_digit:
  "v < 64 \<Longrightarrow> b64_loop quad left pads acc (b64_char v # s) =
     (if quad = 0 then b64_loop 1 v 0 acc s
      else if quad = 1 then b64_loop 2 (v mod 16) 0 (acc @ [word_of_nat (left * 4 + v div 16)]) s
      else if quad = 2 then b64_loop 3 (v mod 4) 0 (acc @ [word_of_nat (left * 16 + v div 4)]) s
      else b64_loop 0 0 0 (acc @ [word_of_nat (left * 64 + v)]) s)"
  by (simp add: b64_value_char b64_char_not_pad)

lemma byte_join:
  "n div 4 * 4 + n mod 4 = (n :: nat)" "n div 16 * 16 + n mod 16 = n" "n div 64 * 64 + n mod 64 = n"
  by simp_all

lemma unat_byte_div:
  "unat (a :: byte) div 4 < 64" "unat a mod 4 * 16 < 64" "unat a mod 4 * 16 + unat (b :: byte) div 16 < 64"
  "unat b mod 16 * 4 < 64" "unat b mod 16 * 4 + unat (c :: byte) div 64 < 64" "unat c mod 64 < 64"
  "unat b div 16 < 16" "unat c div 64 < 4"
  using unat_byte_less [of a] unat_byte_less [of b] unat_byte_less [of c] by linarith+

lemma b64_loop_encode: "b64_loop 0 0 0 acc (b64encode bs) = Inr (acc @ bs)"
proof (induction bs arbitrary: acc rule: b64encode.induct)
  case 1
  then show ?case by simp
next
  case (2 a)
  then show ?case
    by (simp add: b64_loop_digit unat_byte_div byte_join del: b64_loop.simps(2)) simp
next
  case (3 a b)
  then show ?case
    by (simp add: b64_loop_digit unat_byte_div byte_join del: b64_loop.simps(2)) simp
next
  case (4 a b c s)
  then show ?case
    by (simp add: b64_loop_digit unat_byte_div byte_join del: b64_loop.simps(2))
qed

lemma b64_char_ascii: "v < 64 \<Longrightarrow> (of_char (b64_char v) :: nat) < 128"
  by (auto simp: b64_char_def of_char_of)

lemma b64encode_ascii: "list_all (\<lambda>c. (of_char c :: nat) < 128) (b64encode bs)"
  by (induction bs rule: b64encode.induct) (simp_all add: b64_char_ascii unat_byte_div)

lemma b64decode_encode: "b64decode (b64encode bs) = Inr bs"
  using b64encode_ascii [of bs] by (simp add: b64decode_def b64_loop_encode)

end
