(* ===== verification/Cli.thy ===== *)
theory Cli
  imports Measurement_Actor Td_Quote Py_Base64
begin

text \<open>
  \<open>pytdxattest/cli.py\<close>: the commands.  The outcome of a command is what it logs, what it
  writes to a file, and the world it leaves.
\<close>

definition event_logs_run :: "'k os_env \<Rightarrow> ccel_line list result" where
  "event_logs_run env =
     rbind (create_from_acpi_file env CCEL_ACPI_FILE) (\<lambda>ccelobj.
     case ccelobj of
       None \<Rightarrow> Inr [Text ''=> Read CCEL ACPI Table'']
     | Some ccel \<Rightarrow>
         rbind (ccel_dump ccel) (\<lambda>ls.
         rbind (log_area_start_address ccel) (\<lambda>lasa.
         rbind (log_area_minimum_length ccel) (\<lambda>laml.
         rbind (dump_td_event_logs env (TDEventLogActor lasa laml)) (\<lambda>(es, actor).
         rbind (dump_rtmrs env actor) (\<lambda>(rs, _).
         Inr ([Text ''=> Read CCEL ACPI Table''] @ ls @
              [Text '''',
               Text (''=> Read Event Log Data - Address: 0x'' @ fmt_HEX 0 lasa @ ''(0x'' @ fmt_HEX 0 laml @ '')'')] @
              map Text es @ [Text '''', Text ''=> Replay Rolling Hash - RTMR''] @ map Text rs)))))))"

definition verify_run :: "'k os_env \<Rightarrow> 'k world \<Rightarrow> (string list \<times> 'k world) result" where
  "verify_run env w = rbind (verify_rtmr env w) (\<lambda>(ls, w). Inr (''=> Verify RTMR'' # ls, w))"

definition td_report_run :: "'k os_env \<Rightarrow> 'k world \<Rightarrow> (string list \<times> 'k world) result" where
  "td_report_run env w =
     rbind (get_td_report env None w) (\<lambda>(report, w).
     Inr (''=> Dump TD Report'' # blob_dump (tr_blob report), w))"

definition decode_arg :: "string option \<Rightarrow> bytes option result" where
  "decode_arg a = (case a of None \<Rightarrow> Inr None | Some s \<Rightarrow> rbind (b64decode s) (\<lambda>b. Inr (Some b)))"

definition quote_run ::
  "'k os_env \<Rightarrow> string option \<Rightarrow> string option \<Rightarrow> string option \<Rightarrow> bool \<Rightarrow> 'k world \<Rightarrow>
   (string list \<times> (string \<times> bytes) option \<times> 'k world) result" where
  "quote_run env output nonce user_data quiet w =
     rbind (decode_arg nonce) (\<lambda>nonce.
     rbind (decode_arg user_data) (\<lambda>user_data.
     rbind (get_quote env nonce user_data None w) (\<lambda>(tdquote, w).
     case tdquote of
       None \<Rightarrow> Inr ([''=> Dump TD Quote''], None, w)
     | Some q \<Rightarrow>
         (let ls = ''=> Dump TD Quote'' # (if \<not> quiet then blob_dump (tq_blob q) else []) in
          case output of
            None \<Rightarrow> Inr (ls, None, w)
          | Some f \<Rightarrow>
              if \<not> can_open env f then Inl OSError
              else Inr (ls, Some (f, blob_data (tq_blob q)), w)))))"

definition extend_run ::
  "'k os_env \<Rightarrow> string option \<Rightarrow> string option \<Rightarrow> string option \<Rightarrow> int \<Rightarrow> 'k world \<Rightarrow>
   (string list \<times> 'k world) result" where
  "extend_run env extend_raw_data extend_str_data extend_digest_data extend_rtmr_index w =
     rbind (extend_rtmr env extend_raw_data extend_str_data extend_digest_data extend_rtmr_index w) (\<lambda>(res, w).
     if res = Some EXTEND_SUCCESS then
       rbind (get_td_report env None w) (\<lambda>(report, w).
       Inr ([''=> Extend RTMR'', ''Changed RTMR value in TD Report''] @ blob_dump (tr_blob report), w))
     else Inr ([''=> Extend RTMR''], w))"

text \<open>The quote command with a base64 nonce and base64 user data fetches the quote for the
  decoded bytes and writes exactly its bytes to the output file; with a refused or failed
  quote it writes no file.\<close>

theorem quote_run_base64:
  assumes "can_open env f"
  shows "quote_run env (Some f) (Some (b64encode nonce)) (Some (b64encode user_data)) quiet w =
    rbind (get_quote env (Some nonce) (Some user_data) None w) (\<lambda>(q, w').
      Inr (''=> Dump TD Quote'' # (case q of None \<Rightarrow> [] | Some q \<Rightarrow> if quiet then [] else blob_dump (tq_blob q)),
           map_option (\<lambda>q. (f, blob_data (tq_blob q))) q, w'))"
  using assms
  by (auto simp: quote_run_def decode_arg_def b64decode_encode split: rbind_split option.split)

theorem quote_run_base64_witness:
  "\<exists>w'. quote_run quote_env (Some ''q'') (Some ''AQI='') (Some ''Aw=='') True \<lparr>kernel = (), mem = (\<lambda>_. 0)\<rparr> =
    Inr ([''=> Dump TD Quote''], Some (''q'', quote_buffer (echo_report (sha512 [1, 2, 3]))), w')"
proof -
  have b64: "b64encode [1, 2] = ''AQI=''" "b64encode [3] = ''Aw==''"
    by code_simp+
  have "can_open quote_env ''q''"
    by (simp add: quote_env_def)
  from quote_run_base64 [OF this, of "[1, 2]" "[3]" True "\<lparr>kernel = (), mem = (\<lambda>_. 0)\<rparr>", unfolded b64]
  show ?thesis
    using get_quote_exchange [OF quote_env_ok, of "[1, 2]" "[3]" "\<lparr>kernel = (), mem = (\<lambda>_. 0)\<rparr>"]
    by (auto simp: Let_def quote_env_answer)
qed

end
