(* ===== verification/Ovmf_Guid.thy ===== *)
theory Ovmf_Guid
  imports Py_Struct Py_Text
begin

text \<open>
  \<open>ovmfkeyenroll/var_enroll.py\<close>, the helpers: GUIDs in text and binary form, names as
  UTF-16 blobs, alignment.
\<close>

section \<open>Definitions\<close>

definition is_hex_lower :: "char \<Rightarrow> bool" where
  "is_hex_lower c \<longleftrightarrow> c \<in> set ''0123456789abcdef''"

text \<open>The regular expression, one predicate for each character; \<open>match\<close> looks at a prefix of
  the string only.\<close>

definition guid_pattern :: "(char \<Rightarrow> bool) list" where
  "guid_pattern =
     (let hex = is_hex_lower; dash = (\<lambda>c. c = CHR ''-'') in
      replicate 8 hex @ [dash] @ replicate 4 hex @ [dash] @
      [\<lambda>c. c \<in> set ''12345''] @ replicate 3 hex @ [dash] @
      [\<lambda>c. c \<in> set ''89ab''] @ replicate 3 hex @ [dash] @ replicate 12 hex)"

fun matches :: "(char \<Rightarrow> bool) list \<Rightarrow> string \<Rightarrow> bool" where
  "matches [] s = True"
| "matches (p # ps) [] = False"
| "matches (p # ps) (c # s) = (p c \<and> matches ps s)"

definition is_guid :: "string \<Rightarrow> bool" where
  "is_guid string = matches guid_pattern (lower string)"

definition guid2str :: "bytes \<Rightarrow> string" where
  "guid2str byte_arr =
     (if length byte_arr \<noteq> 16 then ''''
      else
        (let vs = unpack_fields [UInt 4, UInt 2, UInt 2, RawBytes 8] byte_arr;
             d = hex_of_bytes (bytes_of (vs ! 3))
         in fmt_hex 8 (nat_of (vs ! 0)) @ ''-'' @ fmt_hex 4 (nat_of (vs ! 1)) @ ''-'' @
            fmt_hex 4 (nat_of (vs ! 2)) @ ''-'' @ take 4 d @ ''-'' @ drop 4 d))"

text \<open>\<open>uuid.UUID(string)\<close>: the prefixes, braces and dashes are dropped, and 32 hexadecimal
  digits must remain; its fields are bit ranges of the 128-bit number.\<close>

definition strip_braces :: "string \<Rightarrow> string" where
  "strip_braces s =
     (let brace = (\<lambda>c. c = CHR ''{'' \<or> c = CHR ''}'')
      in rev (dropWhile brace (rev (dropWhile brace s))))"

definition uuid_int :: "string \<Rightarrow> nat result" where
  "uuid_int s =
     (let hex = filter (\<lambda>c. c \<noteq> CHR ''-'') (strip_braces (py_replace ''uuid:'' (py_replace ''urn:'' s)))
      in if length hex \<noteq> 32 then Inl ValueError
         else case hex_fold 0 hex of None \<Rightarrow> Inl ValueError | Some n \<Rightarrow> Inr n)"

definition uuid_fields :: "nat \<Rightarrow> nat list" where
  "uuid_fields n =
     [n div 2 ^ 96, n div 2 ^ 80 mod 2 ^ 16, n div 2 ^ 64 mod 2 ^ 16, n div 2 ^ 56 mod 2 ^ 8,
      n div 2 ^ 48 mod 2 ^ 8, n mod 2 ^ 48]"

definition str2guid :: "string \<Rightarrow> bytes result" where
  "str2guid string =
     (if \<not> is_guid string then Inl (Raised ''Invalid GUID string'')
      else
        rbind (uuid_int string) (\<lambda>n.
        let fields = uuid_fields n in
        rbind (struct_pack [UInt 4, UInt 2, UInt 2, UInt 1, UInt 1]
                 (map (\<lambda>f. SInt (int f)) (take 5 fields))) (\<lambda>guid1.
        let guid2 = be_bytes 8 (fields ! 5) in
        Inr (guid1 @ drop 2 guid2))))"

definition str2blob :: "string \<Rightarrow> bytes" where
  "str2blob string = concat (map (\<lambda>b. le_bytes 2 (unat b)) (encode string)) @ [0, 0]"

text \<open>The masks work on Python's unbounded integers.\<close>

unbundle bit_operations_syntax

definition align_by_4 :: "nat \<Rightarrow> nat" where
  "align_by_4 val = nat ((int val + 3) AND NOT 3)"

definition align_by_8 :: "nat \<Rightarrow> nat" where
  "align_by_8 val = nat ((int val + 7) AND NOT 7)"

section \<open>Alignment\<close>

lemma and_not_mask_int: "x AND NOT (mask n) = x - x mod 2 ^ n" for x :: int
proof -
  have "x - take_bit n x = x AND NOT (take_bit n x)"
    by (rule disjunctive_diff_eq_and_not) (simp add: take_bit_eq_mask and.assoc [symmetric])
  also have "\<dots> = x AND NOT (mask n)"
    by (rule bit_eqI) (auto simp: bit_simps)
  finally show ?thesis by (simp add: take_bit_eq_mod)
qed

lemma align_by_4_eq: "align_by_4 val = (val + 3) - (val + 3) mod 4"
proof -
  have "(int val + 3) AND NOT 3 = (int val + 3) - (int val + 3) mod 4"
    using and_not_mask_int [of "int val + 3" 2] by (simp add: mask_eq_exp_minus_1)
  also have "\<dots> = int ((val + 3) - (val + 3) mod 4)"
    by (simp add: of_nat_diff zmod_int)
  finally show ?thesis by (simp add: align_by_4_def)
qed

lemma align_by_8_eq: "align_by_8 val = (val + 7) - (val + 7) mod 8"
proof -
  have "(int val + 7) AND NOT 7 = (int val + 7) - (int val + 7) mod 8"
    using and_not_mask_int [of "int val + 7" 3] by (simp add: mask_eq_exp_minus_1)
  also have "\<dots> = int ((val + 7) - (val + 7) mod 8)"
    by (simp add: of_nat_diff zmod_int)
  finally show ?thesis by (simp add: align_by_8_def)
qed

lemma align_by_4_bounds: "val \<le> align_by_4 val" "align_by_4 val < val + 4" "4 dvd align_by_4 val"
  unfolding align_by_4_eq by (presburger, presburger, presburger)

lemma align_by_4_id [simp]: "4 dvd val \<Longrightarrow> align_by_4 val = val"
  unfolding align_by_4_eq by presburger

lemma align_by_4_add:
  assumes "4 dvd a"
  shows "align_by_4 (a + b) = a + align_by_4 b"
proof -
  have "(a + b + 3) mod 4 = (b + 3) mod 4"
    using assms by (auto simp: add.assoc elim!: dvdE)
  moreover have "(b + 3) mod 4 \<le> b + 3" by (rule mod_less_eq_dividend)
  ultimately show ?thesis by (simp add: align_by_4_eq)
qed

lemma least_multiple:
  assumes "0 < (k :: nat)"
  shows "(LEAST m. n \<le> m \<and> k dvd m) = (n + (k - 1)) - (n + (k - 1)) mod k"
proof (rule Least_equality)
  let ?x = "n + (k - 1)"
  have eq: "?x - ?x mod k = ?x div k * k"
    by (simp add: minus_mod_eq_div_mult)
  have "?x mod k \<le> k - 1"
    using assms by (simp add: less_Suc_eq_le [symmetric])
  then show "n \<le> ?x - ?x mod k \<and> k dvd ?x - ?x mod k"
    using eq by simp
  fix m assume m: "n \<le> m \<and> k dvd m"
  then obtain q where "m = k * q" by auto
  have "?x < m + k" using m assms by arith
  then have "?x div k < q + 1"
    using assms \<open>m = k * q\<close> by (simp add: div_less_iff_less_mult algebra_simps)
  then have "?x div k * k \<le> q * k"
    by (intro mult_le_mono1) (simp only: less_Suc_eq_le Suc_eq_plus1 [symmetric])
  then show "?x - ?x mod k \<le> m"
    using eq \<open>m = k * q\<close> by (simp add: mult.commute)
qed

text \<open>the alignment functions give the least multiple of 4 (of 8) that is not below the
  value.\<close>

theorem align_least:
  "align_by_4 val = (LEAST m. val \<le> m \<and> 4 dvd m) \<and> align_by_8 val = (LEAST m. val \<le> m \<and> 8 dvd m)"
  using least_multiple [of 4 val] least_multiple [of 8 val] by (simp add: align_by_4_eq align_by_8_eq)

section \<open>Digits of a number\<close>

lemma hexn_add: "hexn dig (v + w) n = hexn dig v (n div 16 ^ w) @ hexn dig w (n mod 16 ^ w)"
proof (induction w arbitrary: n)
  case 0
  then show ?case by simp
next
  case (Suc w)
  have "n div 16 mod 16 ^ w = n mod (16 * 16 ^ w) div 16" "n mod (16 * 16 ^ w) mod 16 = n mod 16"
    by (simp_all add: mod_mult2_eq)
  then show ?case by (simp add: Suc div_mult2_eq)
qed

lemma hexn_mod: "hexn dig w (n mod 16 ^ w) = hexn dig w n"
  using hexn_add [of dig 0 w n] by simp

lemma hex_fold_lower:
  "hex_fold 0 s = Some n \<Longrightarrow> hexn hex_digit (length s) n = lower s \<and> n < 16 ^ length s"
proof (induction s arbitrary: n rule: rev_induct)
  case Nil
  then show ?case by (simp add: lower_def)
next
  case (snoc c s)
  then obtain m d where m: "hex_fold 0 s = Some m" and d: "hex_value c = Some d" and n: "n = 16 * m + d"
    by (auto simp: hex_fold_append split: option.splits)
  have "d < 16" using d by (rule hex_value_less)
  then show ?case
    using snoc.IH [OF m] hex_digit_value [OF d] by (simp add: n lower_def)
qed

lemma be_val_snoc: "be_val (bs @ [b]) = 256 * be_val bs + unat b"
  by (simp add: be_val_def)

lemma hex_of_bytes_be: "hex_of_bytes bs = hexn hex_digit (2 * length bs) (be_val bs)"
proof (induction bs rule: rev_induct)
  case Nil
  then show ?case by (simp add: hex_of_bytes_def)
next
  case (snoc b bs)
  have "(256 * be_val bs + unat b) div 16 ^ 2 = be_val bs" "(256 * be_val bs + unat b) mod 16 ^ 2 = unat b"
    by simp_all
  then show ?case
    using snoc hexn_add [of hex_digit "2 * length bs" 2 "256 * be_val bs + unat b"]
    by (simp add: hex_of_bytes_def be_val_snoc fmt_hex_hexn)
qed

section \<open>The two forms of a GUID\<close>

text \<open>A GUID as the 128-bit number that its text form spells, in both forms.\<close>

definition guid_text :: "nat \<Rightarrow> string" where
  "guid_text n =
     (let h = hexn hex_digit 32 n
      in take 8 h @ ''-'' @ take 4 (drop 8 h) @ ''-'' @ take 4 (drop 12 h) @ ''-'' @ take 4 (drop 16 h) @ ''-'' @ drop 20 h)"

definition guid_bytes :: "nat \<Rightarrow> bytes" where
  "guid_bytes n =
     le_bytes 4 (n div 2 ^ 96) @ le_bytes 2 (n div 2 ^ 80 mod 2 ^ 16) @ le_bytes 2 (n div 2 ^ 64 mod 2 ^ 16) @
     be_bytes 8 (n mod 2 ^ 64)"

lemma length_guid_bytes [simp]: "length (guid_bytes n) = 16"
  by (simp add: guid_bytes_def)

lemma hexn_split: "hexn dig (v + w) n = hexn dig v (n div 16 ^ w) @ hexn dig w n"
  using hexn_add [of dig v w n] by (simp add: hexn_mod)

lemma hexn_32:
  "hexn dig 32 n = hexn dig 8 (n div 2 ^ 96) @ hexn dig 4 (n div 2 ^ 80) @ hexn dig 4 (n div 2 ^ 64) @ hexn dig 16 n"
  using hexn_split [of dig 8 24 n] hexn_split [of dig 4 20 n] hexn_split [of dig 4 16 n] by simp

lemma guid_text_eq:
  "guid_text n = hexn hex_digit 8 (n div 2 ^ 96) @ ''-'' @ hexn hex_digit 4 (n div 2 ^ 80) @ ''-'' @
     hexn hex_digit 4 (n div 2 ^ 64) @ ''-'' @ take 4 (hexn hex_digit 16 n) @ ''-'' @ drop 4 (hexn hex_digit 16 n)"
  by (simp add: guid_text_def hexn_32 Let_def)

lemma guid2str_bytes:
  assumes "n < 2 ^ 128"
  shows "guid2str (guid_bytes n) = guid_text n"
proof -
  let ?a = "n div 2 ^ 96" and ?b = "n div 2 ^ 80 mod 2 ^ 16" and ?c = "n div 2 ^ 64 mod 2 ^ 16" and ?d = "n mod 2 ^ 64"
  have a: "?a < 256 ^ 4" using assms by (simp add: div_less_iff_less_mult)
  have bc: "?b < 256 ^ 2" "?c < 256 ^ 2" "?d < 256 ^ 8" by simp_all
  have "unpack_fields [UInt 4, UInt 2, UInt 2, RawBytes 8] (guid_bytes n) =
      [SInt (int ?a), SInt (int ?b), SInt (int ?c), SBytes (be_bytes 8 ?d)]"
    using a bc by (simp add: guid_bytes_def)
  moreover have "fmt_hex 8 ?a = hexn hex_digit 8 ?a" using a by (simp add: fmt_hex_hexn)
  moreover have "fmt_hex 4 ?b = hexn hex_digit 4 (n div 2 ^ 80)"
    using hexn_mod [of hex_digit 4 "n div 2 ^ 80"] by (simp add: fmt_hex_hexn)
  moreover have "fmt_hex 4 ?c = hexn hex_digit 4 (n div 2 ^ 64)"
    using hexn_mod [of hex_digit 4 "n div 2 ^ 64"] by (simp add: fmt_hex_hexn)
  moreover have "hex_of_bytes (be_bytes 8 ?d) = hexn hex_digit 16 n"
    using hexn_mod [of hex_digit 16 n] bc(3) by (simp add: hex_of_bytes_be)
  ultimately show ?thesis
    by (simp add: guid2str_def guid_text_eq Let_def)
qed

text \<open>Every sixteen bytes are the binary form of a number.\<close>

lemma guid_bytes_surj:
  assumes "length b = 16"
  obtains n where "n < 2 ^ 128" and "guid_bytes n = b"
proof -
  let ?a = "le_val (take 4 b)" and ?b = "le_val (take 2 (drop 4 b))"
    and ?c = "le_val (take 2 (drop 6 b))" and ?d = "be_val (drop 8 b)"
  have lt: "?a < 2 ^ 32" "?b < 2 ^ 16" "?c < 2 ^ 16" "?d < 2 ^ 64"
    using assms le_val_bound [of "take 4 b"] le_val_bound [of "take 2 (drop 4 b)"]
      le_val_bound [of "take 2 (drop 6 b)"] be_val_bound [of "drop 8 b"] by simp_all
  define v where "v = ?a * 2 ^ 16 + ?b"
  have v: "v mod 2 ^ 16 = ?b" "v div 2 ^ 16 = ?a" "v < 2 ^ 48"
    using lt by (simp_all add: v_def)
  define u where "u = v * 2 ^ 16 + ?c"
  define n where "n = u * 2 ^ 64 + ?d"
  have u: "u mod 2 ^ 16 = ?c" "u div 2 ^ 16 mod 2 ^ 16 = ?b" "u div 2 ^ 16 div 2 ^ 16 = ?a" "u < 2 ^ 64"
    using lt v by (simp_all add: u_def)
  have "n div 2 ^ 64 = u" "n mod 2 ^ 64 = ?d" "n < 2 ^ 128"
    using lt(4) u(4) by (simp_all add: n_def)
  moreover have "n div 2 ^ 80 = n div 2 ^ 64 div 2 ^ 16" "n div 2 ^ 96 = n div 2 ^ 64 div 2 ^ 16 div 2 ^ 16"
    by (simp_all flip: div_mult2_eq)
  ultimately have n: "n div 2 ^ 96 = ?a" "n div 2 ^ 80 mod 2 ^ 16 = ?b" "n div 2 ^ 64 mod 2 ^ 16 = ?c"
    "n mod 2 ^ 64 = ?d" "n < 2 ^ 128"
    using u(1-3) by (simp_all only:)
  have "guid_bytes n = take 4 b @ take 2 (drop 4 b) @ take 2 (drop 6 b) @ drop 8 b"
    unfolding guid_bytes_def n using assms by simp
  also have "\<dots> = b"
    by (simp add: append_take_drop_id [of 2 "drop 4 b", simplified] append_take_drop_id [of 2 "drop 6 b", simplified])
  finally show thesis using n(5) that by blast
qed

section \<open>From text to binary\<close>

lemma le_bytes_add: "le_bytes (v + w) n = le_bytes v n @ le_bytes w (n div 256 ^ v)"
  by (induction v arbitrary: n) (auto simp: div_mult2_eq)

lemma le_bytes_mod: "le_bytes w (n mod 256 ^ w) = le_bytes w n"
  by (metis le_val_le_bytes_mod le_bytes_le_val length_le_bytes)

lemma le_bytes_2: "le_bytes 2 n = [word_of_nat (n mod 256), word_of_nat (n div 256 mod 256)]"
  by (simp add: numeral_2_eq_2)

lemma pack_node:
  "le_bytes 1 (n div 2 ^ 56 mod 2 ^ 8) @ le_bytes 1 (n div 2 ^ 48 mod 2 ^ 8) @ drop 2 (be_bytes 8 (n mod 2 ^ 48)) =
     be_bytes 8 (n mod 2 ^ 64)"
proof -
  have "le_bytes 8 (n mod 2 ^ 64) = le_bytes 8 n"
    using le_bytes_mod [of 8 n] by simp
  also have "\<dots> = le_bytes 6 n @ le_bytes 1 (n div 2 ^ 48) @ le_bytes 1 (n div 2 ^ 56)"
    using le_bytes_add [of 6 2 n] by (simp add: le_bytes_2 flip: div_mult2_eq)
  finally have 1: "le_bytes 8 (n mod 2 ^ 64) = le_bytes 6 n @ le_bytes 1 (n div 2 ^ 48) @ le_bytes 1 (n div 2 ^ 56)" .
  have "le_bytes 8 (n mod 2 ^ 48) = le_bytes 6 n @ [0, 0]"
    using le_bytes_add [of 6 2 "n mod 2 ^ 48"] le_bytes_mod [of 6 n] by (simp add: le_bytes_2)
  then have "drop 2 (be_bytes 8 (n mod 2 ^ 48)) = rev (le_bytes 6 n)"
    by (simp add: be_bytes_def)
  then show ?thesis
    unfolding be_bytes_def 1 by simp
qed

lemma pack_fields:
  assumes "a < 256 ^ 4" and "b < 256 ^ 2" and "c < 256 ^ 2" and "d < 256" and "e < 256"
  shows "struct_pack [UInt 4, UInt 2, UInt 2, UInt 1, UInt 1] (map (\<lambda>f. SInt (int f)) [a, b, c, d, e]) =
    Inr (le_bytes 4 a @ le_bytes 2 b @ le_bytes 2 c @ le_bytes 1 d @ le_bytes 1 e)"
  using assms by simp

lemma str2guid_uuid:
  assumes "is_guid s" and "uuid_int s = Inr n" and "n < 2 ^ 128"
  shows "str2guid s = Inr (guid_bytes n)"
proof -
  have "n div 2 ^ 96 < 256 ^ 4" using assms(3) by (simp add: div_less_iff_less_mult)
  then have "struct_pack [UInt 4, UInt 2, UInt 2, UInt 1, UInt 1] (map (\<lambda>f. SInt (int f)) (take 5 (uuid_fields n))) =
      Inr (le_bytes 4 (n div 2 ^ 96) @ le_bytes 2 (n div 2 ^ 80 mod 2 ^ 16) @ le_bytes 2 (n div 2 ^ 64 mod 2 ^ 16) @
        le_bytes 1 (n div 2 ^ 56 mod 2 ^ 8) @ le_bytes 1 (n div 2 ^ 48 mod 2 ^ 8))"
    using pack_fields [of "n div 2 ^ 96" "n div 2 ^ 80 mod 2 ^ 16" "n div 2 ^ 64 mod 2 ^ 16" "n div 2 ^ 56 mod 2 ^ 8"
        "n div 2 ^ 48 mod 2 ^ 8"] by (simp add: uuid_fields_def del: struct_pack.simps)
  moreover have "uuid_fields n ! 5 = n mod 2 ^ 48"
    by (simp add: uuid_fields_def)
  ultimately show ?thesis
    using assms(1,2) pack_node [of n] by (simp add: str2guid_def guid_bytes_def Let_def del: struct_pack.simps)
qed

lemma matches_replicate:
  "matches (replicate n p @ ps) s \<Longrightarrow> \<exists>t r. s = t @ r \<and> length t = n \<and> list_all p t \<and> matches ps r"
proof (induction n arbitrary: s)
  case 0
  then show ?case by simp
next
  case (Suc n)
  then obtain c s' where s: "s = c # s'" and c: "p c" and m: "matches (replicate n p @ ps) s'"
    by (cases s) auto
  from Suc.IH [OF m] obtain t r where "s' = t @ r" "length t = n" "list_all p t" "matches ps r" by blast
  with s c have "s = (c # t) @ r \<and> length (c # t) = Suc n \<and> list_all p (c # t) \<and> matches ps r" by simp
  then show ?case by blast
qed

lemma matches_replicateE:
  assumes "matches (replicate n p @ ps) s"
  obtains t r where "s = t @ r" and "length t = n" and "list_all p t" and "matches ps r"
  using matches_replicate [OF assms] by blast

lemma matches_ConsE:
  assumes "matches (p # ps) s"
  obtains c r where "s = c # r" and "p c" and "matches ps r"
  using assms by (cases s) auto

text \<open>A GUID in text form: five groups of digits with dashes between them.\<close>

lemma is_guid_groups:
  assumes "is_guid s"
  obtains a b c d e r where "lower s = a @ ''-'' @ b @ ''-'' @ c @ ''-'' @ d @ ''-'' @ e @ r"
    and "length a = 8" and "length b = 4" and "length c = 4" and "length d = 4" and "length e = 12"
    and "list_all is_hex_lower (a @ b @ c @ d @ e)"
proof -
  have sub: "v \<in> set ''12345'' \<Longrightarrow> is_hex_lower v" "v \<in> set ''89ab'' \<Longrightarrow> is_hex_lower v" for v
    by (auto simp: is_hex_lower_def)
  let ?h = is_hex_lower and ?m = "\<lambda>c. c = CHR ''-''"
  let ?q4 = "replicate 3 ?h @ ?m # replicate 12 ?h @ []"
  let ?q3 = "replicate 3 ?h @ ?m # (\<lambda>c. c \<in> set ''89ab'') # ?q4"
  let ?q2 = "replicate 4 ?h @ ?m # (\<lambda>c. c \<in> set ''12345'') # ?q3"
  have "matches (replicate 8 ?h @ ?m # ?q2) (lower s)"
    using assms by (simp add: is_guid_def guid_pattern_def Let_def)
  then obtain a s1 where 1: "lower s = a @ s1" "length a = 8" "list_all ?h a" "matches (?m # ?q2) s1"
    by (rule matches_replicateE)
  from 1(4) obtain s2 where 2: "s1 = CHR ''-'' # s2" "matches ?q2 s2"
    by (auto elim!: matches_ConsE)
  from 2(2) obtain b s3 where 3: "s2 = b @ s3" "length b = 4" "list_all ?h b"
    "matches (?m # (\<lambda>c. c \<in> set ''12345'') # ?q3) s3"
    by (rule matches_replicateE)
  from 3(4) obtain v s4 where 4: "s3 = CHR ''-'' # v # s4" "v \<in> set ''12345''" "matches ?q3 s4"
    by (auto elim!: matches_ConsE)
  from 4(3) obtain c s5 where 5: "s4 = c @ s5" "length c = 3" "list_all ?h c"
    "matches (?m # (\<lambda>c. c \<in> set ''89ab'') # ?q4) s5"
    by (rule matches_replicateE)
  from 5(4) obtain w s6 where 6: "s5 = CHR ''-'' # w # s6" "w \<in> set ''89ab''" "matches ?q4 s6"
    by (auto elim!: matches_ConsE)
  from 6(3) obtain d s7 where 7: "s6 = d @ s7" "length d = 3" "list_all ?h d" "matches (?m # replicate 12 ?h @ []) s7"
    by (rule matches_replicateE)
  from 7(4) obtain s8 where 8: "s7 = CHR ''-'' # s8" "matches (replicate 12 ?h @ []) s8"
    by (auto elim!: matches_ConsE)
  from 8(2) obtain e r where 9: "s8 = e @ r" "length e = 12" "list_all ?h e"
    by (rule matches_replicateE)
  have "is_hex_lower v" "is_hex_lower w"
    using sub 4(2) 6(2) by blast+
  then have hex: "list_all is_hex_lower (a @ b @ (v # c) @ (w # d) @ e)"
    using 1(3) 3(3) 5(3) 7(3) 9(3) by simp
  have eq: "lower s = a @ ''-'' @ b @ ''-'' @ (v # c) @ ''-'' @ (w # d) @ ''-'' @ e @ r"
    unfolding 1(1) 2(1) 3(1) 4(1) 5(1) 6(1) 7(1) 8(1) 9(1) by simp
  have "length (v # c) = 4" and "length (w # d) = 4"
    using 5(2) 7(2) by simp_all
  from that [OF eq 1(2) 3(2) this 9(2) hex] show thesis .
qed

lemma hex_value_lower: "hex_value (lower_char c) = hex_value c"
  by (auto simp: hex_value_def lower_char_def Let_def of_char_of)

lemma is_hex_lower_value: "is_hex_lower c \<Longrightarrow> hex_value c \<noteq> None"
  by (auto simp: is_hex_lower_def hex_value_def)

lemma hex_fold_total: "list_all (\<lambda>c. hex_value c \<noteq> None) s \<Longrightarrow> \<exists>n. hex_fold acc s = Some n"
  by (induction s arbitrary: acc) auto

lemma lower_char_eq_dash: "lower_char c = CHR ''-'' \<longleftrightarrow> c = CHR ''-''"
  by (auto simp: lower_char_def Let_def of_char_eq_iff dest!: arg_cong [of _ _ "of_char :: char \<Rightarrow> nat"])

lemma filter_dash_lower: "filter (\<lambda>c. c \<noteq> CHR ''-'') (lower s) = lower (filter (\<lambda>c. c \<noteq> CHR ''-'') s)"
  by (induction s) (auto simp: lower_def lower_char_eq_dash)

lemma filter_dash_hex: "list_all is_hex_lower s \<Longrightarrow> filter (\<lambda>c. c \<noteq> CHR ''-'') s = s"
  by (induction s) (auto simp: is_hex_lower_def)

lemma py_replace_absent: "t \<noteq> [] \<Longrightarrow> hd t \<notin> set s \<Longrightarrow> py_replace t s = s"
  by (induction s) (auto simp: neq_Nil_conv)

lemma dropWhile_none: "\<forall>c\<in>set s. \<not> P c \<Longrightarrow> dropWhile P s = s"
  by (cases s) auto

lemma strip_braces_absent: "CHR ''{'' \<notin> set s \<Longrightarrow> CHR ''}'' \<notin> set s \<Longrightarrow> strip_braces s = s"
proof -
  assume "CHR ''{'' \<notin> set s" "CHR ''}'' \<notin> set s"
  then have "dropWhile (\<lambda>c. c = CHR ''{'' \<or> c = CHR ''}'') s = s"
    "dropWhile (\<lambda>c. c = CHR ''{'' \<or> c = CHR ''}'') (rev s) = rev s"
    by (auto intro!: dropWhile_none)
  then show ?thesis by (simp add: strip_braces_def)
qed

lemma not_guid_char:
  "\<not> (is_hex_lower (lower_char (CHR ''u'')) \<or> lower_char (CHR ''u'') = CHR ''-'')"
  "\<not> (is_hex_lower (lower_char (CHR ''{'')) \<or> lower_char (CHR ''{'') = CHR ''-'')"
  "\<not> (is_hex_lower (lower_char (CHR ''}'')) \<or> lower_char (CHR ''}'') = CHR ''-'')"
  by (simp_all add: is_hex_lower_def lower_char_def)

lemma uuid_int_guid:
  assumes "is_guid s" and "length s = 36"
  obtains n where "n < 2 ^ 128" and "uuid_int s = Inr n" and "guid_text n = lower s"
proof -
  obtain a b c d e r where ls: "lower s = a @ ''-'' @ b @ ''-'' @ c @ ''-'' @ d @ ''-'' @ e @ r"
    and len: "length a = 8" "length b = 4" "length c = 4" "length d = 4" "length e = 12"
    and hex: "list_all is_hex_lower (a @ b @ c @ d @ e)"
    using is_guid_groups [OF assms(1)] .
  have "length (lower s) = 36" using assms(2) by simp
  then have r: "r = []" using len by (simp add: ls)
  define h where "h = filter (\<lambda>c. c \<noteq> CHR ''-'') s"
  have lh: "lower h = a @ b @ c @ d @ e"
    using filter_dash_hex [of a] filter_dash_hex [of b] filter_dash_hex [of c] filter_dash_hex [of d]
      filter_dash_hex [of e] hex
    by (simp add: h_def filter_dash_lower [symmetric] ls r)
  then have "length (lower h) = 32" using len by simp
  then have len_h: "length h = 32" by simp
  have "list_all (\<lambda>c. hex_value c \<noteq> None) (lower h)"
    using hex unfolding lh by (rule list.pred_mono_strong) (simp add: is_hex_lower_value del: not_None_eq)
  then have "list_all (\<lambda>c. hex_value c \<noteq> None) h"
    by (simp add: lower_def list.pred_map comp_def hex_value_lower)
  then obtain n where n: "hex_fold 0 h = Some n" using hex_fold_total by blast
  have digits: "hexn hex_digit 32 n = lower h" "n < 2 ^ 128"
    using hex_fold_lower [OF n] len_h by simp_all
  have chars: "is_hex_lower x \<or> x = CHR ''-''" if "x \<in> set (lower s)" for x
    using that hex by (auto simp: ls r list_all_iff)
  have "lower_char x \<in> set (lower s)" if "x \<in> set s" for x
    using that by (simp add: lower_def)
  then have absent: "CHR ''u'' \<notin> set s" "CHR ''{'' \<notin> set s" "CHR ''}'' \<notin> set s"
    using chars not_guid_char by blast+
  then have "py_replace ''urn:'' s = s" "py_replace ''uuid:'' s = s" "strip_braces s = s"
    by (simp_all add: py_replace_absent strip_braces_absent)
  then have "uuid_int s = Inr n"
    using n len_h by (simp add: uuid_int_def h_def)
  moreover have "guid_text n = lower s"
    using len by (simp add: guid_text_def digits lh ls r Let_def)
  ultimately show thesis using that digits(2) by blast
qed

lemma str2guid_str:
  assumes "is_guid s" and "length s = 36"
  obtains b where "str2guid s = Inr b" and "length b = 16" and "guid2str b = lower s"
proof -
  obtain n where "n < 2 ^ 128" "uuid_int s = Inr n" "guid_text n = lower s"
    using uuid_int_guid [OF assms] .
  then show thesis
    using that [of "guid_bytes n"] str2guid_uuid [OF assms(1)] guid2str_bytes by simp
qed

lemma guid_text_inject: "n < 2 ^ 128 \<Longrightarrow> m < 2 ^ 128 \<Longrightarrow> guid_text n = guid_text m \<Longrightarrow> n = m"
proof -
  assume nm: "n < 2 ^ 128" "m < 2 ^ 128" "guid_text n = guid_text m"
  have len: "length (hexn hex_digit 32 k) = 32" for k by simp
  have "hexn hex_digit 32 n = hexn hex_digit 32 m"
    using nm(3) by (simp add: guid_text_eq hexn_32 append_eq_append_conv)
      (metis append_take_drop_id)
  then have "hex_fold 0 (hexn hex_digit 32 n) = hex_fold 0 (hexn hex_digit 32 m)" by simp
  then show "n = m"
    using nm(1,2) by (simp add: hex_fold_hexn)
qed

lemma length_guid_text [simp]: "length (guid_text n) = 36"
  by (simp add: guid_text_def Let_def)

lemma lower_hex_digit: "d < 16 \<Longrightarrow> lower_char (hex_digit d) = hex_digit d"
  by (auto simp: lower_char_def hex_digit_def Let_def of_char_of)

lemma lower_hexn: "lower (hexn hex_digit w n) = hexn hex_digit w n"
  by (induction w arbitrary: n) (simp_all add: lower_def lower_hex_digit)

lemma lower_guid_text: "lower (guid_text n) = guid_text n"
  by (simp add: guid_text_eq lower_def take_map [symmetric] drop_map [symmetric] lower_hexn [unfolded lower_def]
      lower_char_def)

text \<open>C21: a GUID string of 36 characters is converted to sixteen bytes that convert back to it in
  lower case.\<close>

theorem guid_text_round_trip:
  assumes "is_guid s" and "length s = 36"
  shows "\<exists>b. str2guid s = Inr b \<and> length b = 16 \<and> guid2str b = lower s"
  using str2guid_str [OF assms] by blast

theorem guid_text_round_trip_witness:
  "\<exists>b. str2guid ''8BE4DF61-93CA-11d2-AA0D-00E098032B8C'' = Inr b \<and> length b = 16 \<and>
     guid2str b = ''8be4df61-93ca-11d2-aa0d-00e098032b8c''"
proof -
  have "is_guid ''8BE4DF61-93CA-11d2-AA0D-00E098032B8C''" and
    low: "lower ''8BE4DF61-93CA-11d2-AA0D-00E098032B8C'' = ''8be4df61-93ca-11d2-aa0d-00e098032b8c''"
    by code_simp+
  from guid_text_round_trip [OF this(1)] show ?thesis
    unfolding low by simp
qed

text \<open>sixteen bytes whose text form is a GUID by the pattern (version 1 to 5, variant 8 to b)
  are converted back from their text form unchanged.\<close>

theorem guid_bytes_round_trip:
  assumes "length b = 16" and "is_guid (guid2str b)"
  shows "str2guid (guid2str b) = Inr b"
proof -
  obtain n where n: "n < 2 ^ 128" "guid_bytes n = b"
    using guid_bytes_surj [OF assms(1)] .
  then have str: "guid2str b = guid_text n"
    using guid2str_bytes by blast
  then have "length (guid2str b) = 36" by simp
  from uuid_int_guid [OF assms(2) this] obtain m where
    m: "m < 2 ^ 128" "uuid_int (guid2str b) = Inr m" "guid_text m = lower (guid2str b)" .
  then have "m = n"
    using guid_text_inject [OF m(1) n(1)] by (simp add: str lower_guid_text)
  then show ?thesis
    using str2guid_uuid [OF assms(2) m(2,1)] n(2) by simp
qed

theorem guid_bytes_round_trip_witness:
  "\<exists>b. length b = 16 \<and> guid2str b = ''a5c059a1-94e4-4aa7-87b5-ab155c2bf072'' \<and> str2guid (guid2str b) = Inr b"
proof -
  have guid: "is_guid ''a5c059a1-94e4-4aa7-87b5-ab155c2bf072''"
    and low: "lower ''a5c059a1-94e4-4aa7-87b5-ab155c2bf072'' = ''a5c059a1-94e4-4aa7-87b5-ab155c2bf072''"
    by code_simp+
  from str2guid_str [OF guid] obtain b where
    "length b = 16" "guid2str b = ''a5c059a1-94e4-4aa7-87b5-ab155c2bf072''"
    unfolding low by auto
  with guid_bytes_round_trip [of b] guid show ?thesis by auto
qed

section \<open>Names\<close>

lemma length_str2blob [simp]: "length (str2blob s) = 2 * length s + 2"
  by (induction s) (auto simp: str2blob_def)

lemma le_bytes_2_byte: "le_bytes 2 (unat (x :: byte)) = [x, 0]"
  by (simp add: le_bytes_2)

lemma str2blob_inject [simp]: "str2blob s = str2blob t \<longleftrightarrow> s = t"
proof
  assume "str2blob s = str2blob t"
  then show "s = t"
  proof (induction s arbitrary: t)
    case Nil
    then have "length (str2blob ([] :: string)) = length (str2blob t)" by simp
    then show ?case by simp
  next
    case (Cons c s)
    then have "length (str2blob (c # s)) = length (str2blob t)" by simp
    then obtain d t' where t: "t = d # t'" by (cases t) auto
    with Cons.prems have "c = d" "str2blob s = str2blob t'"
      by (simp_all add: str2blob_def le_bytes_2_byte)
    with Cons.IH [of t'] show ?case by (simp add: t)
  qed
qed simp

end
