(* ===== verification/Ovmf_Variable.thy ===== *)
theory Ovmf_Variable
  imports Ovmf_Guid
begin

text \<open>
  \<open>ovmfkeyenroll/var_enroll.py\<close>: the headers of a firmware volume, of a time stamp, of an
  authentication descriptor and of an authenticated variable.  An attribute that the
  constructor may leave \<open>None\<close> is an option.
\<close>

section \<open>Firmware volumes\<close>

record firmware_volume =
  fv_valid_header :: bool
  fv_guid :: bytes
  fv_size :: nat
  fv_magic :: bytes
  fv_attributes :: nat
  fv_hdrlen :: nat
  fv_checksum :: nat
  fv_ext_header_offset :: nat
  fv_revision :: nat
  fv_name :: "string option"
  fv_raw_data :: "bytes option"

definition FV_HEADER_SIZE :: nat where
  "FV_HEADER_SIZE = 0x38"

definition FV_HEADER_FORMAT :: "sfield list" where
  "FV_HEADER_FORMAT =
     [RawBytes 16, RawBytes 16, UInt 8, RawBytes 4, UInt 4, UInt 2, UInt 2, UInt 2, RawBytes 1, UInt 1]"

definition NVRAM_GUID :: string where
  "NVRAM_GUID = ''fff12b8d-7696-4c8b-a985-2747075b4f50''"

text \<open>When the header cannot be unpacked its fields are not set; they are never read then.\<close>

definition FirmwareVolume :: "bytes \<Rightarrow> firmware_volume" where
  "FirmwareVolume data =
     (let self = \<lparr>fv_valid_header = False, fv_guid = [], fv_size = 0, fv_magic = [], fv_attributes = 0,
                  fv_hdrlen = 0, fv_checksum = 0, fv_ext_header_offset = 0, fv_revision = 0,
                  fv_name = None, fv_raw_data = None\<rparr>
      in case struct_unpack FV_HEADER_FORMAT (take FV_HEADER_SIZE data) of
           Inl e \<Rightarrow> self
         | Inr vs \<Rightarrow>
             (let self = self\<lparr>fv_guid := bytes_of (vs ! 1), fv_size := nat_of (vs ! 2),
                              fv_magic := bytes_of (vs ! 3), fv_attributes := nat_of (vs ! 4),
                              fv_hdrlen := nat_of (vs ! 5), fv_checksum := nat_of (vs ! 6),
                              fv_ext_header_offset := nat_of (vs ! 7), fv_revision := nat_of (vs ! 9)\<rparr>
              in if fv_magic self \<noteq> encode ''_FVH'' then self
                 else if guid2str (fv_guid self) = NVRAM_GUID
                 then self\<lparr>fv_name := Some ''NVRAM'', fv_valid_header := True\<rparr>
                 else self))"

section \<open>Time stamps\<close>

record efi_time =
  t_year :: nat
  t_month :: nat
  t_day :: nat
  t_hour :: nat
  t_minute :: nat
  t_second :: nat
  t_pad1 :: nat
  t_nanosecond :: nat
  t_timezone :: nat
  t_daylight :: nat
  t_pad2 :: nat

definition EFI_TIME_FORMAT :: "sfield list" where
  "EFI_TIME_FORMAT =
     [UInt 2, UInt 1, UInt 1, UInt 1, UInt 1, UInt 1, UInt 1, UInt 4, UInt 2, UInt 1, UInt 1]"

definition EfiTime :: "bytes option \<Rightarrow> efi_time result" where
  "EfiTime data =
     rbind (struct_unpack EFI_TIME_FORMAT (case data of None \<Rightarrow> replicate 16 0 | Some d \<Rightarrow> d)) (\<lambda>vs.
     Inr \<lparr>t_year = nat_of (vs ! 0), t_month = nat_of (vs ! 1), t_day = nat_of (vs ! 2),
          t_hour = nat_of (vs ! 3), t_minute = nat_of (vs ! 4), t_second = nat_of (vs ! 5),
          t_pad1 = nat_of (vs ! 6), t_nanosecond = nat_of (vs ! 7), t_timezone = nat_of (vs ! 8),
          t_daylight = nat_of (vs ! 9), t_pad2 = nat_of (vs ! 10)\<rparr>)"

definition time_fields :: "efi_time \<Rightarrow> nat list" where
  "time_fields t = [t_year t, t_month t, t_day t, t_hour t, t_minute t, t_second t, t_pad1 t,
     t_nanosecond t, t_timezone t, t_daylight t, t_pad2 t]"

definition time_blob :: "efi_time \<Rightarrow> bytes result" where
  "time_blob self = struct_pack EFI_TIME_FORMAT (map (\<lambda>f. SInt (int f)) (time_fields self))"

text \<open>\<open>now()\<close>, from the broken-down time of \<open>time.gmtime\<close>.\<close>

record gmtime =
  tm_year :: nat
  tm_mon :: nat
  tm_mday :: nat
  tm_hour :: nat
  tm_min :: nat
  tm_sec :: nat

definition efi_now :: "gmtime \<Rightarrow> efi_time" where
  "efi_now cur =
     \<lparr>t_year = tm_year cur, t_month = tm_mon cur, t_day = tm_mday cur, t_hour = tm_hour cur,
      t_minute = tm_min cur, t_second = tm_sec cur, t_pad1 = 0, t_nanosecond = 0, t_timezone = 0,
      t_daylight = 0, t_pad2 = 0\<rparr>"

definition time_dump :: "efi_time \<Rightarrow> string" where
  "time_dump self =
     zfill 4 (fmt_dec (int (t_year self))) @ ''-'' @ zfill 2 (fmt_dec (int (t_month self))) @ ''-'' @
     zfill 2 (fmt_dec (int (t_day self))) @ ''T'' @ zfill 2 (fmt_dec (int (t_hour self))) @ '':'' @
     zfill 2 (fmt_dec (int (t_minute self))) @ '':'' @ zfill 2 (fmt_dec (int (t_second self)))"

section \<open>Authentication descriptors\<close>

record auth2 =
  au_time_stamp :: efi_time
  au_authinfo_2_size :: nat

text \<open>\<open>None\<close> is an object that is not valid.\<close>

definition EfiVariableAuthentication2 :: "bytes \<Rightarrow> auth2 option result" where
  "EfiVariableAuthentication2 data =
     (if length data < 20 then Inr None
      else
        rbind (EfiTime (Some (take 16 data))) (\<lambda>t.
        Inr (Some \<lparr>au_time_stamp = t, au_authinfo_2_size = le_val (py_slice data 16 20) + 16\<rparr>)))"

section \<open>Variables\<close>

record variable =
  v_valid_header :: bool
  v_raw_data :: "bytes option"
  v_name_blob :: "bytes option"
  v_name :: "string option"
  v_data :: "bytes option"
  v_start_id :: nat
  v_state :: nat
  v_rsvd :: nat
  v_attributes :: int
  v_count :: nat
  v_time_stamp_blob :: "bytes option"
  v_time_stamp :: "efi_time option"
  v_pk_index :: nat
  v_name_size :: nat
  v_data_size :: int
  v_vendor_guid :: "bytes option"
  v_full_size :: int
  v_vendor_guid_str :: "string option"

definition VAR_ADDED :: nat where
  "VAR_ADDED = 0x3f"

definition VAR_HEADER_SIZE :: nat where
  "VAR_HEADER_SIZE = 60"

definition VAR_HEADER_FORMAT :: "sfield list" where
  "VAR_HEADER_FORMAT =
     [UInt 2, UInt 1, UInt 1, UInt 4, UInt 8, RawBytes 16, UInt 4, UInt 4, UInt 4, RawBytes 16]"

definition empty_variable :: variable where
  "empty_variable =
     \<lparr>v_valid_header = False, v_raw_data = None, v_name_blob = None, v_name = None, v_data = None,
      v_start_id = 0x55aa, v_state = 0x3f, v_rsvd = 0, v_attributes = 0, v_count = 0,
      v_time_stamp_blob = None, v_time_stamp = None, v_pk_index = 0, v_name_size = 0, v_data_size = 0,
      v_vendor_guid = None, v_full_size = 0, v_vendor_guid_str = None\<rparr>"

definition VariableTimeBasedAuth :: "bytes option \<Rightarrow> variable result" where
  "VariableTimeBasedAuth data =
     (case data of
        None \<Rightarrow> Inr empty_variable
      | Some data \<Rightarrow>
          (case struct_unpack VAR_HEADER_FORMAT (take VAR_HEADER_SIZE data) of
             Inl e \<Rightarrow> Inr empty_variable
           | Inr vs \<Rightarrow>
               rbind (EfiTime (Some (bytes_of (vs ! 5)))) (\<lambda>t.
               Inr (empty_variable
                 \<lparr>v_start_id := nat_of (vs ! 0), v_state := nat_of (vs ! 1), v_rsvd := nat_of (vs ! 2),
                  v_attributes := int_of (vs ! 3), v_count := nat_of (vs ! 4),
                  v_time_stamp_blob := Some (bytes_of (vs ! 5)), v_pk_index := nat_of (vs ! 6),
                  v_name_size := nat_of (vs ! 7), v_data_size := int_of (vs ! 8),
                  v_vendor_guid := Some (bytes_of (vs ! 9)), v_time_stamp := Some t,
                  v_full_size := int_of (vs ! 8) + int_of (vs ! 7) + int VAR_HEADER_SIZE,
                  v_vendor_guid_str := Some (guid2str (bytes_of (vs ! 9))), v_valid_header := True\<rparr>))))"

text \<open>An operation on \<open>None\<close> where bytes are needed is a \<open>TypeError\<close>.\<close>

definition need :: "'a option \<Rightarrow> 'a result" where
  "need x = (case x of None \<Rightarrow> Inl TypeError | Some y \<Rightarrow> Inr y)"

definition var_update :: "variable \<Rightarrow> int \<Rightarrow> efi_time \<Rightarrow> bytes \<Rightarrow> int \<Rightarrow> bool \<Rightarrow> variable result" where
  "var_update self attributes time_stamp buffer sz app =
     rbind (time_blob time_stamp) (\<lambda>tb.
     let self = self\<lparr>v_attributes := attributes, v_time_stamp := Some time_stamp, v_time_stamp_blob := Some tb\<rparr> in
     if app then
       rbind (need (v_data self)) (\<lambda>d.
       let self = self\<lparr>v_data := Some (d @ buffer), v_data_size := v_data_size self + sz\<rparr> in
       Inr (self\<lparr>v_full_size := v_data_size self + int (v_name_size self) + int VAR_HEADER_SIZE\<rparr>))
     else Inr (self\<lparr>v_data := Some buffer, v_data_size := sz\<rparr>))"

definition pack_bytes :: "bytes option \<Rightarrow> bytes result" where
  "pack_bytes x = (case x of None \<Rightarrow> Inl StructError | Some y \<Rightarrow> Inr y)"

definition var_blob :: "variable \<Rightarrow> bytes result" where
  "var_blob self =
     rbind (pack_bytes (v_time_stamp_blob self)) (\<lambda>tb.
     rbind (pack_bytes (v_vendor_guid self)) (\<lambda>g.
     rbind (struct_pack VAR_HEADER_FORMAT
              [SInt (int (v_start_id self)), SInt (int (v_state self)), SInt (int (v_rsvd self)),
               SInt (v_attributes self), SInt (int (v_count self)), SBytes tb, SInt (int (v_pk_index self)),
               SInt (int (v_name_size self)), SInt (v_data_size self), SBytes g]) (\<lambda>hdr.
     rbind (need (v_name_blob self)) (\<lambda>nb.
     rbind (need (v_data self)) (\<lambda>d.
     Inr (hdr @ nb @ d))))))"

definition parse_body :: "variable \<Rightarrow> variable result" where
  "parse_body self =
     (case v_raw_data self of
        None \<Rightarrow> Inl (Raised ''Invalid header or raw_data'')
      | Some raw \<Rightarrow>
          if \<not> v_valid_header self \<or> raw = [] then Inl (Raised ''Invalid header or raw_data'')
          else
            (let name_blob = py_slice raw VAR_HEADER_SIZE (VAR_HEADER_SIZE + v_name_size self);
                 data = drop (VAR_HEADER_SIZE + v_name_size self) raw in
             rbind (decode name_blob) (\<lambda>name.
             Inr (self\<lparr>v_name_blob := Some name_blob, v_name := Some name, v_data := Some data\<rparr>))))"

text \<open>\<open>%x\<close> of a possibly negative number.\<close>

definition fmt_hex_int :: "int \<Rightarrow> string" where
  "fmt_hex_int n = (if n < 0 then ''-'' @ fmt_hex 0 (nat (- n)) else fmt_hex 0 (nat n))"

definition str_opt :: "string option \<Rightarrow> string" where
  "str_opt s = (case s of None \<Rightarrow> ''None'' | Some t \<Rightarrow> t)"

definition attr_of :: "'a option \<Rightarrow> 'a result" where
  "attr_of x = (case x of None \<Rightarrow> Inl AttributeError | Some y \<Rightarrow> Inr y)"

definition var_dump :: "variable \<Rightarrow> string list result" where
  "var_dump self =
     rbind (attr_of (v_time_stamp self)) (\<lambda>t.
     rbind (attr_of (v_data self)) (\<lambda>d.
     Inr [''>>  name           : '' @ str_opt (v_name self),
          ''    vendor_guid    : '' @ str_opt (v_vendor_guid_str self),
          ''    full size      : 0x'' @ fmt_hex_int (v_full_size self),
          ''    attributes     : 0x'' @ fmt_hex_int (v_attributes self),
          ''    state          : 0x'' @ fmt_hex 0 (v_state self),
          ''    Monotonic Cnt  : 0x'' @ fmt_hex 0 (v_count self),
          ''    PubKey Index   : 0x'' @ fmt_hex 0 (v_pk_index self),
          ''    TimeStamp      : '' @ time_dump t,
          ''    Data (hex)     : '' @ hex_of_bytes d]))"

section \<open>Time stamps are kept\<close>

definition wf_time :: "efi_time \<Rightarrow> bool" where
  "wf_time t \<longleftrightarrow> t_year t < 2 ^ 16 \<and> t_month t < 2 ^ 8 \<and> t_day t < 2 ^ 8 \<and> t_hour t < 2 ^ 8 \<and>
     t_minute t < 2 ^ 8 \<and> t_second t < 2 ^ 8 \<and> t_pad1 t < 2 ^ 8 \<and> t_nanosecond t < 2 ^ 32 \<and>
     t_timezone t < 2 ^ 16 \<and> t_daylight t < 2 ^ 8 \<and> t_pad2 t < 2 ^ 8"

lemma EfiTime_time_blob:
  assumes "wf_time t"
  obtains b where "time_blob t = Inr b" and "length b = 16" and "EfiTime (Some b) = Inr t"
proof -
  have "struct_fits EFI_TIME_FORMAT (map (\<lambda>f. SInt (int f)) (time_fields t))"
    using assms by (simp add: wf_time_def EFI_TIME_FORMAT_def time_fields_def)
  then obtain b where b: "time_blob t = Inr b"
    "struct_unpack EFI_TIME_FORMAT b = Inr (map (\<lambda>f. SInt (int f)) (time_fields t))"
    unfolding time_blob_def by (rule struct_unpack_pack)
  then have "length b = 16"
    by (auto simp: time_blob_def EFI_TIME_FORMAT_def dest: length_struct_pack)
  moreover have "EfiTime (Some b) = Inr t"
    using b(2) by (simp add: EfiTime_def time_fields_def del: struct_unpack_Inr_iff)
  ultimately show thesis using that b(1) by blast
qed

lemma time_blob_EfiTime:
  assumes "length b = 16"
  obtains t where "EfiTime (Some b) = Inr t" and "time_blob t = Inr b" and "wf_time t"
proof -
  have len: "length b = calcsize EFI_TIME_FORMAT"
    using assms by (simp add: EFI_TIME_FORMAT_def)
  have pack: "struct_pack EFI_TIME_FORMAT (unpack_fields EFI_TIME_FORMAT b) = Inr b"
    using len by (rule struct_pack_unpack [rotated]) (simp add: EFI_TIME_FORMAT_def)
  have fits: "struct_fits EFI_TIME_FORMAT (unpack_fields EFI_TIME_FORMAT b)"
    using len by (rule unpack_fields_fits)
  obtain t where t: "EfiTime (Some b) = Inr t"
    "map (\<lambda>f. SInt (int f)) (time_fields t) = unpack_fields EFI_TIME_FORMAT b"
    using len by (simp add: EfiTime_def struct_unpack_def time_fields_def)
      (simp add: EFI_TIME_FORMAT_def)
  have "time_blob t = Inr b"
    using pack by (simp add: time_blob_def t(2))
  moreover have "wf_time t"
    using fits unfolding t(2) [symmetric]
    by (simp add: wf_time_def EFI_TIME_FORMAT_def time_fields_def)
  ultimately show thesis using that t(1) by blast
qed

section \<open>Variables are kept\<close>

text \<open>A variable as the store holds it.  The full size is not part of it: replacing the data of a
  variable leaves it behind.\<close>

definition wf_variable :: "variable \<Rightarrow> bool" where
  "wf_variable v \<longleftrightarrow>
     v_valid_header v \<and> v_start_id v = 0x55aa \<and> v_state v = VAR_ADDED \<and> v_rsvd v < 2 ^ 8 \<and>
     0 \<le> v_attributes v \<and> v_attributes v < 2 ^ 32 \<and> v_count v < 2 ^ 64 \<and> v_pk_index v < 2 ^ 32 \<and>
     (case v_time_stamp_blob v of None \<Rightarrow> False
      | Some tb \<Rightarrow> length tb = 16 \<and> (case v_time_stamp v of None \<Rightarrow> False | Some t \<Rightarrow> EfiTime (Some tb) = Inr t)) \<and>
     (case v_vendor_guid v of None \<Rightarrow> False
      | Some g \<Rightarrow> length g = 16 \<and> v_vendor_guid_str v = Some (guid2str g)) \<and>
     (case v_name_blob v of None \<Rightarrow> False
      | Some nb \<Rightarrow> v_name_size v = length nb \<and> length nb < 2 ^ 32 \<and> utf8_valid nb) \<and>
     (case v_data v of None \<Rightarrow> False | Some d \<Rightarrow> v_data_size v = int (length d) \<and> length d < 2 ^ 32)"

lemma wf_variableE:
  assumes "wf_variable v"
  obtains tb t g nb d where "v_time_stamp_blob v = Some tb" and "length tb = 16" and "v_time_stamp v = Some t"
    and "EfiTime (Some tb) = Inr t" and "v_vendor_guid v = Some g" and "length g = 16"
    and "v_vendor_guid_str v = Some (guid2str g)" and "v_name_blob v = Some nb" and "v_name_size v = length nb"
    and "length nb < 2 ^ 32" and "utf8_valid nb" and "v_data v = Some d" and "v_data_size v = int (length d)"
    and "length d < 2 ^ 32"
  using assms by (auto simp: wf_variable_def split: option.splits)

text \<open>The variable that reading back its bytes gives.\<close>

definition reloaded :: "variable \<Rightarrow> variable" where
  "reloaded v = v\<lparr>v_raw_data := (case var_blob v of Inr b \<Rightarrow> Some b | Inl _ \<Rightarrow> None),
     v_name := map_option (map chr_byte) (v_name_blob v),
     v_full_size := v_data_size v + int (v_name_size v) + int VAR_HEADER_SIZE\<rparr>"

lemma var_blob_wf:
  assumes "wf_variable v"
  obtains hdr where "var_blob v = Inr (hdr @ the (v_name_blob v) @ the (v_data v))"
    and "length hdr = VAR_HEADER_SIZE" and "take 2 hdr = le_bytes 2 0x55aa"
    and "\<And>rest. VariableTimeBasedAuth (Some (hdr @ rest)) =
      Inr (v\<lparr>v_raw_data := None, v_name_blob := None, v_name := None, v_data := None,
             v_full_size := v_data_size v + int (v_name_size v) + int VAR_HEADER_SIZE\<rparr>)"
proof -
  obtain tb t g nb d where f: "v_time_stamp_blob v = Some tb" "length tb = 16" "v_time_stamp v = Some t"
    "EfiTime (Some tb) = Inr t" "v_vendor_guid v = Some g" "length g = 16"
    "v_vendor_guid_str v = Some (guid2str g)" "v_name_blob v = Some nb" "v_name_size v = length nb"
    "length nb < 2 ^ 32" "v_data v = Some d" "v_data_size v = int (length d)" "length d < 2 ^ 32"
    using assms by (rule wf_variableE)
  have w: "v_valid_header v" "v_start_id v = 0x55aa" "v_state v = VAR_ADDED" "v_rsvd v < 2 ^ 8"
    "0 \<le> v_attributes v" "v_attributes v < 2 ^ 32" "v_count v < 2 ^ 64" "v_pk_index v < 2 ^ 32"
    using assms by (simp_all add: wf_variable_def)
  let ?vs = "[SInt (int (v_start_id v)), SInt (int (v_state v)), SInt (int (v_rsvd v)),
    SInt (v_attributes v), SInt (int (v_count v)), SBytes tb, SInt (int (v_pk_index v)),
    SInt (int (v_name_size v)), SInt (v_data_size v), SBytes g]"
  have "struct_fits VAR_HEADER_FORMAT ?vs"
    using f w by (simp add: VAR_HEADER_FORMAT_def VAR_ADDED_def)
  then obtain hdr where hdr: "struct_pack VAR_HEADER_FORMAT ?vs = Inr hdr" "struct_unpack VAR_HEADER_FORMAT hdr = Inr ?vs"
    by (rule struct_unpack_pack)
  have len: "length hdr = VAR_HEADER_SIZE"
    using length_struct_pack [OF hdr(1)] by (simp add: VAR_HEADER_FORMAT_def VAR_HEADER_SIZE_def)
  have sig: "take 2 hdr = le_bytes 2 0x55aa"
    using hdr(1) w(2) by (auto simp: VAR_HEADER_FORMAT_def rbind_Inr_iff)
  have blob: "var_blob v = Inr (hdr @ the (v_name_blob v) @ the (v_data v))"
    using hdr(1) by (simp add: var_blob_def f pack_bytes_def need_def)
  have "VariableTimeBasedAuth (Some (hdr @ rest)) =
      Inr (v\<lparr>v_raw_data := None, v_name_blob := None, v_name := None, v_data := None,
             v_full_size := v_data_size v + int (v_name_size v) + int VAR_HEADER_SIZE\<rparr>)" for rest
    using hdr(2) len w(1) by (simp add: VariableTimeBasedAuth_def f empty_variable_def del: struct_unpack_Inr_iff)
  then show thesis using that blob len sig by blast
qed

lemma reload_variable:
  assumes "wf_variable v"
  obtains hdr b where "var_blob v = Inr b" and "length b = nat (v_full_size (reloaded v))" and "length b \<ge> VAR_HEADER_SIZE"
    and "b = hdr @ the (v_name_blob v) @ the (v_data v)" and "length hdr = VAR_HEADER_SIZE"
    and "take 2 hdr = le_bytes 2 0x55aa"
    and "\<And>rest. \<exists>u. VariableTimeBasedAuth (Some (hdr @ rest)) = Inr u \<and> v_valid_header u \<and>
      v_state u = VAR_ADDED \<and> v_full_size u = int (length b) \<and>
      parse_body (u\<lparr>v_raw_data := Some b\<rparr>) = Inr (reloaded v)"
proof -
  obtain hdr where hdr: "var_blob v = Inr (hdr @ the (v_name_blob v) @ the (v_data v))"
    "length hdr = VAR_HEADER_SIZE" "take 2 hdr = le_bytes 2 0x55aa"
    "\<And>rest. VariableTimeBasedAuth (Some (hdr @ rest)) =
      Inr (v\<lparr>v_raw_data := None, v_name_blob := None, v_name := None, v_data := None,
             v_full_size := v_data_size v + int (v_name_size v) + int VAR_HEADER_SIZE\<rparr>)"
    by (rule var_blob_wf [OF assms]) (rule that)
  obtain nb d where f: "v_name_blob v = Some nb" "v_name_size v = length nb" "utf8_valid nb"
    "v_data v = Some d" "v_data_size v = int (length d)"
    using assms by (rule wf_variableE)
  have w: "v_valid_header v" "v_state v = VAR_ADDED"
    using assms by (simp_all add: wf_variable_def)
  let ?b = "hdr @ nb @ d"
  have slices: "py_slice ?b VAR_HEADER_SIZE (VAR_HEADER_SIZE + length nb) = nb" "drop (VAR_HEADER_SIZE + length nb) ?b = d"
    "?b \<noteq> []"
    using hdr(2) by (auto simp: py_slice_def VAR_HEADER_SIZE_def)
  have "\<exists>u. VariableTimeBasedAuth (Some (hdr @ rest)) = Inr u \<and> v_valid_header u \<and>
      v_state u = VAR_ADDED \<and> v_full_size u = int (length ?b) \<and> parse_body (u\<lparr>v_raw_data := Some ?b\<rparr>) = Inr (reloaded v)" for rest
    using slices w hdr(1) by (simp add: hdr(2,4) f parse_body_def decode_def reloaded_def Let_def)
  moreover have "length ?b = nat (v_full_size (reloaded v))" "length ?b \<ge> VAR_HEADER_SIZE"
    by (simp_all add: reloaded_def f hdr(2))
  moreover have "var_blob v = Inr ?b" "?b = hdr @ the (v_name_blob v) @ the (v_data v)"
    using hdr(1) by (simp_all add: f)
  ultimately show thesis
    using hdr(2,3) that [of ?b hdr] by blast
qed

end
