(* ===== verification/Ovmf_Store.thy ===== *)
theory Ovmf_Store
  imports Ovmf_Variable
begin

text \<open>
  \<open>ovmfkeyenroll/var_enroll.py\<close>: the variable store of a firmware image, its list of
  variables, writing it back to a file and reading it.
\<close>

section \<open>Definitions\<close>

record file_system =
  contents :: "string \<Rightarrow> bytes option"
  writable :: "string \<Rightarrow> bool"

record variable_store =
  vs_offset_in_fd :: nat
  vs_vars_size :: nat
  vs_header :: bytes
  vs_signature :: bytes
  vs_size :: nat
  vs_format :: nat
  vs_state :: nat
  vs_rsvd :: nat
  vs_rsvd1 :: nat
  vs_raw_data :: bytes
  vs_type :: string
  vs_vars_list :: "variable list"
  vs_valid_header :: bool

definition VS_HEADER_SIZE :: nat where
  "VS_HEADER_SIZE = 28"

definition VS_HEADER_FORMAT :: "sfield list" where
  "VS_HEADER_FORMAT = [RawBytes 16, UInt 4, UInt 1, UInt 1, UInt 2, UInt 4]"

definition EFI_VARIABLE_GUID :: string where
  "EFI_VARIABLE_GUID = ''ddcf3616-3275-4164-98b6-fe85707ffe7d''"

definition EFI_AUTHENTICATED_VARIABLE_BASED_TIME_GUID :: string where
  "EFI_AUTHENTICATED_VARIABLE_BASED_TIME_GUID = ''aaf32c78-947b-439a-a180-2e144ec37792''"

definition EFI_AUTHENTICATED_VARIABLE_GUID :: string where
  "EFI_AUTHENTICATED_VARIABLE_GUID = ''515fa686-b06e-4550-9112-382bf1067bfb''"

definition check_type :: "bytes \<Rightarrow> string \<times> bool" where
  "check_type signature =
     (let str_guid = guid2str signature in
      if str_guid = EFI_VARIABLE_GUID then (''Normal'', False)
      else if str_guid = EFI_AUTHENTICATED_VARIABLE_GUID then (''Authenticated'', False)
      else if str_guid = EFI_AUTHENTICATED_VARIABLE_BASED_TIME_GUID then (''TimeBasedAuthenticated'', True)
      else (''Unknown'', False))"

text \<open>A header that cannot be unpacked leaves an object without the attributes that its users
  read: \<open>None\<close>.\<close>

definition VariableStore :: "firmware_volume \<Rightarrow> nat \<Rightarrow> variable_store option result" where
  "VariableStore fv offset_in_fd =
     rbind (need (fv_raw_data fv)) (\<lambda>raw.
     let header = py_slice raw (fv_hdrlen fv) (fv_hdrlen fv + VS_HEADER_SIZE) in
     case struct_unpack VS_HEADER_FORMAT header of
       Inl e \<Rightarrow> Inr None
     | Inr vs \<Rightarrow>
         Inr (Some \<lparr>vs_offset_in_fd = offset_in_fd + fv_hdrlen fv, vs_vars_size = 0, vs_header = header,
                    vs_signature = bytes_of (vs ! 0), vs_size = nat_of (vs ! 1), vs_format = nat_of (vs ! 2),
                    vs_state = nat_of (vs ! 3), vs_rsvd = nat_of (vs ! 4), vs_rsvd1 = nat_of (vs ! 5),
                    vs_raw_data = drop (fv_hdrlen fv) raw, vs_type = fst (check_type (bytes_of (vs ! 0))),
                    vs_vars_list = [], vs_valid_header = snd (check_type (bytes_of (vs ! 0)))\<rparr>))"

definition is_var :: "string \<Rightarrow> string \<Rightarrow> variable \<Rightarrow> bool" where
  "is_var name vendor_guid var \<longleftrightarrow>
     v_name_blob var = Some (str2blob name) \<and> v_vendor_guid_str var = Some (lower vendor_guid)"

fun delete_first :: "('a \<Rightarrow> bool) \<Rightarrow> 'a list \<Rightarrow> 'a list" where
  "delete_first P [] = []"
| "delete_first P (x # xs) = (if P x then xs else x # delete_first P xs)"

definition store_del_variable :: "variable_store \<Rightarrow> string \<Rightarrow> string \<Rightarrow> bool \<times> variable_store" where
  "store_del_variable self name vendor_guid =
     (if vs_vars_list self = [] then (False, self)
      else if \<not> list_ex (is_var name vendor_guid) (vs_vars_list self) then (False, self)
      else (True, self\<lparr>vs_vars_list := delete_first (is_var name vendor_guid) (vs_vars_list self)\<rparr>))"

definition find_var_in_list :: "variable_store \<Rightarrow> string \<Rightarrow> string \<Rightarrow> variable option" where
  "find_var_in_list self name vendor_guid = find (is_var name vendor_guid) (vs_vars_list self)"

fun replace_first :: "('a \<Rightarrow> bool) \<Rightarrow> 'a \<Rightarrow> 'a list \<Rightarrow> 'a list" where
  "replace_first P y [] = []"
| "replace_first P y (x # xs) = (if P x then y # xs else x # replace_first P y xs)"

definition TIMEBASED_AUTH_WRITE_ACCESS :: int where
  "TIMEBASED_AUTH_WRITE_ACCESS = 0x20"

text \<open>The time stamp that a variable gets: the given one, the current time for a time-based
  authenticated variable, or zero.\<close>

definition stamp :: "gmtime \<Rightarrow> int \<Rightarrow> efi_time option \<Rightarrow> efi_time result" where
  "stamp now attributes time_stamp =
     (let time_stamp = (if attributes AND TIMEBASED_AUTH_WRITE_ACCESS \<noteq> 0 \<and> time_stamp = None
                        then Some (efi_now now) else time_stamp)
      in case time_stamp of None \<Rightarrow> EfiTime None | Some t \<Rightarrow> Inr t)"

definition new_variable :: "string \<Rightarrow> string \<Rightarrow> int \<Rightarrow> efi_time \<Rightarrow> bytes \<Rightarrow> int \<Rightarrow> variable result" where
  "new_variable name vendor_guid attributes time_stamp buffer sz =
     rbind (time_blob time_stamp) (\<lambda>tb.
     rbind (str2guid vendor_guid) (\<lambda>g.
     Inr (empty_variable
       \<lparr>v_time_stamp := Some time_stamp, v_time_stamp_blob := Some tb, v_data_size := sz, v_data := Some buffer,
        v_attributes := attributes, v_name := Some name, v_name_blob := Some (str2blob name),
        v_name_size := length (str2blob name), v_vendor_guid_str := Some (lower vendor_guid),
        v_vendor_guid := Some g,
        v_full_size := sz + int (length (str2blob name)) + int VAR_HEADER_SIZE, v_valid_header := True\<rparr>)))"

definition store_add_variable ::
  "gmtime \<Rightarrow> variable_store \<Rightarrow> string \<Rightarrow> string \<Rightarrow> int \<Rightarrow> efi_time option \<Rightarrow> bytes \<Rightarrow> int \<Rightarrow> bool \<Rightarrow>
   (bool \<times> variable_store) result" where
  "store_add_variable now self name vendor_guid attributes time_stamp buffer sz app =
     rbind (stamp now attributes time_stamp) (\<lambda>time_stamp.
     case find_var_in_list self name vendor_guid of
       Some var \<Rightarrow>
         rbind (var_update var attributes time_stamp buffer sz app) (\<lambda>var.
         Inr (True, self\<lparr>vs_vars_list := replace_first (is_var name vendor_guid) var (vs_vars_list self)\<rparr>))
     | None \<Rightarrow>
         rbind (new_variable name vendor_guid attributes time_stamp buffer sz) (\<lambda>var.
         Inr (True, self\<lparr>vs_vars_list := vs_vars_list self @ [var]\<rparr>)))"

definition padded_blob :: "variable \<Rightarrow> bytes result" where
  "padded_blob var =
     rbind (var_blob var) (\<lambda>vbin.
     let pad = align_by_4 (length vbin) - length vbin in
     Inr (if pad > 0 then vbin @ replicate pad 0xff else vbin))"

text \<open>The image that is written.  \<open>self.size - 28\<close> may be negative; repeating a byte string a
  negative number of times gives nothing, and \<open>nat\<close> subtraction does the same.\<close>

definition sync_buffer :: "variable_store \<Rightarrow> bytes \<Rightarrow> bytes result" where
  "sync_buffer self fd_data =
     (let vars_start = vs_offset_in_fd self + VS_HEADER_SIZE;
          buffer = py_slice_assign fd_data vars_start (vs_offset_in_fd self + vs_size self)
                     (replicate (vs_size self - VS_HEADER_SIZE) 0xff) in
      rbind (rmap padded_blob (vs_vars_list self)) (\<lambda>blobs.
      let blob = concat blobs in
      Inr (if length blob > 0 then py_slice_assign buffer vars_start (vars_start + length blob) blob
           else buffer)))"

definition sync_to_file ::
  "variable_store \<Rightarrow> bytes \<Rightarrow> string option \<Rightarrow> file_system \<Rightarrow> (bool \<times> file_system) result" where
  "sync_to_file self fd_data output_file fs =
     rbind (sync_buffer self fd_data) (\<lambda>buffer.
     Inr (case output_file of
            None \<Rightarrow> (False, fs)
          | Some f \<Rightarrow>
              if writable fs f then (True, fs\<lparr>contents := (contents fs)(f := Some buffer)\<rparr>) else (False, fs)))"

lemma full_size_pos:
  "VariableTimeBasedAuth (Some d) = Inr v \<Longrightarrow> v_valid_header v \<Longrightarrow> int VAR_HEADER_SIZE \<le> v_full_size v"
  by (auto simp: VariableTimeBasedAuth_def rbind_Inr_iff empty_variable_def VAR_HEADER_FORMAT_def
      struct_unpack_def split: if_splits)

lemma align_progress:
  "VariableTimeBasedAuth (Some d) = Inr v \<Longrightarrow> v_valid_header v \<Longrightarrow> start < align_by_4 (start + nat (v_full_size v))"
  using full_size_pos [of d v] align_by_4_bounds(1) [of "start + nat (v_full_size v)"]
  by (simp add: VAR_HEADER_SIZE_def)

function sync_loop :: "bytes \<Rightarrow> nat \<Rightarrow> nat \<Rightarrow> variable list \<Rightarrow> (nat \<times> variable list) result" where
  "sync_loop raw stop start vars =
     (if start < stop then
        rbind (struct_unpack [UInt 2] (py_slice raw start (start + 2))) (\<lambda>sig.
        if int_of (sig ! 0) \<noteq> 0x55aa then Inr (start, vars)
        else
          rbind (VariableTimeBasedAuth (Some (py_slice raw start (start + VAR_HEADER_SIZE)))) (\<lambda>var.
          if \<not> v_valid_header var then Inr (start, vars)
          else
            (let raw_data = py_slice raw start (start + nat (v_full_size var));
                 after = align_by_4 (start + nat (v_full_size var)) in
             if v_state var \<noteq> VAR_ADDED then sync_loop raw stop after vars
             else
               rbind (parse_body (var\<lparr>v_raw_data := Some raw_data\<rparr>)) (\<lambda>var.
               sync_loop raw stop after (vars @ [var])))))
      else Inr (start, vars))"
  by pat_completeness auto

termination
  by (relation "measure (\<lambda>(raw, stop, start, vars). stop - start)")
    (auto intro!: diff_less_mono2 align_progress)

declare sync_loop.simps [simp del]

definition sync_to_vars_list :: "variable_store \<Rightarrow> variable_store result" where
  "sync_to_vars_list self =
     rbind (sync_loop (vs_raw_data self) (vs_size self) VS_HEADER_SIZE (vs_vars_list self)) (\<lambda>(start, vars).
     Inr (self\<lparr>vs_vars_list := vars, vs_vars_size := start - VS_HEADER_SIZE\<rparr>))"

definition store_dump :: "variable_store \<Rightarrow> string list result" where
  "store_dump self =
     rbind (rmap var_dump (vs_vars_list self)) (\<lambda>vars.
     Inr ([''Signature    : '' @ guid2str (vs_signature self),
           ''Type         : '' @ vs_type self,
           ''Format       : 0x'' @ fmt_hex 0 (vs_format self),
           ''State        : 0x'' @ fmt_hex 0 (vs_format self),
           ''Header size  : 0x'' @ fmt_hex 0 VS_HEADER_SIZE,
           ''Body size    : 0x'' @ fmt_hex 0 (vs_size self),
           ''Full size    : 0x'' @ fmt_hex 0 (vs_size self + VS_HEADER_SIZE),
           ''Variables    : '' @ fmt_dec (int (length (vs_vars_list self)))] @ concat vars))"

section \<open>Finding the store in an image\<close>

text \<open>
  \<open>find_var_info\<close>: the loop looks at the header at the current offset and never moves the
  offset, so it ends at once or never; not ending is the value \<open>None\<close>.
\<close>

partial_function (option) find_fv ::
  "bytes \<Rightarrow> nat \<Rightarrow> firmware_volume option \<Rightarrow> firmware_volume option option" where
  "find_fv input_data offset fv =
     (if offset < length input_data then
        (let fv = FirmwareVolume (py_slice input_data offset (offset + 128)) in
         if fv_valid_header fv \<and> fv_name fv = Some ''NVRAM''
         then Some (Some (fv\<lparr>fv_raw_data := Some (py_slice input_data offset (offset + fv_size fv))\<rparr>))
         else find_fv input_data offset (Some fv))
      else Some fv)"

definition find_var_info :: "bytes \<Rightarrow> variable_store option result option" where
  "find_var_info input_data =
     (case find_fv input_data 0 None of
        None \<Rightarrow> None
      | Some None \<Rightarrow> Some (Inl AttributeError)
      | Some (Some fv) \<Rightarrow>
          Some
            (if \<not> fv_valid_header fv then Inr None
             else
               rbind (VariableStore fv 0) (\<lambda>store.
               case store of
                 None \<Rightarrow> Inl AttributeError
               | Some store \<Rightarrow>
                   if \<not> vs_valid_header store then Inr None
                   else rbind (sync_to_vars_list store) (\<lambda>store. Inr (Some store)))))"

lemma find_fv_end: "length d \<le> offset \<Longrightarrow> find_fv d offset fv = Some fv"
  by (simp add: find_fv.simps)

lemma find_fv_valid:
  "offset < length d \<Longrightarrow> f = FirmwareVolume (py_slice d offset (offset + 128)) \<Longrightarrow> fv_valid_header f \<Longrightarrow>
     fv_name f = Some ''NVRAM'' \<Longrightarrow>
     find_fv d offset fv = Some (Some (f\<lparr>fv_raw_data := Some (py_slice d offset (offset + fv_size f))\<rparr>))"
  by (simp add: find_fv.simps Let_def)

lemma find_fv_SomeD:
  "find_fv d offset fv = Some r \<Longrightarrow>
     length d \<le> offset \<or> fv_valid_header (FirmwareVolume (py_slice d offset (offset + 128)))"
proof -
  let ?P = "\<lambda>d offset (fv :: firmware_volume option) (r :: firmware_volume option).
    length d \<le> offset \<or> fv_valid_header (FirmwareVolume (py_slice d offset (offset + 128)))"
  assume "find_fv d offset fv = Some r"
  then show ?thesis
    by (rule find_fv.raw_induct [of ?P, rotated]) (fastforce simp: Let_def split: if_splits)
qed

lemma FirmwareVolume_name: "fv_valid_header (FirmwareVolume d) \<Longrightarrow> fv_name (FirmwareVolume d) = Some ''NVRAM''"
  by (cases "struct_unpack FV_HEADER_FORMAT (take FV_HEADER_SIZE d)")
    (auto simp: FirmwareVolume_def Let_def simp del: struct_unpack_Inr_iff split: if_splits)

lemma find_var_info_diverges_iff:
  "find_var_info d = None \<longleftrightarrow> d \<noteq> [] \<and> \<not> fv_valid_header (FirmwareVolume (take 128 d))"
proof -
  have "find_fv d 0 None = None \<longleftrightarrow> d \<noteq> [] \<and> \<not> fv_valid_header (FirmwareVolume (py_slice d 0 (0 + 128)))"
  proof (cases "d \<noteq> [] \<and> \<not> fv_valid_header (FirmwareVolume (py_slice d 0 (0 + 128)))")
    case True
    then have "find_fv d 0 None \<noteq> Some r" for r
      using find_fv_SomeD [of d 0 None r] by auto
    then have "find_fv d 0 None = None"
      by (cases "find_fv d 0 None") auto
    with True show ?thesis by simp
  next
    case False
    then consider "d = []" | "d \<noteq> []" "fv_valid_header (FirmwareVolume (py_slice d 0 (0 + 128)))" by blast
    then have "find_fv d 0 None \<noteq> None"
      by cases (simp_all add: find_fv_end find_fv_valid FirmwareVolume_name)
    with False show ?thesis by blast
  qed
  then show ?thesis
    by (auto simp: find_var_info_def py_slice_0 split: option.splits)
qed

text \<open>C17: searching an image for the variable store never ends exactly when the image is not empty and
  does not start with a valid header of the variable firmware volume; in every other case it
  returns.\<close>

theorem find_var_info_diverges:
  "find_var_info d = None \<longleftrightarrow> d \<noteq> [] \<and> \<not> fv_valid_header (FirmwareVolume (take 128 d))"
  by (rule find_var_info_diverges_iff)

section \<open>Writing and reading back\<close>

lemma padded_blob_wf:
  assumes "wf_variable v"
  obtains b p where "var_blob v = Inr b" and "padded_blob v = Inr p" and "length p = align_by_4 (length b)"
    and "p = b @ replicate (align_by_4 (length b) - length b) 0xff" and "VAR_HEADER_SIZE \<le> length b"
proof -
  obtain hdr b where b: "var_blob v = Inr b" "VAR_HEADER_SIZE \<le> length b"
    by (rule reload_variable [OF assms]) (rule that)
  then show thesis
    using that [of b "b @ replicate (align_by_4 (length b) - length b) 0xff"] align_by_4_bounds(1) [of "length b"]
    by (simp add: padded_blob_def Let_def)
qed

text \<open>The bytes that a list of variables takes in the store.\<close>

definition blobs_of :: "variable list \<Rightarrow> bytes" where
  "blobs_of vs = concat (map (\<lambda>v. case padded_blob v of Inr p \<Rightarrow> p | Inl _ \<Rightarrow> []) vs)"

lemma rmap_padded_blob:
  "list_all wf_variable vs \<Longrightarrow>
     rmap padded_blob vs = Inr (map (\<lambda>v. case padded_blob v of Inr p \<Rightarrow> p | Inl _ \<Rightarrow> []) vs)"
proof (rule rmap_Inr_map)
  fix v assume "list_all wf_variable vs" "v \<in> set vs"
  then have "wf_variable v" by (simp add: list_all_iff)
  then show "padded_blob v = Inr (case padded_blob v of Inr p \<Rightarrow> p | Inl _ \<Rightarrow> [])"
    by (rule padded_blob_wf) simp
qed

lemma blobs_of_Cons: "blobs_of (v # vs) = (case padded_blob v of Inr p \<Rightarrow> p | Inl _ \<Rightarrow> []) @ blobs_of vs"
  by (simp add: blobs_of_def)

lemma dvd_length_blobs: "list_all wf_variable vs \<Longrightarrow> 4 dvd length (blobs_of vs)"
proof (induction vs)
  case (Cons v vs)
  then have "wf_variable v" by simp
  then show ?case
    using Cons by (elim padded_blob_wf) (simp add: blobs_of_Cons align_by_4_bounds(3))
qed (simp add: blobs_of_def)

text \<open>The list of variables ends at the end of the store or where no variable starts.\<close>

definition vars_end :: "nat \<Rightarrow> nat \<Rightarrow> bytes \<Rightarrow> bool" where
  "vars_end stop used tail \<longleftrightarrow>
     used = stop \<or> used < stop \<and> 2 \<le> length tail \<and> take 2 tail \<noteq> le_bytes 2 0x55aa"

lemma sync_loop_end:
  assumes "raw = pre @ tail" and "vars_end stop (length pre) tail"
  shows "sync_loop raw stop (length pre) vars = Inr (length pre, vars)"
proof (cases "length pre < stop")
  case True
  then have tail: "2 \<le> length tail" "take 2 tail \<noteq> le_bytes 2 0x55aa"
    using assms(2) by (auto simp: vars_end_def)
  then have "le_val (take 2 tail) \<noteq> 0x55aa"
    using le_bytes_le_val [of "take 2 tail" 2] by (metis length_take min.absorb2)
  moreover have "py_slice raw (length pre) (length pre + 2) = take 2 tail"
    using assms(1) by (simp add: py_slice_def)
  ultimately show ?thesis
    using True tail(1) by (simp add: sync_loop.simps struct_unpack_def)
qed (simp add: sync_loop.simps)

lemma sync_loop_step:
  assumes "wf_variable v" and "raw = pre @ (case padded_blob v of Inr p \<Rightarrow> p | Inl _ \<Rightarrow> []) @ rest"
    and "4 dvd length pre" and "length pre < stop"
  shows "sync_loop raw stop (length pre) vars =
    sync_loop raw stop (length (pre @ (case padded_blob v of Inr p \<Rightarrow> p | Inl _ \<Rightarrow> []))) (vars @ [reloaded v])"
proof -
  obtain hdr b where b: "var_blob v = Inr b" "VAR_HEADER_SIZE \<le> length b"
    and hdr: "b = hdr @ the (v_name_blob v) @ the (v_data v)" "length hdr = VAR_HEADER_SIZE" "take 2 hdr = le_bytes 2 0x55aa"
    and parse: "\<And>rest. \<exists>u. VariableTimeBasedAuth (Some (hdr @ rest)) = Inr u \<and> v_valid_header u \<and>
      v_state u = VAR_ADDED \<and> v_full_size u = int (length b) \<and> parse_body (u\<lparr>v_raw_data := Some b\<rparr>) = Inr (reloaded v)"
    by (rule reload_variable [OF assms(1)]) (rule that)
  obtain u where u: "VariableTimeBasedAuth (Some hdr) = Inr u" "v_valid_header u" "v_state u = VAR_ADDED"
    "v_full_size u = int (length b)" "parse_body (u\<lparr>v_raw_data := Some b\<rparr>) = Inr (reloaded v)"
    using parse [of "[]"] by auto
  let ?pad = "replicate (align_by_4 (length b) - length b) (0xff :: byte)"
  have p: "padded_blob v = Inr (b @ ?pad)" "length (b @ ?pad) = align_by_4 (length b)"
    using padded_blob_wf [OF assms(1)] b(1) by (metis sum.inject(2), simp add: align_by_4_bounds(1))
  have raw: "raw = pre @ b @ ?pad @ rest"
    using assms(2) p(1) by simp
  have s2: "py_slice raw (length pre) (length pre + 2) = le_bytes 2 0x55aa"
    using hdr by (simp add: raw py_slice_def VAR_HEADER_SIZE_def)
  have s60: "py_slice raw (length pre) (length pre + VAR_HEADER_SIZE) = hdr"
    using hdr by (simp add: raw py_slice_def)
  have sb: "py_slice raw (length pre) (length pre + length b) = b"
    by (simp add: raw py_slice_def)
  have "align_by_4 (length pre + length b) = length (pre @ b @ ?pad)"
    using align_by_4_add [OF assms(3), of "length b"] p(2) by simp
  then show ?thesis
    using assms(4) u s2 s60 sb by (subst sync_loop.simps) (simp add: struct_unpack_def p(1) Let_def)
qed

lemma padded_blob_length:
  assumes "wf_variable v"
  shows "4 dvd length (case padded_blob v of Inr p \<Rightarrow> p | Inl _ \<Rightarrow> [])"
    and "0 < length (case padded_blob v of Inr p \<Rightarrow> p | Inl _ \<Rightarrow> [])"
proof -
  obtain p and b :: bytes where
    bp: "padded_blob v = Inr p" "length p = align_by_4 (length b)" "VAR_HEADER_SIZE \<le> length b"
    by (rule padded_blob_wf [OF assms]) (rule that)
  then have "0 < length p" "4 dvd length p"
    using align_by_4_bounds(1,3) [of "length b"] by (simp_all add: VAR_HEADER_SIZE_def)
  then show "4 dvd length (case padded_blob v of Inr p \<Rightarrow> p | Inl _ \<Rightarrow> [])"
    and "0 < length (case padded_blob v of Inr p \<Rightarrow> p | Inl _ \<Rightarrow> [])"
    by (simp_all add: bp(1))
qed

lemma sync_loop_blobs:
  "list_all wf_variable vs \<Longrightarrow> raw = pre @ blobs_of vs @ tail \<Longrightarrow> 4 dvd length pre \<Longrightarrow>
   vars_end stop (length (pre @ blobs_of vs)) tail \<Longrightarrow>
   sync_loop raw stop (length pre) vars = Inr (length (pre @ blobs_of vs), vars @ map reloaded vs)"
proof (induction vs arbitrary: pre vars)
  case Nil
  then show ?case using sync_loop_end [of raw pre tail stop vars] by (simp add: blobs_of_def)
next
  case (Cons v vs)
  let ?p = "case padded_blob v of Inr p \<Rightarrow> p | Inl _ \<Rightarrow> []"
  have wf: "wf_variable v" "list_all wf_variable vs" using Cons.prems(1) by simp_all
  note p = padded_blob_length [OF wf(1)]
  have "length pre < stop"
    using Cons.prems(4) p(2) by (auto simp: vars_end_def blobs_of_Cons)
  then have "sync_loop raw stop (length pre) vars = sync_loop raw stop (length (pre @ ?p)) (vars @ [reloaded v])"
    using wf(1) Cons.prems(2,3) by (intro sync_loop_step [where rest = "blobs_of vs @ tail"]) (simp_all add: blobs_of_Cons)
  also have "\<dots> = Inr (length ((pre @ ?p) @ blobs_of vs), (vars @ [reloaded v]) @ map reloaded vs)"
    using wf(2) Cons.prems p(1) by (intro Cons.IH) (simp_all add: blobs_of_Cons)
  finally show ?case by (simp add: blobs_of_Cons)
qed

text \<open>The store fits: it lies inside the image and its variables lie inside the store.\<close>

definition store_fits :: "variable_store \<Rightarrow> bytes \<Rightarrow> bool" where
  "store_fits s fd \<longleftrightarrow>
     list_all wf_variable (vs_vars_list s) \<and> VS_HEADER_SIZE \<le> vs_size s \<and>
     vs_offset_in_fd s + vs_size s \<le> length fd \<and>
     length (blobs_of (vs_vars_list s)) \<le> vs_size s - VS_HEADER_SIZE"

definition stored_image :: "variable_store \<Rightarrow> bytes \<Rightarrow> bytes" where
  "stored_image s fd =
     take (vs_offset_in_fd s + VS_HEADER_SIZE) fd @ blobs_of (vs_vars_list s) @
     replicate (vs_size s - VS_HEADER_SIZE - length (blobs_of (vs_vars_list s))) 0xff @
     drop (vs_offset_in_fd s + vs_size s) fd"

lemma slice_assign_nested:
  assumes "a \<le> b" and "b \<le> length xs" and "length v \<le> b - a"
  shows "py_slice_assign (py_slice_assign xs a b (replicate (b - a) c)) a (a + length v) v =
    take a xs @ v @ replicate (b - a - length v) c @ drop b xs"
proof -
  have len: "length (take a xs) = a" using assms by simp
  have "py_slice_assign xs a b (replicate (b - a) c) = take a xs @ replicate (b - a) c @ drop b xs"
    using assms by (simp add: py_slice_assign_def max_def)
  then show ?thesis
    using assms len by (simp add: py_slice_assign_def)
qed

lemma sync_buffer_fits:
  assumes "store_fits s fd"
  shows "sync_buffer s fd = Inr (stored_image s fd)"
proof -
  let ?blob = "blobs_of (vs_vars_list s)" and ?a = "vs_offset_in_fd s + VS_HEADER_SIZE" and ?b = "vs_offset_in_fd s + vs_size s"
  have f: "list_all wf_variable (vs_vars_list s)" "VS_HEADER_SIZE \<le> vs_size s" "?b \<le> length fd"
    "length ?blob \<le> vs_size s - VS_HEADER_SIZE"
    using assms by (simp_all add: store_fits_def)
  let ?n = "vs_size s - VS_HEADER_SIZE"
  have sz: "?b - ?a = ?n" using f(2) by simp
  have nested: "py_slice_assign (py_slice_assign fd ?a ?b (replicate ?n 0xff)) ?a (?a + length ?blob) ?blob =
      take ?a fd @ ?blob @ replicate (?n - length ?blob) 0xff @ drop ?b fd"
    using slice_assign_nested [of ?a ?b fd ?blob "0xff"] f(2-4) unfolding sz by simp
  have cleared: "py_slice_assign fd ?a ?b (replicate ?n 0xff) = take ?a fd @ replicate ?n 0xff @ drop ?b fd"
    using f(2) by (simp add: py_slice_assign_def max_def)
  have "sync_buffer s fd =
      Inr (if length ?blob > 0 then py_slice_assign (py_slice_assign fd ?a ?b (replicate ?n 0xff)) ?a (?a + length ?blob) ?blob
           else py_slice_assign fd ?a ?b (replicate ?n 0xff))"
    using rmap_padded_blob [OF f(1)] by (simp add: sync_buffer_def Let_def blobs_of_def)
  then show ?thesis
    using nested cleared by (cases "?blob = []") (simp_all add: stored_image_def)
qed

lemma length_stored_image: "store_fits s fd \<Longrightarrow> length (stored_image s fd) = length fd"
  by (auto simp: store_fits_def stored_image_def)

text \<open>C12: when the variables fit into the store, writing them to a file produces an image of the same
  length in which exactly the variable region is replaced, by the blobs of the variables in
  order, each padded to four bytes, followed by erased bytes; everything before and after the region
  is the input image.\<close>

theorem sync_to_file_image:
  assumes "store_fits s fd" and "writable fs f"
  shows "sync_to_file s fd (Some f) fs = Inr (True, fs\<lparr>contents := (contents fs)(f := Some (stored_image s fd))\<rparr>) \<and>
    length (stored_image s fd) = length fd \<and>
    take (vs_offset_in_fd s + VS_HEADER_SIZE) (stored_image s fd) = take (vs_offset_in_fd s + VS_HEADER_SIZE) fd \<and>
    drop (vs_offset_in_fd s + vs_size s) (stored_image s fd) = drop (vs_offset_in_fd s + vs_size s) fd"
proof -
  have "length fd \<ge> vs_offset_in_fd s + VS_HEADER_SIZE"
    using assms(1) by (simp add: store_fits_def)
  then have 1: "take (vs_offset_in_fd s + VS_HEADER_SIZE) (stored_image s fd) = take (vs_offset_in_fd s + VS_HEADER_SIZE) fd"
    by (simp add: stored_image_def)
  have "length (take (vs_offset_in_fd s + VS_HEADER_SIZE) fd @ blobs_of (vs_vars_list s) @
      replicate (vs_size s - VS_HEADER_SIZE - length (blobs_of (vs_vars_list s))) (0xff :: byte)) = vs_offset_in_fd s + vs_size s"
    using assms(1) by (auto simp: store_fits_def)
  then have "drop (vs_offset_in_fd s + vs_size s) (stored_image s fd) = drop (vs_offset_in_fd s + vs_size s) fd"
    unfolding stored_image_def append_assoc [symmetric] by (metis append_eq_conv_conj)
  with 1 show ?thesis
    using assms sync_buffer_fits [OF assms(1)] length_stored_image [OF assms(1)]
    by (simp add: sync_to_file_def)
qed

lemma FirmwareVolume_take: "FirmwareVolume (take 128 d) = FirmwareVolume (take FV_HEADER_SIZE d)"
  by (simp add: FirmwareVolume_def FV_HEADER_SIZE_def)

text \<open>What finding a store in an image says about it.\<close>

lemma find_var_info_SomeD:
  assumes "find_var_info fd = Some (Inr (Some s))"
  obtains fv s0 where "fv = FirmwareVolume (take FV_HEADER_SIZE fd)" and "fd \<noteq> []" and "fv_valid_header fv"
    and "VariableStore (fv\<lparr>fv_raw_data := Some (take (fv_size fv) fd)\<rparr>) 0 = Inr (Some s0)"
    and "vs_valid_header s0" and "sync_to_vars_list s0 = Inr s"
proof -
  have "find_var_info fd \<noteq> None" using assms by simp
  moreover have "find_var_info [] = Some (Inl AttributeError)"
    by (simp add: find_var_info_def find_fv_end)
  then have "fd \<noteq> []"
    using assms by (metis option.inject sum.distinct(1))
  ultimately have valid: "fv_valid_header (FirmwareVolume (take 128 fd))"
    by (simp add: find_var_info_diverges_iff)
  let ?fv = "FirmwareVolume (take FV_HEADER_SIZE fd)"
  have fv: "find_fv fd 0 None = Some (Some (?fv\<lparr>fv_raw_data := Some (take (fv_size ?fv) fd)\<rparr>))"
    using find_fv_valid [of 0 fd "FirmwareVolume (take 128 fd)" None] valid FirmwareVolume_name [OF valid] \<open>fd \<noteq> []\<close>
    by (simp add: py_slice_0 FirmwareVolume_take)
  let ?vol = "?fv\<lparr>fv_raw_data := Some (take (fv_size ?fv) fd)\<rparr>"
  have fvh: "fv_valid_header ?fv" using valid by (simp add: FirmwareVolume_take)
  have "rbind (VariableStore ?vol 0) (\<lambda>store.
      case store of
        None \<Rightarrow> Inl AttributeError
      | Some store \<Rightarrow>
          if \<not> vs_valid_header store then Inr None
          else rbind (sync_to_vars_list store) (\<lambda>store. Inr (Some store))) = Inr (Some s)"
    using assms fvh unfolding find_var_info_def fv by simp
  then obtain store where store: "VariableStore ?vol 0 = Inr store"
    and rest: "(case store of
        None \<Rightarrow> Inl AttributeError
      | Some store \<Rightarrow>
          if \<not> vs_valid_header store then Inr None
          else rbind (sync_to_vars_list store) (\<lambda>store. Inr (Some store))) = Inr (Some s)"
    by (rule rbind_InrE)
  from rest obtain s0 where s0: "store = Some s0" "vs_valid_header s0" "sync_to_vars_list s0 = Inr s"
    by (cases store) (auto simp: rbind_Inr_iff split: if_splits)
  show thesis
    by (rule that [OF refl \<open>fd \<noteq> []\<close> fvh store [unfolded s0(1)] s0(2,3)])
qed

lemma find_var_info_SomeI:
  assumes "fv = FirmwareVolume (take FV_HEADER_SIZE fd)" and "fd \<noteq> []" and "fv_valid_header fv"
    and "VariableStore (fv\<lparr>fv_raw_data := Some (take (fv_size fv) fd)\<rparr>) 0 = Inr (Some s0)"
    and "vs_valid_header s0" and "sync_to_vars_list s0 = Inr s"
  shows "find_var_info fd = Some (Inr (Some s))"
proof -
  have valid: "fv_valid_header (FirmwareVolume (take 128 fd))"
    using assms(1,3) by (simp add: FirmwareVolume_take)
  have "find_fv fd 0 None = Some (Some (fv\<lparr>fv_raw_data := Some (take (fv_size fv) fd)\<rparr>))"
    using find_fv_valid [of 0 fd "FirmwareVolume (take 128 fd)" None] valid FirmwareVolume_name [OF valid] assms(1,2)
    by (simp add: py_slice_0 FirmwareVolume_take)
  then show ?thesis
    using assms(3-6) by (simp add: find_var_info_def)
qed

lemma VariableStore_same_header:
  assumes "VariableStore (fv\<lparr>fv_raw_data := Some raw\<rparr>) off = Inr (Some s)"
    and "py_slice raw' (fv_hdrlen fv) (fv_hdrlen fv + VS_HEADER_SIZE) = py_slice raw (fv_hdrlen fv) (fv_hdrlen fv + VS_HEADER_SIZE)"
  shows "VariableStore (fv\<lparr>fv_raw_data := Some raw'\<rparr>) off = Inr (Some (s\<lparr>vs_raw_data := drop (fv_hdrlen fv) raw'\<rparr>)) \<and>
    vs_offset_in_fd s = off + fv_hdrlen fv \<and> vs_vars_list s = []"
  using assms by (auto simp: VariableStore_def need_def Let_def simp del: struct_unpack_Inr_iff split: sum.splits)

lemma sync_to_vars_list_keeps:
  assumes "sync_to_vars_list s0 = Inr s"
  shows "vs_offset_in_fd s = vs_offset_in_fd s0 \<and> vs_size s = vs_size s0"
  using assms by (auto simp: sync_to_vars_list_def rbind_Inr_iff)

lemma dvd_rest: "4 dvd (l :: nat) \<Longrightarrow> 4 dvd 28 + l + n \<Longrightarrow> 4 dvd n"
  by presburger

lemma sync_to_vars_list_blobs:
  assumes "list_all wf_variable vars" and "vs_raw_data s0 = H @ blobs_of vars @ replicate n 0xff @ rest"
    and "length H = VS_HEADER_SIZE" and "vs_size s0 = VS_HEADER_SIZE + length (blobs_of vars) + n"
    and "4 dvd vs_size s0" and "vs_vars_list s0 = []"
  shows "sync_to_vars_list s0 = Inr (s0\<lparr>vs_vars_list := map reloaded vars, vs_vars_size := length (blobs_of vars)\<rparr>)"
proof -
  have "4 dvd n"
    using assms(5) dvd_rest [OF dvd_length_blobs [OF assms(1)], of n] by (simp add: assms(4) VS_HEADER_SIZE_def)
  have ends: "vars_end (vs_size s0) (length (H @ blobs_of vars)) (replicate n 0xff @ rest)"
  proof (cases "n = 0")
    case True
    then show ?thesis using assms(3,4) by (simp add: vars_end_def)
  next
    case False
    with \<open>4 dvd n\<close> have "4 \<le> n" by (simp add: dvd_imp_le)
    then obtain m where n: "n = Suc (Suc m)" by (metis add_2_eq_Suc le_Suc_ex numeral_Bit0 add.assoc)
    have "take 2 (replicate n 0xff @ rest) \<noteq> le_bytes 2 0x55aa"
      by (simp add: n le_bytes_2)
    then show ?thesis
      using assms(3,4) by (simp add: vars_end_def n)
  qed
  have "sync_loop (vs_raw_data s0) (vs_size s0) (length H) [] = Inr (length (H @ blobs_of vars), [] @ map reloaded vars)"
    using assms(1-3) ends by (intro sync_loop_blobs) (simp_all add: VS_HEADER_SIZE_def)
  then show ?thesis
    using assms(3,6) by (simp add: sync_to_vars_list_def)
qed

text \<open>An image whose store lies inside its firmware volume and is aligned.\<close>

definition sound_image :: "bytes \<Rightarrow> variable_store \<Rightarrow> bool" where
  "sound_image fd s \<longleftrightarrow>
     find_var_info fd = Some (Inr (Some s)) \<and> 4 dvd vs_size s \<and>
     FV_HEADER_SIZE \<le> vs_offset_in_fd s + VS_HEADER_SIZE \<and>
     vs_offset_in_fd s + vs_size s \<le> fv_size (FirmwareVolume (take FV_HEADER_SIZE fd))"

lemma stored_image_parts:
  fixes V :: nat and s :: variable_store and fd :: bytes
  defines "h \<equiv> vs_offset_in_fd s" and "A \<equiv> take (vs_offset_in_fd s + VS_HEADER_SIZE) fd"
  assumes "store_fits s fd" and "FV_HEADER_SIZE \<le> h + VS_HEADER_SIZE" and "h + vs_size s \<le> V"
  obtains n rest where "take V (stored_image s fd) = A @ blobs_of (vs_vars_list s) @ replicate n 0xff @ rest"
    and "take FV_HEADER_SIZE (stored_image s fd) = take FV_HEADER_SIZE fd"
    and "length A = h + VS_HEADER_SIZE"
    and "vs_size s = VS_HEADER_SIZE + length (blobs_of (vs_vars_list s)) + n"
    and "py_slice (take V (stored_image s fd)) h (h + VS_HEADER_SIZE) = py_slice (take V fd) h (h + VS_HEADER_SIZE)"
proof -
  let ?blobs = "blobs_of (vs_vars_list s)" and ?tail = "drop (h + vs_size s) fd"
  define n where "n = vs_size s - VS_HEADER_SIZE - length ?blobs"
  define rest where "rest = take (V - (h + vs_size s)) ?tail"
  have fit: "VS_HEADER_SIZE \<le> vs_size s" "h + vs_size s \<le> length fd" "length ?blobs \<le> vs_size s - VS_HEADER_SIZE"
    using assms(3) by (simp_all add: store_fits_def h_def)
  have img: "stored_image s fd = A @ ?blobs @ replicate n 0xff @ ?tail"
    by (simp add: stored_image_def A_def n_def h_def)
  have lA: "length A = h + VS_HEADER_SIZE" using fit(1,2) by (simp add: A_def h_def)
  have sz: "vs_size s = VS_HEADER_SIZE + length ?blobs + n" using fit(1,3) by (simp add: n_def)
  have raw: "take V (stored_image s fd) = A @ ?blobs @ replicate n 0xff @ rest"
    using assms(5) lA sz by (simp add: img rest_def add.assoc)
  have hdr: "take FV_HEADER_SIZE (stored_image s fd) = take FV_HEADER_SIZE fd"
    using assms(4) lA by (simp add: img) (simp add: A_def h_def min_def)
  have slice_A: "py_slice (A @ xs) h (h + VS_HEADER_SIZE) = drop h A" for xs
    using lA by (simp add: py_slice_def)
  have "take V fd = A @ drop (h + VS_HEADER_SIZE) (take V fd)"
    using assms(5) fit(1) append_take_drop_id [of "h + VS_HEADER_SIZE" "take V fd"] by (simp add: A_def h_def min_def)
  then have "py_slice (take V (stored_image s fd)) h (h + VS_HEADER_SIZE) = py_slice (take V fd) h (h + VS_HEADER_SIZE)"
    using slice_A raw by metis
  then show thesis using that [OF raw hdr lA sz] by blast
qed

lemma stored_image_reads_back:
  assumes "sound_image fd s" and "store_fits (s\<lparr>vs_vars_list := vars\<rparr>) fd"
  obtains s' where "find_var_info (stored_image (s\<lparr>vs_vars_list := vars\<rparr>) fd) = Some (Inr (Some s'))"
    and "vs_vars_list s' = map reloaded vars" and "vs_offset_in_fd s' = vs_offset_in_fd s" and "vs_size s' = vs_size s"
proof -
  obtain fv s0 where fv: "fv = FirmwareVolume (take FV_HEADER_SIZE fd)" "fd \<noteq> []" "fv_valid_header fv"
    and s0: "VariableStore (fv\<lparr>fv_raw_data := Some (take (fv_size fv) fd)\<rparr>) 0 = Inr (Some s0)"
      "vs_valid_header s0" "sync_to_vars_list s0 = Inr s"
    using assms(1) unfolding sound_image_def by (metis find_var_info_SomeD)
  note keep = sync_to_vars_list_keeps [OF s0(3)]
  let ?h = "fv_hdrlen fv" and ?blobs = "blobs_of vars" and ?fd' = "stored_image (s\<lparr>vs_vars_list := vars\<rparr>) fd"
  have off: "vs_offset_in_fd s = ?h" "vs_vars_list s0 = []"
    using VariableStore_same_header [OF s0(1) refl] keep by simp_all
  have wf: "list_all wf_variable vars"
    using assms(2) by (simp add: store_fits_def)
  have geo: "4 dvd vs_size s" "FV_HEADER_SIZE \<le> ?h + VS_HEADER_SIZE" "?h + vs_size s \<le> fv_size fv"
    using assms(1) off fv(1) by (simp_all add: sound_image_def)
  let ?s = "s\<lparr>vs_vars_list := vars\<rparr>"
  have s: "vs_offset_in_fd ?s = ?h" "vs_vars_list ?s = vars" "vs_size ?s = vs_size s"
    by (simp_all add: off)
  define A where "A = take (?h + VS_HEADER_SIZE) fd"
  obtain n rest where raw: "take (fv_size fv) ?fd' = A @ ?blobs @ replicate n 0xff @ rest"
    and hdr: "take FV_HEADER_SIZE ?fd' = take FV_HEADER_SIZE fd" and lA: "length A = ?h + VS_HEADER_SIZE"
    and sz: "vs_size s = VS_HEADER_SIZE + length ?blobs + n"
    and same: "py_slice (take (fv_size fv) ?fd') ?h (?h + VS_HEADER_SIZE) = py_slice (take (fv_size fv) fd) ?h (?h + VS_HEADER_SIZE)"
    using stored_image_parts [OF assms(2), of "fv_size fv", unfolded s, OF geo(2,3)] unfolding A_def by blast
  define s1 where "s1 = s0\<lparr>vs_raw_data := drop ?h (take (fv_size fv) ?fd')\<rparr>"
  have store: "VariableStore (fv\<lparr>fv_raw_data := Some (take (fv_size fv) ?fd')\<rparr>) 0 = Inr (Some s1)"
    using VariableStore_same_header [OF s0(1) same] by (simp add: s1_def)
  have sync: "sync_to_vars_list s1 = Inr (s1\<lparr>vs_vars_list := map reloaded vars, vs_vars_size := length ?blobs\<rparr>)"
    using wf lA sz geo(1) keep off raw
    by (intro sync_to_vars_list_blobs [where H = "drop ?h A" and n = n and rest = rest]) (simp_all add: s1_def)
  have "?fd' \<noteq> []" using raw lA by (auto simp: VS_HEADER_SIZE_def)
  from find_var_info_SomeI [OF _ this fv(3) store _ sync] hdr fv(1) s0(2)
  have "find_var_info ?fd' = Some (Inr (Some (s1\<lparr>vs_vars_list := map reloaded vars, vs_vars_size := length ?blobs\<rparr>)))"
    by (simp add: s1_def)
  then show thesis
    using that keep off by (simp add: s1_def)
qed

text \<open>C5: enrolling persists: when an image holds a sound variable store and the changed list of variables
  fits into it, the image that is written holds a store with the same geometry, and reading it
  finds exactly these variables, in order, with their names, attributes, time stamps, vendor GUIDs and
  data.\<close>

theorem store_round_trip:
  assumes "sound_image fd s" and "store_fits (s\<lparr>vs_vars_list := vars\<rparr>) fd"
  shows "\<exists>s'. find_var_info (stored_image (s\<lparr>vs_vars_list := vars\<rparr>) fd) = Some (Inr (Some s')) \<and>
    vs_vars_list s' = map reloaded vars \<and> vs_offset_in_fd s' = vs_offset_in_fd s \<and> vs_size s' = vs_size s"
  using stored_image_reads_back [OF assms] by metis

section \<open>The list of variables as a map\<close>

text \<open>The contract of a store of values under keys, and what a sequence of operations does to one
  key.\<close>

datatype ('k, 'v) store_op = Put 'k 'v | Del 'k

fun effect :: "'k \<Rightarrow> ('k, 'v) store_op \<Rightarrow> 'v option \<Rightarrow> 'v option" where
  "effect j (Put k v) old = (if j = k then Some v else old)"
| "effect j (Del k) old = (if j = k then None else old)"

fun apply_op :: "('k \<Rightarrow> 'v \<Rightarrow> 's \<Rightarrow> 's) \<Rightarrow> ('k \<Rightarrow> 's \<Rightarrow> 's) \<Rightarrow> ('k, 'v) store_op \<Rightarrow> 's \<Rightarrow> 's" where
  "apply_op put del (Put k v) s = put k v s"
| "apply_op put del (Del k) s = del k s"

fun op_fits :: "('k \<Rightarrow> 'v \<Rightarrow> bool) \<Rightarrow> ('k, 'v) store_op \<Rightarrow> bool" where
  "op_fits fits (Put k v) = fits k v"
| "op_fits fits (Del k) = True"

locale keyed_store =
  fixes valid :: "'s \<Rightarrow> bool" and fits :: "'k \<Rightarrow> 'v \<Rightarrow> bool" and lookup :: "'k \<Rightarrow> 's \<Rightarrow> 'v option"
    and put :: "'k \<Rightarrow> 'v \<Rightarrow> 's \<Rightarrow> 's" and del :: "'k \<Rightarrow> 's \<Rightarrow> 's"
  assumes valid_put: "valid s \<Longrightarrow> fits k v \<Longrightarrow> valid (put k v s)"
    and valid_del: "valid s \<Longrightarrow> valid (del k s)"
    and lookup_put: "valid s \<Longrightarrow> fits k v \<Longrightarrow> lookup j (put k v s) = (if j = k then Some v else lookup j s)"
    and lookup_del: "valid s \<Longrightarrow> lookup j (del k s) = (if j = k then None else lookup j s)"
begin

lemma valid_run: "valid s \<Longrightarrow> list_all (op_fits fits) ops \<Longrightarrow> valid (fold (apply_op put del) ops s)"
proof (induction ops arbitrary: s)
  case (Cons op ops)
  then show ?case by (cases op) (auto simp: valid_put valid_del)
qed simp

lemma lookup_run:
  "valid s \<Longrightarrow> list_all (op_fits fits) ops \<Longrightarrow>
     lookup j (fold (apply_op put del) ops s) = fold (effect j) ops (lookup j s)"
proof (induction ops arbitrary: s)
  case (Cons op ops)
  then show ?case by (cases op) (auto simp: valid_put valid_del lookup_put lookup_del)
qed simp

lemma put_put: "valid s \<Longrightarrow> fits k v \<Longrightarrow> fits k w \<Longrightarrow> lookup j (put k w (put k v s)) = lookup j (put k w s)"
  by (simp add: lookup_put valid_put)

lemma put_del: "valid s \<Longrightarrow> fits k v \<Longrightarrow> lookup j (del k (put k v s)) = lookup j (del k s)"
  by (simp add: lookup_put lookup_del valid_put)

end

type_synonym var_key = "bytes option \<times> string option"

definition key_of_var :: "variable \<Rightarrow> var_key" where
  "key_of_var v = (v_name_blob v, v_vendor_guid_str v)"

definition var_id :: "string \<Rightarrow> string \<Rightarrow> var_key" where
  "var_id name vendor_guid = (Some (str2blob name), Some (lower vendor_guid))"

definition lookup_key :: "var_key \<Rightarrow> variable list \<Rightarrow> variable option" where
  "lookup_key k vs = find (\<lambda>v. key_of_var v = k) vs"

definition put_key :: "var_key \<Rightarrow> variable \<Rightarrow> variable list \<Rightarrow> variable list" where
  "put_key k v vs = (if lookup_key k vs = None then vs @ [v] else replace_first (\<lambda>v. key_of_var v = k) v vs)"

definition del_key :: "var_key \<Rightarrow> variable list \<Rightarrow> variable list" where
  "del_key k vs = delete_first (\<lambda>v. key_of_var v = k) vs"

definition distinct_keys :: "variable list \<Rightarrow> bool" where
  "distinct_keys vs \<longleftrightarrow> distinct (map key_of_var vs)"

lemma lookup_key_None: "lookup_key k vs = None \<longleftrightarrow> k \<notin> key_of_var ` set vs"
  by (auto simp: lookup_key_def find_None_iff)

lemma map_replace_first:
  "key_of_var v = k \<Longrightarrow> map key_of_var (replace_first (\<lambda>v. key_of_var v = k) v vs) = map key_of_var vs"
  by (induction vs) auto

lemma lookup_replace_first:
  "key_of_var v = k \<Longrightarrow> lookup_key j (replace_first (\<lambda>v. key_of_var v = k) v vs) =
     (if j = k \<and> lookup_key k vs \<noteq> None then Some v else lookup_key j vs)"
  by (induction vs) (auto simp: lookup_key_def)

lemma lookup_append_new:
  "lookup_key k vs = None \<Longrightarrow> key_of_var v = k \<Longrightarrow>
     lookup_key j (vs @ [v]) = (if j = k then Some v else lookup_key j vs)"
  by (induction vs) (auto simp: lookup_key_def)

lemma keys_delete_first:
  "set (map key_of_var (delete_first (\<lambda>v. key_of_var v = k) vs)) \<subseteq> set (map key_of_var vs)"
  by (induction vs) auto

lemma distinct_delete_first: "distinct_keys vs \<Longrightarrow> distinct_keys (del_key k vs)"
  unfolding distinct_keys_def del_key_def
proof (induction vs)
  case (Cons v vs)
  then show ?case using keys_delete_first [of k vs] by auto
qed simp

lemma lookup_delete_first:
  "distinct_keys vs \<Longrightarrow> lookup_key j (del_key k vs) = (if j = k then None else lookup_key j vs)"
  unfolding distinct_keys_def del_key_def
  by (induction vs) (auto simp: lookup_key_def find_None_iff rev_image_eqI)

interpretation vars: keyed_store distinct_keys "\<lambda>k v. key_of_var v = k" lookup_key put_key del_key
proof
  show "distinct_keys (put_key k v s)" if "distinct_keys s" and "key_of_var v = k" for s k v
    using that lookup_key_None [of k s]
    by (auto simp: put_key_def distinct_keys_def map_replace_first)
  show "lookup_key j (put_key k v s) = (if j = k then Some v else lookup_key j s)"
    if "distinct_keys s" and "key_of_var v = k" for s k v j
    using that by (simp add: put_key_def lookup_replace_first lookup_append_new)
qed (simp_all add: distinct_delete_first lookup_delete_first)

text \<open>The operations of the store are those of the map.\<close>

lemma is_var_iff: "is_var name g = (\<lambda>v. key_of_var v = var_id name g)"
  by (auto simp: is_var_def key_of_var_def var_id_def)

lemma find_var_in_list_lookup: "find_var_in_list s name g = lookup_key (var_id name g) (vs_vars_list s)"
  by (simp add: find_var_in_list_def lookup_key_def is_var_iff)

lemma var_update_key: "var_update v attrs t buf sz app = Inr v' \<Longrightarrow> key_of_var v' = key_of_var v"
  by (auto simp: var_update_def key_of_var_def rbind_Inr_iff Let_def split: if_splits)

lemma new_variable_key: "new_variable name g attrs t buf sz = Inr v \<Longrightarrow> key_of_var v = var_id name g"
  by (auto simp: new_variable_def key_of_var_def var_id_def rbind_Inr_iff)

lemma store_add_variable_put:
  assumes "store_add_variable now s name g attrs ts buf sz app = Inr (r, s')"
  obtains t v where "stamp now attrs ts = Inr t" and "r" and "key_of_var v = var_id name g"
    and "s' = s\<lparr>vs_vars_list := put_key (var_id name g) v (vs_vars_list s)\<rparr>"
    and "(case find_var_in_list s name g of
            Some u \<Rightarrow> var_update u attrs t buf sz app
          | None \<Rightarrow> new_variable name g attrs t buf sz) = Inr v"
proof -
  obtain t where t: "stamp now attrs ts = Inr t"
    using assms by (auto simp: store_add_variable_def rbind_Inr_iff)
  show thesis
  proof (cases "find_var_in_list s name g")
    case None
    with assms t obtain v where v: "new_variable name g attrs t buf sz = Inr v" "r"
      "s' = s\<lparr>vs_vars_list := vs_vars_list s @ [v]\<rparr>"
      by (auto simp: store_add_variable_def rbind_Inr_iff)
    then show thesis
      using that [OF t v(2) new_variable_key [OF v(1)]] None
      by (simp add: put_key_def find_var_in_list_lookup)
  next
    case (Some u)
    then have "key_of_var u = var_id name g"
      by (auto simp: find_var_in_list_def is_var_iff find_Some_iff)
    moreover from assms t Some obtain v where v: "var_update u attrs t buf sz app = Inr v" "r"
      "s' = s\<lparr>vs_vars_list := replace_first (is_var name g) v (vs_vars_list s)\<rparr>"
      by (auto simp: store_add_variable_def rbind_Inr_iff)
    ultimately show thesis
      using that [OF t v(2)] Some var_update_key [OF v(1)]
      by (simp add: put_key_def find_var_in_list_lookup is_var_iff)
  qed
qed

text \<open>The contents of a variable after an add.\<close>

definition written_data :: "variable option \<Rightarrow> bytes \<Rightarrow> bool \<Rightarrow> bytes option" where
  "written_data old buf app =
     (case old of None \<Rightarrow> Some buf | Some u \<Rightarrow> if app then map_option (\<lambda>d. d @ buf) (v_data u) else Some buf)"

lemma added_contents:
  "(case old of Some u \<Rightarrow> var_update u attrs t buf sz app | None \<Rightarrow> new_variable name g attrs t buf sz) = Inr v \<Longrightarrow>
     v_data v = written_data old buf app \<and> v_attributes v = attrs \<and> v_time_stamp v = Some t"
  by (cases old; cases app)
    (auto simp: written_data_def var_update_def new_variable_def rbind_Inr_iff Let_def need_def split: option.splits)

lemma add_find:
  assumes "store_add_variable now s name g attrs ts buf sz app = Inr (r, s')" and "distinct_keys (vs_vars_list s)"
  shows "distinct_keys (vs_vars_list s') \<and>
    (\<exists>t v. stamp now attrs ts = Inr t \<and> find_var_in_list s' name g = Some v \<and>
       v_data v = written_data (find_var_in_list s name g) buf app \<and> v_attributes v = attrs \<and> v_time_stamp v = Some t) \<and>
    (\<forall>n h. var_id n h \<noteq> var_id name g \<longrightarrow> find_var_in_list s' n h = find_var_in_list s n h)"
proof -
  obtain t v where v: "stamp now attrs ts = Inr t" "key_of_var v = var_id name g"
    "s' = s\<lparr>vs_vars_list := put_key (var_id name g) v (vs_vars_list s)\<rparr>"
    and new: "(case find_var_in_list s name g of Some u \<Rightarrow> var_update u attrs t buf sz app
        | None \<Rightarrow> new_variable name g attrs t buf sz) = Inr v"
    by (rule store_add_variable_put [OF assms(1)]) (rule that)
  show ?thesis
    using v vars.valid_put [OF assms(2) v(2)] vars.lookup_put [OF assms(2) v(2)] added_contents [OF new]
    by (simp add: find_var_in_list_lookup)
qed

text \<open>C13: adding a variable to a store without duplicates makes it findable with the new data (the
  old data extended by it when appending), attributes and time stamp, leaves every other variable
  findable as before, and keeps the store without duplicates.\<close>

theorem add_then_find:
  assumes "store_add_variable now s name g attrs ts buf sz app = Inr (r, s')" and "distinct_keys (vs_vars_list s)"
  shows "distinct_keys (vs_vars_list s') \<and>
    (\<exists>t v. stamp now attrs ts = Inr t \<and> find_var_in_list s' name g = Some v \<and>
       v_data v = written_data (find_var_in_list s name g) buf app \<and> v_attributes v = attrs \<and> v_time_stamp v = Some t) \<and>
    (\<forall>n h. var_id n h \<noteq> var_id name g \<longrightarrow> find_var_in_list s' n h = find_var_in_list s n h)"
  using add_find [OF assms] .

text \<open>Deleting a variable reports whether it was there, removes it from a store without
  duplicates, and leaves every other variable findable as before.\<close>

theorem del_then_find:
  assumes "distinct_keys (vs_vars_list s)" and "store_del_variable s name g = (r, s')"
  shows "r = (find_var_in_list s name g \<noteq> None) \<and> distinct_keys (vs_vars_list s') \<and>
    find_var_in_list s' name g = None \<and>
    (\<forall>n h. var_id n h \<noteq> var_id name g \<longrightarrow> find_var_in_list s' n h = find_var_in_list s n h)"
proof -
  have ex: "list_ex (is_var name g) (vs_vars_list s) \<longleftrightarrow> find_var_in_list s name g \<noteq> None"
    by (auto simp: find_var_in_list_def find_None_iff list_ex_iff)
  show ?thesis
  proof (cases "find_var_in_list s name g = None")
    case True
    then show ?thesis
      using assms ex by (auto simp: store_del_variable_def split: if_splits)
  next
    case False
    then have "r" "s' = s\<lparr>vs_vars_list := del_key (var_id name g) (vs_vars_list s)\<rparr>"
      using assms(2) ex by (auto simp: store_del_variable_def del_key_def is_var_iff split: if_splits)
    then show ?thesis
      using False vars.valid_del [OF assms(1)] vars.lookup_del [OF assms(1)]
      by (simp add: find_var_in_list_lookup)
  qed
qed

section \<open>Well-formed additions\<close>

text \<open>What an addition must satisfy for its variable to survive a write: the header fields are in
  range, the size is that of the data, and the name is ASCII.\<close>

definition ascii_name :: "string \<Rightarrow> bool" where
  "ascii_name s \<longleftrightarrow> list_all (\<lambda>c. ord_byte c \<le> 0x7f) s"

lemma utf8_valid_str2blob: "ascii_name s \<Longrightarrow> utf8_valid (str2blob s)"
  by (rule utf8_valid_ascii) (auto simp: str2blob_def ascii_name_def encode_def list_all_iff le_bytes_2_byte)

lemma new_variable_wf:
  assumes "is_guid g" and "length g = 36" and "wf_time t" and "0 \<le> attrs" and "attrs < 2 ^ 32"
    and "sz = int (length buf)" and "length buf < 2 ^ 32" and "ascii_name name" and "length name < 2 ^ 30"
  obtains v where "new_variable name g attrs t buf sz = Inr v" and "wf_variable v"
proof -
  obtain b where b: "str2guid g = Inr b" "length b = 16" "guid2str b = lower g"
    using str2guid_str [OF assms(1,2)] .
  obtain tb where tb: "time_blob t = Inr tb" "length tb = 16" "EfiTime (Some tb) = Inr t"
    using EfiTime_time_blob [OF assms(3)] .
  obtain v where v: "new_variable name g attrs t buf sz = Inr v"
    by (simp add: new_variable_def b tb)
  then have "wf_variable v"
    using assms(4-9) b tb
    by (auto simp: new_variable_def wf_variable_def empty_variable_def VAR_ADDED_def utf8_valid_str2blob)
  with v show thesis using that by blast
qed

lemma var_update_wf:
  assumes "wf_variable u" and "wf_time t" and "0 \<le> attrs" and "attrs < 2 ^ 32" and "sz = int (length buf)"
    and "length (the (v_data u)) + length buf < 2 ^ 32"
  obtains v where "var_update u attrs t buf sz app = Inr v" and "wf_variable v"
proof -
  obtain tb where tb: "time_blob t = Inr tb" "length tb = 16" "EfiTime (Some tb) = Inr t"
    using EfiTime_time_blob [OF assms(2)] .
  obtain d where d: "v_data u = Some d" "v_data_size u = int (length d)"
    using assms(1) by (auto simp: wf_variable_def split: option.splits)
  obtain v where v: "var_update u attrs t buf sz app = Inr v"
    using d by (cases app) (simp_all add: var_update_def tb need_def Let_def)
  then have "wf_variable v"
    using assms d tb by (cases app) (auto simp: var_update_def wf_variable_def need_def Let_def split: option.splits)
  with v show thesis using that by blast
qed

lemma padded_blob_size:
  assumes "wf_variable v"
  shows "length (case padded_blob v of Inr p \<Rightarrow> p | Inl _ \<Rightarrow> []) =
    align_by_4 (VAR_HEADER_SIZE + length (the (v_name_blob v)) + length (the (v_data v)))"
proof -
  obtain hdr where "var_blob v = Inr (hdr @ the (v_name_blob v) @ the (v_data v))" "length hdr = VAR_HEADER_SIZE"
    by (rule var_blob_wf [OF assms]) (rule that)
  then show ?thesis
    using align_by_4_bounds(1) [of "VAR_HEADER_SIZE + (length (the (v_name_blob v)) + length (the (v_data v)))"]
    by (auto simp: padded_blob_def Let_def add.assoc)
qed

lemma length_blobs_of:
  "list_all wf_variable vs \<Longrightarrow> length (blobs_of vs) =
     sum_list (map (\<lambda>v. align_by_4 (VAR_HEADER_SIZE + length (the (v_name_blob v)) + length (the (v_data v)))) vs)"
  by (induction vs) (simp_all add: blobs_of_Cons padded_blob_size, simp add: blobs_of_def)

section \<open>An image\<close>

text \<open>The binary form of a GUID string, and an image with an empty variable store: a firmware volume of 500
  bytes with a header of 72, and a store of 428 bytes.\<close>

definition guid_of :: "string \<Rightarrow> bytes" where
  "guid_of s = (case str2guid s of Inr b \<Rightarrow> b | Inl _ \<Rightarrow> [])"

lemma guid_of_str: "is_guid s \<Longrightarrow> length s = 36 \<Longrightarrow> length (guid_of s) = 16 \<and> guid2str (guid_of s) = lower s"
  by (rule str2guid_str [of s]) (auto simp: guid_of_def)

lemma guid_constants:
  "length (guid_of NVRAM_GUID) = 16" "guid2str (guid_of NVRAM_GUID) = NVRAM_GUID"
  "length (guid_of EFI_AUTHENTICATED_VARIABLE_BASED_TIME_GUID) = 16"
  "guid2str (guid_of EFI_AUTHENTICATED_VARIABLE_BASED_TIME_GUID) = EFI_AUTHENTICATED_VARIABLE_BASED_TIME_GUID"
proof -
  have "is_guid NVRAM_GUID" "length NVRAM_GUID = 36" "lower NVRAM_GUID = NVRAM_GUID"
    "is_guid EFI_AUTHENTICATED_VARIABLE_BASED_TIME_GUID" "length EFI_AUTHENTICATED_VARIABLE_BASED_TIME_GUID = 36"
    "lower EFI_AUTHENTICATED_VARIABLE_BASED_TIME_GUID = EFI_AUTHENTICATED_VARIABLE_BASED_TIME_GUID"
    by code_simp+
  then show "length (guid_of NVRAM_GUID) = 16" "guid2str (guid_of NVRAM_GUID) = NVRAM_GUID"
    "length (guid_of EFI_AUTHENTICATED_VARIABLE_BASED_TIME_GUID) = 16"
    "guid2str (guid_of EFI_AUTHENTICATED_VARIABLE_BASED_TIME_GUID) = EFI_AUTHENTICATED_VARIABLE_BASED_TIME_GUID"
    using guid_of_str by metis+
qed

definition demo_fv_header :: bytes where
  "demo_fv_header = replicate 16 0 @ guid_of NVRAM_GUID @ le_bytes 8 500 @ encode ''_FVH'' @ le_bytes 4 0 @
     le_bytes 2 72 @ le_bytes 2 0 @ le_bytes 2 0 @ [0] @ le_bytes 1 2"

definition demo_store_header :: bytes where
  "demo_store_header = guid_of EFI_AUTHENTICATED_VARIABLE_BASED_TIME_GUID @ le_bytes 4 428 @
     le_bytes 1 0x5a @ le_bytes 1 0xfe @ le_bytes 2 0 @ le_bytes 4 0"

definition demo_fd :: bytes where
  "demo_fd = demo_fv_header @ replicate 16 0 @ demo_store_header @ replicate 400 0xff"

definition demo_store :: variable_store where
  "demo_store =
     \<lparr>vs_offset_in_fd = 72, vs_vars_size = 0, vs_header = demo_store_header,
      vs_signature = guid_of EFI_AUTHENTICATED_VARIABLE_BASED_TIME_GUID, vs_size = 428, vs_format = 0x5a,
      vs_state = 0xfe, vs_rsvd = 0, vs_rsvd1 = 0, vs_raw_data = demo_store_header @ replicate 400 0xff,
      vs_type = ''TimeBasedAuthenticated'', vs_vars_list = [], vs_valid_header = True\<rparr>"

lemma length_demo: "length demo_fv_header = 56" "length demo_store_header = 28" "length demo_fd = 500"
  using guid_constants by (simp_all add: demo_fv_header_def demo_store_header_def demo_fd_def)

lemma demo_fv:
  "FirmwareVolume demo_fv_header =
     \<lparr>fv_valid_header = True, fv_guid = guid_of NVRAM_GUID, fv_size = 500, fv_magic = encode ''_FVH'',
      fv_attributes = 0, fv_hdrlen = 72, fv_checksum = 0, fv_ext_header_offset = 0, fv_revision = 2,
      fv_name = Some ''NVRAM'', fv_raw_data = None\<rparr>"
proof -
  have "struct_unpack FV_HEADER_FORMAT demo_fv_header =
      Inr [SBytes (replicate 16 0), SBytes (guid_of NVRAM_GUID), SInt 500, SBytes (encode ''_FVH''), SInt 0, SInt 72,
        SInt 0, SInt 0, SBytes [0], SInt 2]"
    using length_demo(1) guid_constants(1)
    by (simp add: struct_unpack_def) (simp add: FV_HEADER_FORMAT_def demo_fv_header_def)
  then show ?thesis
    using length_demo(1) guid_constants(2)
    by (simp add: FirmwareVolume_def FV_HEADER_SIZE_def Let_def del: struct_unpack_Inr_iff encode_simps)
qed

lemma demo_VariableStore:
  "VariableStore ((FirmwareVolume demo_fv_header)\<lparr>fv_raw_data := Some demo_fd\<rparr>) 0 = Inr (Some demo_store)"
proof -
  have hdr: "py_slice demo_fd 72 (72 + VS_HEADER_SIZE) = demo_store_header"
    "drop 72 demo_fd = demo_store_header @ replicate 400 0xff"
    using length_demo(1,2) by (simp_all add: demo_fd_def py_slice_def VS_HEADER_SIZE_def)
  have "struct_unpack VS_HEADER_FORMAT demo_store_header =
      Inr [SBytes (guid_of EFI_AUTHENTICATED_VARIABLE_BASED_TIME_GUID), SInt 428, SInt 0x5a, SInt 0xfe, SInt 0, SInt 0]"
    using length_demo(2) guid_constants(3)
    by (simp add: struct_unpack_def) (simp add: VS_HEADER_FORMAT_def demo_store_header_def)
  moreover have "check_type (guid_of EFI_AUTHENTICATED_VARIABLE_BASED_TIME_GUID) = (''TimeBasedAuthenticated'', True)"
    unfolding check_type_def guid_constants(4) Let_def
    by (simp add: EFI_VARIABLE_GUID_def EFI_AUTHENTICATED_VARIABLE_GUID_def EFI_AUTHENTICATED_VARIABLE_BASED_TIME_GUID_def)
  ultimately show ?thesis
    using hdr by (simp add: demo_fv VariableStore_def need_def demo_store_def Let_def del: struct_unpack_Inr_iff)
qed

lemma demo_sound: "sound_image demo_fd demo_store"
proof -
  have hdr: "take FV_HEADER_SIZE demo_fd = demo_fv_header" "take 500 demo_fd = demo_fd" "demo_fd \<noteq> []"
    using length_demo by (auto simp: demo_fd_def FV_HEADER_SIZE_def)
  have "sync_to_vars_list demo_store = Inr (demo_store\<lparr>vs_vars_list := map reloaded [], vs_vars_size := length (blobs_of [])\<rparr>)"
    by (rule sync_to_vars_list_blobs [of "[]" _ demo_store_header 400 "[]"])
      (simp_all add: demo_store_def blobs_of_def length_demo VS_HEADER_SIZE_def)
  then have "sync_to_vars_list demo_store = Inr demo_store"
    by (simp add: demo_store_def blobs_of_def)
  then have "find_var_info demo_fd = Some (Inr (Some demo_store))"
    using demo_VariableStore hdr
    by (intro find_var_info_SomeI [where fv = "FirmwareVolume demo_fv_header"]) (simp_all add: demo_fv demo_store_def)
  then show ?thesis
    by (simp add: sound_image_def hdr demo_fv) (simp add: demo_store_def FV_HEADER_SIZE_def VS_HEADER_SIZE_def)
qed

definition demo_time :: efi_time where
  "demo_time = efi_now \<lparr>tm_year = 2023, tm_mon = 6, tm_mday = 1, tm_hour = 12, tm_min = 30, tm_sec = 5\<rparr>"

definition demo_variable :: variable where
  "demo_variable = (case new_variable ''Foo'' NVRAM_GUID 7 demo_time [1, 2, 3] 3 of Inr v \<Rightarrow> v | Inl _ \<Rightarrow> empty_variable)"

lemma demo_variable:
  "new_variable ''Foo'' NVRAM_GUID 7 demo_time [1, 2, 3] 3 = Inr demo_variable" "wf_variable demo_variable"
proof -
  have "is_guid NVRAM_GUID" "length NVRAM_GUID = 36" "ascii_name ''Foo''" by code_simp+
  moreover have "wf_time demo_time"
    by (simp add: wf_time_def demo_time_def efi_now_def)
  ultimately obtain v where "new_variable ''Foo'' NVRAM_GUID 7 demo_time [1, 2, 3] 3 = Inr v" "wf_variable v"
    by (auto intro: new_variable_wf [of NVRAM_GUID demo_time 7 3 "[1, 2, 3]" "''Foo''"])
  then show "new_variable ''Foo'' NVRAM_GUID 7 demo_time [1, 2, 3] 3 = Inr demo_variable" "wf_variable demo_variable"
    by (simp_all add: demo_variable_def)
qed

lemma new_variable_fields:
  "new_variable name g attrs t buf sz = Inr v \<Longrightarrow> v_name_blob v = Some (str2blob name) \<and> v_data v = Some buf"
  by (auto simp: new_variable_def rbind_Inr_iff)

lemma demo_variable_fields: "v_name_blob demo_variable = Some (str2blob ''Foo'')" "v_data demo_variable = Some [1, 2, 3]"
  using new_variable_fields [OF demo_variable(1)] by simp_all

lemma demo_fits: "store_fits (demo_store\<lparr>vs_vars_list := [demo_variable]\<rparr>) demo_fd"
  using demo_variable(2)
  by (simp add: store_fits_def length_blobs_of demo_variable_fields length_demo VS_HEADER_SIZE_def VAR_HEADER_SIZE_def
      align_by_4_eq) (simp add: demo_store_def)

theorem sync_to_file_image_witness:
  "let s = demo_store\<lparr>vs_vars_list := [demo_variable]\<rparr>;
       fs = \<lparr>contents = (\<lambda>_. None), writable = (\<lambda>_. True)\<rparr>
   in sync_to_file s demo_fd (Some ''out'') fs =
        Inr (True, fs\<lparr>contents := (contents fs)(''out'' := Some (stored_image s demo_fd))\<rparr>) \<and>
      length (stored_image s demo_fd) = 500"
  using sync_to_file_image [OF demo_fits, of "\<lparr>contents = (\<lambda>_. None), writable = (\<lambda>_. True)\<rparr>" "''out''"]
  by (simp add: Let_def length_demo)

theorem store_round_trip_witness:
  "\<exists>s'. find_var_info (stored_image (demo_store\<lparr>vs_vars_list := [demo_variable]\<rparr>) demo_fd) = Some (Inr (Some s')) \<and>
     vs_vars_list s' = [reloaded demo_variable] \<and> vs_offset_in_fd s' = 72 \<and> vs_size s' = 428"
  using store_round_trip [OF demo_sound demo_fits] by (simp add: demo_store_def)

lemma demo_add:
  "store_add_variable now demo_store ''Foo'' NVRAM_GUID 7 (Some demo_time) [1, 2, 3] 3 False =
     Inr (True, demo_store\<lparr>vs_vars_list := [demo_variable]\<rparr>)"
  using demo_variable(1)
  by (simp add: store_add_variable_def stamp_def find_var_in_list_def demo_store_def)

theorem add_then_find_witness:
  "let s' = demo_store\<lparr>vs_vars_list := [demo_variable]\<rparr> in
   distinct_keys (vs_vars_list s') \<and>
   (\<exists>v. find_var_in_list s' ''Foo'' NVRAM_GUID = Some v \<and> v_data v = Some [1, 2, 3] \<and> v_attributes v = 7) \<and>
   find_var_in_list s' ''Bar'' NVRAM_GUID = None"
proof -
  have none: "find_var_in_list demo_store n h = None" "distinct_keys (vs_vars_list demo_store)" for n h
    by (simp_all add: find_var_in_list_def distinct_keys_def demo_store_def)
  have "var_id ''Bar'' NVRAM_GUID \<noteq> var_id ''Foo'' NVRAM_GUID"
    by (simp add: var_id_def)
  with add_then_find [OF demo_add none(2), of undefined] none(1) show ?thesis
    by (simp add: Let_def written_data_def) blast
qed

theorem del_then_find_witness:
  "let s = demo_store\<lparr>vs_vars_list := [demo_variable]\<rparr> in
   fst (store_del_variable s ''Foo'' NVRAM_GUID) = (find_var_in_list s ''Foo'' NVRAM_GUID \<noteq> None) \<and>
   find_var_in_list (snd (store_del_variable s ''Foo'' NVRAM_GUID)) ''Foo'' NVRAM_GUID = None"
proof -
  let ?s = "demo_store\<lparr>vs_vars_list := [demo_variable]\<rparr>"
  have d: "distinct_keys (vs_vars_list ?s)" by (simp add: distinct_keys_def)
  have "store_del_variable ?s ''Foo'' NVRAM_GUID =
      (fst (store_del_variable ?s ''Foo'' NVRAM_GUID), snd (store_del_variable ?s ''Foo'' NVRAM_GUID))" by simp
  from del_then_find [OF d this] show ?thesis by (simp add: Let_def)
qed

section \<open>No check of the room\<close>

text \<open>writing does not check that the variables fit: when their blobs are longer than the variable
  region, the image keeps its length but the blobs overwrite the bytes that follow the store.\<close>

theorem sync_buffer_overflow:
  assumes "list_all wf_variable (vs_vars_list s)" and "VS_HEADER_SIZE \<le> vs_size s"
    and "vs_size s - VS_HEADER_SIZE < length (blobs_of (vs_vars_list s))"
    and "vs_offset_in_fd s + VS_HEADER_SIZE + length (blobs_of (vs_vars_list s)) \<le> length fd"
  shows "sync_buffer s fd =
    Inr (take (vs_offset_in_fd s + VS_HEADER_SIZE) fd @ blobs_of (vs_vars_list s) @
         drop (vs_offset_in_fd s + VS_HEADER_SIZE + length (blobs_of (vs_vars_list s))) fd)"
proof -
  let ?blob = "blobs_of (vs_vars_list s)" and ?a = "vs_offset_in_fd s + VS_HEADER_SIZE" and ?b = "vs_offset_in_fd s + vs_size s"
  let ?n = "vs_size s - VS_HEADER_SIZE"
  have cleared: "py_slice_assign fd ?a ?b (replicate ?n 0xff) = take ?a fd @ replicate ?n 0xff @ drop ?b fd"
    using assms(2) by (simp add: py_slice_assign_def max_def)
  have "length ?blob - ?n + ?b = ?a + length ?blob"
    using assms(2,3) by simp
  then have "py_slice_assign (take ?a fd @ replicate ?n 0xff @ drop ?b fd) ?a (?a + length ?blob) ?blob =
      take ?a fd @ ?blob @ drop (?a + length ?blob) fd"
    using assms(3,4) by (simp add: py_slice_assign_def ac_simps)
  moreover have "?blob \<noteq> []" using assms(3) by auto
  ultimately show ?thesis
    using rmap_padded_blob [OF assms(1)] cleared by (simp add: sync_buffer_def Let_def blobs_of_def)
qed

theorem sync_buffer_overflow_witness:
  "let s = demo_store\<lparr>vs_size := 32, vs_vars_list := [demo_variable]\<rparr> in
   sync_buffer s demo_fd = Inr (take 100 demo_fd @ blobs_of [demo_variable] @ drop 172 demo_fd)"
proof -
  have len: "length (blobs_of [demo_variable]) = 72"
    using demo_variable(2)
    by (simp add: length_blobs_of demo_variable_fields VAR_HEADER_SIZE_def align_by_4_eq)
  show ?thesis
    using sync_buffer_overflow [of "demo_store\<lparr>vs_size := 32, vs_vars_list := [demo_variable]\<rparr>" demo_fd]
      demo_variable(2) length_demo(3)
    by (simp add: Let_def len VS_HEADER_SIZE_def) (simp add: demo_store_def)
qed

end
