(* ===== verification/Ovmf_Enroll.thy ===== *)
theory Ovmf_Enroll
  imports Ovmf_Store
begin

text \<open>
  \<open>ovmfkeyenroll/var_enroll.py\<close>: signature lists, the operations that enrol keys,
  databases and other variables, and the command.
\<close>

section \<open>Files and numbers\<close>

text \<open>\<open>open(f, 'rb').read()\<close>.\<close>

definition read_file :: "file_system \<Rightarrow> string option \<Rightarrow> bytes result" where
  "read_file fs f =
     (case f of
        None \<Rightarrow> Inl TypeError
      | Some f \<Rightarrow> (case contents fs f of None \<Rightarrow> Inl OSError | Some d \<Rightarrow> Inr d))"

text \<open>\<open>int(s, 16)\<close>: surrounding white space, a sign, the prefix \<open>0x\<close>, and single
  underscores between digits.  The state of the digit scanner: 0 at the start, 1 after the prefix, 2 after a
  digit, 3 after an underscore.\<close>

fun hex_literal :: "nat \<Rightarrow> nat \<Rightarrow> string \<Rightarrow> nat option" where
  "hex_literal st acc [] = (if st = 2 then Some acc else None)"
| "hex_literal st acc (c # s) =
     (if c = CHR ''_'' then (if st = 1 \<or> st = 2 then hex_literal 3 acc s else None)
      else case hex_value c of None \<Rightarrow> None | Some d \<Rightarrow> hex_literal 2 (16 * acc + d) s)"

definition hex_unsigned :: "string \<Rightarrow> nat option" where
  "hex_unsigned s =
     (if starts_with ''0x'' s \<or> starts_with ''0X'' s then hex_literal 1 0 (drop 2 s) else hex_literal 0 0 s)"

definition int_base16 :: "string \<Rightarrow> int result" where
  "int_base16 s =
     (let t = py_strip s;
          r = (if starts_with ''-'' t then map_option (\<lambda>n. - int n) (hex_unsigned (drop 1 t))
               else if starts_with ''+'' t then map_option int (hex_unsigned (drop 1 t))
               else map_option int (hex_unsigned t))
      in case r of None \<Rightarrow> Inl ValueError | Some n \<Rightarrow> Inr n)"

section \<open>Signature lists\<close>

definition EFI_GLOBAL_VARIABLE :: string where
  "EFI_GLOBAL_VARIABLE = ''8BE4DF61-93CA-11d2-AA0D-00E098032B8C''"

definition EFI_IMAGE_SECURITY_DATABASE_GUID :: string where
  "EFI_IMAGE_SECURITY_DATABASE_GUID = ''d719b2cb-3d3a-4596-a3bc-dad00e67656f''"

definition EFI_CERT_X509_GUID :: string where
  "EFI_CERT_X509_GUID = ''a5c059a1-94e4-4aa7-87b5-ab155c2bf072''"

record efi_signature_list =
  signature_type :: bytes
  signature_list_size :: nat
  signature_header_size :: nat
  signature_size :: nat
  signature_data :: bytes

definition SIGNATURE_LIST_SIZE :: nat where
  "SIGNATURE_LIST_SIZE = 28"

definition SIGNATURE_DATA_SIZE :: nat where
  "SIGNATURE_DATA_SIZE = 16"

definition signature_list_blob :: "efi_signature_list \<Rightarrow> bytes result" where
  "signature_list_blob self =
     rbind (struct_pack [UInt 4, UInt 4, UInt 4]
              [SInt (int (signature_list_size self)), SInt (int (signature_header_size self)),
               SInt (int (signature_size self))]) (\<lambda>blob1.
     Inr (signature_type self @ blob1 @ signature_data self))"

definition signature_data_blob :: "bytes \<Rightarrow> bytes \<Rightarrow> bytes" where
  "signature_data_blob owner data = owner @ data"

definition create_pk_x509_cert_list ::
  "file_system \<Rightarrow> string option \<Rightarrow> string option \<Rightarrow> efi_signature_list result" where
  "create_pk_x509_cert_list fs cert_file signature_owner =
     (case signature_owner of
        None \<Rightarrow> Inl (Raised ''Signature owner is empty!'')
      | Some owner \<Rightarrow>
          rbind (str2guid owner) (\<lambda>sig_owner.
          if length sig_owner \<noteq> 16 then Inl (Raised ''Invalid Signature owner.'')
          else
            rbind (read_file fs cert_file) (\<lambda>cert_data.
            rbind (str2guid EFI_CERT_X509_GUID) (\<lambda>ty.
            Inr \<lparr>signature_type = ty,
                 signature_list_size = SIGNATURE_LIST_SIZE + SIGNATURE_DATA_SIZE + length cert_data,
                 signature_header_size = 0, signature_size = SIGNATURE_DATA_SIZE + length cert_data,
                 signature_data = signature_data_blob sig_owner cert_data\<rparr>))))"

section \<open>Enrolling\<close>

definition KEY_ATTRIBUTES :: int where
  "KEY_ATTRIBUTES = ((0x1 OR 0x4) OR 0x2) OR TIMEBASED_AUTH_WRITE_ACCESS"

definition enroll_platform_key ::
  "gmtime \<Rightarrow> file_system \<Rightarrow> string option \<Rightarrow> string option \<Rightarrow> variable_store \<Rightarrow> (bool \<times> variable_store) result" where
  "enroll_platform_key now fs guid cert_file var_store =
     rbind (create_pk_x509_cert_list fs cert_file guid) (\<lambda>sig_list.
     rbind (signature_list_blob sig_list) (\<lambda>blob.
     store_add_variable now var_store ''PK'' EFI_GLOBAL_VARIABLE KEY_ATTRIBUTES None blob
       (int (signature_list_size sig_list)) False))"

definition enroll_kek ::
  "gmtime \<Rightarrow> file_system \<Rightarrow> string option \<Rightarrow> string option \<Rightarrow> variable_store \<Rightarrow> bool \<Rightarrow>
   (bool \<times> variable_store) result" where
  "enroll_kek now fs guid cert_file var_store app =
     rbind (create_pk_x509_cert_list fs cert_file guid) (\<lambda>sig_list.
     rbind (signature_list_blob sig_list) (\<lambda>blob.
     store_add_variable now var_store ''KEK'' EFI_GLOBAL_VARIABLE KEY_ATTRIBUTES None blob
       (int (signature_list_size sig_list)) app))"

definition enroll_signature_db ::
  "gmtime \<Rightarrow> file_system \<Rightarrow> string \<Rightarrow> string option \<Rightarrow> string option \<Rightarrow> variable_store \<Rightarrow> bool \<Rightarrow>
   (bool \<times> variable_store) result" where
  "enroll_signature_db now fs name guid data_file var_store app =
     (if name = ''db'' then
        rbind (create_pk_x509_cert_list fs data_file guid) (\<lambda>sig_list.
        rbind (signature_list_blob sig_list) (\<lambda>blob.
        store_add_variable now var_store name EFI_IMAGE_SECURITY_DATABASE_GUID KEY_ATTRIBUTES None blob
          (int (signature_list_size sig_list)) app))
      else if name = ''dbx'' then
        rbind (read_file fs data_file) (\<lambda>data.
        rbind (EfiVariableAuthentication2 data) (\<lambda>auth2.
        case auth2 of
          None \<Rightarrow> Inl (Raised ''Error: Cannot parse the dbx bin file'')
        | Some auth2 \<Rightarrow>
            store_add_variable now var_store name EFI_IMAGE_SECURITY_DATABASE_GUID KEY_ATTRIBUTES
              (Some (au_time_stamp auth2)) (drop (au_authinfo_2_size auth2) data)
              (int (length data) - int (au_authinfo_2_size auth2)) app))
      else Inl (Raised ''Unsupported SignatureDB''))"

definition enroll_variable ::
  "gmtime \<Rightarrow> file_system \<Rightarrow> string \<Rightarrow> string \<Rightarrow> string option \<Rightarrow> int \<Rightarrow> variable_store \<Rightarrow> bool \<Rightarrow>
   (bool \<times> variable_store) result" where
  "enroll_variable now fs name guid data_file attributes var_store app =
     rbind (read_file fs data_file) (\<lambda>pay_load.
     store_add_variable now var_store name guid attributes None pay_load (int (length pay_load)) app)"

definition add_variable ::
  "gmtime \<Rightarrow> file_system \<Rightarrow> string \<Rightarrow> string \<Rightarrow> string option \<Rightarrow> int \<Rightarrow> variable_store \<Rightarrow> bool \<Rightarrow>
   (bool \<times> variable_store) result" where
  "add_variable now fs name guid data_file attributes var_store app =
     (if lower name = ''pk'' then
        (if app then Inl (Raised ''PK cannot be appended.'')
         else enroll_platform_key now fs (Some guid) data_file var_store)
      else if lower name = ''kek'' then enroll_kek now fs (Some guid) data_file var_store app
      else if lower name = ''db'' \<or> lower name = ''dbx'' then
        enroll_signature_db now fs (lower name) (Some guid) data_file var_store app
      else enroll_variable now fs name guid data_file attributes var_store app)"

definition update_variable ::
  "gmtime \<Rightarrow> file_system \<Rightarrow> string \<Rightarrow> string \<Rightarrow> string option \<Rightarrow> int \<Rightarrow> variable_store \<Rightarrow>
   (bool \<times> variable_store) result" where
  "update_variable now fs name guid data_file attributes var_store =
     (case find_var_in_list var_store name guid of
        None \<Rightarrow> Inr (False, var_store)
      | Some var \<Rightarrow>
          (let (_, var_store) = store_del_variable var_store name guid in
           add_variable now fs name guid data_file attributes var_store True))"

section \<open>The command\<close>

datatype var_enroll_op = ADD | DEL | APPEND | UPDATE

record enroll_args =
  a_info :: bool
  a_input :: "string option"
  a_operation :: "var_enroll_op option"
  a_name :: "string option"
  a_guid :: "string option"
  a_attributes :: "string option"
  a_data_file :: "string option"
  a_output :: "string option"

text \<open>The operations dereference name and guid; \<open>check_args\<close> has refused missing ones.\<close>

text \<open>\<open>del_variable\<close> only prints the outcome.\<close>

definition del_variable :: "string \<Rightarrow> string \<Rightarrow> variable_store \<Rightarrow> bool \<times> variable_store" where
  "del_variable name guid var_store = store_del_variable var_store name guid"

declare del_variable_def [simp]

definition process_op ::
  "gmtime \<Rightarrow> file_system \<Rightarrow> enroll_args \<Rightarrow> int \<Rightarrow> variable_store \<Rightarrow> (bool \<times> variable_store) result" where
  "process_op now fs args attr var_store =
     rbind (attr_of (a_name args)) (\<lambda>name.
     rbind (attr_of (a_guid args)) (\<lambda>guid.
     case a_operation args of
       Some ADD \<Rightarrow> add_variable now fs name guid (a_data_file args) attr var_store False
     | Some APPEND \<Rightarrow> add_variable now fs name guid (a_data_file args) attr var_store True
     | Some DEL \<Rightarrow> Inr (del_variable name guid var_store)
     | Some UPDATE \<Rightarrow> update_variable now fs name guid (a_data_file args) attr var_store
     | None \<Rightarrow> Inl (Raised ''Unkown operation'')))"

definition process_var ::
  "gmtime \<Rightarrow> enroll_args \<Rightarrow> variable_store \<Rightarrow> bytes \<Rightarrow> file_system \<Rightarrow> (bool \<times> file_system) result" where
  "process_var now args var_store fd_data fs =
     rbind (case a_attributes args of
              None \<Rightarrow> Inr 0
            | Some a \<Rightarrow> if a = '''' then Inr 0 else int_base16 a) (\<lambda>attr.
     rbind (process_op now fs args attr var_store) (\<lambda>(ret, var_store).
     if ret then sync_to_file var_store fd_data (a_output args) fs else Inr (ret, fs)))"

definition check_args :: "file_system \<Rightarrow> enroll_args \<Rightarrow> bool result" where
  "check_args fs args =
     (case a_name args of
        None \<Rightarrow> Inl (Raised ''Variable name is missing. -n var_name'')
      | Some name \<Rightarrow>
          (case a_guid args of
             None \<Rightarrow> Inl TypeError
           | Some guid \<Rightarrow>
               if \<not> is_guid guid then Inl (Raised ''Invalid input guid.'')
               else if a_operation args = Some DEL then Inr True
               else
                 (case a_data_file args of
                    None \<Rightarrow> Inl TypeError
                  | Some f \<Rightarrow>
                      if contents fs f = None then Inl (Raised ''Invalid input data file'')
                      else if lower name \<in> {''pk'', ''kek'', ''db'', ''dbx''} \<and> a_operation args \<noteq> None then Inr True
                      else if a_operation args \<noteq> None then
                        (case a_attributes args of
                           None \<Rightarrow> Inl TypeError
                         | Some a \<Rightarrow> rbind (int_base16 a) (\<lambda>_. Inr True))
                      else Inr True)))"

text \<open>The outcome: the return value, what \<open>--info\<close> prints, and the files.  \<open>None\<close> is the search for
  the store that never ends; an exception outside the two \<open>try\<close> blocks is \<open>Inl\<close>.\<close>

definition var_enroll ::
  "gmtime \<Rightarrow> enroll_args \<Rightarrow> file_system \<Rightarrow> (bool \<times> string list \<times> file_system) result option" where
  "var_enroll now args fs =
     (case read_file fs (a_input args) of
        Inl e \<Rightarrow> Some (Inr (False, [], fs))
      | Inr fd_data \<Rightarrow>
          map_option (\<lambda>r.
            rbind r (\<lambda>var_store.
            case var_store of
              None \<Rightarrow> Inr (False, [], fs)
            | Some store \<Rightarrow>
                if a_info args then rbind (store_dump store) (\<lambda>ls. Inr (True, ls, fs))
                else
                  (case check_args fs args of
                     Inl e \<Rightarrow> Inr (False, [], fs)
                   | Inr _ \<Rightarrow>
                       (case process_var now args store fd_data fs of
                          Inl e \<Rightarrow> Inr (False, [], fs)
                        | Inr (ret, fs) \<Rightarrow> Inr (True, [], fs)))))
            (find_var_info fd_data))"

section \<open>What the operations leave alone\<close>

text \<open>Every operation changes the list of variables only.\<close>

definition same_store :: "variable_store \<Rightarrow> variable_store \<Rightarrow> bool" where
  "same_store s s' \<longleftrightarrow> s' = s\<lparr>vs_vars_list := vs_vars_list s'\<rparr>"

lemma same_store_refl [simp]: "same_store s s"
  by (simp add: same_store_def)

lemma same_store_update [simp]: "same_store s (s\<lparr>vs_vars_list := vs\<rparr>)"
  by (simp add: same_store_def)

lemma same_store_trans: "same_store s t \<Longrightarrow> same_store t u \<Longrightarrow> same_store s u"
  by (cases s; cases t; cases u) (simp add: same_store_def)

lemma store_add_same: "store_add_variable now s n g a t b sz app = Inr (r, s') \<Longrightarrow> same_store s s'"
  by (auto simp: store_add_variable_def rbind_Inr_iff split: option.splits)

lemma store_del_same: "store_del_variable s n g = (r, s') \<Longrightarrow> same_store s s'"
  by (auto simp: store_del_variable_def split: if_splits)

lemma add_variable_same: "add_variable now fs n g f a s app = Inr (r, s') \<Longrightarrow> same_store s s'"
  by (auto simp: add_variable_def enroll_platform_key_def enroll_kek_def enroll_signature_db_def
      enroll_variable_def rbind_Inr_iff dest!: store_add_same split: if_splits option.splits)

lemma update_variable_same: "update_variable now fs n g f a s = Inr (r, s') \<Longrightarrow> same_store s s'"
  by (auto simp: update_variable_def dest!: add_variable_same store_del_same
      intro: same_store_trans split: option.splits prod.splits)

lemma process_op_same: "process_op now fs args attr s = Inr (r, s') \<Longrightarrow> same_store s s'"
  by (cases "a_operation args"; cases "the (a_operation args)")
    (auto simp: process_op_def rbind_Inr_iff dest: add_variable_same store_del_same update_variable_same)

section \<open>Persistence\<close>

lemma key_of_reloaded [simp]: "key_of_var (reloaded v) = key_of_var v"
  by (simp add: reloaded_def key_of_var_def)

lemma lookup_reloaded: "lookup_key k (map reloaded vs) = map_option reloaded (lookup_key k vs)"
  by (induction vs) (auto simp: lookup_key_def)

definition parsed_attributes :: "enroll_args \<Rightarrow> int result" where
  "parsed_attributes args =
     (case a_attributes args of None \<Rightarrow> Inr 0 | Some a \<Rightarrow> if a = '''' then Inr 0 else int_base16 a)"

lemma var_enroll_run:
  assumes "\<not> a_info args" and "a_input args = Some i" and "contents fs i = Some fd"
    and "find_var_info fd = Some (Inr (Some s))" and "check_args fs args = Inr ok" and "parsed_attributes args = Inr attr"
    and "process_op now fs args attr s = Inr (True, s1)" and "store_fits s1 fd"
    and "a_output args = Some out" and "writable fs out"
  shows "var_enroll now args fs =
    Some (Inr (True, [], fs\<lparr>contents := (contents fs)(out := Some (stored_image s1 fd))\<rparr>))"
proof -
  have "sync_to_file s1 fd (Some out) fs = Inr (True, fs\<lparr>contents := (contents fs)(out := Some (stored_image s1 fd))\<rparr>)"
    using sync_buffer_fits [OF assms(8)] assms(10) by (simp add: sync_to_file_def)
  then have "process_var now args s fd fs = Inr (True, fs\<lparr>contents := (contents fs)(out := Some (stored_image s1 fd))\<rparr>)"
    using assms(6,7,9) by (simp add: process_var_def parsed_attributes_def)
  then show ?thesis
    using assms(1-5) by (simp add: var_enroll_def read_file_def)
qed

text \<open>C6: when the command succeeds in changing the variable store of a sound image and the result
  fits, it returns true, writes exactly the output file, and a later run of the tool finds in that file
  exactly the variables of the changed store, under the same names and vendor GUIDs.\<close>

theorem var_enroll_persists:
  assumes "\<not> a_info args" and "a_input args = Some i" and "contents fs i = Some fd" and "sound_image fd s"
    and "check_args fs args = Inr ok" and "parsed_attributes args = Inr attr"
    and "process_op now fs args attr s = Inr (True, s1)" and "store_fits s1 fd"
    and "a_output args = Some out" and "writable fs out"
  shows "var_enroll now args fs =
      Some (Inr (True, [], fs\<lparr>contents := (contents fs)(out := Some (stored_image s1 fd))\<rparr>)) \<and>
    (\<exists>s'. find_var_info (stored_image s1 fd) = Some (Inr (Some s')) \<and>
       (\<forall>n g. find_var_in_list s' n g = map_option reloaded (find_var_in_list s1 n g)))"
proof -
  have "find_var_info fd = Some (Inr (Some s))"
    using assms(4) by (simp add: sound_image_def)
  note run = var_enroll_run [OF assms(1-3) this assms(5-10)]
  have s1: "s1 = s\<lparr>vs_vars_list := vs_vars_list s1\<rparr>"
    using process_op_same [OF assms(7)] by (simp add: same_store_def)
  obtain s' where "find_var_info (stored_image s1 fd) = Some (Inr (Some s'))"
    "vs_vars_list s' = map reloaded (vs_vars_list s1)"
    using stored_image_reads_back [of fd s "vs_vars_list s1"] assms(4,8) s1 by metis
  then show ?thesis
    using run by (auto simp: find_var_in_list_lookup lookup_reloaded)
qed

text \<open>Adding the variable \<open>Foo\<close> with attributes 7 to the empty store.\<close>

definition demo_now :: gmtime where
  "demo_now = \<lparr>tm_year = 2023, tm_mon = 6, tm_mday = 1, tm_hour = 12, tm_min = 30, tm_sec = 5\<rparr>"

definition demo_args :: enroll_args where
  "demo_args = \<lparr>a_info = False, a_input = Some ''in'', a_operation = Some ADD, a_name = Some ''Foo'',
     a_guid = Some NVRAM_GUID, a_attributes = Some ''0x27'', a_data_file = Some ''data'', a_output = Some ''out''\<rparr>"

definition demo_fs :: file_system where
  "demo_fs = \<lparr>contents = [''in'' \<mapsto> demo_fd, ''data'' \<mapsto> [1, 2, 3]], writable = (\<lambda>_. True)\<rparr>"

definition demo_added :: variable where
  "demo_added = (case new_variable ''Foo'' NVRAM_GUID 0x27 (efi_now demo_now) [1, 2, 3] 3 of Inr v \<Rightarrow> v | Inl _ \<Rightarrow> empty_variable)"

lemma demo_added: "new_variable ''Foo'' NVRAM_GUID 0x27 (efi_now demo_now) [1, 2, 3] 3 = Inr demo_added" "wf_variable demo_added"
proof -
  have "is_guid NVRAM_GUID" "length NVRAM_GUID = 36" "ascii_name ''Foo''" by code_simp+
  moreover have "wf_time (efi_now demo_now)"
    by (simp add: wf_time_def demo_now_def efi_now_def)
  ultimately obtain v where "new_variable ''Foo'' NVRAM_GUID 0x27 (efi_now demo_now) [1, 2, 3] 3 = Inr v" "wf_variable v"
    by (auto intro: new_variable_wf [of NVRAM_GUID "efi_now demo_now" "0x27" 3 "[1, 2, 3]" "''Foo''"])
  then show "new_variable ''Foo'' NVRAM_GUID 0x27 (efi_now demo_now) [1, 2, 3] 3 = Inr demo_added" "wf_variable demo_added"
    by (simp_all add: demo_added_def)
qed

lemma demo_command:
  "check_args demo_fs demo_args = Inr True" "parsed_attributes demo_args = Inr 0x27"
  "process_op demo_now demo_fs demo_args 0x27 demo_store = Inr (True, demo_store\<lparr>vs_vars_list := [demo_added]\<rparr>)"
proof -
  have attr: "int_base16 ''0x27'' = Inr 0x27" and guid: "is_guid NVRAM_GUID"
    and low: "lower ''Foo'' = ''foo''" and auth: "(0x27 AND TIMEBASED_AUTH_WRITE_ACCESS) \<noteq> 0"
    by code_simp+
  show "check_args demo_fs demo_args = Inr True" "parsed_attributes demo_args = Inr 0x27"
    using attr guid low by (simp_all add: check_args_def parsed_attributes_def demo_args_def demo_fs_def)
  have "stamp demo_now 0x27 None = Inr (efi_now demo_now)"
    using auth by (simp add: stamp_def)
  moreover have "find_var_in_list demo_store ''Foo'' NVRAM_GUID = None" "vs_vars_list demo_store = []"
    by (simp_all add: find_var_in_list_def demo_store_def)
  ultimately show "process_op demo_now demo_fs demo_args 0x27 demo_store = Inr (True, demo_store\<lparr>vs_vars_list := [demo_added]\<rparr>)"
    using demo_added(1) low
    by (simp add: process_op_def demo_args_def attr_of_def add_variable_def enroll_variable_def
        read_file_def demo_fs_def store_add_variable_def)
qed

lemma demo_added_fits: "store_fits (demo_store\<lparr>vs_vars_list := [demo_added]\<rparr>) demo_fd"
  using demo_added(2) new_variable_fields [OF demo_added(1)]
  by (simp add: store_fits_def length_blobs_of length_demo VS_HEADER_SIZE_def VAR_HEADER_SIZE_def
      align_by_4_eq) (simp add: demo_store_def)

theorem var_enroll_persists_witness:
  "let fd' = stored_image (demo_store\<lparr>vs_vars_list := [demo_added]\<rparr>) demo_fd in
   var_enroll demo_now demo_args demo_fs =
      Some (Inr (True, [], demo_fs\<lparr>contents := (contents demo_fs)(''out'' := Some fd')\<rparr>)) \<and>
    (\<exists>s'. find_var_info fd' = Some (Inr (Some s')) \<and>
       find_var_in_list s' ''Foo'' NVRAM_GUID = Some (reloaded demo_added))"
proof -
  have args: "\<not> a_info demo_args" "a_input demo_args = Some ''in''" "contents demo_fs ''in'' = Some demo_fd"
    "a_output demo_args = Some ''out''" "writable demo_fs ''out''"
    by (simp_all add: demo_args_def demo_fs_def)
  have "find_var_in_list (demo_store\<lparr>vs_vars_list := [demo_added]\<rparr>) ''Foo'' NVRAM_GUID = Some demo_added"
    using new_variable_key [OF demo_added(1)] by (simp add: find_var_in_list_lookup lookup_key_def)
  then show ?thesis
    using var_enroll_persists [OF args(1-3) demo_sound demo_command demo_added_fits args(4,5)]
    by (auto simp: Let_def)
qed

section \<open>Keys and databases\<close>

text \<open>The signature list of one X.509 certificate: its type, its size, no header, the size of its
  single entry, the owner, the certificate.\<close>

definition x509_list :: "string \<Rightarrow> bytes \<Rightarrow> bytes" where
  "x509_list owner cert =
     guid_of EFI_CERT_X509_GUID @ le_bytes 4 (44 + length cert) @ le_bytes 4 0 @ le_bytes 4 (16 + length cert) @
     guid_of owner @ cert"

lemma x509_guid:
  "str2guid EFI_CERT_X509_GUID = Inr (guid_of EFI_CERT_X509_GUID)" "length (guid_of EFI_CERT_X509_GUID) = 16"
proof -
  have g: "is_guid EFI_CERT_X509_GUID" "length EFI_CERT_X509_GUID = 36" by code_simp+
  show "str2guid EFI_CERT_X509_GUID = Inr (guid_of EFI_CERT_X509_GUID)"
    using g by (rule str2guid_str) (simp add: guid_of_def)
  show "length (guid_of EFI_CERT_X509_GUID) = 16"
    using guid_of_str [OF g] by blast
qed

lemma create_list_blob:
  assumes "is_guid g" and "length g = 36" and "contents fs f = Some cert" and "44 + length cert < 2 ^ 32"
  shows "rbind (create_pk_x509_cert_list fs (Some f) (Some g)) (\<lambda>l. rbind (signature_list_blob l) (\<lambda>b. h b (int (signature_list_size l)))) =
    h (x509_list g cert) (int (length (x509_list g cert)))"
proof -
  obtain b where b: "str2guid g = Inr b" "length b = 16" "guid_of g = b"
    using str2guid_str [OF assms(1,2)] by (auto simp: guid_of_def)
  let ?n = "length cert"
  have pack: "struct_pack [UInt 4, UInt 4, UInt 4] [SInt (int (44 + ?n)), SInt (int 0), SInt (int (16 + ?n))] =
      Inr (le_bytes 4 (44 + ?n) @ le_bytes 4 0 @ le_bytes 4 (16 + ?n))"
    using assms(4) by (simp add: nat_add_distrib)
  have "create_pk_x509_cert_list fs (Some f) (Some g) =
      Inr \<lparr>signature_type = guid_of EFI_CERT_X509_GUID, signature_list_size = 44 + ?n, signature_header_size = 0,
           signature_size = 16 + ?n, signature_data = b @ cert\<rparr>"
    using b x509_guid(1)
    by (simp add: create_pk_x509_cert_list_def read_file_def assms(3) SIGNATURE_LIST_SIZE_def
        SIGNATURE_DATA_SIZE_def signature_data_blob_def)
  then show ?thesis
    using pack by (simp add: signature_list_blob_def x509_list_def b(2,3) x509_guid(2) del: struct_pack.simps)
qed

text \<open>The variable that a key name stands for.\<close>

definition key_target :: "string \<Rightarrow> string \<times> string" where
  "key_target name =
     (if lower name = ''pk'' then (''PK'', EFI_GLOBAL_VARIABLE)
      else if lower name = ''kek'' then (''KEK'', EFI_GLOBAL_VARIABLE)
      else (''db'', EFI_IMAGE_SECURITY_DATABASE_GUID))"

lemma add_key_variable:
  assumes "lower name \<in> {''pk'', ''kek'', ''db''}" and "\<not> (lower name = ''pk'' \<and> app)"
    and "is_guid g" and "length g = 36" and "contents fs f = Some cert" and "44 + length cert < 2 ^ 32"
  shows "add_variable now fs name g (Some f) a s app =
    store_add_variable now s (fst (key_target name)) (snd (key_target name)) KEY_ATTRIBUTES None (x509_list g cert)
      (int (length (x509_list g cert))) app"
  using assms(1,2) create_list_blob [OF assms(3-6)]
  by (auto simp: add_variable_def key_target_def enroll_platform_key_def enroll_kek_def enroll_signature_db_def)

text \<open>C14: enrolling a certificate as PK, KEK or db, whatever the case of the name, stores under the
  canonical name and vendor GUID the X.509 signature list with the given owner, with attributes 0x27 and a
  time stamp, after the lists that were there when appending; no other variable changes.\<close>

theorem enroll_key_contents:
  assumes "lower name \<in> {''pk'', ''kek'', ''db''}" and "is_guid g" and "length g = 36"
    and "contents fs f = Some cert" and "44 + length cert < 2 ^ 32" and "distinct_keys (vs_vars_list s)"
    and "add_variable now fs name g (Some f) a s app = Inr (r, s')"
  shows "(\<exists>v. find_var_in_list s' (fst (key_target name)) (snd (key_target name)) = Some v \<and>
       v_data v = written_data (find_var_in_list s (fst (key_target name)) (snd (key_target name))) (x509_list g cert) app \<and>
       v_attributes v = 0x27 \<and> v_time_stamp v = Some (efi_now now)) \<and>
    (\<forall>n h. var_id n h \<noteq> var_id (fst (key_target name)) (snd (key_target name)) \<longrightarrow>
       find_var_in_list s' n h = find_var_in_list s n h)"
proof -
  have attr: "KEY_ATTRIBUTES = 0x27" "0x27 AND TIMEBASED_AUTH_WRITE_ACCESS \<noteq> 0"
    by code_simp+
  then have stamp: "stamp now KEY_ATTRIBUTES None = Inr (efi_now now)"
    by (simp add: stamp_def)
  have "\<not> (lower name = ''pk'' \<and> app)"
    using assms(7) by (auto simp: add_variable_def)
  from add_key_variable [OF assms(1) this assms(2-5)] assms(7)
  have "store_add_variable now s (fst (key_target name)) (snd (key_target name)) KEY_ATTRIBUTES None (x509_list g cert)
      (int (length (x509_list g cert))) app = Inr (r, s')" by simp
  from add_find [OF this assms(6)] show ?thesis
    using stamp by (auto simp: attr(1))
qed

text \<open>a platform key cannot be updated: the update operation never succeeds for a name that is \<open>PK\<close> in
  any case, because it appends after deleting and a platform key cannot be appended.\<close>

theorem update_pk_fails:
  "lower name = ''pk'' \<Longrightarrow> update_variable now fs name g f a s \<noteq> Inr (True, s')"
  by (auto simp: update_variable_def add_variable_def split: option.splits prod.splits)

text \<open>the command reports success although nothing was done: deleting a variable that is not in the store
  returns true and writes no file.\<close>

theorem var_enroll_delete_missing:
  assumes "\<not> a_info args" and "a_input args = Some i" and "contents fs i = Some fd"
    and "find_var_info fd = Some (Inr (Some s))" and "a_operation args = Some DEL"
    and "a_name args = Some name" and "a_guid args = Some g" and "is_guid g" and "parsed_attributes args = Inr attr"
    and "find_var_in_list s name g = None"
  shows "var_enroll now args fs = Some (Inr (True, [], fs))"
proof -
  have "store_del_variable s name g = (False, s)"
    using assms(10) by (auto simp: store_del_variable_def find_var_in_list_def find_None_iff list_ex_iff)
  then have "process_var now args s fd fs = Inr (False, fs)"
    using assms(5-7,9) by (simp add: process_var_def process_op_def parsed_attributes_def attr_of_def)
  then show ?thesis
    using assms(1-8) by (simp add: var_enroll_def read_file_def check_args_def)
qed

lemma demo_pk:
  "\<exists>s'. add_variable demo_now demo_fs ''Pk'' NVRAM_GUID (Some ''data'') 0 demo_store False = Inr (True, s')"
proof -
  have g: "is_guid NVRAM_GUID" "length NVRAM_GUID = 36" and low: "lower ''Pk'' = ''pk''"
    and glob: "is_guid EFI_GLOBAL_VARIABLE" "length EFI_GLOBAL_VARIABLE = 36" and pk: "ascii_name ''PK''"
    and attr: "KEY_ATTRIBUTES = 0x27" "0x27 AND TIMEBASED_AUTH_WRITE_ACCESS \<noteq> 0"
    by code_simp+
  let ?b = "x509_list NVRAM_GUID [1, 2, 3]"
  have "length ?b = 47"
    using guid_constants(1) x509_guid(2) by (simp add: x509_list_def)
  moreover have "wf_time (efi_now demo_now)"
    by (simp add: wf_time_def demo_now_def efi_now_def)
  ultimately obtain v where v: "new_variable ''PK'' EFI_GLOBAL_VARIABLE 0x27 (efi_now demo_now) ?b (int (length ?b)) = Inr v"
    by (auto intro: new_variable_wf [OF glob, of "efi_now demo_now" "0x27" "int (length ?b)" ?b "''PK''"] simp: pk)
  have "contents demo_fs ''data'' = Some [1, 2, 3]"
    by (simp add: demo_fs_def)
  from add_key_variable [OF _ _ g this, of "''Pk''" False demo_now 0 demo_store] v show ?thesis
    using attr by (simp add: low key_target_def store_add_variable_def stamp_def find_var_in_list_def demo_store_def)
qed

theorem enroll_key_contents_witness:
  "\<exists>s' v. add_variable demo_now demo_fs ''Pk'' NVRAM_GUID (Some ''data'') 0 demo_store False = Inr (True, s') \<and>
     find_var_in_list s' ''PK'' EFI_GLOBAL_VARIABLE = Some v \<and> v_data v = Some (x509_list NVRAM_GUID [1, 2, 3]) \<and>
     v_attributes v = 0x27"
proof -
  have g: "is_guid NVRAM_GUID" "length NVRAM_GUID = 36" and low: "lower ''Pk'' = ''pk''" by code_simp+
  have fs: "contents demo_fs ''data'' = Some [1, 2, 3]" by (simp add: demo_fs_def)
  have d: "distinct_keys (vs_vars_list demo_store)" and none: "find_var_in_list demo_store n h = None" for n h
    by (simp_all add: distinct_keys_def demo_store_def find_var_in_list_def)
  obtain s' where s': "add_variable demo_now demo_fs ''Pk'' NVRAM_GUID (Some ''data'') 0 demo_store False = Inr (True, s')"
    using demo_pk by blast
  from enroll_key_contents [OF _ g fs _ d s'] none s' show ?thesis
    by (auto simp: low key_target_def written_data_def)
qed

theorem update_pk_fails_witness:
  "update_variable demo_now demo_fs ''pK'' NVRAM_GUID (Some ''data'') 0 demo_store \<noteq> Inr (True, demo_store)"
  by (rule update_pk_fails) code_simp

theorem var_enroll_delete_missing_witness:
  "var_enroll demo_now (demo_args\<lparr>a_operation := Some DEL\<rparr>) demo_fs = Some (Inr (True, [], demo_fs))"
proof -
  have g: "is_guid NVRAM_GUID" by code_simp
  have "find_var_info demo_fd = Some (Inr (Some demo_store))"
    using demo_sound by (simp add: sound_image_def)
  moreover have "parsed_attributes (demo_args\<lparr>a_operation := Some DEL\<rparr>) = Inr 0x27"
    using demo_command(2) by (simp add: parsed_attributes_def)
  moreover have "find_var_in_list demo_store ''Foo'' NVRAM_GUID = None"
    by (simp add: find_var_in_list_def demo_store_def)
  ultimately show ?thesis
    using g by (intro var_enroll_delete_missing [where i = "''in''" and fd = demo_fd and s = demo_store
          and name = "''Foo''" and g = NVRAM_GUID and attr = "0x27"])
      (simp_all add: demo_args_def demo_fs_def)
qed

end
