(* ===== verification/Py_Path.thy ===== *)
theory Py_Path
  imports Py_Text
begin

text \<open>
  \<open>os.path\<close> on a POSIX system, the part that the secure boot command uses.
\<close>

definition isabs :: "string \<Rightarrow> bool" where
  "isabs p = starts_with ''/'' p"

definition path_join :: "string \<Rightarrow> string \<Rightarrow> string" where
  "path_join a b =
     (if isabs b then b
      else if a = [] \<or> last a = CHR ''/'' then a @ b
      else a @ ''/'' @ b)"

definition basename :: "string \<Rightarrow> string" where
  "basename p = rev (takeWhile (\<lambda>c. c \<noteq> CHR ''/'') (rev p))"

definition dirname :: "string \<Rightarrow> string" where
  "dirname p =
     (let head = take (length p - length (basename p)) p in
      if list_all (\<lambda>c. c = CHR ''/'') head then head
      else rev (dropWhile (\<lambda>c. c = CHR ''/'') (rev head)))"

text \<open>\<open>splitext\<close>: the extension starts at the last dot of the last component, unless only
  dots precede it.\<close>

definition splitext :: "string \<Rightarrow> string \<times> string" where
  "splitext p =
     (let b = basename p;
          ext = CHR ''.'' # rev (takeWhile (\<lambda>c. c \<noteq> CHR ''.'') (rev b));
          n = length b - length ext in
      if CHR ''.'' \<in> set b \<and> \<not> list_all (\<lambda>c. c = CHR ''.'') (take n b)
      then (take (length p - length ext) p, ext)
      else (p, []))"

text \<open>\<open>normpath\<close>: empty components and \<open>.\<close> are dropped, and \<open>..\<close> removes the component before it.\<close>

fun norm_comps :: "bool \<Rightarrow> string list \<Rightarrow> string list \<Rightarrow> string list" where
  "norm_comps rooted acc [] = acc"
| "norm_comps rooted acc (c # cs) =
     (if c = [] \<or> c = ''.'' then norm_comps rooted acc cs
      else if c \<noteq> ''..'' \<or> (\<not> rooted \<and> acc = []) \<or> (acc \<noteq> [] \<and> last acc = ''..'')
      then norm_comps rooted (acc @ [c]) cs
      else norm_comps rooted (butlast acc) cs)"

fun join_slash :: "string list \<Rightarrow> string" where
  "join_slash [] = []"
| "join_slash [s] = s"
| "join_slash (s # ss) = s @ ''/'' @ join_slash ss"

definition normpath :: "string \<Rightarrow> string" where
  "normpath p =
     (if p = [] then ''.''
      else
        (let slashes = (if \<not> isabs p then []
                        else if starts_with ''//'' p \<and> \<not> starts_with ''///'' p then ''//'' else ''/'');
             path = slashes @ join_slash (norm_comps (isabs p) [] (split_on (CHR ''/'') p)) in
         if path = [] then ''.'' else path))"

definition abspath :: "string \<Rightarrow> string \<Rightarrow> string" where
  "abspath cwd p = normpath (if isabs p then p else path_join cwd p)"

text \<open>Taking a path apart loses nothing.\<close>

lemma basename_suffix: "\<exists>d. p = d @ basename p"
proof
  have "rev (takeWhile (\<lambda>c. c \<noteq> CHR ''/'') (rev p) @ dropWhile (\<lambda>c. c \<noteq> CHR ''/'') (rev p)) = p"
    by (simp only: takeWhile_dropWhile_id rev_rev_ident)
  then show "p = rev (dropWhile (\<lambda>c. c \<noteq> CHR ''/'') (rev p)) @ basename p"
    by (simp only: rev_append basename_def)
qed

lemma last_dot: "CHR ''.'' \<in> set b \<Longrightarrow> \<exists>a. b = a @ CHR ''.'' # rev (takeWhile (\<lambda>c. c \<noteq> CHR ''.'') (rev b))"
proof -
  assume "CHR ''.'' \<in> set b"
  then obtain xs ys where "rev b = xs @ CHR ''.'' # ys" "CHR ''.'' \<notin> set xs"
    by (metis set_rev split_list_first)
  moreover from this(2) have "takeWhile (\<lambda>c. c \<noteq> CHR ''.'') (xs @ CHR ''.'' # ys) = xs"
    by (induction xs) auto
  moreover have "b = rev (rev b)" by simp
  ultimately show ?thesis
    by (intro exI [of _ "rev ys"]) (metis append.assoc append_Cons append_Nil rev.simps(2) rev_append)
qed

lemma splitext_parts: "fst (splitext p) @ snd (splitext p) = p"
proof (cases "CHR ''.'' \<in> set (basename p)")
  case True
  let ?ext = "CHR ''.'' # rev (takeWhile (\<lambda>c. c \<noteq> CHR ''.'') (rev (basename p)))"
  obtain a d where "basename p = a @ ?ext" "p = d @ basename p"
    using last_dot [OF True] basename_suffix [of p] by blast
  then obtain r where "p = r @ ?ext" by (metis append.assoc)
  then have "take (length p - length ?ext) p @ ?ext = p"
    by (metis append_eq_conv_conj diff_add_inverse2 length_append)
  then show ?thesis
    by (auto simp: splitext_def Let_def)
qed (simp add: splitext_def Let_def)

end
