(* ===== verification/Ovmf_Secure_Boot.thy ===== *)
theory Ovmf_Secure_Boot
  imports Ovmf_Enroll Py_Path
begin

text \<open>
  \<open>ovmfkeyenroll/secure_boot.py\<close>, the command that enrols the secure boot keys into a firmware
  image, and \<open>full-disk-encryption/tools/image/enroll_vars.py\<close>, the script that enrols one variable.
  A file is identified by its path; \<open>writable\<close> is the permission to create, overwrite and remove
  it.  The messages of the build log are left out.
\<close>

section \<open>The configuration\<close>

type_synonym sb_config = "string \<Rightarrow> (string \<times> string) option"

record sb_env =
  sb_cwd :: string
  sb_parent :: string
  sb_is_dir :: "string \<Rightarrow> bool"
  sb_access :: "string \<Rightarrow> bool"

definition SB_VAR_NAMES :: "(string \<times> string) list" where
  "SB_VAR_NAMES =
     [(''-pk'', ''PK''), (''-kek'', ''KEK''), (''-db'', ''db''), (''-dbx'', ''dbx''),
      (''-secure_boot'', ''SecureBootEnable'')]"

definition secure_boot_config_valid :: "sb_config \<Rightarrow> bool" where
  "secure_boot_config_valid sbconfig = list_all (\<lambda>v. sbconfig v \<noteq> None) [''SecureBootEnable'']"

definition set_sbconfig ::
  "file_system \<Rightarrow> sb_config \<Rightarrow> string \<Rightarrow> string \<Rightarrow> string \<Rightarrow> string \<Rightarrow> bool \<times> sb_config" where
  "set_sbconfig fs sbconfig arg guid cert_bin_file pkg_path =
     (case map_of SB_VAR_NAMES arg of
        None \<Rightarrow> (False, sbconfig)
      | Some var_name \<Rightarrow>
          if \<not> is_guid guid then (False, sbconfig)
          else
            (let abs_cert_bin_file = (if isabs cert_bin_file then cert_bin_file else path_join pkg_path cert_bin_file) in
             if contents fs abs_cert_bin_file = None then (False, sbconfig)
             else (True, sbconfig(var_name \<mapsto> (guid, abs_cert_bin_file)))))"

section \<open>Enrolling the variables\<close>

text \<open>\<open>shutil.copyfile\<close> and \<open>os.remove\<close>.  Copying a file onto itself raises \<open>SameFileError\<close>, an
  \<open>OSError\<close>.\<close>

definition copyfile :: "string \<Rightarrow> string \<Rightarrow> file_system \<Rightarrow> file_system result" where
  "copyfile src dst fs =
     (case contents fs src of
        None \<Rightarrow> Inl OSError
      | Some d \<Rightarrow>
          if src = dst \<or> \<not> writable fs dst then Inl OSError
          else Inr (fs\<lparr>contents := (contents fs)(dst := Some d)\<rparr>))"

definition remove_file :: "string \<Rightarrow> file_system \<Rightarrow> file_system result" where
  "remove_file f fs =
     (if contents fs f \<noteq> None \<and> writable fs f then Inr (fs\<lparr>contents := (contents fs)(f := None)\<rparr>) else Inl OSError)"

definition file_path :: "string \<Rightarrow> string \<Rightarrow> string" where
  "file_path file base_dir = (if isabs file then file else path_join base_dir file)"

text \<open>One \<open>VarEnrollParams\<close> object is updated from call to call; the attributes are set for the last
  call only.\<close>

definition sb_args :: "string \<Rightarrow> string \<Rightarrow> string \<Rightarrow> string \<Rightarrow> string option \<Rightarrow> enroll_args" where
  "sb_args tmp_file data_file guid name attributes =
     \<lparr>a_info = False, a_input = Some tmp_file, a_operation = Some ADD, a_name = Some name, a_guid = Some guid,
      a_attributes = attributes, a_data_file = Some data_file, a_output = Some tmp_file\<rparr>"

definition key_requests :: "string \<Rightarrow> string \<Rightarrow> sb_config \<Rightarrow> string list \<Rightarrow> enroll_args list" where
  "key_requests tmp_file pkg_path sbconfig names =
     concat (map (\<lambda>name.
       case sbconfig name of
         None \<Rightarrow> []
       | Some (guid, file) \<Rightarrow>
           if file_path file pkg_path = [] then []
           else [sb_args tmp_file (file_path file pkg_path) guid name None]) names)"

text \<open>The calls of \<open>var_enroll\<close>, one after the other, until one reports a failure.\<close>

fun enroll_each :: "gmtime \<Rightarrow> enroll_args list \<Rightarrow> file_system \<Rightarrow> (bool \<times> file_system) result option" where
  "enroll_each now [] fs = Some (Inr (True, fs))"
| "enroll_each now (args # rest) fs =
     (case var_enroll now args fs of
        None \<Rightarrow> None
      | Some (Inl e) \<Rightarrow> Some (Inl e)
      | Some (Inr (ret, _, fs)) \<Rightarrow> if \<not> ret then Some (Inr (ret, fs)) else enroll_each now rest fs)"

definition do_var_enroll ::
  "gmtime \<Rightarrow> string \<Rightarrow> string \<Rightarrow> string \<Rightarrow> sb_config \<Rightarrow> file_system \<Rightarrow> (bool \<times> file_system) result option" where
  "do_var_enroll now input_fd output_fd pkg_path sbconfig fs =
     (case sbconfig ''SecureBootEnable'' of
        None \<Rightarrow> Some (Inl KeyError)
      | Some (enable_guid, enable_file) \<Rightarrow>
          (let tmp_file = input_fd @ ''.sb'' in
           case copyfile input_fd tmp_file fs of
             Inl e \<Rightarrow> Some (Inl e)
           | Inr fs \<Rightarrow>
               map_option (\<lambda>r.
                 rbind r (\<lambda>(ret, fs).
                 if \<not> ret then Inr (ret, fs)
                 else
                   rbind (copyfile tmp_file output_fd fs) (\<lambda>fs.
                   rbind (if contents fs tmp_file \<noteq> None then remove_file tmp_file fs else Inr fs) (\<lambda>fs.
                   Inr (True, fs)))))
                 (enroll_each now
                    (key_requests tmp_file pkg_path sbconfig [''PK'', ''KEK'', ''db'', ''dbx''] @
                     [sb_args tmp_file (file_path enable_file pkg_path) enable_guid ''SecureBootEnable'' (Some ''0x3'')])
                    fs)))"

section \<open>The command line\<close>

record sb_options =
  input_fd :: "string option"
  output_dir :: "string option"
  sbconfig :: sb_config

text \<open>The outcome \<open>Inr None\<close> is the early return of false after an invalid option; \<open>print_usage\<close> exits.\<close>

fun scan_args :: "sb_env \<Rightarrow> file_system \<Rightarrow> string list \<Rightarrow> sb_options \<Rightarrow> sb_options option result" where
  "scan_args env fs [] opts = Inr (Some opts)"
| "scan_args env fs (arg # rest) opts =
     (if arg = ''-fd'' then
        (case rest of
           [] \<Rightarrow> Inl IndexError
         | x # rest \<Rightarrow> scan_args env fs rest (opts\<lparr>input_fd := Some x\<rparr>))
      else if arg = ''-o'' then
        (case rest of
           [] \<Rightarrow> Inl IndexError
         | x # rest \<Rightarrow> scan_args env fs rest (opts\<lparr>output_dir := Some x\<rparr>))
      else if arg \<in> {''-pk'', ''-kek'', ''-db'', ''-dbx'', ''-secure_boot''} then
        (case rest of
           guid # cert_bin_file # rest \<Rightarrow>
             (let (valid, cfg) = set_sbconfig fs (sbconfig opts) arg guid cert_bin_file (sb_cwd env) in
              if \<not> valid then Inr None
              else scan_args env fs rest (opts\<lparr>sbconfig := cfg\<rparr>))
         | _ \<Rightarrow> Inl IndexError)
      else Inl SystemExit)"

definition default_options :: "sb_env \<Rightarrow> sb_options" where
  "default_options env =
     \<lparr>input_fd = None, output_dir = None,
      sbconfig = [''SecureBootEnable'' \<mapsto>
        (''f0a30bc7-af08-4556-99c4-001009c93a44'', path_join (sb_parent env) ''SecureBootEnable.bin'')]\<rparr>"

definition output_dir_of :: "sb_env \<Rightarrow> string option \<Rightarrow> string \<Rightarrow> string" where
  "output_dir_of env out input =
     (case out of
        None \<Rightarrow> dirname (abspath (sb_cwd env) input)
      | Some d \<Rightarrow> if d = [] then dirname (abspath (sb_cwd env) input) else d)"

definition output_fd_of :: "sb_env \<Rightarrow> string option \<Rightarrow> string \<Rightarrow> string" where
  "output_fd_of env out input =
     (let name_ext = splitext (basename input) in
      path_join (output_dir_of env out input) (fst name_ext @ ''.sb'' @ snd name_ext))"

definition secure_boot_main ::
  "sb_env \<Rightarrow> gmtime \<Rightarrow> string list \<Rightarrow> file_system \<Rightarrow> (bool \<times> file_system) result option" where
  "secure_boot_main env now args fs =
     (if args = [] then Some (Inl SystemExit)
      else
        (case scan_args env fs args (default_options env) of
           Inl e \<Rightarrow> Some (Inl e)
         | Inr None \<Rightarrow> Some (Inr (False, fs))
         | Inr (Some opts) \<Rightarrow>
             if \<not> secure_boot_config_valid (sbconfig opts) then Some (Inr (False, fs))
             else
               (case input_fd opts of
                  None \<Rightarrow> Some (Inl TypeError)
                | Some input \<Rightarrow>
                    if \<not> (contents fs input \<noteq> None \<or> sb_is_dir env input) then Some (Inr (False, fs))
                    else if \<not> sb_access env (output_dir_of env (output_dir opts) input) then Some (Inr (False, fs))
                    else do_var_enroll now input (output_fd_of env (output_dir opts) input) (sb_cwd env) (sbconfig opts) fs)))"

text \<open>\<open>enroll_vars.py\<close>: one variable, with attributes 7; nothing happens when an option is
  missing.\<close>

definition enroll_vars_main ::
  "gmtime \<Rightarrow> string \<Rightarrow> string \<Rightarrow> string option \<Rightarrow> string option \<Rightarrow> string option \<Rightarrow> file_system \<Rightarrow>
   (bool \<times> string list \<times> file_system) result option option" where
  "enroll_vars_main now input out name guid data fs =
     (if name \<noteq> None \<and> guid \<noteq> None \<and> data \<noteq> None then
        Some (var_enroll now
          \<lparr>a_info = False, a_input = Some input, a_operation = Some ADD, a_name = name, a_guid = guid,
           a_attributes = Some ''7'', a_data_file = data, a_output = Some out\<rparr> fs)
      else None)"

section \<open>One enrolment in an image\<close>

text \<open>An image with a sound store whose variables are well formed, without duplicates and inside the
  store; the room that is left, and what a new variable takes.\<close>

definition good_image :: "bytes \<Rightarrow> variable_store \<Rightarrow> bool" where
  "good_image fd s \<longleftrightarrow> sound_image fd s \<and> store_fits s fd \<and> distinct_keys (vs_vars_list s)"

definition room :: "variable_store \<Rightarrow> nat" where
  "room s = vs_size s - VS_HEADER_SIZE - length (blobs_of (vs_vars_list s))"

definition var_cost :: "string \<Rightarrow> bytes \<Rightarrow> nat" where
  "var_cost name data = align_by_4 (VAR_HEADER_SIZE + length (str2blob name) + length data)"

text \<open>What a store holds under a name and a vendor GUID: data, attributes and time stamp.\<close>

definition stored :: "variable_store \<Rightarrow> string \<Rightarrow> string \<Rightarrow> (bytes option \<times> int \<times> efi_time option) option" where
  "stored s name g = map_option (\<lambda>v. (v_data v, v_attributes v, v_time_stamp v)) (find_var_in_list s name g)"

definition stores :: "variable_store \<Rightarrow> string \<Rightarrow> string \<Rightarrow> bytes \<Rightarrow> int \<Rightarrow> bool" where
  "stores s name g data attrs \<longleftrightarrow> (\<exists>t. stored s name g = Some (Some data, attrs, t))"

lemma wf_reloaded: "wf_variable v \<Longrightarrow> wf_variable (reloaded v)"
  by (auto simp: wf_variable_def reloaded_def split: option.splits)

lemma reloaded_fields [simp]:
  "v_name_blob (reloaded v) = v_name_blob v" "v_data (reloaded v) = v_data v" "v_attributes (reloaded v) = v_attributes v"
  "v_time_stamp (reloaded v) = v_time_stamp v"
  by (simp_all add: reloaded_def)

lemma wf_reloaded_list: "list_all wf_variable vs \<Longrightarrow> list_all wf_variable (map reloaded vs)"
  by (simp add: list_all_iff wf_reloaded)

lemma length_blobs_reloaded: "list_all wf_variable vs \<Longrightarrow> length (blobs_of (map reloaded vs)) = length (blobs_of vs)"
  by (simp add: length_blobs_of wf_reloaded_list comp_def)

lemma stored_image_sound:
  assumes "sound_image fd s" and "store_fits (s\<lparr>vs_vars_list := vars\<rparr>) fd" and "distinct_keys vars"
  obtains s' where "good_image (stored_image (s\<lparr>vs_vars_list := vars\<rparr>) fd) s'" and "vs_vars_list s' = map reloaded vars"
    and "vs_size s' = vs_size s"
proof -
  let ?s = "s\<lparr>vs_vars_list := vars\<rparr>"
  obtain s' where s': "find_var_info (stored_image ?s fd) = Some (Inr (Some s'))" "vs_vars_list s' = map reloaded vars"
    "vs_offset_in_fd s' = vs_offset_in_fd s" "vs_size s' = vs_size s"
    by (rule stored_image_reads_back [OF assms(1,2)]) (rule that)
  have so: "4 dvd vs_size s" "FV_HEADER_SIZE \<le> vs_offset_in_fd s + VS_HEADER_SIZE"
    "vs_offset_in_fd s + vs_size s \<le> fv_size (FirmwareVolume (take FV_HEADER_SIZE fd))"
    using assms(1) by (simp_all add: sound_image_def)
  have "take FV_HEADER_SIZE (stored_image ?s fd) = take FV_HEADER_SIZE fd"
    by (rule stored_image_parts [OF assms(2), of "vs_offset_in_fd s + vs_size s"]) (use so in simp_all)
  then have "sound_image (stored_image ?s fd) s'"
    using s' so by (simp add: sound_image_def)
  moreover have "store_fits s' (stored_image ?s fd)"
    using assms(2) s' length_stored_image [OF assms(2)]
    by (simp add: store_fits_def wf_reloaded_list length_blobs_reloaded)
  moreover have "distinct_keys (vs_vars_list s')"
    using assms(3) by (simp add: s'(2) distinct_keys_def comp_def)
  ultimately show thesis
    using that s' by (simp add: good_image_def)
qed

lemma good_image_add:
  assumes "good_image fd s" and "new_variable name g attrs t buf sz = Inr v" and "wf_variable v"
    and "find_var_in_list s name g = None" and "var_cost name buf \<le> room s"
  obtains s' where "store_fits (s\<lparr>vs_vars_list := vs_vars_list s @ [v]\<rparr>) fd"
    and "good_image (stored_image (s\<lparr>vs_vars_list := vs_vars_list s @ [v]\<rparr>) fd) s'"
    and "room s' = room s - var_cost name buf"
    and "\<And>n h. stored s' n h =
      (if var_id n h = var_id name g then Some (v_data v, v_attributes v, v_time_stamp v) else stored s n h)"
proof -
  let ?vs = "vs_vars_list s @ [v]"
  note key = new_variable_key [OF assms(2)] and f = new_variable_fields [OF assms(2)]
  have good: "sound_image fd s" "store_fits s fd" "distinct_keys (vs_vars_list s)"
    using assms(1) by (simp_all add: good_image_def)
  have wf: "list_all wf_variable (vs_vars_list s)" "list_all wf_variable ?vs"
    using good(2) assms(3) by (simp_all add: store_fits_def)
  have len: "length (blobs_of ?vs) = length (blobs_of (vs_vars_list s)) + var_cost name buf"
    using f wf by (simp add: length_blobs_of var_cost_def)
  have fits: "store_fits (s\<lparr>vs_vars_list := ?vs\<rparr>) fd"
    using good(2) wf(2) assms(5) len by (simp add: store_fits_def room_def) arith
  have none: "lookup_key (var_id name g) (vs_vars_list s) = None"
    using assms(4) by (simp add: find_var_in_list_lookup)
  have "distinct_keys ?vs"
    using vars.valid_put [OF good(3) key] none by (simp add: put_key_def)
  then obtain s' where s': "good_image (stored_image (s\<lparr>vs_vars_list := ?vs\<rparr>) fd) s'" "vs_vars_list s' = map reloaded ?vs"
    "vs_size s' = vs_size s"
    using stored_image_sound [OF good(1) fits] by blast
  show thesis
  proof (rule that [OF fits s'(1)])
    show "room s' = room s - var_cost name buf"
      using length_blobs_reloaded [OF wf(2)] s'(2,3) len by (simp add: room_def)
    show "stored s' n h =
        (if var_id n h = var_id name g then Some (v_data v, v_attributes v, v_time_stamp v) else stored s n h)" for n h
      using lookup_append_new [OF none key, of "var_id n h"]
      by (simp only: stored_def find_var_in_list_lookup s'(2) lookup_reloaded) (simp add: option.map_comp comp_def)
  qed
qed

text \<open>A call of the command that adds a new variable which fits: it succeeds, and the image in the file is
  sound again, with the variable and all the others.\<close>

lemma enroll_new:
  assumes "good_image fd s" and "contents fs tmp = Some fd" and "writable fs tmp"
    and "check_args fs (sb_args tmp f g name att) = Inr ok" and "parsed_attributes (sb_args tmp f g name att) = Inr attr"
    and "process_op now fs (sb_args tmp f g name att) attr s =
      store_add_variable now s n h a None buf (int (length buf)) False"
    and "find_var_in_list s n h = None" and "is_guid h" and "length h = 36" and "stamp now a None = Inr t" and "wf_time t"
    and "0 \<le> a" and "a < 2 ^ 32" and "length buf < 2 ^ 32" and "ascii_name n" and "length n < 2 ^ 30"
    and "var_cost n buf \<le> room s"
  obtains fd' s' where
    "var_enroll now (sb_args tmp f g name att) fs = Some (Inr (True, [], fs\<lparr>contents := (contents fs)(tmp := Some fd')\<rparr>))"
    and "good_image fd' s'" and "room s' = room s - var_cost n buf" and "stores s' n h buf a"
    and "\<And>m k. var_id m k \<noteq> var_id n h \<Longrightarrow> stored s' m k = stored s m k"
proof -
  obtain v where v: "new_variable n h a t buf (int (length buf)) = Inr v" "wf_variable v"
    by (rule new_variable_wf [OF assms(8,9,11-13) refl assms(14-16)]) (rule that)
  define s1 where "s1 = s\<lparr>vs_vars_list := vs_vars_list s @ [v]\<rparr>"
  obtain s' where s': "store_fits s1 fd" "good_image (stored_image s1 fd) s'" "room s' = room s - var_cost n buf"
    "\<And>m k. stored s' m k =
      (if var_id m k = var_id n h then Some (v_data v, v_attributes v, v_time_stamp v) else stored s m k)"
    using good_image_add [OF assms(1) v assms(7,17)] unfolding s1_def by blast
  have op: "process_op now fs (sb_args tmp f g name att) attr s = Inr (True, s1)"
    using assms(6,7,10) v(1) by (simp add: store_add_variable_def s1_def)
  have "find_var_info fd = Some (Inr (Some s))"
    using assms(1) by (simp add: good_image_def sound_image_def)
  then have "var_enroll now (sb_args tmp f g name att) fs =
      Some (Inr (True, [], fs\<lparr>contents := (contents fs)(tmp := Some (stored_image s1 fd))\<rparr>))"
    using assms(2-5) op s'(1) by (intro var_enroll_run) (simp_all add: sb_args_def)
  moreover have "stores s' n h buf a"
    using s'(4) new_variable_fields [OF v(1)] v(1) by (auto simp: stores_def new_variable_def rbind_Inr_iff)
  ultimately show thesis
    using that s' by simp
qed

definition key_names :: "string list" where
  "key_names = [''PK'', ''KEK'', ''db'']"

lemma key_facts:
  assumes "name \<in> set key_names"
  shows "lower name \<in> {''pk'', ''kek'', ''db''}" and "fst (key_target name) = name" and "is_guid (snd (key_target name))"
    and "length (snd (key_target name)) = 36" and "ascii_name name" and "length name < 2 ^ 30"
proof -
  have low: "lower ''PK'' = ''pk''" "lower ''KEK'' = ''kek''" "lower ''db'' = ''db''"
    and g: "is_guid EFI_GLOBAL_VARIABLE" "length EFI_GLOBAL_VARIABLE = 36"
      "is_guid EFI_IMAGE_SECURITY_DATABASE_GUID" "length EFI_IMAGE_SECURITY_DATABASE_GUID = 36"
    and n: "ascii_name ''PK''" "ascii_name ''KEK''" "ascii_name ''db''"
    by code_simp+
  have "name = ''PK'' \<or> name = ''KEK'' \<or> name = ''db''"
    using assms by (simp add: key_names_def)
  then show "lower name \<in> {''pk'', ''kek'', ''db''}" "fst (key_target name) = name" "is_guid (snd (key_target name))"
    "length (snd (key_target name)) = 36" "ascii_name name" "length name < 2 ^ 30"
    by (elim disjE; simp add: key_target_def low g n)+
qed

lemma length_x509_list:
  assumes "is_guid g" and "length g = 36"
  shows "length (x509_list g cert) = 44 + length cert"
  using x509_guid(2) guid_of_str [OF assms] by (simp add: x509_list_def)

lemma enroll_key_step:
  assumes "good_image fd s" and "contents fs tmp = Some fd" and "writable fs tmp" and "name \<in> set key_names"
    and "is_guid g" and "length g = 36" and "contents fs f = Some cert" and "44 + length cert < 2 ^ 32"
    and "wf_time (efi_now now)" and "find_var_in_list s name (snd (key_target name)) = None"
    and "var_cost name (x509_list g cert) \<le> room s"
  obtains fd' s' where
    "var_enroll now (sb_args tmp f g name None) fs = Some (Inr (True, [], fs\<lparr>contents := (contents fs)(tmp := Some fd')\<rparr>))"
    and "good_image fd' s'" and "room s' = room s - var_cost name (x509_list g cert)"
    and "stores s' name (snd (key_target name)) (x509_list g cert) 0x27"
    and "\<And>m k. var_id m k \<noteq> var_id name (snd (key_target name)) \<Longrightarrow> stored s' m k = stored s m k"
proof -
  note k = key_facts [OF assms(4)]
  have attr: "KEY_ATTRIBUTES = 0x27" "0x27 AND TIMEBASED_AUTH_WRITE_ACCESS \<noteq> 0"
    by code_simp+
  then have stamp: "stamp now 0x27 None = Inr (efi_now now)"
    by (simp add: stamp_def)
  have check: "check_args fs (sb_args tmp f g name None) = Inr True"
    using assms(5,7) k(1) by (auto simp: check_args_def sb_args_def)
  have op: "process_op now fs (sb_args tmp f g name None) 0 s =
      store_add_variable now s name (snd (key_target name)) 0x27 None (x509_list g cert) (int (length (x509_list g cert))) False"
    using add_key_variable [OF k(1) _ assms(5-8), of False now 0 s] k(2) attr(1)
    by (simp add: process_op_def sb_args_def attr_of_def)
  have parsed: "parsed_attributes (sb_args tmp f g name None) = Inr 0" and a: "0 \<le> (0x27 :: int)" "(0x27 :: int) < 2 ^ 32"
    by (simp_all add: parsed_attributes_def sb_args_def)
  have len: "length (x509_list g cert) < 2 ^ 32"
    using length_x509_list [OF assms(5,6)] assms(8) by simp
  show thesis
    by (rule enroll_new [OF assms(1-3) check parsed op assms(10) k(3,4) stamp assms(9) a len k(5,6) assms(11)]) (rule that)
qed

section \<open>The whole sequence\<close>

text \<open>A usable entry of the configuration, what it puts into the image, and the space that this takes.\<close>

definition key_ok :: "file_system \<Rightarrow> string \<Rightarrow> sb_config \<Rightarrow> string \<Rightarrow> string \<Rightarrow> bool" where
  "key_ok fs pkg cfg tmp name =
     (case cfg name of
        None \<Rightarrow> True
      | Some (g, f) \<Rightarrow>
          is_guid g \<and> length g = 36 \<and> file_path f pkg \<noteq> [] \<and> file_path f pkg \<noteq> tmp \<and>
          (case contents fs (file_path f pkg) of None \<Rightarrow> False | Some cert \<Rightarrow> 44 + length cert < 2 ^ 32))"

definition key_data :: "file_system \<Rightarrow> string \<Rightarrow> sb_config \<Rightarrow> string \<Rightarrow> bytes option" where
  "key_data fs pkg cfg name =
     (case cfg name of None \<Rightarrow> None | Some (g, f) \<Rightarrow> map_option (x509_list g) (contents fs (file_path f pkg)))"

definition key_cost :: "file_system \<Rightarrow> string \<Rightarrow> sb_config \<Rightarrow> string \<Rightarrow> nat" where
  "key_cost fs pkg cfg name = (case key_data fs pkg cfg name of None \<Rightarrow> 0 | Some d \<Rightarrow> var_cost name d)"

lemma key_other_file:
  assumes "key_ok fs pkg cfg tmp name"
  shows "key_ok (fs\<lparr>contents := (contents fs)(tmp := d)\<rparr>) pkg cfg tmp name"
    and "key_data (fs\<lparr>contents := (contents fs)(tmp := d)\<rparr>) pkg cfg name = key_data fs pkg cfg name"
    and "key_cost (fs\<lparr>contents := (contents fs)(tmp := d)\<rparr>) pkg cfg name = key_cost fs pkg cfg name"
  using assms by (auto simp: key_ok_def key_cost_def key_data_def split: option.splits)

lemma var_id_neq: "m \<noteq> n \<Longrightarrow> var_id m k \<noteq> var_id n h"
  by (simp add: var_id_def str2blob_inject)

lemma stored_None: "stored s n h = None \<longleftrightarrow> find_var_in_list s n h = None"
  by (simp add: stored_def)

text \<open>The outcome of enrolling the keys of a list of names.\<close>

definition keys_enrolled ::
  "file_system \<Rightarrow> string \<Rightarrow> sb_config \<Rightarrow> string list \<Rightarrow> variable_store \<Rightarrow> variable_store \<Rightarrow> bool" where
  "keys_enrolled fs pkg cfg names s s' \<longleftrightarrow>
     room s' = room s - sum_list (map (key_cost fs pkg cfg) names) \<and>
     (\<forall>n\<in>set names. \<forall>d. key_data fs pkg cfg n = Some d \<longrightarrow> stores s' n (snd (key_target n)) d 0x27) \<and>
     (\<forall>m k. m \<notin> set names \<longrightarrow> stored s' m k = stored s m k)"

lemma keys_enrolled_Cons:
  assumes "name \<notin> set names" and "key_data fs pkg cfg name = Some d" and "room s1 = room s - var_cost name d"
    and "stores s1 name (snd (key_target name)) d 0x27"
    and "\<And>m k. var_id m k \<noteq> var_id name (snd (key_target name)) \<Longrightarrow> stored s1 m k = stored s m k"
    and "\<And>n. n \<in> set names \<Longrightarrow> key_data fs1 pkg cfg n = key_data fs pkg cfg n"
    and "keys_enrolled fs1 pkg cfg names s1 s'"
  shows "keys_enrolled fs pkg cfg (name # names) s s'"
proof -
  have "map (key_cost fs1 pkg cfg) names = map (key_cost fs pkg cfg) names"
    using assms(6) by (simp add: key_cost_def)
  then have "sum_list (map (key_cost fs1 pkg cfg) names) = sum_list (map (key_cost fs pkg cfg) names)"
    by (rule arg_cong)
  moreover have "key_cost fs pkg cfg name = var_cost name d"
    using assms(2) by (simp add: key_cost_def)
  moreover have "stores s' name (snd (key_target name)) d 0x27"
    using assms(1,4,7) by (simp add: keys_enrolled_def stores_def)
  ultimately show ?thesis
    using assms(2,3,5-7) by (auto simp: keys_enrolled_def var_id_neq)
qed

lemma keys_enrolled_skip:
  "key_data fs pkg cfg name = None \<Longrightarrow> keys_enrolled fs pkg cfg names s s' \<Longrightarrow> keys_enrolled fs pkg cfg (name # names) s s'"
  by (auto simp: keys_enrolled_def key_cost_def)

text \<open>The first request of a list that has an entry for the name.\<close>

lemma enroll_first:
  assumes "cfg name = Some (g, f)" and "key_ok fs pkg cfg tmp name" and "name \<in> set key_names"
    and "good_image fd s" and "contents fs tmp = Some fd" and "writable fs tmp" and "wf_time (efi_now now)"
    and "stored s name (snd (key_target name)) = None" and "key_cost fs pkg cfg name \<le> room s"
  obtains fd1 s1 d where "key_data fs pkg cfg name = Some d" and "good_image fd1 s1" and "room s1 = room s - var_cost name d"
    and "stores s1 name (snd (key_target name)) d 0x27"
    and "\<And>m k. var_id m k \<noteq> var_id name (snd (key_target name)) \<Longrightarrow> stored s1 m k = stored s m k"
    and "\<And>names rest. enroll_each now (key_requests tmp pkg cfg (name # names) @ rest) fs =
      enroll_each now (key_requests tmp pkg cfg names @ rest) (fs\<lparr>contents := (contents fs)(tmp := Some fd1)\<rparr>)"
proof -
  let ?f = "file_path f pkg"
  obtain cert where cert: "contents fs ?f = Some cert" "44 + length cert < 2 ^ 32" "is_guid g" "length g = 36" "?f \<noteq> []"
    using assms(1,2) by (auto simp: key_ok_def split: option.splits)
  have data: "key_data fs pkg cfg name = Some (x509_list g cert)"
    using assms(1) cert by (simp add: key_data_def)
  then have none: "find_var_in_list s name (snd (key_target name)) = None"
    and fits: "var_cost name (x509_list g cert) \<le> room s"
    using assms(8,9) by (simp_all add: stored_None key_cost_def)
  obtain fd1 s1 where run: "var_enroll now (sb_args tmp ?f g name None) fs =
        Some (Inr (True, [], fs\<lparr>contents := (contents fs)(tmp := Some fd1)\<rparr>))"
    and s1: "good_image fd1 s1" "room s1 = room s - var_cost name (x509_list g cert)"
      "stores s1 name (snd (key_target name)) (x509_list g cert) 0x27"
      "\<And>m k. var_id m k \<noteq> var_id name (snd (key_target name)) \<Longrightarrow> stored s1 m k = stored s m k"
    by (rule enroll_key_step [OF assms(4-6,3) cert(3,4,1,2) assms(7) none fits]) (rule that)
  have "key_requests tmp pkg cfg (name # names) = sb_args tmp ?f g name None # key_requests tmp pkg cfg names" for names
    using assms(1) cert(5) by (simp add: key_requests_def)
  then show thesis
    using that [OF data s1] run by simp
qed

lemma enroll_keys:
  "distinct names \<Longrightarrow> set names \<subseteq> set key_names \<Longrightarrow> list_all (key_ok fs pkg cfg tmp) names \<Longrightarrow> good_image fd s \<Longrightarrow>
   contents fs tmp = Some fd \<Longrightarrow> writable fs tmp \<Longrightarrow> wf_time (efi_now now) \<Longrightarrow>
   list_all (\<lambda>n. stored s n (snd (key_target n)) = None) names \<Longrightarrow>
   sum_list (map (key_cost fs pkg cfg) names) \<le> room s \<Longrightarrow>
   \<exists>fd' s'. enroll_each now (key_requests tmp pkg cfg names @ rest) fs =
       enroll_each now rest (fs\<lparr>contents := (contents fs)(tmp := Some fd')\<rparr>) \<and>
     good_image fd' s' \<and> keys_enrolled fs pkg cfg names s s'"
proof (induction names arbitrary: fs fd s)
  case Nil
  then have eq: "fs\<lparr>contents := (contents fs)(tmp := Some fd)\<rparr> = fs"
    by (cases fs) (auto simp: fun_upd_idem)
  show ?case
    using Nil.prems(4) by (intro exI [of _ fd] exI [of _ s], unfold eq) (simp add: key_requests_def keys_enrolled_def)
next
  case (Cons name names)
  have dist: "distinct names" "name \<notin> set names" "set names \<subseteq> set key_names" "name \<in> set key_names"
    using Cons.prems(1,2) by auto
  have ok: "key_ok fs pkg cfg tmp name" "list_all (key_ok fs pkg cfg tmp) names"
    using Cons.prems(3) by auto
  show ?case
  proof (cases "cfg name")
    case None
    then have skip: "key_requests tmp pkg cfg (name # names) = key_requests tmp pkg cfg names"
      "key_data fs pkg cfg name = None" "key_cost fs pkg cfg name = 0"
      by (simp_all add: key_requests_def key_cost_def key_data_def)
    then show ?thesis
      using Cons.IH [OF dist(1,3) ok(2) Cons.prems(4-7)] Cons.prems(8,9) keys_enrolled_skip
      unfolding skip(1) by fastforce
  next
    case (Some gf)
    then obtain g f where gf: "cfg name = Some (g, f)" by (cases gf) auto
    have first: "stored s name (snd (key_target name)) = None" "key_cost fs pkg cfg name \<le> room s"
      using Cons.prems(8,9) by simp_all
    obtain fd1 s1 d where d: "key_data fs pkg cfg name = Some d" and good1: "good_image fd1 s1" "room s1 = room s - var_cost name d"
      and s1: "stores s1 name (snd (key_target name)) d 0x27"
        "\<And>m k. var_id m k \<noteq> var_id name (snd (key_target name)) \<Longrightarrow> stored s1 m k = stored s m k"
      and run: "\<And>ns r. enroll_each now (key_requests tmp pkg cfg (name # ns) @ r) fs =
        enroll_each now (key_requests tmp pkg cfg ns @ r) (fs\<lparr>contents := (contents fs)(tmp := Some fd1)\<rparr>)"
      by (rule enroll_first [OF gf ok(1) dist(4) Cons.prems(4-7) first]) (rule that)
    define fs1 where "fs1 = fs\<lparr>contents := (contents fs)(tmp := Some fd1)\<rparr>"
    have same: "key_ok fs1 pkg cfg tmp n" "key_data fs1 pkg cfg n = key_data fs pkg cfg n"
      "key_cost fs1 pkg cfg n = key_cost fs pkg cfg n" if "n \<in> set names" for n
      using key_other_file [of fs pkg cfg tmp n "Some fd1"] ok(2) that by (auto simp: fs1_def list_all_iff)
    have "stored s1 n k = stored s n k" if "n \<in> set names" for n k
      using s1(2) dist(2) that by (metis var_id_neq)
    then have "list_all (\<lambda>n. stored s1 n (snd (key_target n)) = None) names"
      using Cons.prems(8) by (auto simp: list_all_iff)
    moreover have "sum_list (map (key_cost fs1 pkg cfg) names) \<le> room s1"
      using Cons.prems(9) same(3) d good1(2) by (simp add: key_cost_def cong: map_cong)
    moreover have "list_all (key_ok fs1 pkg cfg tmp) names" "contents fs1 tmp = Some fd1" "writable fs1 tmp"
      using same(1) Cons.prems(6) by (simp_all add: list_all_iff fs1_def)
    ultimately obtain fd' s' where IH: "enroll_each now (key_requests tmp pkg cfg names @ rest) fs1 =
          enroll_each now rest (fs1\<lparr>contents := (contents fs1)(tmp := Some fd')\<rparr>)"
      "good_image fd' s'" "keys_enrolled fs1 pkg cfg names s1 s'"
      using Cons.IH [of fs1 fd1 s1] dist(1,3) good1(1) Cons.prems(7) by blast
    from keys_enrolled_Cons [OF dist(2) d good1(2) s1 same(2) IH(3)] IH(1,2) run show ?thesis
      by (intro exI [of _ fd'] exI [of _ s']) (simp add: fs1_def del: fun_upd_apply)
  qed
qed

lemma enroll_enable_step:
  assumes "good_image fd s" and "contents fs tmp = Some fd" and "writable fs tmp"
    and "is_guid g" and "length g = 36" and "contents fs f = Some data" and "length data < 2 ^ 32"
    and "stored s ''SecureBootEnable'' g = None" and "var_cost ''SecureBootEnable'' data \<le> room s"
  obtains fd' s' where "var_enroll now (sb_args tmp f g ''SecureBootEnable'' (Some ''0x3'')) fs =
      Some (Inr (True, [], fs\<lparr>contents := (contents fs)(tmp := Some fd')\<rparr>))"
    and "good_image fd' s'" and "stores s' ''SecureBootEnable'' g data 3"
    and "\<And>m k. m \<noteq> ''SecureBootEnable'' \<Longrightarrow> stored s' m k = stored s m k"
proof -
  have num: "int_base16 ''0x3'' = Inr 3" and low: "lower ''SecureBootEnable'' = ''securebootenable''"
    and auth: "(3 AND TIMEBASED_AUTH_WRITE_ACCESS) = 0" and ascii: "ascii_name ''SecureBootEnable''"
    by code_simp+
  let ?args = "sb_args tmp f g ''SecureBootEnable'' (Some ''0x3'')"
  have check: "check_args fs ?args = Inr True" and parsed: "parsed_attributes ?args = Inr 3"
    using assms(4,6) num low by (simp_all add: check_args_def parsed_attributes_def sb_args_def)
  have op: "process_op now fs ?args 3 s =
      store_add_variable now s ''SecureBootEnable'' g 3 None data (int (length data)) False"
    using assms(6) low
    by (simp add: process_op_def sb_args_def attr_of_def add_variable_def enroll_variable_def read_file_def)
  obtain t where t: "EfiTime None = Inr t" "wf_time t"
    by (simp add: EfiTime_def EFI_TIME_FORMAT_def struct_unpack_def wf_time_def)
  then have stamp: "stamp now 3 None = Inr t"
    using auth by (simp add: stamp_def)
  have none: "find_var_in_list s ''SecureBootEnable'' g = None"
    using assms(8) by (simp add: stored_None)
  have num3: "0 \<le> (3 :: int)" "(3 :: int) < 2 ^ 32" "length ''SecureBootEnable'' < 2 ^ 30"
    by simp_all
  obtain fd' s' where "var_enroll now ?args fs = Some (Inr (True, [], fs\<lparr>contents := (contents fs)(tmp := Some fd')\<rparr>))"
    "good_image fd' s'" "stores s' ''SecureBootEnable'' g data 3"
    "\<And>m k. var_id m k \<noteq> var_id ''SecureBootEnable'' g \<Longrightarrow> stored s' m k = stored s m k"
    by (rule enroll_new [OF assms(1-3) check parsed op none assms(4,5) stamp t(2) num3(1,2) assms(7) ascii num3(3) assms(9)])
      (rule that)
  then show thesis
    using that var_id_neq by blast
qed

lemma key_requests_no_dbx:
  "cfg ''dbx'' = None \<Longrightarrow> key_requests tmp pkg cfg [''PK'', ''KEK'', ''db'', ''dbx''] = key_requests tmp pkg cfg key_names"
  by (simp add: key_requests_def key_names_def)

lemma enroll_all:
  assumes "contents fs tmp = Some fd" and "good_image fd s" and "cfg ''dbx'' = None"
    and "list_all (key_ok fs pkg cfg tmp) key_names" and "is_guid g" and "length g = 36"
    and "contents fs f = Some data" and "f \<noteq> tmp" and "length data < 2 ^ 32" and "writable fs tmp" and "wf_time (efi_now now)"
    and "list_all (\<lambda>n. stored s n (snd (key_target n)) = None) key_names" and "stored s ''SecureBootEnable'' g = None"
    and "sum_list (map (key_cost fs pkg cfg) key_names) + var_cost ''SecureBootEnable'' data \<le> room s"
  obtains fd' s' where "enroll_each now (key_requests tmp pkg cfg [''PK'', ''KEK'', ''db'', ''dbx''] @
        [sb_args tmp f g ''SecureBootEnable'' (Some ''0x3'')]) fs =
      Some (Inr (True, fs\<lparr>contents := (contents fs)(tmp := Some fd')\<rparr>))"
    and "good_image fd' s'" and "stores s' ''SecureBootEnable'' g data 3"
    and "\<And>n d. n \<in> set key_names \<Longrightarrow> key_data fs pkg cfg n = Some d \<Longrightarrow> stores s' n (snd (key_target n)) d 0x27"
    and "\<And>m k. m \<notin> set key_names \<union> {''SecureBootEnable''} \<Longrightarrow> stored s' m k = stored s m k"
proof -
  let ?enable = "sb_args tmp f g ''SecureBootEnable'' (Some ''0x3'')"
  have names: "distinct key_names" "set key_names \<subseteq> set key_names" "''SecureBootEnable'' \<notin> set key_names"
    by (simp_all add: key_names_def)
  have "sum_list (map (key_cost fs pkg cfg) key_names) \<le> room s"
    using assms(14) by simp
  from enroll_keys [OF names(1,2) assms(4,2,1,10-12) this]
  obtain fd1 s1 where run1: "enroll_each now (key_requests tmp pkg cfg key_names @ [?enable]) fs =
      enroll_each now [?enable] (fs\<lparr>contents := (contents fs)(tmp := Some fd1)\<rparr>)"
    and s1: "good_image fd1 s1" "keys_enrolled fs pkg cfg key_names s s1" by blast
  define fs1 where "fs1 = fs\<lparr>contents := (contents fs)(tmp := Some fd1)\<rparr>"
  have tmp1: "contents fs1 tmp = Some fd1" "writable fs1 tmp" "contents fs1 f = Some data"
    using assms(7,8,10) by (simp_all add: fs1_def)
  have none1: "stored s1 ''SecureBootEnable'' g = None" and fits1: "var_cost ''SecureBootEnable'' data \<le> room s1"
    using s1(2) names(3) assms(13,14) by (simp_all add: keys_enrolled_def)
  obtain fd' s' where run2: "var_enroll now ?enable fs1 = Some (Inr (True, [], fs1\<lparr>contents := (contents fs1)(tmp := Some fd')\<rparr>))"
    and s': "good_image fd' s'" "stores s' ''SecureBootEnable'' g data 3"
      "\<And>m k. m \<noteq> ''SecureBootEnable'' \<Longrightarrow> stored s' m k = stored s1 m k"
    by (rule enroll_enable_step [OF s1(1) tmp1(1,2) assms(5,6) tmp1(3) assms(9) none1 fits1]) (rule that)
  show thesis
  proof (rule that [OF _ s'(1,2)])
    show "enroll_each now (key_requests tmp pkg cfg [''PK'', ''KEK'', ''db'', ''dbx''] @ [?enable]) fs =
        Some (Inr (True, fs\<lparr>contents := (contents fs)(tmp := Some fd')\<rparr>))"
      unfolding key_requests_no_dbx [of cfg tmp pkg, OF assms(3)] run1 fs1_def [symmetric]
      using run2 by (simp add: fs1_def del: fun_upd_apply)
    show "stores s' n (snd (key_target n)) d 0x27" if "n \<in> set key_names" "key_data fs pkg cfg n = Some d" for n d
      using that s'(3) s1(2) names(3) unfolding keys_enrolled_def stores_def by metis
    show "stored s' m k = stored s m k" if "m \<notin> set key_names \<union> {''SecureBootEnable''}" for m k
      using that s'(3) s1(2) unfolding keys_enrolled_def by simp
  qed
qed

text \<open>C7: end to end, enrolling a configuration of keys (PK, KEK and db, each optional) and of the
  secure boot switch into an image with room for them and without old ones succeeds: the output file is
  the image of a sound store that holds each certificate as the signature list of its owner with attributes
  0x27, and the switch with attributes 3; every other variable is kept, the input is kept, and the
  temporary file is gone.\<close>

theorem do_var_enroll_installs:
  assumes "contents fs i = Some fd" and "good_image fd s" and "cfg ''dbx'' = None"
    and "list_all (key_ok fs pkg cfg (i @ ''.sb'')) key_names"
    and "cfg ''SecureBootEnable'' = Some (g, f)" and "is_guid g" and "length g = 36"
    and "contents fs (file_path f pkg) = Some data" and "file_path f pkg \<noteq> i @ ''.sb''" and "length data < 2 ^ 32"
    and "writable fs (i @ ''.sb'')" and "writable fs out" and "out \<noteq> i @ ''.sb''" and "wf_time (efi_now now)"
    and "list_all (\<lambda>n. stored s n (snd (key_target n)) = None) key_names" and "stored s ''SecureBootEnable'' g = None"
    and "sum_list (map (key_cost fs pkg cfg) key_names) + var_cost ''SecureBootEnable'' data \<le> room s"
  shows "\<exists>fd' s'. do_var_enroll now i out pkg cfg fs =
      Some (Inr (True, fs\<lparr>contents := (contents fs)(out := Some fd', i @ ''.sb'' := None)\<rparr>)) \<and>
    good_image fd' s' \<and>
    (\<forall>n\<in>set key_names. \<forall>d. key_data fs pkg cfg n = Some d \<longrightarrow> stores s' n (snd (key_target n)) d 0x27) \<and>
    stores s' ''SecureBootEnable'' g data 3 \<and>
    (\<forall>m k. m \<notin> set key_names \<union> {''SecureBootEnable''} \<longrightarrow> stored s' m k = stored s m k)"
proof -
  let ?tmp = "i @ ''.sb''" and ?f = "file_path f pkg"
  define fs0 where "fs0 = fs\<lparr>contents := (contents fs)(?tmp := Some fd)\<rparr>"
  have copy: "copyfile i ?tmp fs = Inr fs0" and fs0: "contents fs0 ?tmp = Some fd" "writable fs0 ?tmp" "contents fs0 ?f = Some data"
    using assms(1,8,9,11) by (simp_all add: copyfile_def fs0_def)
  have same: "key_ok fs0 pkg cfg ?tmp n" "key_data fs0 pkg cfg n = key_data fs pkg cfg n"
    "key_cost fs0 pkg cfg n = key_cost fs pkg cfg n" if "n \<in> set key_names" for n
    using key_other_file [of fs pkg cfg ?tmp n "Some fd"] assms(4) that by (auto simp: fs0_def list_all_iff)
  have ok: "list_all (key_ok fs0 pkg cfg ?tmp) key_names"
    and costs: "map (key_cost fs0 pkg cfg) key_names = map (key_cost fs pkg cfg) key_names"
    using same(1,3) by (simp_all add: list_all_iff)
  obtain fd' s' where run: "enroll_each now (key_requests ?tmp pkg cfg [''PK'', ''KEK'', ''db'', ''dbx''] @
        [sb_args ?tmp ?f g ''SecureBootEnable'' (Some ''0x3'')]) fs0 =
      Some (Inr (True, fs0\<lparr>contents := (contents fs0)(?tmp := Some fd')\<rparr>))"
    and s': "good_image fd' s'" "stores s' ''SecureBootEnable'' g data 3"
      "\<And>n d. n \<in> set key_names \<Longrightarrow> key_data fs0 pkg cfg n = Some d \<Longrightarrow> stores s' n (snd (key_target n)) d 0x27"
      "\<And>m k. m \<notin> set key_names \<union> {''SecureBootEnable''} \<Longrightarrow> stored s' m k = stored s m k"
    by (rule enroll_all [OF fs0(1) assms(2,3) ok assms(6,7) fs0(3) assms(9,10) fs0(2) assms(14-16) assms(17) [folded costs]])
      (rule that)
  let ?fs2 = "fs0\<lparr>contents := (contents fs0)(?tmp := Some fd')\<rparr>"
  let ?fs3 = "?fs2\<lparr>contents := (contents ?fs2)(out := Some fd')\<rparr>"
  have "copyfile ?tmp out ?fs2 = Inr ?fs3" "contents ?fs3 ?tmp \<noteq> None"
    using assms(12,13) by (simp_all add: copyfile_def fs0_def)
  moreover have "remove_file ?tmp ?fs3 = Inr (fs\<lparr>contents := (contents fs)(out := Some fd', ?tmp := None)\<rparr>)"
    using assms(11,13) by (simp add: remove_file_def fs0_def fun_upd_twist)
  ultimately have "do_var_enroll now i out pkg cfg fs =
      Some (Inr (True, fs\<lparr>contents := (contents fs)(out := Some fd', ?tmp := None)\<rparr>))"
    using assms(5) copy run by (simp add: do_var_enroll_def Let_def del: fun_upd_apply)
  then show ?thesis
    using s' same(2) by (intro exI [of _ fd'] exI [of _ s']) auto
qed

text \<open>A platform key and the switch in the empty store of the demonstration image.\<close>

definition sb_fs :: file_system where
  "sb_fs = \<lparr>contents = [''/fw.fd'' \<mapsto> demo_fd, ''/pk'' \<mapsto> [1, 2, 3], ''/on'' \<mapsto> [1]], writable = (\<lambda>_. True)\<rparr>"

definition sb_cfg :: sb_config where
  "sb_cfg = [''PK'' \<mapsto> (NVRAM_GUID, ''/pk''), ''SecureBootEnable'' \<mapsto> (NVRAM_GUID, ''/on'')]"

lemma nvram_guid: "is_guid NVRAM_GUID" "length NVRAM_GUID = 36"
  by code_simp+

lemma demo_good: "good_image demo_fd demo_store"
  using demo_sound length_demo
  by (simp add: good_image_def store_fits_def distinct_keys_def)
    (simp add: demo_store_def blobs_of_def VS_HEADER_SIZE_def)

lemma demo_empty: "stored demo_store n h = None" "room demo_store = 400"
  by (simp_all add: stored_def find_var_in_list_def room_def demo_store_def blobs_of_def VS_HEADER_SIZE_def)

lemma sb_files: "file_path ''/pk'' p = ''/pk''" "file_path ''/on'' p = ''/on''"
  by (simp_all add: file_path_def isabs_def)

lemma sb_keys:
  "list_all (key_ok sb_fs ''/'' sb_cfg ''/fw.fd.sb'') key_names"
  "sum_list (map (key_cost sb_fs ''/'' sb_cfg) key_names) + var_cost ''SecureBootEnable'' [1] \<le> 400"
proof -
  show "list_all (key_ok sb_fs ''/'' sb_cfg ''/fw.fd.sb'') key_names"
    using nvram_guid sb_files by (simp add: key_names_def key_ok_def sb_cfg_def sb_fs_def)
  have "key_data sb_fs ''/'' sb_cfg ''PK'' = Some (x509_list NVRAM_GUID [1, 2, 3])"
    "key_data sb_fs ''/'' sb_cfg ''KEK'' = None" "key_data sb_fs ''/'' sb_cfg ''db'' = None"
    using sb_files by (simp_all add: key_data_def sb_cfg_def sb_fs_def)
  then show "sum_list (map (key_cost sb_fs ''/'' sb_cfg) key_names) + var_cost ''SecureBootEnable'' [1] \<le> 400"
    using length_x509_list [OF nvram_guid]
    by (simp add: key_names_def key_cost_def var_cost_def VAR_HEADER_SIZE_def align_by_4_eq)
qed

theorem do_var_enroll_installs_witness:
  "\<exists>fd' s'. do_var_enroll demo_now ''/fw.fd'' ''/fw.sb.fd'' ''/'' sb_cfg sb_fs =
      Some (Inr (True, sb_fs\<lparr>contents := (contents sb_fs)(''/fw.sb.fd'' := Some fd', ''/fw.fd.sb'' := None)\<rparr>)) \<and>
    good_image fd' s' \<and> stores s' ''PK'' EFI_GLOBAL_VARIABLE (x509_list NVRAM_GUID [1, 2, 3]) 0x27 \<and>
    stores s' ''SecureBootEnable'' NVRAM_GUID [1] 3"
proof -
  have files: "contents sb_fs ''/fw.fd'' = Some demo_fd" "contents sb_fs (file_path ''/on'' ''/'') = Some [1]"
    "file_path ''/on'' ''/'' \<noteq> ''/fw.fd'' @ ''.sb''" "writable sb_fs p" for p
    using sb_files by (simp_all add: sb_fs_def)
  have cfg: "sb_cfg ''dbx'' = None" "sb_cfg ''SecureBootEnable'' = Some (NVRAM_GUID, ''/on'')"
    by (simp_all add: sb_cfg_def)
  have time: "wf_time (efi_now demo_now)"
    by (simp add: wf_time_def demo_now_def efi_now_def)
  have pk: "snd (key_target ''PK'') = EFI_GLOBAL_VARIABLE" "''/fw.sb.fd'' \<noteq> ''/fw.fd'' @ ''.sb''"
    by code_simp+
  have data: "key_data sb_fs ''/'' sb_cfg ''PK'' = Some (x509_list NVRAM_GUID [1, 2, 3])" "''PK'' \<in> set key_names"
    using sb_files by (simp_all add: key_data_def sb_cfg_def sb_fs_def key_names_def)
  have keys: "list_all (key_ok sb_fs ''/'' sb_cfg (''/fw.fd'' @ ''.sb'')) key_names"
    and room: "sum_list (map (key_cost sb_fs ''/'' sb_cfg) key_names) + var_cost ''SecureBootEnable'' [1] \<le> room demo_store"
    and none: "list_all (\<lambda>n. stored demo_store n (snd (key_target n)) = None) key_names"
    and len: "length [1 :: byte] < 2 ^ 32"
    using sb_keys demo_empty by (simp_all add: list_all_iff)
  obtain fd' s' where "do_var_enroll demo_now ''/fw.fd'' ''/fw.sb.fd'' ''/'' sb_cfg sb_fs =
      Some (Inr (True, sb_fs\<lparr>contents := (contents sb_fs)(''/fw.sb.fd'' := Some fd', ''/fw.fd'' @ ''.sb'' := None)\<rparr>))"
    "good_image fd' s'" "stores s' ''SecureBootEnable'' NVRAM_GUID [1] 3"
    "\<forall>n\<in>set key_names. \<forall>d. key_data sb_fs ''/'' sb_cfg n = Some d \<longrightarrow> stores s' n (snd (key_target n)) d 0x27"
    using do_var_enroll_installs [OF files(1) demo_good cfg(1) keys cfg(2) nvram_guid files(2,3) len files(4,4) pk(2) time none
        demo_empty(1) room] by blast
  then show ?thesis
    using data pk(1) by (intro exI [of _ fd'] exI [of _ s']) (auto simp del: fun_upd_apply)
qed

section \<open>The output name\<close>

lemma copyfile_same: "copyfile f f fs = Inl OSError"
  by (simp add: copyfile_def split: option.splits)

text \<open>An image whose name gives an output name that is also the name of the temporary file can never be
  enrolled: the last copy is refused because both files are the same.  This is the case for every absolute
  path without an extension when no output directory is given.\<close>

theorem secure_boot_same_file:
  assumes "scan_args env fs args (default_options env) = Inr (Some opts)" and "input_fd opts = Some i"
    and "output_fd_of env (output_dir opts) i = i @ ''.sb''"
  shows "secure_boot_main env now args fs \<noteq> Some (Inr (True, fs'))"
proof
  assume main: "secure_boot_main env now args fs = Some (Inr (True, fs'))"
  then have "do_var_enroll now i (i @ ''.sb'') (sb_cwd env) (sbconfig opts) fs = Some (Inr (True, fs'))"
    using assms by (auto simp: secure_boot_main_def split: if_splits)
  then show False
    by (auto simp: do_var_enroll_def Let_def copyfile_same rbind_Inr_iff split: option.splits sum.splits if_splits)
qed

definition sb_demo_env :: sb_env where
  "sb_demo_env = \<lparr>sb_cwd = ''/root'', sb_parent = ''/opt'', sb_is_dir = (\<lambda>_. False), sb_access = (\<lambda>_. True)\<rparr>"

theorem secure_boot_same_file_witness:
  "secure_boot_main sb_demo_env demo_now [''-fd'', ''/fw/OVMF''] sb_fs \<noteq> Some (Inr (True, sb_fs))"
proof (rule secure_boot_same_file)
  show "scan_args sb_demo_env sb_fs [''-fd'', ''/fw/OVMF''] (default_options sb_demo_env) =
      Inr (Some ((default_options sb_demo_env)\<lparr>input_fd := Some ''/fw/OVMF''\<rparr>))"
    by simp
  show "output_fd_of sb_demo_env (output_dir ((default_options sb_demo_env)\<lparr>input_fd := Some ''/fw/OVMF''\<rparr>)) ''/fw/OVMF'' =
      ''/fw/OVMF'' @ ''.sb''"
    unfolding default_options_def by code_simp
qed simp

end
