(* ===== verification/Msr.thy ===== *)
theory Msr
  imports Py_Struct Py_Text
begin

text \<open>
  \<open>pycloudstack/msr.py\<close>: reading and writing model specific registers through the device files of the
  processors.  The driver behind the files is a parameter over a state of its own.
\<close>

unbundle bit_operations_syntax

section \<open>Definitions\<close>

text \<open>\<open>msr_read\<close> and \<open>msr_write\<close> are \<open>lseek\<close> to the register and one \<open>read\<close> or \<open>write\<close>; \<open>None\<close> is an
  \<open>OSError\<close>.\<close>

record 'm msr_env =
  geteuid :: nat
  msr_devices :: "string list"
  can_open_ro :: "string \<Rightarrow> bool"
  can_open_wo :: "string \<Rightarrow> bool"
  msr_read :: "'m \<Rightarrow> string \<Rightarrow> int \<Rightarrow> bytes option"
  msr_write :: "'m \<Rightarrow> string \<Rightarrow> int \<Rightarrow> bytes \<Rightarrow> 'm option"

definition SGX_MCU_ERRORCODE :: int where "SGX_MCU_ERRORCODE = 0xa0"
definition SGX_DEBUG :: int where "SGX_DEBUG = 0x503"
definition IA32_FEATURE_CONTROL :: int where "IA32_FEATURE_CONTROL = 0x3a"
definition IA32_MKTME_PARTITIONING :: int where "IA32_MKTME_PARTITIONING = 0x87"
definition IA32_TME_CAPABILITY :: int where "IA32_TME_CAPABILITY = 0x981"
definition IA32_TME_ACTIVATE :: int where "IA32_TME_ACTIVATE = 0x982"

definition msr_path :: "int \<Rightarrow> string" where
  "msr_path cpu = ''/dev/cpu/'' @ fmt_dec cpu @ ''/msr''"

text \<open>Python's shifts raise a \<open>ValueError\<close> for a negative count.\<close>

definition py_rshift :: "int \<Rightarrow> int \<Rightarrow> int result" where
  "py_rshift x n = (if n < 0 then Inl ValueError else Inr (drop_bit (nat n) x))"

definition py_lshift :: "int \<Rightarrow> int \<Rightarrow> int result" where
  "py_lshift x n = (if n < 0 then Inl ValueError else Inr (push_bit (nat n) x))"

definition readmsr :: "'m msr_env \<Rightarrow> 'm \<Rightarrow> int \<Rightarrow> int \<Rightarrow> int \<Rightarrow> int \<Rightarrow> int option result" where
  "readmsr env m msr highbit lowbit cpu =
     rbind (py_assert (\<bar>msr\<bar> < 0xffffffff)) (\<lambda>_.
     rbind (py_assert (geteuid env = 0)) (\<lambda>_.
     if \<not> can_open_ro env (msr_path cpu) then Inr None
     else
       (case msr_read env m (msr_path cpu) msr of
          None \<Rightarrow> Inl OSError
        | Some buf \<Rightarrow>
            rbind (struct_unpack [UInt 8] buf) (\<lambda>vs.
            let val = int_of (vs ! 0); bits = highbit - lowbit + 1 in
            if bits < 64 then
              rbind (py_rshift val lowbit) (\<lambda>val.
              rbind (py_lshift 1 bits) (\<lambda>m.
              Inr (Some (val AND (m - 1)))))
            else Inr (Some val)))))"

text \<open>A failed write is reported as false, but a value that is no 64-bit number raises \<open>struct.error\<close>.  The
  result carries the state of the driver.\<close>

fun write_devices :: "'m msr_env \<Rightarrow> int \<Rightarrow> int \<Rightarrow> string list \<Rightarrow> 'm \<Rightarrow> (bool \<times> 'm) result" where
  "write_devices env msr val [] m = Inr (True, m)"
| "write_devices env msr val (cpu # cpus) m =
     (if \<not> can_open_wo env cpu then Inr (False, m)
      else
        rbind (struct_pack [UInt 8] [SInt val]) (\<lambda>buf.
        case msr_write env m cpu msr buf of
          None \<Rightarrow> Inr (False, m)
        | Some m \<Rightarrow> write_devices env msr val cpus m))"

definition writemsr :: "'m msr_env \<Rightarrow> int \<Rightarrow> int \<Rightarrow> 'm \<Rightarrow> (bool \<times> 'm) result" where
  "writemsr env msr val m =
     rbind (py_assert (\<bar>msr\<bar> < 0xffffffff)) (\<lambda>_.
     rbind (py_assert (geteuid env = 0)) (\<lambda>_.
     write_devices env msr val (msr_devices env) m))"

text \<open>The constructor of \<open>MSR\<close> loads the kernel module when the device of the first processor is not there.\<close>

definition check_kmod :: "(string \<Rightarrow> 'm \<Rightarrow> bool) \<Rightarrow> (string \<Rightarrow> 'm \<Rightarrow> 'm) \<Rightarrow> 'm \<Rightarrow> 'm" where
  "check_kmod path_exists os_system m =
     (if \<not> path_exists ''/dev/cpu/0/msr'' m then os_system ''modprobe msr'' m else m)"

section \<open>Bit fields\<close>

text \<open>reading bits \<open>lo\<close> to \<open>hi\<close> of a register gives exactly this bit field of its 64-bit value: the value
  shifted right by \<open>lo\<close> and cut to \<open>hi - lo + 1\<close> bits, for every field that lies inside the register.\<close>

theorem readmsr_bits:
  assumes "\<bar>msr\<bar> < 0xffffffff" and "geteuid env = 0" and "can_open_ro env (msr_path cpu)"
    and "msr_read env m (msr_path cpu) msr = Some (le_bytes 8 (unat (v :: 64 word)))" and "lo \<le> hi" and "hi < 64"
  shows "readmsr env m msr (int hi) (int lo) cpu = Inr (Some (uint (take_bit (hi - lo + 1) (drop_bit lo v))))"
proof -
  have bound: "unat v < 256 ^ 8"
    using unsigned_less [of v, where 'a = nat] by simp
  then have buf: "struct_unpack [UInt 8] (le_bytes 8 (unat v)) = Inr [SInt (uint v)]"
    by (simp add: struct_unpack_def)
  have field: "uint (take_bit (hi - lo + 1) (drop_bit lo v)) = take_bit (hi - lo + 1) (drop_bit lo (uint v))"
    using assms(5,6) unsigned_less [of v, where 'a = int]
    by (simp add: unsigned_take_bit_eq unsigned_drop_bit_eq take_bit_int_eq_self)
  show ?thesis
  proof (cases "hi - lo + 1 < 64")
    case True
    have "nat (int hi - int lo + 1) = hi - lo + 1" "int hi - int lo + 1 < 64" "\<not> int hi - int lo + 1 < 0"
      using assms(5) True by simp_all
    then have "readmsr env m msr (int hi) (int lo) cpu =
        Inr (Some (drop_bit lo (uint v) AND (push_bit (hi - lo + 1) 1 - 1)))"
      using assms(1-4) buf by (simp add: readmsr_def py_rshift_def py_lshift_def Let_def del: struct_unpack_Inr_iff)
    then show ?thesis
      using field by (simp add: take_bit_eq_mask mask_eq_exp_minus_1 push_bit_eq_mult)
  next
    case False
    then have "lo = 0" "hi = 63" using assms(5,6) by simp_all
    then show ?thesis
      using assms(1-4) buf by (simp add: readmsr_def Let_def take_bit_word_eq_self del: struct_unpack_Inr_iff)
  qed
qed

text \<open>A driver that keeps what was last written to a register of a processor.\<close>

definition msr_driver :: "'m msr_env \<Rightarrow> bool" where
  "msr_driver env \<longleftrightarrow>
     (\<forall>m p r b m'. msr_write env m p r b = Some m' \<longrightarrow>
        (\<forall>q s. msr_read env m' q s = (if q = p \<and> s = r then Some b else msr_read env m q s)))"

lemma write_devices_reads:
  assumes "msr_driver env" and "write_devices env msr val cpus m = Inr (True, m')"
  shows "msr_read env m' q s =
    (if q \<in> set cpus \<and> s = msr then Some (le_bytes 8 (nat val)) else msr_read env m q s)"
    and "cpus = [] \<or> 0 \<le> val \<and> val < 256 ^ 8"
  using assms(2)
proof (induction cpus arbitrary: m)
  case (Cons cpu cpus)
  {
    case 1
    then obtain m1 where "msr_write env m cpu msr (le_bytes 8 (nat val)) = Some m1"
      "write_devices env msr val cpus m1 = Inr (True, m')"
      by (auto split: if_splits option.splits)
    then show ?case
      using Cons(1) assms(1) by (simp add: msr_driver_def)
  next
    case 2
    then show ?case by (auto split: if_splits)
  }
qed simp_all


text \<open>A machine with two processors and a register file.\<close>

definition demo_msr :: "(string \<Rightarrow> int \<Rightarrow> bytes) msr_env" where
  "demo_msr = \<lparr>geteuid = 0, msr_devices = [''/dev/cpu/0/msr'', ''/dev/cpu/1/msr''], can_open_ro = (\<lambda>_. True),
     can_open_wo = (\<lambda>_. True), msr_read = (\<lambda>m p r. Some (m p r)),
     msr_write = (\<lambda>m p r b. Some (\<lambda>q s. if q = p \<and> s = r then b else m q s))\<rparr>"

lemma demo_msr_driver: "msr_driver demo_msr"
  by (simp add: msr_driver_def demo_msr_def)

theorem readmsr_bits_witness:
  "readmsr demo_msr (\<lambda>_ _. le_bytes 8 (unat (0xabcd :: 64 word))) IA32_TME_ACTIVATE 11 4 0 = Inr (Some 0xbc)"
  using readmsr_bits [of IA32_TME_ACTIVATE demo_msr 0 "\<lambda>_ _. le_bytes 8 (unat (0xabcd :: 64 word))" "0xabcd" 4 11]
  by (simp add: demo_msr_def IA32_TME_ACTIVATE_def)


end
