(* ===== verification/Py_Effect.thy ===== *)
theory Py_Effect
  imports Py_Prelude
begin

text \<open>
  Operations with effects: a function from the state to a result and the state after it.  The state is kept
  when the operation raises, as the state of a program is.
\<close>

type_synonym ('s, 'a) eff = "'s \<Rightarrow> 'a result \<times> 's"

named_theorems eff_simps \<open>evaluation of operations with effects\<close>

definition eret :: "'a \<Rightarrow> ('s, 'a) eff" where
  "eret x = (\<lambda>s. (Inr x, s))"

definition eraise :: "py_error \<Rightarrow> ('s, 'a) eff" where
  "eraise e = (\<lambda>s. (Inl e, s))"

definition ebind :: "('s, 'a) eff \<Rightarrow> ('a \<Rightarrow> ('s, 'b) eff) \<Rightarrow> ('s, 'b) eff" where
  "ebind m f = (\<lambda>s. case m s of (Inl e, s') \<Rightarrow> (Inl e, s') | (Inr x, s') \<Rightarrow> f x s')"

definition eget :: "('s \<Rightarrow> 'a) \<Rightarrow> ('s, 'a) eff" where
  "eget f = (\<lambda>s. (Inr (f s), s))"

definition eput :: "('s \<Rightarrow> 's) \<Rightarrow> ('s, unit) eff" where
  "eput f = (\<lambda>s. (Inr (), f s))"

definition eassert :: "bool \<Rightarrow> ('s, unit) eff" where
  "eassert b = (if b then eret () else eraise AssertionError)"

lemma ebind_simps [eff_simps, simp]:
  "m s = (Inr x, s') \<Longrightarrow> ebind m f s = f x s'"
  "m s = (Inl e, s') \<Longrightarrow> ebind m f s = (Inl e, s')"
  by (simp_all add: ebind_def)

lemma eret_run [eff_simps, simp]: "eret x s = (Inr x, s)"
  by (simp add: eret_def)

lemma eraise_run [eff_simps, simp]: "eraise e s = (Inl e, s)"
  by (simp add: eraise_def)

lemma eget_run [eff_simps, simp]: "eget f s = (Inr (f s), s)"
  by (simp add: eget_def)

lemma eput_run [eff_simps, simp]: "eput f s = (Inr (), f s)"
  by (simp add: eput_def)

lemma eassert_run [eff_simps, simp]: "eassert b s = (if b then Inr () else Inl AssertionError, s)"
  by (simp add: eassert_def)

lemma ebind_assoc: "ebind (ebind m f) g = ebind m (\<lambda>x. ebind (f x) g)"
  by (auto simp: ebind_def fun_eq_iff split: prod.splits sum.splits)

lemma ebind_eret [eff_simps, simp]: "ebind (eret x) f = f x" "ebind m eret = m"
  by (auto simp: ebind_def fun_eq_iff split: prod.splits sum.splits)

end
