(* ===== verification/Py_Poll.thy ===== *)
theory Py_Poll
  imports Py_Effect
begin

text \<open>
  Loops that poll: read the state of a service, return when the answer is decisive, otherwise sleep and try again until the time
  is used up.  A loop that does not return is \<open>None\<close>, so that its end has to be proved.  The locale \<open>polling\<close> states what
  a waiting operation relies on and proves once when it ends and what it answers.
\<close>

section \<open>Operations that may not return\<close>

type_synonym ('s, 'a) leff = "'s \<Rightarrow> ('a result \<times> 's) option"

definition lift_eff :: "('s, 'a) eff \<Rightarrow> ('s, 'a) leff" where
  "lift_eff m = (\<lambda>s. Some (m s))"

definition lbind :: "('s, 'a) leff \<Rightarrow> ('a \<Rightarrow> ('s, 'b) leff) \<Rightarrow> ('s, 'b) leff" where
  "lbind m f =
     (\<lambda>s. case m s of
        None \<Rightarrow> None
      | Some (Inl e, s') \<Rightarrow> Some (Inl e, s')
      | Some (Inr x, s') \<Rightarrow> f x s')"

abbreviation lret :: "'a \<Rightarrow> ('s, 'a) leff" where
  "lret x \<equiv> lift_eff (eret x)"

text \<open>\<open>try: m except ApiException as ex: h(ex.reason)\<close>, for operations that return and for others.\<close>

definition try_api :: "('s, 'a) eff \<Rightarrow> (string option \<Rightarrow> ('s, 'a) eff) \<Rightarrow> ('s, 'a) eff" where
  "try_api m h = (\<lambda>s. case m s of (Inl (ApiException r), s') \<Rightarrow> h r s' | rs \<Rightarrow> rs)"

definition try_api_loop :: "('s, 'a) leff \<Rightarrow> (string option \<Rightarrow> ('s, 'a) leff) \<Rightarrow> ('s, 'a) leff" where
  "try_api_loop m h = (\<lambda>s. case m s of Some (Inl (ApiException r), s') \<Rightarrow> h r s' | rs \<Rightarrow> rs)"

lemma lift_eff_run [eff_simps, simp]: "lift_eff m s = Some (m s)"
  by (simp add: lift_eff_def)

lemma lbind_simps [eff_simps, simp]:
  "m s = None \<Longrightarrow> lbind m f s = None"
  "m s = Some (Inl e, s') \<Longrightarrow> lbind m f s = Some (Inl e, s')"
  "m s = Some (Inr x, s') \<Longrightarrow> lbind m f s = f x s'"
  by (simp_all add: lbind_def)

lemma lbind_total:
  assumes "m s \<noteq> None" and "\<And>x s'. m s = Some (Inr x, s') \<Longrightarrow> f x s' \<noteq> None"
  shows "lbind m f s \<noteq> None"
  using assms by (auto simp: lbind_def split: sum.splits)

lemma try_api_simps [eff_simps, simp]:
  "m s = (Inl (ApiException r), s') \<Longrightarrow> try_api m h s = h r s'"
  "m s = (Inr x, s') \<Longrightarrow> try_api m h s = (Inr x, s')"
  by (simp_all add: try_api_def)

lemma try_api_loop_total:
  assumes "m s \<noteq> None" and "\<And>q s'. h q s' \<noteq> None"
  shows "try_api_loop m h s \<noteq> None"
proof -
  from assms(1) obtain a s' where m: "m s = Some (a, s')" by auto
  then show ?thesis
    using assms(2) by (cases a) (auto simp: try_api_loop_def split: py_error.splits)
qed

text \<open>An operation that makes a call and then waits.\<close>

lemma call_then_wait_returns: "(\<And>s. w s \<noteq> None) \<Longrightarrow> lbind (lift_eff m) (\<lambda>_. w) s \<noteq> None"
  by (rule lbind_total) simp_all

text \<open>Access to an attribute of what may be \<open>None\<close>; a result as an operation.\<close>

definition eattr :: "'a option \<Rightarrow> ('s, 'a) eff" where
  "eattr v = (case v of None \<Rightarrow> eraise AttributeError | Some x \<Rightarrow> eret x)"

definition eres :: "'a result \<Rightarrow> ('s, 'a) eff" where
  "eres r = (\<lambda>s. (r, s))"

lemma eattr_simps [eff_simps, simp]: "eattr None = eraise AttributeError" "eattr (Some x) = eret x"
  by (simp_all add: eattr_def)

lemma eres_run [eff_simps, simp]: "eres r s = (r, s)"
  by (simp add: eres_def)

section \<open>The loop\<close>

text \<open>\<open>check\<close> is one round: \<open>Some r\<close> ends the loop with \<open>r\<close>.\<close>

partial_function (option) poll ::
  "int \<Rightarrow> int \<Rightarrow> (int \<Rightarrow> 'h \<Rightarrow> 'h) \<Rightarrow> ('h, 'a option) eff \<Rightarrow> 'a \<Rightarrow> int \<Rightarrow> ('h, 'a) leff" where
  "poll itv tmo slp check dflt elapsed s =
     (if elapsed < tmo then
        (case check s of
           (Inl e, s') \<Rightarrow> Some (Inl e, s')
         | (Inr (Some r), s') \<Rightarrow> Some (Inr r, s')
         | (Inr None, s') \<Rightarrow> poll itv tmo slp check dflt (elapsed + itv) (slp itv s'))
      else Some (Inr dflt, s))"

declare poll.simps [code]

text \<open>The same loop with the number of rounds known beforehand, and that number.\<close>

fun poll_ref :: "int \<Rightarrow> (int \<Rightarrow> 'h \<Rightarrow> 'h) \<Rightarrow> ('h, 'a option) eff \<Rightarrow> 'a \<Rightarrow> nat \<Rightarrow> ('h, 'a) eff" where
  "poll_ref itv slp check dflt 0 s = (Inr dflt, s)"
| "poll_ref itv slp check dflt (Suc n) s =
     (case check s of
        (Inl e, s') \<Rightarrow> (Inl e, s')
      | (Inr (Some r), s') \<Rightarrow> (Inr r, s')
      | (Inr None, s') \<Rightarrow> poll_ref itv slp check dflt n (slp itv s'))"

definition rounds :: "int \<Rightarrow> int \<Rightarrow> nat" where
  "rounds itv tmo = nat ((tmo + itv - 1) div itv)"

text \<open>The state before the round number \<open>n\<close>, when the rounds before it do not end the loop.\<close>

definition at_round :: "int \<Rightarrow> (int \<Rightarrow> 'h \<Rightarrow> 'h) \<Rightarrow> ('h, 'a option) eff \<Rightarrow> nat \<Rightarrow> 'h \<Rightarrow> 'h" where
  "at_round itv slp check n s = ((\<lambda>s. slp itv (snd (check s))) ^^ n) s"

lemma at_round_simps [simp]:
  "at_round itv slp check 0 s = s"
  "at_round itv slp check (Suc n) s = at_round itv slp check n (slp itv (snd (check s)))"
  by (simp_all add: at_round_def funpow_swap1 [where f = "\<lambda>s. slp itv (snd (check s))"])

lemma le_div_int_iff:
  assumes "0 < b"
  shows "k \<le> a div b \<longleftrightarrow> k * b \<le> (a :: int)"
proof -
  have "(a - k * b) div b = a div b - k"
    using assms div_mult_self1 [of b a "- k"] by simp
  then have "k \<le> a div b \<longleftrightarrow> 0 \<le> (a - k * b) div b" by simp
  then show ?thesis
    using assms by (simp add: pos_imp_zdiv_nonneg_iff)
qed

lemma less_rounds_iff:
  assumes "0 < itv"
  shows "n < rounds itv tmo \<longleftrightarrow> int n * itv < tmo"
proof -
  have "n < rounds itv tmo \<longleftrightarrow> int n + 1 \<le> (tmo + itv - 1) div itv"
    by (auto simp: rounds_def zless_nat_eq_int_zless)
  also have "\<dots> \<longleftrightarrow> (int n + 1) * itv \<le> tmo + itv - 1"
    using assms by (rule le_div_int_iff)
  finally show ?thesis by (auto simp: algebra_simps)
qed

lemma rounds_nonpos: "0 < itv \<Longrightarrow> tmo \<le> 0 \<Longrightarrow> rounds itv tmo = 0"
  using less_rounds_iff [of itv 0 tmo] by simp

lemma rounds_pos:
  assumes "0 < itv" and "0 < tmo"
  shows "rounds itv tmo = Suc (rounds itv (tmo - itv))"
proof -
  have "(tmo + itv - 1) div itv = (tmo - itv + itv - 1) div itv + 1" and "0 \<le> (tmo - itv + itv - 1) div itv"
    using assms div_add_self2 [of itv "tmo - 1"] by (simp_all add: pos_imp_zdiv_nonneg_iff algebra_simps)
  then show ?thesis
    by (simp add: rounds_def nat_add_distrib)
qed

text \<open>A positive interval makes the loop end after that number of rounds.\<close>

lemma poll_eq_ref_from:
  assumes "0 < itv"
  shows "poll itv tmo slp check dflt e s = Some (poll_ref itv slp check dflt (rounds itv (tmo - e)) s)"
proof (induction "rounds itv (tmo - e)" arbitrary: e s)
  case 0
  then have "\<not> e < tmo"
    using assms rounds_pos [of itv "tmo - e"] by auto
  then show ?case
    using assms by (simp add: poll.simps rounds_nonpos)
next
  case (Suc n)
  then have "e < tmo"
    using assms rounds_nonpos [of itv "tmo - e"] by (cases "e < tmo") auto
  then have n: "rounds itv (tmo - e) = Suc (rounds itv (tmo - (e + itv)))"
    using assms rounds_pos [of itv "tmo - e"] by (simp add: algebra_simps)
  then have IH: "poll itv tmo slp check dflt (e + itv) s' =
      Some (poll_ref itv slp check dflt (rounds itv (tmo - (e + itv))) s')" for s'
    using Suc by simp
  show ?case
    using \<open>e < tmo\<close> by (simp add: poll.simps [of itv tmo slp check dflt e] n IH split: prod.splits sum.splits option.splits)
qed

lemma poll_eq_ref:
  "0 < itv \<Longrightarrow> poll itv tmo slp check dflt 0 s = Some (poll_ref itv slp check dflt (rounds itv tmo) s)"
  using poll_eq_ref_from [of itv tmo slp check dflt 0 s] by simp

lemma poll_ref_undecided:
  "(\<And>j. j < n \<Longrightarrow> fst (check (at_round itv slp check j s)) = Inr None) \<Longrightarrow>
   poll_ref itv slp check dflt n s = (Inr dflt, at_round itv slp check n s)"
proof (induction n arbitrary: s)
  case (Suc n)
  from Suc.prems [of 0] have c: "check s = (Inr None, snd (check s))"
    by (metis prod.collapse at_round_simps(1) zero_less_Suc)
  have "poll_ref itv slp check dflt n (slp itv (snd (check s))) = (Inr dflt, at_round itv slp check (Suc n) s)"
    using Suc.IH [of "slp itv (snd (check s))"] Suc.prems [of "Suc _"] by simp
  then show ?case
    by (subst poll_ref.simps, subst c) simp
qed simp

lemma poll_ref_decided:
  "\<lbrakk>\<And>j. j < k \<Longrightarrow> fst (check (at_round itv slp check j s)) = Inr None;
    check (at_round itv slp check k s) = (r, s'); r \<noteq> Inr None; k < n\<rbrakk> \<Longrightarrow>
   poll_ref itv slp check dflt n s = ((case r of Inl e \<Rightarrow> Inl e | Inr x \<Rightarrow> Inr (the x)), s')"
proof (induction k arbitrary: n s)
  case 0
  then obtain m where "n = Suc m" by (cases n) auto
  with 0 show ?case by (auto split: sum.splits option.splits)
next
  case (Suc k)
  then obtain m where m: "n = Suc m" "k < m" by (cases n) auto
  from Suc.prems(1) [of 0] have c: "check s = (Inr None, snd (check s))"
    by (metis prod.collapse at_round_simps(1) zero_less_Suc)
  have "poll_ref itv slp check dflt m (slp itv (snd (check s))) = ((case r of Inl e \<Rightarrow> Inl e | Inr x \<Rightarrow> Inr (the x)), s')"
    using Suc.IH [of "slp itv (snd (check s))" m] Suc.prems(1) [of "Suc _"] Suc.prems(2,3) m(2) by simp
  then show ?case
    unfolding m(1) by (subst poll_ref.simps, subst c) simp
qed

text \<open>What the rounds and the sleeping keep, the loop keeps.\<close>

lemma poll_ref_keeps:
  assumes "\<And>h. I h \<Longrightarrow> \<exists>r h'. check h = (Inr r, h') \<and> I h'" and "\<And>h. I h \<Longrightarrow> I (slp itv h)"
  shows "I s \<Longrightarrow> \<exists>r s'. poll_ref itv slp check dflt n s = (Inr r, s') \<and> I s'"
proof (induction n arbitrary: s)
  case (Suc n)
  then obtain r h' where "check s = (Inr r, h')" "I h'" using assms(1) by blast
  then show ?case using Suc.IH [of "slp itv h'"] assms(2) by (cases r) auto
qed simp

section \<open>The contract of a waiting operation\<close>

text \<open>A configuration \<open>c\<close> gives the interval and the time to wait; \<open>k\<close> says what is waited for.\<close>

locale polling =
  fixes wait :: "'c \<Rightarrow> 'k \<Rightarrow> ('h, 'a) leff"
    and itv :: "'c \<Rightarrow> int"
    and tmo :: "'c \<Rightarrow> int"
    and ok :: "'c \<Rightarrow> bool"
    and slp :: "'k \<Rightarrow> int \<Rightarrow> 'h \<Rightarrow> 'h"
    and check :: "'k \<Rightarrow> ('h, 'a option) eff"
    and dflt :: 'a
  assumes wait_poll: "wait c k s = poll (itv c) (tmo c) (slp k) (check k) dflt 0 s"
    and ok_itv: "ok c \<Longrightarrow> 0 < itv c"
begin

abbreviation round_state :: "'c \<Rightarrow> 'k \<Rightarrow> nat \<Rightarrow> 'h \<Rightarrow> 'h" where
  "round_state c k \<equiv> at_round (itv c) (slp k) (check k)"

lemma wait_ref: "ok c \<Longrightarrow> wait c k s = Some (poll_ref (itv c) (slp k) (check k) dflt (rounds (itv c) (tmo c)) s)"
  by (simp add: wait_poll poll_eq_ref ok_itv)

lemma wait_returns: "ok c \<Longrightarrow> wait c k s \<noteq> None"
  by (simp add: wait_ref)

lemma wait_keeps:
  assumes "ok c" and "\<And>h. I h \<Longrightarrow> \<exists>r h'. check k h = (Inr r, h') \<and> I h'" and "\<And>h. I h \<Longrightarrow> I (slp k (itv c) h)" and "I s"
  shows "\<exists>r s'. wait c k s = Some (Inr r, s') \<and> I s'"
  using poll_ref_keeps [of I "check k" "slp k" "itv c" s dflt "rounds (itv c) (tmo c)"] assms by (simp add: wait_ref)

lemma wait_timeout:
  assumes "ok c" and "\<And>n. int n * itv c < tmo c \<Longrightarrow> fst (check k (round_state c k n s)) = Inr None"
  shows "wait c k s = Some (Inr dflt, round_state c k (rounds (itv c) (tmo c)) s)"
  using assms poll_ref_undecided [of "rounds (itv c) (tmo c)" "check k" "itv c" "slp k" s dflt]
  by (simp add: wait_ref less_rounds_iff ok_itv)

lemma wait_decides:
  assumes "ok c" and "int n * itv c < tmo c"
    and "\<And>j. j < n \<Longrightarrow> fst (check k (round_state c k j s)) = Inr None"
    and "check k (round_state c k n s) = (Inr (Some r), s')"
  shows "wait c k s = Some (Inr r, s')"
  using assms poll_ref_decided [of n "check k" "itv c" "slp k" s "Inr (Some r)" s' "rounds (itv c) (tmo c)" dflt]
  by (simp add: wait_ref less_rounds_iff ok_itv)

lemma wait_raises:
  assumes "ok c" and "int n * itv c < tmo c"
    and "\<And>j. j < n \<Longrightarrow> fst (check k (round_state c k j s)) = Inr None"
    and "check k (round_state c k n s) = (Inl e, s')"
  shows "wait c k s = Some (Inl e, s')"
  using assms poll_ref_decided [of n "check k" "itv c" "slp k" s "Inl e" s' "rounds (itv c) (tmo c)" dflt]
  by (simp add: wait_ref less_rounds_iff ok_itv)

lemma wait_cases:
  assumes "ok c"
  obtains (timeout) "\<And>n. int n * itv c < tmo c \<Longrightarrow> fst (check k (round_state c k n s)) = Inr None"
      "wait c k s = Some (Inr dflt, round_state c k (rounds (itv c) (tmo c)) s)"
  | (decided) n r s' where "int n * itv c < tmo c" "\<And>j. j < n \<Longrightarrow> fst (check k (round_state c k j s)) = Inr None"
      "check k (round_state c k n s) = (Inr (Some r), s')" "wait c k s = Some (Inr r, s')"
  | (raised) n e s' where "int n * itv c < tmo c" "\<And>j. j < n \<Longrightarrow> fst (check k (round_state c k j s)) = Inr None"
      "check k (round_state c k n s) = (Inl e, s')" "wait c k s = Some (Inl e, s')"
proof (cases "\<exists>n. int n * itv c < tmo c \<and> fst (check k (round_state c k n s)) \<noteq> Inr None")
  case False
  then show ?thesis
    using timeout wait_timeout [OF assms] by blast
next
  case True
  let ?P = "\<lambda>n. int n * itv c < tmo c \<and> fst (check k (round_state c k n s)) \<noteq> Inr None"
  define n where "n = (LEAST n. ?P n)"
  have n: "?P n" unfolding n_def using True by (rule LeastI_ex)
  have before: "fst (check k (round_state c k j s)) = Inr None" if "j < n" for j
  proof -
    have "int j * itv c < tmo c"
      using that n ok_itv [OF assms] by (smt (verit) mult_strict_right_mono of_nat_less_iff)
    then show ?thesis using not_less_Least [of j ?P] that n_def by blast
  qed
  obtain x s' where x: "check k (round_state c k n s) = (x, s')" by (metis surj_pair)
  show ?thesis
  proof (cases x)
    case (Inl e)
    then show ?thesis
      using raised [of n e s'] wait_raises [OF assms] n before x by blast
  next
    case (Inr y)
    then obtain r where "y = Some r" using n x by (cases y) auto
    then show ?thesis
      using decided [of n r s'] wait_decides [OF assms] n before x Inr by blast
  qed
qed

lemma wait_answer_iff:
  assumes "ok c" and "r \<noteq> dflt"
  shows "wait c k s = Some (Inr r, s') \<longleftrightarrow>
    (\<exists>n. int n * itv c < tmo c \<and> (\<forall>j<n. fst (check k (round_state c k j s)) = Inr None) \<and>
         check k (round_state c k n s) = (Inr (Some r), s'))"
proof
  assume "wait c k s = Some (Inr r, s')"
  with assms(2) show "\<exists>n. int n * itv c < tmo c \<and> (\<forall>j<n. fst (check k (round_state c k j s)) = Inr None) \<and>
         check k (round_state c k n s) = (Inr (Some r), s')"
    by (cases rule: wait_cases [OF assms(1), of k s]) auto
qed (use wait_decides [OF assms(1)] in blast)

end

end
