(* ===== verification/Cmd_Runner.thy ===== *)
theory Cmd_Runner
  imports Py_Effect Py_Path
begin

text \<open>
  \<open>pycloudstack/cmdrunner.py\<close> and \<open>pycloudstack/vmimg.py\<close>: commands of the operating system, and the image of a machine, which is
  changed by such commands.  The operating system is a parameter.  A runner that is waited for is a step here: the thread
  is started and joined; what happens inside is in \<open>Cmd_Thread\<close>.
\<close>

section \<open>Commands\<close>

text \<open>\<open>spawn\<close> runs a command to its end and gives its exit code and the lines of its two outputs; \<open>None\<close> when it cannot be started.
  \<open>os_exists\<close>, \<open>os_remove\<close> and \<open>os_chmod\<close> are the calls on files, where \<open>False\<close> is an \<open>OSError\<close>.\<close>

record 'c cmd_env =
  spawn :: "string list \<Rightarrow> 'c \<Rightarrow> (int \<times> string list \<times> string list) option \<times> 'c"
  os_exists :: "string \<Rightarrow> 'c \<Rightarrow> bool"
  os_remove :: "string \<Rightarrow> 'c \<Rightarrow> bool \<times> 'c"
  os_chmod :: "string \<Rightarrow> 'c \<Rightarrow> bool"
  os_realpath :: "string \<Rightarrow> string"

record cmd_runner =
  r_cmdarr :: "string list"
  r_stdout :: "string list"
  r_stderr :: "string list"
  r_retcode :: "int option"

definition NativeCmdRunner :: "string list \<Rightarrow> cmd_runner" where
  "NativeCmdRunner cmdarr = \<lparr>r_cmdarr = cmdarr, r_stdout = [], r_stderr = [], r_retcode = None\<rparr>"

definition SSHCmdRunner :: "'c cmd_env \<Rightarrow> string list \<Rightarrow> string \<Rightarrow> int \<Rightarrow> string \<Rightarrow> string \<Rightarrow> ('c, cmd_runner) eff" where
  "SSHCmdRunner env cmdarr ssh_id_key port user ip =
     ebind (eget (os_chmod env ssh_id_key)) (\<lambda>ok.
     if \<not> ok then eraise OSError
     else eret (NativeCmdRunner
       ([''ssh'', ''-v'', ''-i'', ssh_id_key, user @ ''@'' @ ip, ''-p'', fmt_dec port,
         ''-o'', ''StrictHostKeyChecking=no'', ''-o'', ''UserKnownHostsFile=/dev/null'', ''-o'', ''ConnectTimeout=30'',
         ''-o'', ''PreferredAuthentications=publickey''] @ cmdarr)))"

text \<open>\<open>_execute\<close>: a command that cannot be started ends the thread with an exception and leaves the code at \<open>None\<close>.\<close>

definition execute :: "'c cmd_env \<Rightarrow> cmd_runner \<Rightarrow> ('c, cmd_runner) eff" where
  "execute env self = (\<lambda>c.
     case spawn env (r_cmdarr self) c of
       (None, c) \<Rightarrow> (Inr self, c)
     | (Some (code, out, err), c) \<Rightarrow>
         (Inr (self\<lparr>r_stdout := r_stdout self @ map py_strip out, r_stderr := r_stderr self @ map py_strip err,
                    r_retcode := Some code\<rparr>), c))"

definition runwait :: "'c cmd_env \<Rightarrow> cmd_runner \<Rightarrow> ('c, cmd_runner) eff" where
  "runwait env self = execute env self"

section \<open>Images\<close>

record vm_image =
  img_filepath :: string
  img_part_root :: string
  img_part_efi :: string

definition VMImage :: "'c cmd_env \<Rightarrow> string \<Rightarrow> string \<Rightarrow> string \<Rightarrow> ('c, vm_image) eff" where
  "VMImage env filepath part_root part_efi =
     ebind (eget (os_exists env filepath)) (\<lambda>found.
     ebind (eassert found) (\<lambda>_.
     eret \<lparr>img_filepath = os_realpath env filepath, img_part_root = part_root, img_part_efi = part_efi\<rparr>))"

text \<open>Every command on an image must end with the code 0.\<close>

definition run_checked :: "'c cmd_env \<Rightarrow> string list \<Rightarrow> ('c, unit) eff" where
  "run_checked env cmdarr =
     ebind (runwait env (NativeCmdRunner cmdarr)) (\<lambda>runner. eassert (r_retcode runner = Some 0))"

definition copy_in :: "'c cmd_env \<Rightarrow> vm_image \<Rightarrow> string \<Rightarrow> string \<Rightarrow> ('c, unit) eff" where
  "copy_in env self localpath remotedir =
     run_checked env [''virt-copy-in'', ''-a'', img_filepath self, localpath, remotedir]"

definition copy_out :: "'c cmd_env \<Rightarrow> vm_image \<Rightarrow> string \<Rightarrow> string \<Rightarrow> ('c, unit) eff" where
  "copy_out env self remotepath localdir =
     run_checked env [''virt-copy-out'', ''-a'', img_filepath self, remotepath, localdir]"

definition inject_root_ssh_key :: "'c cmd_env \<Rightarrow> vm_image \<Rightarrow> string option \<Rightarrow> ('c, unit) eff" where
  "inject_root_ssh_key env self pubkey_file =
     ebind (run_checked env [''virt-customize'', ''-a'', img_filepath self, ''--run-command'',
       ''echo '' @ [CHR 0x27] @ ''PermitRootLogin yes'' @ [CHR 0x27] @ '' >> /etc/ssh/sshd_config'']) (\<lambda>_.
     case pubkey_file of
       None \<Rightarrow> eraise AssertionError
     | Some f \<Rightarrow>
         ebind (eget (os_exists env f)) (\<lambda>found.
         ebind (eassert found) (\<lambda>_.
         run_checked env [''virt-customize'', ''-a'', img_filepath self, ''--ssh-inject'', ''root:file:'' @ f])))"

definition img_clone :: "'c cmd_env \<Rightarrow> vm_image \<Rightarrow> string \<Rightarrow> string option \<Rightarrow> ('c, vm_image) eff" where
  "img_clone env self filename filedir =
     (let dir = (case filedir of None \<Rightarrow> dirname (img_filepath self) | Some d \<Rightarrow> d);
          new_full_path = path_join dir filename in
      ebind (run_checked env [''qemu-img'', ''create'', ''-f'', ''qcow2'', ''-F'', ''qcow2'', ''-b'', img_filepath self, new_full_path]) (\<lambda>_.
      VMImage env new_full_path (img_part_root self) (img_part_efi self)))"

definition img_destroy :: "'c cmd_env \<Rightarrow> vm_image \<Rightarrow> ('c, unit) eff" where
  "img_destroy env self =
     ebind (eget (os_exists env (img_filepath self))) (\<lambda>found.
     if found then eput (\<lambda>c. snd (os_remove env (img_filepath self) c)) else eret ())"

section \<open>Every command is checked\<close>

lemma run_checked_run:
  "run_checked env cmdarr c =
    (case spawn env cmdarr c of
       (Some (code, out, err), c') \<Rightarrow> (if code = 0 then Inr () else Inl AssertionError, c')
     | (None, c') \<Rightarrow> (Inl AssertionError, c'))"
  by (auto simp: run_checked_def runwait_def execute_def NativeCmdRunner_def ebind_def split: prod.splits option.splits)

text \<open>A clone of an image is a new file next to the image: it is returned only after the command that creates it ended well and
  the file is there.\<close>

lemma img_clone_result:
  assumes "img_clone env self filename None c = (Inr new, c')"
  shows "\<exists>out err. spawn env [''qemu-img'', ''create'', ''-f'', ''qcow2'', ''-F'', ''qcow2'', ''-b'', img_filepath self,
        path_join (dirname (img_filepath self)) filename] c = (Some (0, out, err), c')"
    and "os_exists env (path_join (dirname (img_filepath self)) filename) c'"
    and "img_filepath new = os_realpath env (path_join (dirname (img_filepath self)) filename)"
    and "img_part_root new = img_part_root self" "img_part_efi new = img_part_efi self"
  using assms
  by (auto simp: img_clone_def Let_def ebind_def run_checked_run VMImage_def split: prod.splits option.splits sum.splits if_splits)

end
