(* ===== verification/Py_Regex.thy ===== *)
theory Py_Regex
  imports Py_Text
begin

text \<open>
  \<open>re.search\<close> for the patterns of the packages: a sequence of literals and of repeated character classes, with one group.
  A repetition is greedy and gives back characters when the rest of the pattern does not match.
\<close>

datatype rx_item = Lit string | Rep "char \<Rightarrow> bool" nat "nat option"

text \<open>The flag says that the item is inside the group.\<close>

type_synonym regex = "(bool \<times> rx_item) list"

fun first_some :: "('a \<Rightarrow> 'b option) \<Rightarrow> 'a list \<Rightarrow> 'b option" where
  "first_some f [] = None"
| "first_some f (x # xs) = (case f x of None \<Rightarrow> first_some f xs | Some y \<Rightarrow> Some y)"

definition captured :: "bool \<Rightarrow> string \<Rightarrow> string \<Rightarrow> string" where
  "captured g piece rest = (if g then piece @ rest else rest)"

definition rep_counts :: "(char \<Rightarrow> bool) \<Rightarrow> nat \<Rightarrow> nat option \<Rightarrow> string \<Rightarrow> nat list" where
  "rep_counts c lo hi s =
     (let n = length (takeWhile c s); m = (case hi of None \<Rightarrow> n | Some h \<Rightarrow> min n h) in rev [lo..<m + 1])"

fun rx_match :: "regex \<Rightarrow> string \<Rightarrow> string option" where
  "rx_match [] s = Some []"
| "rx_match ((g, Lit l) # r) s =
     (if starts_with l s then map_option (captured g l) (rx_match r (drop (length l) s)) else None)"
| "rx_match ((g, Rep c lo hi) # r) s =
     first_some (\<lambda>n. map_option (captured g (take n s)) (rx_match r (drop n s))) (rep_counts c lo hi s)"

fun rx_search :: "regex \<Rightarrow> string \<Rightarrow> string option" where
  "rx_search r [] = rx_match r []"
| "rx_search r (c # s) = (case rx_match r (c # s) of Some x \<Rightarrow> Some x | None \<Rightarrow> rx_search r s)"

text \<open>The classes \<open>[0-9]\<close>, \<open>[a-zA-Z0-9:]\<close> and \<open>\w\<close>, on ASCII characters.\<close>

definition rx_between :: "nat \<Rightarrow> nat \<Rightarrow> char \<Rightarrow> bool" where
  "rx_between lo hi c \<longleftrightarrow> lo \<le> of_char c \<and> of_char c \<le> hi"

definition rx_digit :: "char \<Rightarrow> bool" where
  "rx_digit = rx_between 48 57"

definition rx_alnum :: "char \<Rightarrow> bool" where
  "rx_alnum c \<longleftrightarrow> rx_digit c \<or> rx_between 65 90 c \<or> rx_between 97 122 c"

definition rx_word :: "char \<Rightarrow> bool" where
  "rx_word c \<longleftrightarrow> rx_alnum c \<or> c = CHR ''_''"

lemma first_some_SomeD: "first_some f xs = Some y \<Longrightarrow> \<exists>x\<in>set xs. f x = Some y"
  by (induction xs) (auto split: option.splits)

end
