(* ===== verification/Dut.thy ===== *)
theory Dut
  imports Py_Text
begin

text \<open>
  \<open>pycloudstack/dut.py\<close>: what the package asks about the device under test.  The \<open>cpuinfo\<close> and \<open>numa\<close> packages
  and the sockets are parameters; files are their bytes.
\<close>

section \<open>Definitions\<close>

record dut_env =
  cpu_flags :: "string list"
  dut_file :: "string \<Rightarrow> bytes option"
  free_port :: nat
  connect_ex :: "string \<Rightarrow> nat \<Rightarrow> int"
  node_to_cpus :: "nat \<Rightarrow> nat list"
  max_node :: nat

definition support_tdx :: "dut_env \<Rightarrow> bool" where
  "support_tdx env \<longleftrightarrow> ''tdx'' \<in> set (cpu_flags env)"

definition support_sgx :: "dut_env \<Rightarrow> bool" where
  "support_sgx env \<longleftrightarrow> ''sgx'' \<in> set (cpu_flags env)"

definition read_text :: "dut_env \<Rightarrow> string \<Rightarrow> string result" where
  "read_text env fpath =
     (case dut_file env fpath of
        None \<Rightarrow> Inl OSError
      | Some d \<Rightarrow> rbind (decode d) (\<lambda>text. Inr (universal_newlines text)))"

definition file_contains :: "dut_env \<Rightarrow> string \<Rightarrow> string \<Rightarrow> bool result" where
  "file_contains env fpath needle =
     rbind (read_text env fpath) (\<lambda>text. Inr (list_ex (contains needle) (read_lines text)))"

definition cmdline_contains :: "dut_env \<Rightarrow> string \<Rightarrow> bool result" where
  "cmdline_contains env needle = file_contains env ''/proc/cmdline'' needle"

definition find_free_port :: "dut_env \<Rightarrow> nat" where
  "find_free_port env = free_port env"

definition check_port :: "dut_env \<Rightarrow> nat \<Rightarrow> string \<Rightarrow> bool" where
  "check_port env port ipaddr \<longleftrightarrow> connect_ex env ipaddr port = 0"

definition get_cpu_base_freq :: "dut_env \<Rightarrow> int result" where
  "get_cpu_base_freq env =
     rbind (read_text env ''/sys/devices/system/cpu/cpu0/cpufreq/base_frequency'') (\<lambda>val.
     int_base10 (py_strip val))"

definition get_distro :: "dut_env \<Rightarrow> string result" where
  "get_distro env =
     rbind (read_text env (if dut_file env ''/etc/os-release'' \<noteq> None then ''/etc/os-release'' else ''/usr/lib/os-release''))
       (\<lambda>text. item_of (split_space (lower text)) 0)"

text \<open>One group: every \<open>vm_num\<close>-th processor from \<open>start\<close> on.\<close>

fun cpuids_from :: "nat list \<Rightarrow> nat \<Rightarrow> nat \<Rightarrow> nat \<Rightarrow> nat list result" where
  "cpuids_from cpu_list vm_num start 0 = Inr []"
| "cpuids_from cpu_list vm_num start (Suc n) =
     rbind (item_of cpu_list start) (\<lambda>c.
     rbind (cpuids_from cpu_list vm_num (start + vm_num) n) (\<lambda>cs. Inr (c # cs)))"

definition get_cpuids_group :: "dut_env \<Rightarrow> int \<Rightarrow> int \<Rightarrow> nat list list result" where
  "get_cpuids_group env vm_num core_num =
     (let cpu_list = node_to_cpus env (max_node env) in
      rbind (py_assert (int (length cpu_list) > vm_num * (core_num + 1))) (\<lambda>_.
      rmap (\<lambda>i. cpuids_from cpu_list (nat vm_num) i (nat (core_num + 1))) [0..<nat vm_num]))"

section \<open>The groups of processors\<close>

lemma cpuids_from_eq:
  "(n = 0 \<or> start + (n - 1) * m < length cpus) \<Longrightarrow>
     cpuids_from cpus m start n = Inr (map (\<lambda>k. cpus ! (start + k * m)) [0..<n])"
proof (induction n arbitrary: start)
  case (Suc n)
  have "n = 0 \<or> (start + m) + (n - 1) * m < length cpus"
    using Suc.prems by (cases n) (auto simp: algebra_simps)
  from Suc.IH [OF this] show ?case
    using Suc.prems
    by (auto simp: item_of_def upt_conv_Cons map_Suc_upt [symmetric] algebra_simps simp del: upt_Suc)
qed simp

lemma index_inject:
  assumes "(i :: nat) < m" and "j < m" and "i + k * m = j + l * m"
  shows "i = j \<and> k = l"
proof -
  have "(i + k * m) mod m = i" "(j + l * m) mod m = j" "(i + k * m) div m = k" "(j + l * m) div m = l"
    using assms(1,2) by simp_all
  then show ?thesis using assms(3) by metis
qed

lemma group_index_less: "(i :: nat) < m \<Longrightarrow> k < n \<Longrightarrow> m * n < c \<Longrightarrow> i + k * m < c"
proof -
  assume "i < m" "k < n" "m * n < c"
  then have "i + k * m < (k + 1) * m" "(k + 1) * m \<le> n * m"
    by (simp, intro mult_le_mono1, simp)
  then show "i + k * m < c"
    using \<open>m * n < c\<close> by (simp add: mult.commute)
qed

lemma get_cpuids_group_eq:
  assumes "0 \<le> vm_num" and "0 \<le> core_num"
  shows "get_cpuids_group env vm_num core_num =
    (let cpus = node_to_cpus env (max_node env) in
     if nat vm_num * nat (core_num + 1) < length cpus
     then Inr (map (\<lambda>i. map (\<lambda>k. cpus ! (i + k * nat vm_num)) [0..<nat (core_num + 1)]) [0..<nat vm_num])
     else Inl AssertionError)"
proof -
  let ?m = "nat vm_num" and ?n = "nat (core_num + 1)" and ?cpus = "node_to_cpus env (max_node env)"
  have "int (?m * ?n) = vm_num * (core_num + 1)"
    using assms by simp
  then have less: "int (length ?cpus) > vm_num * (core_num + 1) \<longleftrightarrow> ?m * ?n < length ?cpus"
    by (metis of_nat_less_iff)
  show ?thesis
  proof (cases "?m * ?n < length ?cpus")
    case True
    have "cpuids_from ?cpus ?m i ?n = Inr (map (\<lambda>k. ?cpus ! (i + k * ?m)) [0..<?n])" if "i < ?m" for i
      using group_index_less [OF that _ True, of "?n - 1"] assms(2) by (intro cpuids_from_eq disjI2) simp
    then have "rmap (\<lambda>i. cpuids_from ?cpus ?m i ?n) [0..<?m] = Inr (map (\<lambda>i. map (\<lambda>k. ?cpus ! (i + k * ?m)) [0..<?n]) [0..<?m])"
      by (intro rmap_Inr_map) simp
    then show ?thesis
      using True less by (simp add: get_cpuids_group_def Let_def)
  qed (simp add: get_cpuids_group_def less Let_def)
qed

text \<open>With enough processors the groups for the virtual machines exist, one for each machine, each with a
  processor for every core and one for the input and output thread, and no processor is in two groups or
  twice in one.\<close>

theorem cpuids_groups_disjoint:
  assumes "0 \<le> vm_num" and "0 \<le> core_num" and "distinct (node_to_cpus env (max_node env))"
    and "vm_num * (core_num + 1) < int (length (node_to_cpus env (max_node env)))"
  shows "\<exists>gs. get_cpuids_group env vm_num core_num = Inr gs \<and> length gs = nat vm_num \<and>
    list_all (\<lambda>g. length g = nat core_num + 1) gs \<and> distinct (concat gs) \<and>
    set (concat gs) \<subseteq> set (node_to_cpus env (max_node env))"
proof -
  let ?m = "nat vm_num" and ?n = "nat (core_num + 1)" and ?cpus = "node_to_cpus env (max_node env)"
  let ?g = "\<lambda>i. map (\<lambda>k. ?cpus ! (i + k * ?m)) [0..<?n]"
  have "int (?m * ?n) = vm_num * (core_num + 1)"
    using assms(1,2) by simp
  then have fit: "?m * ?n < length ?cpus"
    using assms(4) by linarith
  then have run: "get_cpuids_group env vm_num core_num = Inr (map ?g [0..<?m])"
    using get_cpuids_group_eq [OF assms(1,2)] by (simp add: Let_def)
  have inside: "i + k * ?m < length ?cpus" if "i < ?m" "k < ?n" for i k
    using that fit by (rule group_index_less)
  let ?pick = "\<lambda>(i, k). ?cpus ! (i + k * ?m)"
  have "concat (map ?g [0..<?m]) = map ?pick (List.product [0..<?m] [0..<?n])"
    by (simp add: product_concat_map map_concat comp_def)
  moreover have "i = j \<and> k = l" if "i < ?m" "k < ?n" "j < ?m" "l < ?n" "?cpus ! (i + k * ?m) = ?cpus ! (j + l * ?m)" for i j k l
    using that(5) nth_eq_iff_index_eq [OF assms(3) inside [OF that(1,2)] inside [OF that(3,4)]] index_inject [OF that(1,3)]
    by blast
  then have "inj_on ?pick (set (List.product [0..<?m] [0..<?n]))"
    unfolding inj_on_def by force
  ultimately have "distinct (concat (map ?g [0..<?m]))"
    by (simp add: distinct_map distinct_product)
  moreover have "set (concat (map ?g [0..<?m])) \<subseteq> set ?cpus"
    using inside by auto
  ultimately show ?thesis
    using run assms(2) by (simp add: list_all_iff nat_add_distrib)
qed

definition demo_dut :: dut_env where
  "demo_dut = \<lparr>cpu_flags = [''tdx''], dut_file = (\<lambda>_. None), free_port = 40000, connect_ex = (\<lambda>_ _. 111),
     node_to_cpus = (\<lambda>n. [0..<16]), max_node = 1\<rparr>"

theorem cpuids_groups_disjoint_witness:
  "\<exists>gs. get_cpuids_group demo_dut 3 4 = Inr gs \<and> length gs = 3 \<and> list_all (\<lambda>g. length g = 5) gs \<and> distinct (concat gs)"
  using cpuids_groups_disjoint [of 3 4 demo_dut] by (auto simp: demo_dut_def)

end
