(* ===== verification/Vm_Param.thy ===== *)
theory Vm_Param
  imports Py_Text
begin

text \<open>
  \<open>pycloudstack/vmparam.py\<close>: the kernel command line of a guest and the topology of its processors.
  A command line is the string that the object holds.
\<close>

section \<open>Constants\<close>

definition VM_TYPE_EFI :: string where "VM_TYPE_EFI = ''efi''"
definition VM_TYPE_LEGACY :: string where "VM_TYPE_LEGACY = ''legacy''"
definition VM_TYPE_TD :: string where "VM_TYPE_TD = ''td''"
definition VM_TYPE_SGX :: string where "VM_TYPE_SGX = ''sgx''"
definition VM_TYPE_TD_PERF :: string where "VM_TYPE_TD_PERF = ''td_perf''"
definition VM_TYPE_EFI_PERF :: string where "VM_TYPE_EFI_PERF = ''efi_perf''"
definition VM_TYPE_LEGACY_PERF :: string where "VM_TYPE_LEGACY_PERF = ''legacy_perf''"
definition VM_TYPE_TD_SB :: string where "VM_TYPE_TD_SB = ''td_sb''"

definition BOOT_TYPE_DIRECT :: string where "BOOT_TYPE_DIRECT = ''direct''"
definition BOOT_TYPE_GRUB :: string where "BOOT_TYPE_GRUB = ''grub''"

definition DEFAULT_CMDLINE :: string where
  "DEFAULT_CMDLINE = ''rw selinux=0 console=hvc0 earlyprintk console=tty0''"

definition VM_STATE_RUNNING :: string where "VM_STATE_RUNNING = ''running''"
definition VM_STATE_PAUSE :: string where "VM_STATE_PAUSE = ''paused''"
definition VM_STATE_SHUTDOWN :: string where "VM_STATE_SHUTDOWN = ''shutdown''"
definition VM_STATE_SHUTDOWN_IN_PROGRESS :: string where "VM_STATE_SHUTDOWN_IN_PROGRESS = ''shutting down''"

section \<open>The kernel command line\<close>

record kernel_cmdline =
  kc_cmdline :: string

definition KernelCmdline :: "string \<Rightarrow> kernel_cmdline" where
  "KernelCmdline dflt = \<lparr>kc_cmdline = dflt\<rparr>"

definition cmdline_items :: "kernel_cmdline \<Rightarrow> string list" where
  "cmdline_items self = split_on (CHR '' '') (py_strip (kc_cmdline self))"

text \<open>\<open>cmdline += value\<close>: the whole value is appended for an item that the current line lacks.\<close>

fun iadd_loop :: "string \<Rightarrow> string list \<Rightarrow> kernel_cmdline \<Rightarrow> kernel_cmdline" where
  "iadd_loop val [] self = self"
| "iadd_loop val (item # items) self =
     iadd_loop val items
       (if item \<notin> set (cmdline_items self) then self\<lparr>kc_cmdline := kc_cmdline self @ '' '' @ val\<rparr> else self)"

definition iadd :: "kernel_cmdline \<Rightarrow> string \<Rightarrow> kernel_cmdline" where
  "iadd self val = iadd_loop val (split_on (CHR '' '') val) self"

definition item_key :: "string \<Rightarrow> string" where
  "item_key item = hd (split_on (CHR ''='') item)"

definition field_keys :: "kernel_cmdline \<Rightarrow> string list" where
  "field_keys self = map item_key (cmdline_items self)"

fun value_of_key :: "string \<Rightarrow> string list \<Rightarrow> string option" where
  "value_of_key key [] = None"
| "value_of_key key (item # items) =
     (let arr = split_on (CHR ''='') item in
      if hd arr = key \<and> length arr > 1 then Some (arr ! 1) else value_of_key key items)"

definition get_value :: "kernel_cmdline \<Rightarrow> string \<Rightarrow> string option" where
  "get_value self field_key = value_of_key field_key (cmdline_items self)"

definition is_field_exists :: "kernel_cmdline \<Rightarrow> string \<Rightarrow> bool" where
  "is_field_exists self field_str = contains (py_strip field_str) (kc_cmdline self)"

definition is_field_key_exists :: "kernel_cmdline \<Rightarrow> string \<Rightarrow> bool" where
  "is_field_key_exists self field_key \<longleftrightarrow> py_strip field_key \<in> set (field_keys self)"

definition add_field_from_string :: "kernel_cmdline \<Rightarrow> string \<Rightarrow> kernel_cmdline" where
  "add_field_from_string self field_str =
     (if \<not> is_field_exists self field_str then self\<lparr>kc_cmdline := kc_cmdline self @ '' '' @ field_str\<rparr> else self)"

definition add_field :: "kernel_cmdline \<Rightarrow> string \<Rightarrow> string option \<Rightarrow> kernel_cmdline" where
  "add_field self key val =
     (case val of
        None \<Rightarrow> self\<lparr>kc_cmdline := kc_cmdline self @ '' '' @ key\<rparr>
      | Some v \<Rightarrow> self\<lparr>kc_cmdline := kc_cmdline self @ '' '' @ key @ ''='' @ v\<rparr>)"

definition remove_field_from_string :: "kernel_cmdline \<Rightarrow> string \<Rightarrow> kernel_cmdline" where
  "remove_field_from_string self field_str =
     self\<lparr>kc_cmdline := py_replace (py_strip field_str) (kc_cmdline self)\<rparr>"

definition remove_fields :: "kernel_cmdline \<Rightarrow> string \<Rightarrow> kernel_cmdline" where
  "remove_fields self key =
     self\<lparr>kc_cmdline :=
       concat (map (\<lambda>item. '' '' @ item) (filter (\<lambda>item. item_key item \<noteq> py_strip key) (cmdline_items self)))\<rparr>"

section \<open>The processor topology\<close>

record vm_spec =
  sockets :: nat
  cores :: nat
  threads :: nat
  memsize :: nat

definition vcpus :: "vm_spec \<Rightarrow> nat" where
  "vcpus self = sockets self * cores self * threads self"

definition VMSpec :: "nat \<Rightarrow> nat \<Rightarrow> nat \<Rightarrow> nat option \<Rightarrow> vm_spec" where
  "VMSpec so co th ms =
     (let self = \<lparr>sockets = so, cores = co, threads = th, memsize = (case ms of None \<Rightarrow> 0 | Some m \<Rightarrow> m)\<rparr> in
      if ms = None then self\<lparr>memsize := vcpus self * 4 * 1024 * 1024\<rparr> else self)"

definition is_numa :: "vm_spec \<Rightarrow> bool" where
  "is_numa self \<longleftrightarrow> sockets self > 1"

definition model_migtd :: vm_spec where
  "model_migtd = VMSpec 1 1 1 (Some (64 * 1024))"

definition model_base :: vm_spec where
  "model_base = VMSpec 1 4 1 (Some (16 * 1024 * 1024))"

definition model_large :: vm_spec where
  "model_large = VMSpec 1 8 1 (Some (32 * 1024 * 1024))"

definition model_numa :: vm_spec where
  "model_numa = VMSpec 2 4 1 (Some (32 * 1024 * 1024))"

text \<open>One section of enclave page cache: its size, whether it is allocated in advance, its node.\<close>

record epc_section =
  epc_size :: string
  epc_prealloc :: bool
  epc_node :: int

record sgx_vm_spec = vm_spec +
  epc :: "epc_section list"

definition SGXVMSpec :: "nat \<Rightarrow> nat \<Rightarrow> nat \<Rightarrow> nat option \<Rightarrow> epc_section list option \<Rightarrow> sgx_vm_spec result" where
  "SGXVMSpec so co th ms sections =
     (case sections of
        None \<Rightarrow> Inl AssertionError
      | Some e \<Rightarrow>
          rbind (py_assert (length e > 0)) (\<lambda>_.
          Inr (vm_spec.extend (VMSpec so co th ms) (sgx_vm_spec.fields e))))"

section \<open>The command line as a list of fields\<close>

text \<open>The kernel reads the command line as its words.  The lines that the package builds have no white space but
  blanks.\<close>

definition line_fields :: "kernel_cmdline \<Rightarrow> string list" where
  "line_fields self = filter (\<lambda>w. w \<noteq> []) (split_on (CHR '' '') (kc_cmdline self))"

definition blanks_only :: "string \<Rightarrow> bool" where
  "blanks_only s \<longleftrightarrow> list_all (\<lambda>c. py_space c \<longrightarrow> c = CHR '' '') s"

lemma py_space_blank [simp]: "py_space (CHR '' '')"
  by code_simp

lemma py_space_equals [simp]: "\<not> py_space (CHR ''='')"
  by code_simp

lemma words_blank_left: "filter (\<lambda>w. w \<noteq> []) (split_on c (dropWhile (\<lambda>x. x = c) s)) = filter (\<lambda>w. w \<noteq> []) (split_on c s)"
  by (induction s) auto

lemma split_on_rev: "split_on c (rev s) = rev (map rev (split_on c s))"
proof (induction s)
  case (Cons d s)
  show ?case
  proof (cases "d = c")
    case True
    then show ?thesis using split_on_append_sep [of c "rev s" "[]"] Cons by simp
  next
    case False
    obtain w ws where w: "split_on c s = w # ws" by (cases "split_on c s") auto
    have "split_on c (t @ [d]) = butlast (split_on c t) @ [last (split_on c t) @ [d]]" for t
      using False by (induction t) (auto split: list.splits)
    then show ?thesis
      using Cons w False by simp
  qed
qed simp

lemma words_rev: "filter (\<lambda>w. w \<noteq> []) (split_on c (rev s)) = rev (map rev (filter (\<lambda>w. w \<noteq> []) (split_on c s)))"
  by (simp add: split_on_rev rev_map rev_filter filter_map comp_def)

lemma dropWhile_blanks: "blanks_only s \<Longrightarrow> dropWhile py_space s = dropWhile (\<lambda>c. c = CHR '' '') s"
  unfolding blanks_only_def list_all_iff by (rule dropWhile_cong) (blast intro: py_space_blank)+

lemma blanks_only_strip: "blanks_only s \<Longrightarrow> blanks_only (rev (dropWhile P s))"
  by (auto simp: blanks_only_def list_all_iff dest: set_dropWhileD)

lemma words_strip:
  assumes "blanks_only s"
  shows "filter (\<lambda>w. w \<noteq> []) (split_on (CHR '' '') (py_strip s)) = filter (\<lambda>w. w \<noteq> []) (split_on (CHR '' '') s)"
proof -
  let ?b = "\<lambda>c. c = CHR '' ''" and ?words = "\<lambda>s. filter (\<lambda>w. w \<noteq> []) (split_on (CHR '' '') s)"
  have "py_strip s = rev (dropWhile ?b (rev (dropWhile ?b s)))"
    using dropWhile_blanks [OF assms] dropWhile_blanks [OF blanks_only_strip [OF assms]] by (simp add: py_strip_def)
  then have "?words (py_strip s) = rev (map rev (?words (rev (dropWhile ?b s))))"
    by (simp add: words_rev words_blank_left)
  also have "\<dots> = ?words (dropWhile ?b s)"
    by (simp add: words_rev rev_map comp_def)
  finally show ?thesis
    by (simp add: words_blank_left)
qed

lemma fields_append: "line_fields (self\<lparr>kc_cmdline := kc_cmdline self @ '' '' @ v\<rparr>) = line_fields self @ filter (\<lambda>w. w \<noteq> []) (split_on (CHR '' '') v)"
  using split_on_append_sep [of "CHR '' ''" "kc_cmdline self" v] by (simp add: line_fields_def)

lemma fields_items: "blanks_only (kc_cmdline self) \<Longrightarrow> line_fields self = filter (\<lambda>w. w \<noteq> []) (cmdline_items self)"
  by (simp add: line_fields_def cmdline_items_def words_strip)

lemma words_concat:
  "list_all (\<lambda>w. c \<notin> set w) ws \<Longrightarrow> filter (\<lambda>w. w \<noteq> []) (split_on c (concat (map (\<lambda>w. [c] @ w) ws))) = filter (\<lambda>w. w \<noteq> []) ws"
proof (induction ws rule: rev_induct)
  case (snoc w ws)
  then show ?case
    using split_on_append_sep [of c "concat (map (\<lambda>w. [c] @ w) ws)" w] by (simp add: split_on_no_sep)
qed simp

lemma mem_items: "blanks_only (kc_cmdline self) \<Longrightarrow> w \<noteq> [] \<Longrightarrow> w \<in> set (cmdline_items self) \<longleftrightarrow> w \<in> set (line_fields self)"
  by (simp add: fields_items)

lemma items_no_blank: "w \<in> set (cmdline_items self) \<Longrightarrow> CHR '' '' \<notin> set w"
  by (simp add: cmdline_items_def split_on_words)

lemma blanks_only_append [simp]: "blanks_only (s @ t) \<longleftrightarrow> blanks_only s \<and> blanks_only t"
  by (simp add: blanks_only_def)

lemma blanks_only_blank [simp]: "blanks_only '' ''"
  by (simp add: blanks_only_def)

text \<open>On the list of fields, removing a key removes exactly the fields with this key and keeps the others in
  their order.\<close>

theorem remove_fields_spec:
  assumes "blanks_only (kc_cmdline self)"
  shows "line_fields (remove_fields self key) = filter (\<lambda>w. item_key w \<noteq> py_strip key) (line_fields self)"
proof -
  let ?keep = "filter (\<lambda>w. item_key w \<noteq> py_strip key) (cmdline_items self)"
  have "list_all (\<lambda>w. CHR '' '' \<notin> set w) ?keep"
    using items_no_blank by (auto simp: list_all_iff)
  from words_concat [OF this] have "line_fields (remove_fields self key) = filter (\<lambda>w. w \<noteq> []) ?keep"
    by (simp add: line_fields_def remove_fields_def)
  then show ?thesis
    by (simp add: fields_items [OF assms] conj_commute)
qed

theorem remove_fields_spec_witness:
  "line_fields (remove_fields (KernelCmdline DEFAULT_CMDLINE) ''console'') = [''rw'', ''selinux=0'', ''earlyprintk'']"
proof -
  have "blanks_only (kc_cmdline (KernelCmdline DEFAULT_CMDLINE))" by code_simp
  from remove_fields_spec [OF this, of "''console''"] show ?thesis
    by (rule trans) code_simp
qed

lemma value_of_key_nonempty: "value_of_key k (filter (\<lambda>w. w \<noteq> []) items) = value_of_key k items"
  by (induction items) (auto simp: Let_def)

lemma get_value_fields: "blanks_only (kc_cmdline self) \<Longrightarrow> get_value self k = value_of_key k (line_fields self)"
  by (simp add: get_value_def fields_items value_of_key_nonempty)

lemma value_of_key_append:
  "value_of_key k (xs @ ys) = (case value_of_key k xs of None \<Rightarrow> value_of_key k ys | Some v \<Rightarrow> Some v)"
  by (induction xs) (auto simp: Let_def)

text \<open>Adding a field with a value to a line that has none for its key makes this value the one that the key
  looks up, and leaves the value of every other key.\<close>

theorem get_value_add_field:
  assumes "blanks_only (kc_cmdline self)" and "blanks_only key" and "blanks_only v" and "get_value self key = None"
    and "CHR '' '' \<notin> set key" and "CHR '' '' \<notin> set v" and "CHR ''='' \<notin> set key" and "CHR ''='' \<notin> set v"
  shows "get_value (add_field self key (Some v)) k = (if k = key then Some v else get_value self k)"
proof -
  let ?new = "add_field self key (Some v)"
  have "blanks_only (kc_cmdline ?new)"
    using assms(1-3) by (simp add: add_field_def) (simp add: blanks_only_def)
  moreover have "CHR '' '' \<notin> set (key @ ''='' @ v)"
    using assms(5,6) by simp
  then have "line_fields ?new = line_fields self @ [key @ ''='' @ v]"
    using fields_append [of self "key @ ''='' @ v"] split_on_no_sep by (fastforce simp: add_field_def)
  moreover have "split_on (CHR ''='') (key @ ''='' @ v) = [key, v]"
    using split_on_append_sep [of "CHR ''=''" key v] assms(7,8) by (simp add: split_on_no_sep)
  ultimately show ?thesis
    using assms(1,4) by (auto simp: get_value_fields value_of_key_append split: option.splits)
qed

theorem get_value_add_field_witness:
  "get_value (add_field (KernelCmdline DEFAULT_CMDLINE) ''tsc'' (Some ''reliable'')) ''tsc'' = Some ''reliable''"
proof -
  have h: "blanks_only (kc_cmdline (KernelCmdline DEFAULT_CMDLINE))" "blanks_only ''tsc''" "blanks_only ''reliable''"
    "get_value (KernelCmdline DEFAULT_CMDLINE) ''tsc'' = None" by code_simp+
  show ?thesis
    using get_value_add_field [OF h, of "''tsc''"] by simp
qed

lemma iadd_loop_present: "set items \<subseteq> set (cmdline_items self) \<Longrightarrow> iadd_loop val items self = self"
  by (induction items) auto

lemma iadd_loop_absent:
  assumes "\<And>w. w \<in> set items \<Longrightarrow> w \<in> set (cmdline_items (self\<lparr>kc_cmdline := kc_cmdline self @ '' '' @ val\<rparr>))"
    and "\<not> set items \<subseteq> set (cmdline_items self)"
  shows "iadd_loop val items self = self\<lparr>kc_cmdline := kc_cmdline self @ '' '' @ val\<rparr>"
  using assms
proof (induction items)
  case (Cons w items)
  then show ?case
    by (cases "w \<in> set (cmdline_items self)") (simp_all add: iadd_loop_present subsetI)
qed simp

text \<open>extending the line by a text of fields appends all of them, in order, unless every one of them is
  already there; then nothing changes, and extending twice is extending once.\<close>

theorem iadd_spec:
  assumes "blanks_only (kc_cmdline self)" and "blanks_only val" and "list_all (\<lambda>w. w \<noteq> []) (split_on (CHR '' '') val)"
  shows "line_fields (iadd self val) =
      (if set (split_on (CHR '' '') val) \<subseteq> set (line_fields self) then line_fields self
       else line_fields self @ split_on (CHR '' '') val) \<and>
    iadd (iadd self val) val = iadd self val"
proof -
  let ?items = "split_on (CHR '' '') val" and ?new = "self\<lparr>kc_cmdline := kc_cmdline self @ '' '' @ val\<rparr>"
  have nonempty: "filter (\<lambda>w. w \<noteq> []) ?items = ?items"
    using assms(3) by (simp add: list_all_iff filter_id_conv)
  have new: "line_fields ?new = line_fields self @ ?items" "blanks_only (kc_cmdline ?new)"
    using fields_append [of self val] nonempty assms(1,2) by simp_all (simp add: blanks_only_def)
  have there: "w \<in> set (cmdline_items ?new)" if "w \<in> set ?items" for w
    using that new mem_items [OF new(2), of w] assms(3) by (auto simp: list_all_iff)
  have sub: "set ?items \<subseteq> set (cmdline_items self) \<longleftrightarrow> set ?items \<subseteq> set (line_fields self)"
    using mem_items [OF assms(1)] assms(3) by (auto simp: list_all_iff)
  show ?thesis
  proof (cases "set ?items \<subseteq> set (cmdline_items self)")
    case True
    then show ?thesis
      using sub by (simp add: iadd_def iadd_loop_present)
  next
    case False
    then have "iadd self val = ?new"
      unfolding iadd_def by (intro iadd_loop_absent there)
    moreover have "iadd ?new val = ?new"
      unfolding iadd_def using there by (intro iadd_loop_present) blast
    ultimately show ?thesis
      using False sub new(1) by simp
  qed
qed

theorem iadd_spec_witness:
  "line_fields (iadd (KernelCmdline ''rw console=hvc0'') ''console=hvc0 tsc=reliable'') =
     [''rw'', ''console=hvc0'', ''console=hvc0'', ''tsc=reliable'']"
proof -
  have h: "blanks_only (kc_cmdline (KernelCmdline ''rw console=hvc0''))" "blanks_only ''console=hvc0 tsc=reliable''"
    "list_all (\<lambda>w. w \<noteq> []) (split_on (CHR '' '') ''console=hvc0 tsc=reliable'')" by code_simp+
  from iadd_spec [OF h] show ?thesis
    by (simp add: KernelCmdline_def line_fields_def)
qed

end
