(* ===== verification/Virt_Xml.thy ===== *)
theory Virt_Xml
  imports Complex_Main "HOL-Library.Sublist" Py_Path Vm_Param
begin

text \<open>
  \<open>pycloudstack/virtxml.py\<close>: the XML description of a virtual machine.  An element is a tree; the methods that get a
  reference to an element and change it are functions on the tree at the place of the element.  A file holds
  the document that its text stands for, up to the white space between elements; every file that exists is
  well-formed.  An exception ends an operation, and what it did to the object before is not followed.
\<close>

section \<open>Elements\<close>

text \<open>A value that is set as an attribute is any Python object; only strings can be written to a file.\<close>

datatype attr_value = AStr string | ANone | ADict "(string \<times> string) list"

datatype xml = Elem (x_tag: string) (x_attrs: "(string \<times> attr_value) list") (x_text: "string option") (x_children: "xml list")

fun set_text :: "string option \<Rightarrow> xml \<Rightarrow> xml" where
  "set_text v (Elem t as _ cs) = Elem t as v cs"

fun set_attr :: "string \<Rightarrow> attr_value \<Rightarrow> xml \<Rightarrow> xml" where
  "set_attr k v (Elem t as x cs) = Elem t (AList.update k v as) x cs"

definition get_attr :: "string \<Rightarrow> xml \<Rightarrow> attr_value" where
  "get_attr k e = (case map_of (x_attrs e) k of None \<Rightarrow> ANone | Some v \<Rightarrow> v)"

definition set_attrs :: "(string \<times> attr_value) list \<Rightarrow> xml \<Rightarrow> xml" where
  "set_attrs kvs e = fold (\<lambda>(k, v). set_attr k v) kvs e"

fun set_children :: "xml list \<Rightarrow> xml \<Rightarrow> xml" where
  "set_children cs (Elem t as x _) = Elem t as x cs"

text \<open>\<open>ET.SubElement\<close>, \<open>findall\<close> and \<open>find\<close> with a plain tag.\<close>

definition new_element :: "string \<Rightarrow> xml" where
  "new_element t = Elem t [] None []"

definition sub_element :: "xml \<Rightarrow> xml \<Rightarrow> xml" where
  "sub_element child e = set_children (x_children e @ [child]) e"

definition findall :: "string \<Rightarrow> xml \<Rightarrow> xml list" where
  "findall t e = filter (\<lambda>c. x_tag c = t) (x_children e)"

definition find_child :: "string \<Rightarrow> xml \<Rightarrow> xml option" where
  "find_child t e = find (\<lambda>c. x_tag c = t) (x_children e)"

fun update_first :: "('a \<Rightarrow> bool) \<Rightarrow> ('a \<Rightarrow> 'a) \<Rightarrow> 'a list \<Rightarrow> 'a list" where
  "update_first P f [] = []"
| "update_first P f (x # xs) = (if P x then f x # xs else x # update_first P f xs)"

fun remove_first :: "('a \<Rightarrow> bool) \<Rightarrow> 'a list \<Rightarrow> 'a list" where
  "remove_first P [] = []"
| "remove_first P (x # xs) = (if P x then xs else x # remove_first P xs)"

definition modify_child :: "string \<Rightarrow> (xml \<Rightarrow> xml) \<Rightarrow> xml \<Rightarrow> xml" where
  "modify_child t f e = set_children (update_first (\<lambda>c. x_tag c = t) f (x_children e)) e"

section \<open>Finding and changing elements\<close>

text \<open>\<open>_find_single_element\<close>: at every step exactly one child has the tag.\<close>

fun find_single :: "string list \<Rightarrow> xml \<Rightarrow> xml option" where
  "find_single [] e = None"
| "find_single (t # ts) e =
     (case findall t e of
        [c] \<Rightarrow> if ts = [] then Some c else find_single ts c
      | _ \<Rightarrow> None)"

text \<open>A change of the element that \<open>_find_single_element\<close> finds.\<close>

fun modify_single :: "string list \<Rightarrow> (xml \<Rightarrow> xml) \<Rightarrow> xml \<Rightarrow> xml" where
  "modify_single [] f e = e"
| "modify_single (t # ts) f e = modify_child t (if ts = [] then f else modify_single ts f) e"

definition get_single_element_value :: "string list \<Rightarrow> xml \<Rightarrow> string option" where
  "get_single_element_value tag_arr e = (case find_single tag_arr e of None \<Rightarrow> None | Some c \<Rightarrow> x_text c)"

definition set_single_element_value :: "string list \<Rightarrow> string option \<Rightarrow> xml \<Rightarrow> bool \<times> xml" where
  "set_single_element_value tag_arr val e =
     (if find_single tag_arr e \<noteq> None then (True, modify_single tag_arr (set_text val) e) else (False, e))"

definition set_single_element_attrib :: "string list \<Rightarrow> string \<Rightarrow> attr_value \<Rightarrow> xml \<Rightarrow> bool \<times> xml" where
  "set_single_element_attrib tag_arr attrib val e =
     (if find_single tag_arr e \<noteq> None then (True, modify_single tag_arr (set_attr attrib val) e) else (False, e))"

text \<open>\<open>_find_single_element_by_value\<close> as the change of the element that it finds: the first element at the end of
  the path with the attribute; on the way the first child of each tag.  \<open>None\<close> when there is no such
  element; a missing child on the way is an \<open>IndexError\<close>.\<close>

fun modify_by_value :: "string list \<Rightarrow> string \<Rightarrow> attr_value \<Rightarrow> (xml \<Rightarrow> xml) \<Rightarrow> xml \<Rightarrow> xml option result" where
  "modify_by_value [] attrib val f e = Inr None"
| "modify_by_value (t # ts) attrib val f e =
     (if ts = [] then
        (if list_ex (\<lambda>c. get_attr attrib c = val) (findall t e)
         then Inr (Some (set_children (update_first (\<lambda>c. x_tag c = t \<and> get_attr attrib c = val) f (x_children e)) e))
         else if findall t e = [] then Inl IndexError else Inr None)
      else
        (case findall t e of
           [] \<Rightarrow> Inl IndexError
         | c # _ \<Rightarrow>
             rbind (modify_by_value ts attrib val f c) (\<lambda>r.
             Inr (map_option (\<lambda>c'. modify_child t (\<lambda>_. c') e) r))))"

text \<open>\<open>_add_new_element\<close>: missing elements on the way are created; the leaf is new, or the first one that is there
  when duplicates are not allowed.  \<open>f\<close> is what the caller does to the leaf.\<close>

fun add_new_element :: "string list \<Rightarrow> (xml \<Rightarrow> xml) \<Rightarrow> bool \<Rightarrow> xml \<Rightarrow> xml" where
  "add_new_element [] f multi e = e"
| "add_new_element (t # ts) f multi e =
     (if ts = [] then
        (if multi \<or> find_child t e = None then sub_element (f (new_element t)) e
         else modify_child t f e)
      else
        (case find_child t e of
           None \<Rightarrow> sub_element (add_new_element ts f multi (new_element t)) e
         | Some _ \<Rightarrow> modify_child t (add_new_element ts f multi) e))"

fun add_new_element_by_parent :: "string list \<Rightarrow> (string \<times> attr_value) list \<Rightarrow> xml \<Rightarrow> xml" where
  "add_new_element_by_parent [] attribs e = set_attrs attribs e"
| "add_new_element_by_parent (t # ts) attribs e = sub_element (add_new_element_by_parent ts attribs (new_element t)) e"

fun delete_element :: "string list \<Rightarrow> xml \<Rightarrow> xml" where
  "delete_element [] e = e"
| "delete_element (t # ts) e =
     (if ts = [] then set_children (remove_first (\<lambda>c. x_tag c = t) (x_children e)) e
      else if find_child t e = None then e
      else modify_child t (delete_element ts) e)"

section \<open>The description object\<close>

record doc_files =
  document :: "string \<Rightarrow> xml option"
  doc_writable :: "string \<Rightarrow> bool"

text \<open>The attributes \<open>_io\<close> and \<open>_cache\<close> do not exist before a document is loaded (the outer \<open>None\<close>).\<close>

record virt_xml =
  vx_tree :: "xml option"
  vx_name :: "string option"
  vx_uuid :: "string option"
  vx_kernel :: "string option"
  vx_cmdline :: "string option"
  vx_loader :: "string option"
  vx_memory :: "string option"
  vx_vcpu :: "string option"
  vx_imagefile :: "string option"
  vx_logfile :: "string option"
  vx_filepath :: "string option"
  vx_sockets :: "string option"
  vx_cores :: "string option"
  vx_threads :: "string option"
  vx_qemu_exec :: "string option"
  vx_io :: "string option option"
  vx_cache :: "string option option"

definition VirtXml :: virt_xml where
  "VirtXml =
     \<lparr>vx_tree = None, vx_name = None, vx_uuid = None, vx_kernel = None, vx_cmdline = None, vx_loader = None,
      vx_memory = None, vx_vcpu = None, vx_imagefile = None, vx_logfile = None, vx_filepath = None,
      vx_sockets = None, vx_cores = None, vx_threads = None, vx_qemu_exec = None, vx_io = None, vx_cache = None\<rparr>"

type_synonym vx_state = "virt_xml \<times> doc_files"

text \<open>\<open>ET.tostring\<close> raises a \<open>TypeError\<close> for an attribute that is no string.\<close>

fun is_string :: "attr_value \<Rightarrow> bool" where
  "is_string (AStr s) = True"
| "is_string _ = False"

fun serializable :: "xml \<Rightarrow> bool" where
  "serializable (Elem t kvs x cs) \<longleftrightarrow> list_all (\<lambda>(k, v). is_string v) kvs \<and> list_all serializable cs"

definition tostring :: "virt_xml \<Rightarrow> xml result" where
  "tostring self =
     (case vx_tree self of
        None \<Rightarrow> Inl AttributeError
      | Some e \<Rightarrow> if serializable e then Inr e else Inl TypeError)"

text \<open>\<open>save\<close> joins the stripped lines of the text of the document.  A line end in the text of an element is lost with
  the white space around it (in an attribute it is written as a character reference); an element with an empty text
  is read back with none.\<close>

definition saved_text :: "string option \<Rightarrow> string option" where
  "saved_text x =
     (case x of
        None \<Rightarrow> None
      | Some s \<Rightarrow>
          (let r = (case split_on (CHR 0x0A) s of
                      [l] \<Rightarrow> l
                    | l # ls \<Rightarrow> rev (dropWhile py_space (rev l)) @ concat (map py_strip (butlast ls)) @ dropWhile py_space (last ls)) in
           if r = [] then None else Some r))"

fun saved_form :: "xml \<Rightarrow> xml" where
  "saved_form (Elem t kvs x cs) = Elem t kvs (saved_text x) (map saved_form cs)"

definition vx_save :: "string option \<Rightarrow> vx_state \<Rightarrow> (bool \<times> vx_state) result" where
  "vx_save path = (\<lambda>(self, files).
     let filepath = (if path = None then vx_filepath self else path) in
     rbind (tostring self) (\<lambda>e.
     case filepath of
       None \<Rightarrow> Inl TypeError
     | Some f \<Rightarrow>
         Inr (if doc_writable files f
              then (True, self\<lparr>vx_filepath := Some f\<rparr>, files\<lparr>document := (document files)(f := Some (saved_form e))\<rparr>)
              else (False, self, files))))"

definition saved :: "vx_state \<Rightarrow> vx_state result" where
  "saved st = rbind (vx_save None st) (\<lambda>(_, st). Inr st)"

definition with_tree :: "virt_xml \<Rightarrow> (xml \<Rightarrow> 'a result) \<Rightarrow> 'a result" where
  "with_tree self f = (case vx_tree self of None \<Rightarrow> Inl AttributeError | Some e \<Rightarrow> f e)"

text \<open>The attributes of an element that was parsed are strings.\<close>

fun attr_string :: "attr_value \<Rightarrow> string option" where
  "attr_string (AStr s) = Some s"
| "attr_string _ = None"

fun attr_of :: "string option \<Rightarrow> attr_value" where
  "attr_of (Some s) = AStr s"
| "attr_of None = ANone"

definition load :: "string \<Rightarrow> doc_files \<Rightarrow> virt_xml \<Rightarrow> (bool \<times> virt_xml) result" where
  "load filepath files self =
     (case document files filepath of
        None \<Rightarrow> Inr (False, self)
      | Some e \<Rightarrow>
          (case (find_single [''devices'', ''disk'', ''driver''] e, find_single [''devices'', ''disk'', ''source''] e) of
             (Some driver, Some source) \<Rightarrow>
               Inr (True, self\<lparr>vx_tree := Some e,
                 vx_name := get_single_element_value [''name''] e, vx_uuid := get_single_element_value [''uuid''] e,
                 vx_kernel := get_single_element_value [''os'', ''kernel''] e,
                 vx_cmdline := get_single_element_value [''os'', ''cmdline''] e,
                 vx_vcpu := get_single_element_value [''vcpu''] e, vx_memory := get_single_element_value [''memory''] e,
                 vx_loader := get_single_element_value [''os'', ''loader''] e,
                 vx_io := Some (attr_string (get_attr ''io'' driver)), vx_cache := Some (attr_string (get_attr ''cache'' driver)),
                 vx_imagefile := attr_string (get_attr ''file'' source), vx_filepath := Some filepath\<rparr>)
           | _ \<Rightarrow> Inl AttributeError))"

section \<open>The properties of the object\<close>

text \<open>The setters of \<open>name\<close>, \<open>uuid\<close>, \<open>loader\<close>, \<open>memory\<close> and \<open>qemu_exec\<close>: the document is saved even if the element is
  missing.\<close>

definition text_setter ::
  "string list \<Rightarrow> (virt_xml \<Rightarrow> string option) \<Rightarrow> (string option \<Rightarrow> virt_xml \<Rightarrow> virt_xml) \<Rightarrow> string option \<Rightarrow> vx_state \<Rightarrow> vx_state result"
where
  "text_setter tag_arr get put new = (\<lambda>(self, files).
     if get self = new then Inr (self, files)
     else with_tree self (\<lambda>e.
       let (found, e') = set_single_element_value tag_arr new e;
           self' = self\<lparr>vx_tree := Some e'\<rparr> in
       saved (if found then put new self' else self', files)))"

text \<open>The setters of \<open>kernel\<close> and \<open>cmdline\<close>: \<open>None\<close> deletes the element.\<close>

definition boot_setter ::
  "string list \<Rightarrow> (virt_xml \<Rightarrow> string option) \<Rightarrow> (string option \<Rightarrow> virt_xml \<Rightarrow> virt_xml) \<Rightarrow> string option \<Rightarrow> vx_state \<Rightarrow> vx_state result"
where
  "boot_setter tag_arr get put new = (\<lambda>(self, files).
     if get self = new then Inr (self, files)
     else with_tree self (\<lambda>e.
       if new = None then saved (put None (self\<lparr>vx_tree := Some (delete_element tag_arr e)\<rparr>), files)
       else
         let (found, e') = set_single_element_value tag_arr new e;
             self' = self\<lparr>vx_tree := Some e'\<rparr> in
         saved (if found then put new self' else self', files)))"

text \<open>The setters of \<open>imagefile\<close>, \<open>iomode\<close>, \<open>cache\<close> and \<open>logfile\<close>: a missing element is an \<open>AttributeError\<close>.\<close>

definition attr_setter ::
  "string list \<Rightarrow> string \<Rightarrow> (virt_xml \<Rightarrow> string option) \<Rightarrow> (string option \<Rightarrow> virt_xml \<Rightarrow> virt_xml) \<Rightarrow> string option \<Rightarrow> vx_state \<Rightarrow> vx_state result"
where
  "attr_setter tag_arr attrib get put new = (\<lambda>(self, files).
     if get self = new then Inr (self, files)
     else with_tree self (\<lambda>e.
       let (found, e') = set_single_element_attrib tag_arr attrib (attr_of new) e in
       if found then saved (put new (self\<lparr>vx_tree := Some e'\<rparr>), files) else Inl AttributeError))"

definition set_name :: "string option \<Rightarrow> vx_state \<Rightarrow> vx_state result" where
  "set_name = text_setter [''name''] vx_name (\<lambda>v self. self\<lparr>vx_name := v\<rparr>)"

definition set_uuid :: "string option \<Rightarrow> vx_state \<Rightarrow> vx_state result" where
  "set_uuid = text_setter [''uuid''] vx_uuid (\<lambda>v self. self\<lparr>vx_uuid := v\<rparr>)"

definition set_kernel :: "string option \<Rightarrow> vx_state \<Rightarrow> vx_state result" where
  "set_kernel = boot_setter [''os'', ''kernel''] vx_kernel (\<lambda>v self. self\<lparr>vx_kernel := v\<rparr>)"

definition set_loader :: "string option \<Rightarrow> vx_state \<Rightarrow> vx_state result" where
  "set_loader = text_setter [''os'', ''loader''] vx_loader (\<lambda>v self. self\<lparr>vx_loader := v\<rparr>)"

definition set_cmdline :: "string option \<Rightarrow> vx_state \<Rightarrow> vx_state result" where
  "set_cmdline = boot_setter [''os'', ''cmdline''] vx_cmdline (\<lambda>v self. self\<lparr>vx_cmdline := v\<rparr>)"

text \<open>A size or a count is given as a number or as a string.  \<open>round\<close> rounds a half to the even neighbour.\<close>

datatype number_arg = NStr "string option" | NInt int | NFloat rat

definition round_even :: "rat \<Rightarrow> int" where
  "round_even r =
     (let n = floor r; d = r - of_int n in
      if d < 1 / 2 \<or> (d = 1 / 2 \<and> even n) then n else n + 1)"

definition set_memory :: "number_arg \<Rightarrow> vx_state \<Rightarrow> vx_state result" where
  "set_memory new =
     text_setter [''memory''] vx_memory (\<lambda>v self. self\<lparr>vx_memory := v\<rparr>)
       (case new of NStr s \<Rightarrow> s | NInt n \<Rightarrow> Some (fmt_dec n) | NFloat r \<Rightarrow> Some (fmt_dec (round_even r)))"

text \<open>The number of processors and their topology; the object is changed and saved only if the element is there.  The
  callers pass integers or strings.\<close>

definition count_text :: "int + string option \<Rightarrow> string option" where
  "count_text new = (case new of Inl n \<Rightarrow> Some (fmt_dec n) | Inr s \<Rightarrow> s)"

definition set_vcpu :: "int + string option \<Rightarrow> vx_state \<Rightarrow> vx_state result" where
  "set_vcpu new = (\<lambda>(self, files).
     let new_vcpu = count_text new in
     if vx_vcpu self = new_vcpu then Inr (self, files)
     else with_tree self (\<lambda>e.
       let (found, e') = set_single_element_value [''vcpu''] new_vcpu e in
       if found then saved (self\<lparr>vx_tree := Some e', vx_vcpu := new_vcpu\<rparr>, files) else Inr (self, files)))"

definition topology_setter ::
  "string \<Rightarrow> (virt_xml \<Rightarrow> string option) \<Rightarrow> (string option \<Rightarrow> virt_xml \<Rightarrow> virt_xml) \<Rightarrow> int + string option \<Rightarrow> vx_state \<Rightarrow> vx_state result"
where
  "topology_setter attrib get put new = (\<lambda>(self, files).
     let new_value = count_text new in
     if get self = new_value then Inr (self, files)
     else with_tree self (\<lambda>e.
       let (found, e') = set_single_element_attrib [''cpu'', ''topology''] attrib (attr_of new_value) e in
       if found then saved (put new_value (self\<lparr>vx_tree := Some e'\<rparr>), files) else Inr (self, files)))"

definition set_sockets :: "int + string option \<Rightarrow> vx_state \<Rightarrow> vx_state result" where
  "set_sockets = topology_setter ''sockets'' vx_sockets (\<lambda>v self. self\<lparr>vx_sockets := v\<rparr>)"

definition set_cores :: "int + string option \<Rightarrow> vx_state \<Rightarrow> vx_state result" where
  "set_cores = topology_setter ''cores'' vx_cores (\<lambda>v self. self\<lparr>vx_cores := v\<rparr>)"

definition set_threads :: "int + string option \<Rightarrow> vx_state \<Rightarrow> vx_state result" where
  "set_threads = topology_setter ''threads'' vx_threads (\<lambda>v self. self\<lparr>vx_threads := v\<rparr>)"

definition set_imagefile :: "string option \<Rightarrow> vx_state \<Rightarrow> vx_state result" where
  "set_imagefile = attr_setter [''devices'', ''disk'', ''source''] ''file'' vx_imagefile (\<lambda>v self. self\<lparr>vx_imagefile := v\<rparr>)"

definition set_iomode :: "string option \<Rightarrow> vx_state \<Rightarrow> vx_state result" where
  "set_iomode new st =
     (case vx_io (fst st) of
        None \<Rightarrow> Inl AttributeError
      | Some old \<Rightarrow> attr_setter [''devices'', ''disk'', ''driver''] ''io'' (\<lambda>_. old) (\<lambda>v self. self\<lparr>vx_io := Some v\<rparr>) new st)"

definition set_cache :: "string option \<Rightarrow> vx_state \<Rightarrow> vx_state result" where
  "set_cache new st =
     (case vx_cache (fst st) of
        None \<Rightarrow> Inl AttributeError
      | Some old \<Rightarrow> attr_setter [''devices'', ''disk'', ''driver''] ''cache'' (\<lambda>_. old) (\<lambda>v self. self\<lparr>vx_cache := Some v\<rparr>) new st)"

definition set_logfile :: "string option \<Rightarrow> vx_state \<Rightarrow> vx_state result" where
  "set_logfile = attr_setter [''devices'', ''console'', ''log''] ''file'' vx_logfile (\<lambda>v self. self\<lparr>vx_logfile := v\<rparr>)"

definition set_qemu_exec :: "string option \<Rightarrow> vx_state \<Rightarrow> vx_state result" where
  "set_qemu_exec = text_setter [''devices'', ''emulator''] vx_qemu_exec (\<lambda>v self. self\<lparr>vx_qemu_exec := v\<rparr>)"

section \<open>Adding to the document\<close>

definition change_tree :: "(xml \<Rightarrow> xml) \<Rightarrow> vx_state \<Rightarrow> vx_state result" where
  "change_tree f = (\<lambda>(self, files). with_tree self (\<lambda>e. saved (self\<lparr>vx_tree := Some (f e)\<rparr>, files)))"

definition QEMUS_NS :: string where
  "QEMUS_NS = ''{http://libvirt.org/schemas/domain/qemu/1.0}''"

text \<open>One more argument of the qemu command line.\<close>

definition qemu_arg :: "attr_value \<Rightarrow> xml \<Rightarrow> xml" where
  "qemu_arg v = add_new_element [QEMUS_NS @ ''commandline'', QEMUS_NS @ ''arg''] (set_attrs [(''value'', v)]) True"

definition enable_ssh_forward_port :: "int \<Rightarrow> vx_state \<Rightarrow> vx_state result" where
  "enable_ssh_forward_port port = change_tree (\<lambda>e.
     qemu_arg (AStr (''user,id=mynet0,hostfwd=tcp::'' @ fmt_dec port @ ''-:22''))
       (qemu_arg (AStr ''-netdev'')
         (qemu_arg (ADict [(''driver'', ''virtio-net-pci''), (''netdev'', ''mynet0''), (''mac'', ''00:16:3E:68:00:10''), (''romfile'', [])])
           (qemu_arg (AStr ''-device'') e))))"

definition HUGEPAGE_VALUES :: "string list" where
  "HUGEPAGE_VALUES = [''2M'', ''1G'']"

definition set_hugepage_params :: "string \<Rightarrow> vx_state \<Rightarrow> vx_state result" where
  "set_hugepage_params hugepage_size st =
     rbind (py_assert (hugepage_size \<in> set HUGEPAGE_VALUES)) (\<lambda>_.
     change_tree (add_new_element [''memoryBacking'', ''hugepages'', ''page'']
       (set_attrs [(''unit'', AStr (drop 1 hugepage_size)), (''size'', AStr (take 1 hugepage_size))]) False) st)"

definition set_driver :: "string \<Rightarrow> vx_state \<Rightarrow> vx_state result" where
  "set_driver driver = (\<lambda>(self, files). with_tree self (\<lambda>e.
     rbind (modify_by_value [''devices'', ''interface''] ''type'' (AStr ''bridge'')
              (add_new_element_by_parent [''driver''] [(''name'', AStr driver)]) e) (\<lambda>r.
     case r of
       None \<Rightarrow> Inl TypeError
     | Some e' \<Rightarrow> saved (self\<lparr>vx_tree := Some e'\<rparr>, files))))"

definition set_cpu_params :: "string \<Rightarrow> vx_state \<Rightarrow> vx_state result" where
  "set_cpu_params cpu_param = change_tree (\<lambda>e. qemu_arg (AStr cpu_param) (qemu_arg (AStr ''-cpu'') e))"

definition set_overcommit_params :: "string \<Rightarrow> vx_state \<Rightarrow> vx_state result" where
  "set_overcommit_params overcommit_param =
     change_tree (\<lambda>e. qemu_arg (AStr overcommit_param) (qemu_arg (AStr ''-overcommit'') e))"

fun pin_vcpus :: "nat \<Rightarrow> nat list \<Rightarrow> xml \<Rightarrow> xml" where
  "pin_vcpus vcpu_id [] e = e"
| "pin_vcpus vcpu_id (cpu_id # cpu_ids) e =
     pin_vcpus (vcpu_id + 1) cpu_ids
       (add_new_element [''cputune'', ''vcpupin'']
          (set_attrs [(''vcpu'', AStr (fmt_dec (int vcpu_id))), (''cpuset'', AStr (fmt_dec (int cpu_id)))]) True e)"

definition bind_cpuids :: "nat list \<Rightarrow> vx_state \<Rightarrow> vx_state result" where
  "bind_cpuids cpu_ids st =
     rbind (py_assert (length cpu_ids > 1)) (\<lambda>_.
     change_tree (\<lambda>e. pin_vcpus 0 (tl cpu_ids)
       (add_new_element [''cputune'', ''iothreadpin'']
          (set_attrs [(''iothread'', AStr ''1''), (''cpuset'', AStr (fmt_dec (int (hd cpu_ids))))]) True e)) st)"

definition set_mem_numa :: "bool \<Rightarrow> vx_state \<Rightarrow> vx_state result" where
  "set_mem_numa memnuma = change_tree (\<lambda>e.
     snd (set_single_element_attrib [''numatune'', ''memory''] ''nodeset'' (AStr (if memnuma then ''0'' else ''1''))
       (snd (set_single_element_attrib [''numatune'', ''memory''] ''mode'' (AStr ''strict'')
         (add_new_element [''numatune'', ''memory''] (\<lambda>l. l) False e)))))"

text \<open>The sections of enclave page cache; the string collects the sections for the last argument.\<close>

fun epc_args :: "nat \<Rightarrow> epc_section list \<Rightarrow> string \<Rightarrow> xml \<Rightarrow> string \<times> xml" where
  "epc_args n [] sgx_epc e = (sgx_epc, e)"
| "epc_args n (section # sections) sgx_epc e =
     (let k = fmt_dec (int (n + 1));
          prealloc = (if epc_prealloc section then '',prealloc=on'' else []) in
      epc_args (n + 1) sections
        (sgx_epc @ ''sgx-epc.'' @ fmt_dec (int n) @ ''.memdev=mem'' @ k
          @ '',sgx-epc.'' @ fmt_dec (int n) @ ''.node='' @ fmt_dec (epc_node section) @ '','')
        (qemu_arg (AStr (''memory-backend-epc,id=mem'' @ k @ '',size='' @ epc_size section @ prealloc))
          (qemu_arg (AStr ''-object'') e)))"

definition set_epc_params :: "epc_section list \<Rightarrow> vx_state \<Rightarrow> vx_state result" where
  "set_epc_params epc_param = change_tree (\<lambda>e.
     let (sgx_epc, e') = epc_args 0 epc_param [] e in
     qemu_arg (AStr (butlast sgx_epc)) (qemu_arg (AStr ''-M'') e'))"

definition set_vsock :: "int \<Rightarrow> vx_state \<Rightarrow> vx_state result" where
  "set_vsock cid = change_tree (\<lambda>e.
     snd (set_single_element_attrib [''devices'', ''vsock''] ''model'' (AStr ''virtio'')
       (add_new_element [''devices'', ''vsock'', ''cid''] (set_attrs [(''auto'', AStr ''no''), (''address'', AStr (fmt_dec cid))]) False e)))"

text \<open>A value in a format string.\<close>

fun fmt_value :: "string option \<Rightarrow> string" where
  "fmt_value (Some s) = s"
| "fmt_value None = ''None''"

definition new_disk :: "string \<Rightarrow> string option \<Rightarrow> string option \<Rightarrow> xml \<Rightarrow> xml" where
  "new_disk diskfile_path io cache disk_leaf =
     add_new_element_by_parent [''target''] [(''dev'', AStr ''vdb''), (''bus'', AStr ''virtio'')]
       (add_new_element_by_parent [''source''] [(''file'', AStr diskfile_path)]
         (add_new_element_by_parent [''driver'']
            [(''name'', AStr ''qemu''), (''type'', AStr ''qcow2''), (''io'', AStr (fmt_value io)),
             (''cache'', AStr (fmt_value cache)), (''iothread'', AStr ''2'')]
           (set_attrs [(''type'', AStr ''file''), (''device'', AStr ''disk'')] disk_leaf)))"

definition set_disk :: "string \<Rightarrow> vx_state \<Rightarrow> vx_state result" where
  "set_disk diskfile_path = (\<lambda>(self, files). with_tree self (\<lambda>_.
     case (vx_io self, vx_cache self) of
       (Some io, Some cache) \<Rightarrow>
         change_tree (add_new_element [''devices'', ''disk''] (new_disk diskfile_path io cache) True) (self, files)
     | _ \<Rightarrow> Inl AttributeError))"

definition set_hugepage_path :: "string \<Rightarrow> vx_state \<Rightarrow> vx_state result" where
  "set_hugepage_path hugepage_path = change_tree (\<lambda>e.
     snd (set_single_element_value [''memoryBacking'', ''path''] (Some hugepage_path)
       (add_new_element [''memoryBacking'', ''path''] (\<lambda>l. l) False e)))"

definition set_vtpm_param :: "string option \<Rightarrow> string option \<Rightarrow> vx_state \<Rightarrow> vx_state result" where
  "set_vtpm_param vtpm_path vtpm_log = change_tree (\<lambda>e.
     snd (set_single_element_value [''launchSecurity'', ''vtpm'', ''log''] (Some (fmt_value vtpm_log))
       (add_new_element [''launchSecurity'', ''vtpm'', ''log''] (\<lambda>l. l) False
         (snd (set_single_element_value [''launchSecurity'', ''vtpm'', ''loader''] (Some (fmt_value vtpm_path))
           (add_new_element [''launchSecurity'', ''vtpm'', ''loader''] (\<lambda>l. l) False e))))))"

section \<open>Customizing and cloning\<close>

text \<open>\<open>customize\<close>: without a name the module \<open>uuid\<close> itself is appended to a string.  \<open>fresh\<close> is the text of a new UUID.\<close>

definition customize ::
  "string \<Rightarrow> string option \<Rightarrow> string option \<Rightarrow> string option \<Rightarrow> string option \<Rightarrow> string option \<Rightarrow> number_arg \<Rightarrow> string option
    \<Rightarrow> vx_state \<Rightarrow> vx_state result"
where
  "customize fresh imagefile vmid name krnl ldr memory cmdline st =
     rbind (py_assert (imagefile \<noteq> None)) (\<lambda>_.
     rbind (set_imagefile imagefile st) (\<lambda>st.
     rbind (set_uuid (if vmid = None then Some fresh else vmid) st) (\<lambda>st.
     rbind (if name = None then Inl TypeError else set_name name st) (\<lambda>st.
     rbind (set_memory memory st) (\<lambda>st.
     rbind (if krnl = None then Inr st else set_kernel krnl st) (\<lambda>st.
     rbind (if ldr = None then Inr st else set_loader ldr st) (\<lambda>st.
     if cmdline = None then Inr st else set_cmdline cmdline st)))))))"

definition get_templates_dir :: "string \<Rightarrow> string" where
  "get_templates_dir this_dir = path_join this_dir ''templates''"

text \<open>\<open>clone\<close>, with the directory of the module and the output directory of the class.\<close>

definition vx_clone :: "string \<Rightarrow> string \<Rightarrow> string \<Rightarrow> string \<Rightarrow> doc_files \<Rightarrow> vx_state option result" where
  "vx_clone this_dir output template_name new_name files =
     (let template_full_path = path_join (get_templates_dir this_dir) (template_name @ ''.xml'') in
      if document files template_full_path = None then Inr None
      else
        let newxml_full_path = path_join output (new_name @ ''.xml'') in
        rbind (load template_full_path files VirtXml) (\<lambda>(_, obj).
        rbind (vx_save (Some newxml_full_path) (obj, files)) (\<lambda>(_, st).
        rbind (set_name (Some new_name) st) (\<lambda>st.
        Inr (Some st)))))"

text \<open>The class variable with the directory of the documents.\<close>

record vx_globals =
  vx_output :: string

definition get_output_dir :: "vx_globals \<Rightarrow> string" where
  "get_output_dir g = vx_output g"

definition set_output_dir :: "string \<Rightarrow> vx_globals \<Rightarrow> vx_globals" where
  "set_output_dir outdir g = g\<lparr>vx_output := outdir\<rparr>"

text \<open>\<open>clone\<close> as it is called: the directory is that of the class at the time of the call.\<close>

definition clone :: "string \<Rightarrow> string \<Rightarrow> string \<Rightarrow> vx_globals \<Rightarrow> doc_files \<Rightarrow> vx_state option result" where
  "clone this_dir template_name new_name g files = vx_clone this_dir (get_output_dir g) template_name new_name files"

section \<open>What a change leaves alone\<close>

named_theorems xml_simps \<open>tags and children of changed elements\<close>

lemma set_children_simps [simp, xml_simps]:
  "x_children (set_children cs e) = cs" "x_tag (set_children cs e) = x_tag e"
  "x_attrs (set_children cs e) = x_attrs e" "x_text (set_children cs e) = x_text e"
  by (cases e; simp)+

lemma x_tag_set [simp, xml_simps]:
  "x_tag (set_text v e) = x_tag e" "x_tag (set_attr k w e) = x_tag e"
  by (cases e; simp)+

lemma x_text_set [simp, xml_simps]:
  "x_text (set_text v e) = v" "x_text (set_attr k w e) = x_text e"
  by (cases e; simp)+

lemma x_children_set [simp, xml_simps]:
  "x_children (set_text v e) = x_children e" "x_children (set_attr k w e) = x_children e"
  by (cases e; simp)+

lemma set_attrs_keeps [simp, xml_simps]:
  "x_tag (set_attrs kvs e) = x_tag e" "x_children (set_attrs kvs e) = x_children e"
  by (induction kvs arbitrary: e) (auto simp: set_attrs_def)

lemma x_tag_new [simp, xml_simps]: "x_tag (new_element t) = t"
  by (simp add: new_element_def)

lemma x_tag_sub [simp, xml_simps]: "x_tag (sub_element c e) = x_tag e" "x_tag (modify_child t f e) = x_tag e"
  by (simp_all add: sub_element_def modify_child_def)

lemma findall_attr [simp, xml_simps]:
  "findall t (set_text v e) = findall t e" "findall t (set_attr k w e) = findall t e" "findall t (set_attrs kvs e) = findall t e"
  by (simp_all add: findall_def)

lemma findall_sub [simp, xml_simps]: "findall u (sub_element c e) = findall u e @ (if x_tag c = u then [c] else [])"
  by (simp add: findall_def sub_element_def)

lemma find_child_findall: "find_child t e = (case findall t e of [] \<Rightarrow> None | c # _ \<Rightarrow> Some c)"
proof -
  have "find P xs = (case filter P xs of [] \<Rightarrow> None | c # _ \<Rightarrow> Some c)" for P and xs :: "xml list"
    by (induction xs) auto
  then show ?thesis by (simp add: find_child_def findall_def)
qed

lemma find_child_tag: "find_child t e = Some c \<Longrightarrow> x_tag c = t"
  by (auto simp: find_child_def find_Some_iff)

definition keeps_tag :: "(xml \<Rightarrow> xml) \<Rightarrow> bool" where
  "keeps_tag f \<longleftrightarrow> (\<forall>e. x_tag (f e) = x_tag e)"

lemma keeps_tag_intros [intro!, simp]:
  "keeps_tag (set_text v)" "keeps_tag (set_attr k w)" "keeps_tag (set_attrs kvs)" "keeps_tag (\<lambda>l. l)"
  "keeps_tag (sub_element c)" "keeps_tag (modify_child t f)"
  by (simp_all add: keeps_tag_def)

lemma findall_modify:
  assumes "keeps_tag f"
  shows "findall u (modify_child t f e) =
    (if u = t then (case findall t e of [] \<Rightarrow> [] | c # cs \<Rightarrow> f c # cs) else findall u e)"
proof -
  have "filter (\<lambda>c. x_tag c = u) (update_first (\<lambda>c. x_tag c = t) f xs) =
    (if u = t then (case filter (\<lambda>c. x_tag c = t) xs of [] \<Rightarrow> [] | c # cs \<Rightarrow> f c # cs)
     else filter (\<lambda>c. x_tag c = u) xs)" for xs
    using assms by (induction xs) (auto simp: keeps_tag_def)
  then show ?thesis by (simp add: findall_def modify_child_def)
qed

lemma keeps_tag_single [intro!, simp]: "keeps_tag f \<Longrightarrow> keeps_tag (modify_single p f)"
  by (cases p) (simp_all add: keeps_tag_def)

lemma keeps_tag_add [intro!, simp]: "keeps_tag f \<Longrightarrow> keeps_tag (add_new_element p f multi)"
  by (cases p) (auto simp: keeps_tag_def split: option.splits)

lemma keeps_tag_add_by_parent [intro!, simp]: "keeps_tag (add_new_element_by_parent p kvs)"
  by (cases p) (auto simp: keeps_tag_def)

lemma keeps_tag_delete [intro!, simp]: "keeps_tag (delete_element p)"
  by (cases p) (auto simp: keeps_tag_def)

text \<open>A change at or below one tag leaves the children with the other tags alone.\<close>

lemma findall_modify_single: "keeps_tag f \<Longrightarrow> u \<noteq> t \<Longrightarrow> findall u (modify_single (t # ts) f e) = findall u e"
  by (simp add: findall_modify)

lemma findall_add:
  "keeps_tag f \<Longrightarrow> u \<noteq> t \<Longrightarrow> findall u (add_new_element (t # ts) f multi e) = findall u e"
proof -
  assume f: "keeps_tag f" "u \<noteq> t"
  have "x_tag (add_new_element ts f m (new_element t)) = t" "x_tag (f (new_element t)) = t" for m
    using keeps_tag_add [OF f(1)] f(1) by (simp_all add: keeps_tag_def)
  with f show ?thesis by (simp add: findall_modify split: option.splits)
qed

lemma findall_remove_first:
  "filter (\<lambda>c. x_tag c = u) (remove_first (\<lambda>c. x_tag c = t) xs) =
    (if u = t then tl (filter (\<lambda>c. x_tag c = t) xs) else filter (\<lambda>c. x_tag c = u) xs)"
  by (induction xs) auto

lemma findall_remove [simp]:
  "findall u (set_children (remove_first (\<lambda>c. x_tag c = t) (x_children e)) e) =
    (if u = t then tl (findall t e) else findall u e)"
  by (simp add: findall_def findall_remove_first)

lemma findall_delete: "u \<noteq> t \<Longrightarrow> findall u (delete_element (t # ts) e) = findall u e"
  by (simp add: findall_modify)

lemma findall_by_value:
  assumes "modify_by_value (t # ts) a v f e = Inr (Some e')" "keeps_tag f" "u \<noteq> t"
  shows "findall u e' = findall u e"
proof -
  have upd: "filter (\<lambda>c. x_tag c = u) (update_first (\<lambda>c. x_tag c = t \<and> get_attr a c = v) f xs) = filter (\<lambda>c. x_tag c = u) xs" for xs
    using assms(2,3) by (induction xs) (auto simp: keeps_tag_def)
  have upd': "filter (\<lambda>c. x_tag c = u) (update_first (\<lambda>c. x_tag c = t) (\<lambda>_. c') xs) = filter (\<lambda>c. x_tag c = u) xs"
    if "x_tag c' = t" for c' xs
    using assms(3) that by (induction xs) auto
  have tag: "x_tag c' = x_tag c" if "modify_by_value us a v f c = Inr (Some c')" for us c c'
    using that by (cases us) (auto simp: modify_child_def rbind_def split: if_splits list.splits sum.splits)
  show ?thesis
  proof (cases "ts = []")
    case True
    then show ?thesis using assms(1) by (auto simp: findall_def upd split: if_splits)
  next
    case False
    with assms(1) obtain c cs c' where c: "findall t e = c # cs" "modify_by_value ts a v f c = Inr (Some c')"
      "e' = modify_child t (\<lambda>_. c') e"
      by (auto simp: rbind_def split: list.splits sum.splits)
    have "x_tag c = t" using c(1) unfolding findall_def by (metis (mono_tags, lifting) filter_eq_ConsD)
    with c tag show ?thesis by (simp add: findall_def modify_child_def upd')
  qed
qed

section \<open>Reading an element after a change\<close>

lemma find_single_cong: "findall t e = findall t e' \<Longrightarrow> find_single (t # ts) e = find_single (t # ts) e'"
  by simp

lemma find_single_modify_single:
  "keeps_tag f \<Longrightarrow> find_single p e \<noteq> None \<Longrightarrow> find_single p (modify_single p f e) = map_option f (find_single p e)"
  by (induction p e rule: find_single.induct) (auto simp: findall_modify split: list.splits if_splits)

lemma find_single_frame:
  "keeps_tag f \<Longrightarrow> \<not> prefix p q \<Longrightarrow> \<not> prefix q p \<Longrightarrow> find_single q (modify_single p f e) = find_single q e"
proof (induction p arbitrary: q e)
  case (Cons t ts)
  then obtain u us where q: "q = u # us" by (cases q) auto
  show ?case
  proof (cases "u = t")
    case True
    then have "ts \<noteq> []" "us \<noteq> []" using Cons.prems q by auto
    then show ?thesis
      using Cons True q by (auto simp: findall_modify split: list.splits)
  qed (use Cons.prems q in \<open>simp add: findall_modify\<close>)
qed simp

lemma delete_single: "find_single p e \<noteq> None \<Longrightarrow> find_single p (delete_element p e) = None"
  by (induction p e rule: find_single.induct)
    (auto simp: findall_modify find_child_findall split: list.splits if_splits)

lemma delete_frame: "\<not> prefix p q \<Longrightarrow> \<not> prefix q p \<Longrightarrow> find_single q (delete_element p e) = find_single q e"
proof (induction p arbitrary: q e)
  case (Cons t ts)
  then obtain u us where q: "q = u # us" by (cases q) auto
  show ?case
  proof (cases "u = t")
    case True
    then have "ts \<noteq> []" "us \<noteq> []" using Cons.prems q by auto
    then show ?thesis
      using Cons True q by (auto simp: findall_modify find_child_findall split: list.splits)
  qed (use Cons.prems q in \<open>simp add: findall_modify\<close>)
qed simp

lemma get_after_set:
  "set_single_element_value p v e = (True, e') \<Longrightarrow> get_single_element_value p e' = v"
  by (auto simp: set_single_element_value_def get_single_element_value_def find_single_modify_single split: if_splits)

lemma get_frame:
  "set_single_element_value p v e = (b, e') \<Longrightarrow> \<not> prefix p q \<Longrightarrow> \<not> prefix q p
    \<Longrightarrow> get_single_element_value q e' = get_single_element_value q e"
  by (auto simp: set_single_element_value_def get_single_element_value_def find_single_frame split: if_splits)

lemma get_delete_frame:
  "\<not> prefix p q \<Longrightarrow> \<not> prefix q p \<Longrightarrow> get_single_element_value q (delete_element p e) = get_single_element_value q e"
  by (simp add: get_single_element_value_def delete_frame)

lemma get_deleted:
  "get_single_element_value p e \<noteq> None \<Longrightarrow> get_single_element_value p (delete_element p e) = None"
  by (auto simp: get_single_element_value_def delete_single split: option.splits)

section \<open>The object mirrors its document\<close>

text \<open>The children of the root that hold the cached texts.\<close>

definition text_tags :: "string set" where
  "text_tags = {''name'', ''uuid'', ''os'', ''vcpu'', ''memory''}"

definition same_texts :: "xml \<Rightarrow> xml \<Rightarrow> bool" where
  "same_texts e e' \<longleftrightarrow> (\<forall>u\<in>text_tags. findall u e' = findall u e)"

lemma same_texts_refl [simp]: "same_texts e e"
  by (simp add: same_texts_def)

lemma same_texts_trans: "same_texts e e' \<Longrightarrow> same_texts e' e'' \<Longrightarrow> same_texts e e''"
  by (simp add: same_texts_def)

definition mirrors :: "virt_xml \<Rightarrow> bool" where
  "mirrors self =
     (case vx_tree self of
        None \<Rightarrow> False
      | Some e \<Rightarrow>
          vx_name self = get_single_element_value [''name''] e \<and>
          vx_uuid self = get_single_element_value [''uuid''] e \<and>
          vx_kernel self = get_single_element_value [''os'', ''kernel''] e \<and>
          vx_cmdline self = get_single_element_value [''os'', ''cmdline''] e \<and>
          vx_loader self = get_single_element_value [''os'', ''loader''] e \<and>
          vx_memory self = get_single_element_value [''memory''] e \<and>
          vx_vcpu self = get_single_element_value [''vcpu''] e)"

lemma same_texts_get:
  "same_texts e e' \<Longrightarrow> t \<in> text_tags \<Longrightarrow> get_single_element_value (t # ts) e' = get_single_element_value (t # ts) e"
  by (simp add: same_texts_def get_single_element_value_def cong: find_single_cong)

lemma same_texts_mirrors:
  "vx_tree self = Some e \<Longrightarrow> same_texts e e' \<Longrightarrow> mirrors self \<Longrightarrow> mirrors (self\<lparr>vx_tree := Some e'\<rparr>)"
  by (simp add: mirrors_def same_texts_get text_tags_def)

lemma same_texts_add: "keeps_tag f \<Longrightarrow> t \<notin> text_tags \<Longrightarrow> same_texts e (add_new_element (t # ts) f multi e)"
  unfolding same_texts_def by (metis findall_add)

lemma same_texts_value: "t \<notin> text_tags \<Longrightarrow> same_texts e (snd (set_single_element_value (t # ts) v e))"
  unfolding same_texts_def set_single_element_value_def
  by (auto simp del: modify_single.simps find_single.simps intro!: findall_modify_single)

lemma same_texts_attrib: "t \<notin> text_tags \<Longrightarrow> same_texts e (snd (set_single_element_attrib (t # ts) a v e))"
  unfolding same_texts_def set_single_element_attrib_def
  by (auto simp del: modify_single.simps find_single.simps intro!: findall_modify_single)

section \<open>The saved document\<close>

lemma x_tag_saved_form [simp]: "x_tag (saved_form e) = x_tag e"
  by (cases e) simp

lemma findall_saved_form: "findall t (saved_form e) = map saved_form (findall t e)"
  by (cases e) (simp add: findall_def filter_map comp_def)

lemma find_single_saved_form: "find_single p (saved_form e) = map_option saved_form (find_single p e)"
  by (induction p e rule: find_single.induct) (auto simp: findall_saved_form split: list.splits)

lemma get_saved_form: "get_single_element_value p (saved_form e) = saved_text (get_single_element_value p e)"
proof -
  have "x_text (saved_form c) = saved_text (x_text c)" for c by (cases c) simp
  then show ?thesis
    by (simp add: get_single_element_value_def find_single_saved_form saved_text_def split: option.splits)
qed

text \<open>The file of the object holds its document, if it can be written.\<close>

fun in_sync :: "vx_state \<Rightarrow> bool" where
  "in_sync (self, files) \<longleftrightarrow>
     (case (vx_tree self, vx_filepath self) of
        (Some e, Some f) \<Rightarrow> doc_writable files f \<longrightarrow> document files f = Some (saved_form e)
      | _ \<Rightarrow> False)"

definition good :: "string \<Rightarrow> vx_state \<Rightarrow> bool" where
  "good f st \<longleftrightarrow> mirrors (fst st) \<and> in_sync st \<and> vx_filepath (fst st) = Some f \<and> doc_writable (snd st) f"

lemma mirrors_filepath [simp]: "mirrors (self\<lparr>vx_filepath := f\<rparr>) = mirrors self"
  by (simp add: mirrors_def split: option.split)

lemma saved_good:
  assumes "saved (self, files) = Inr st'" "mirrors self" "vx_filepath self = Some f" "doc_writable files f"
  shows "good f st'"
  using assms by (auto simp: saved_def vx_save_def tostring_def good_def rbind_def split: option.splits if_splits)

section \<open>Every operation keeps the mirror\<close>

text \<open>An operation that returns either changes nothing or saves a state that mirrors its document.\<close>

definition careful :: "(vx_state \<Rightarrow> vx_state result) \<Rightarrow> bool" where
  "careful m \<longleftrightarrow>
     (\<forall>self files st'. m (self, files) = Inr st' \<longrightarrow> mirrors self \<longrightarrow>
        st' = (self, files) \<or>
        (\<exists>self'. saved (self', files) = Inr st' \<and> mirrors self' \<and> vx_filepath self' = vx_filepath self))"

lemma carefulI:
  "(\<And>self files st'. m (self, files) = Inr st' \<Longrightarrow> mirrors self \<Longrightarrow>
      st' = (self, files) \<or> (\<exists>self'. saved (self', files) = Inr st' \<and> mirrors self' \<and> vx_filepath self' = vx_filepath self))
    \<Longrightarrow> careful m"
  unfolding careful_def by blast

lemma careful_good:
  assumes "careful m" "m st = Inr st'" "good f st"
  shows "good f st'"
proof -
  obtain self files where st: "st = (self, files)" by (cases st)
  consider "st' = st" | self' where "saved (self', files) = Inr st'" "mirrors self'" "vx_filepath self' = vx_filepath self"
    using assms(1) [unfolded careful_def, rule_format, of self files st'] assms(2,3) unfolding good_def st by auto
  then show ?thesis
  proof cases
    case 2
    then show ?thesis using assms(3) by (intro saved_good) (auto simp: st good_def)
  qed (use assms(3) in simp)
qed

lemma careful_change_tree:
  assumes "\<And>e. same_texts e (f e)"
  shows "careful (change_tree f)"
proof (rule carefulI)
  fix self files st'
  assume *: "change_tree f (self, files) = Inr st'" "mirrors self"
  then obtain e where "vx_tree self = Some e" "saved (self\<lparr>vx_tree := Some (f e)\<rparr>, files) = Inr st'"
    by (auto simp: change_tree_def with_tree_def split: option.splits)
  with * same_texts_mirrors [OF _ assms] show
    "st' = (self, files) \<or> (\<exists>self'. saved (self', files) = Inr st' \<and> mirrors self' \<and> vx_filepath self' = vx_filepath self)"
    by (intro disjI2 exI [of _ "self\<lparr>vx_tree := Some (f e)\<rparr>"]) simp
qed

lemma careful_checked: "careful m \<Longrightarrow> careful (\<lambda>st. rbind (py_assert b) (\<lambda>_. m st))"
  by (cases b) (simp_all add: careful_def py_assert_def)

text \<open>The interface between a cached text and the document: \<open>put\<close> changes one field of the object, and after the element
  at the path is set the object mirrors the document again.  A text for direct boot can be deleted too.\<close>

locale cached_text =
  fixes p :: "string list"
    and get :: "virt_xml \<Rightarrow> string option"
    and put :: "string option \<Rightarrow> virt_xml \<Rightarrow> virt_xml"
  assumes put_filepath: "vx_filepath (put v self) = vx_filepath self"
    and put_mirrors: "mirrors self \<Longrightarrow> vx_tree self = Some e \<Longrightarrow> set_single_element_value p v e = (True, e')
      \<Longrightarrow> mirrors (put v (self\<lparr>vx_tree := Some e'\<rparr>))"
begin

lemma put_mirrors_if:
  assumes "mirrors self" "vx_tree self = Some e" "set_single_element_value p v e = (b, e')"
  shows "mirrors (if b then put v (self\<lparr>vx_tree := Some e'\<rparr>) else self\<lparr>vx_tree := Some e'\<rparr>)"
proof (cases b)
  case False
  then have "e' = e" using assms(3) by (auto simp: set_single_element_value_def split: if_splits)
  then have "self\<lparr>vx_tree := Some e'\<rparr> = self" using assms(2) by simp
  then show ?thesis using False assms(1) by simp
qed (use put_mirrors assms in simp)

lemma setter_careful: "careful (text_setter p get put v)"
proof (rule carefulI)
  fix self files st'
  assume *: "text_setter p get put v (self, files) = Inr st'" "mirrors self"
  show "st' = (self, files) \<or> (\<exists>self'. saved (self', files) = Inr st' \<and> mirrors self' \<and> vx_filepath self' = vx_filepath self)"
  proof (cases "get self = v")
    case False
    then obtain e b e' where e: "vx_tree self = Some e" "set_single_element_value p v e = (b, e')"
      "saved (if b then put v (self\<lparr>vx_tree := Some e'\<rparr>) else self\<lparr>vx_tree := Some e'\<rparr>, files) = Inr st'"
      using * by (auto simp: text_setter_def with_tree_def Let_def split: option.splits prod.splits)
    show ?thesis
      by (rule disjI2, rule exI, intro conjI, rule e(3), rule put_mirrors_if [OF *(2) e(1,2)]) (simp add: put_filepath)
  qed (use * in \<open>simp add: text_setter_def\<close>)
qed

end

locale cached_boot_text = cached_text +
  assumes put_deleted: "mirrors self \<Longrightarrow> vx_tree self = Some e \<Longrightarrow> get self \<noteq> None
      \<Longrightarrow> mirrors (put None (self\<lparr>vx_tree := Some (delete_element p e)\<rparr>))"
begin

lemma boot_setter_careful: "careful (boot_setter p get put v)"
proof (rule carefulI)
  fix self files st'
  assume *: "boot_setter p get put v (self, files) = Inr st'" "mirrors self"
  show "st' = (self, files) \<or> (\<exists>self'. saved (self', files) = Inr st' \<and> mirrors self' \<and> vx_filepath self' = vx_filepath self)"
  proof (cases "v = None \<and> get self \<noteq> v")
    case True
    then obtain e where e: "vx_tree self = Some e"
      "saved (put None (self\<lparr>vx_tree := Some (delete_element p e)\<rparr>), files) = Inr st'"
      using * by (auto simp: boot_setter_def with_tree_def split: option.splits)
    show ?thesis
      by (rule disjI2, rule exI, intro conjI, rule e(2), rule put_deleted [OF *(2) e(1)]) (use True put_filepath in auto)
  next
    case False
    then have "text_setter p get put v (self, files) = Inr st'"
      using *(1) by (auto simp: boot_setter_def text_setter_def)
    then show ?thesis
      using setter_careful [unfolded careful_def, rule_format] *(2) by blast
  qed
qed

end

lemma careful_attr_setter:
  assumes "\<And>v self. vx_filepath (put v self) = vx_filepath self" "\<And>v self. mirrors (put v self) = mirrors self"
    and "t \<notin> text_tags"
  shows "careful (attr_setter (t # ts) a get put v)"
proof (rule carefulI)
  fix self files st'
  assume *: "attr_setter (t # ts) a get put v (self, files) = Inr st'" "mirrors self"
  show "st' = (self, files) \<or> (\<exists>self'. saved (self', files) = Inr st' \<and> mirrors self' \<and> vx_filepath self' = vx_filepath self)"
  proof (cases "get self = v")
    case False
    then obtain e e' where e: "vx_tree self = Some e" "set_single_element_attrib (t # ts) a (attr_of v) e = (True, e')"
      "saved (put v (self\<lparr>vx_tree := Some e'\<rparr>), files) = Inr st'"
      using * by (auto simp: attr_setter_def with_tree_def split: option.splits prod.splits if_splits)
    have "same_texts e e'"
      using same_texts_attrib [OF assms(3), of e ts a "attr_of v"] e(2) by simp
    with * e same_texts_mirrors assms(1,2) show ?thesis
      by (intro disjI2 exI [of _ "put v (self\<lparr>vx_tree := Some e'\<rparr>)"]) simp
  qed (use * in \<open>simp add: attr_setter_def\<close>)
qed

lemma careful_topology_setter:
  assumes "\<And>v self. vx_filepath (put v self) = vx_filepath self" "\<And>v self. mirrors (put v self) = mirrors self"
  shows "careful (topology_setter a get put v)"
proof -
  have "careful (attr_setter [''cpu'', ''topology''] a get put (count_text v))"
    by (rule careful_attr_setter) (simp_all add: assms text_tags_def)
  moreover have "topology_setter a get put v (self, files) = Inr st' \<Longrightarrow> st' \<noteq> (self, files)
      \<Longrightarrow> attr_setter [''cpu'', ''topology''] a get put (count_text v) (self, files) = Inr st'" for self files st'
    by (auto simp: topology_setter_def attr_setter_def with_tree_def Let_def split: option.splits prod.splits if_splits)
  ultimately show ?thesis unfolding careful_def by blast
qed

interpretation name_text: cached_text "[''name'']" vx_name "\<lambda>v self. self\<lparr>vx_name := v\<rparr>"
  by unfold_locales (simp_all add: mirrors_def get_after_set get_frame)

interpretation uuid_text: cached_text "[''uuid'']" vx_uuid "\<lambda>v self. self\<lparr>vx_uuid := v\<rparr>"
  by unfold_locales (simp_all add: mirrors_def get_after_set get_frame)

interpretation memory_text: cached_text "[''memory'']" vx_memory "\<lambda>v self. self\<lparr>vx_memory := v\<rparr>"
  by unfold_locales (simp_all add: mirrors_def get_after_set get_frame)

interpretation vcpu_text: cached_text "[''vcpu'']" vx_vcpu "\<lambda>v self. self\<lparr>vx_vcpu := v\<rparr>"
  by unfold_locales (simp_all add: mirrors_def get_after_set get_frame)

interpretation loader_text: cached_text "[''os'', ''loader'']" vx_loader "\<lambda>v self. self\<lparr>vx_loader := v\<rparr>"
  by unfold_locales (simp_all add: mirrors_def get_after_set get_frame)

interpretation qemu_exec_text: cached_text "[''devices'', ''emulator'']" vx_qemu_exec "\<lambda>v self. self\<lparr>vx_qemu_exec := v\<rparr>"
  by unfold_locales (simp_all add: mirrors_def get_frame)

interpretation kernel_text: cached_boot_text "[''os'', ''kernel'']" vx_kernel "\<lambda>v self. self\<lparr>vx_kernel := v\<rparr>"
  by unfold_locales (simp_all add: mirrors_def get_after_set get_frame get_deleted get_delete_frame del: delete_element.simps)

interpretation cmdline_text: cached_boot_text "[''os'', ''cmdline'']" vx_cmdline "\<lambda>v self. self\<lparr>vx_cmdline := v\<rparr>"
  by unfold_locales (simp_all add: mirrors_def get_after_set get_frame get_deleted get_delete_frame del: delete_element.simps)

lemma careful_set_vcpu: "careful (set_vcpu v)"
proof -
  have "set_vcpu v (self, files) = Inr st' \<Longrightarrow> st' \<noteq> (self, files)
    \<Longrightarrow> text_setter [''vcpu''] vx_vcpu (\<lambda>v self. self\<lparr>vx_vcpu := v\<rparr>) (count_text v) (self, files) = Inr st'" for self files st'
    by (auto simp: set_vcpu_def text_setter_def with_tree_def Let_def split: option.splits prod.splits if_splits)
  with vcpu_text.setter_careful show ?thesis unfolding careful_def by blast
qed

lemma mirrors_fields [simp]:
  "mirrors (self\<lparr>vx_imagefile := v\<rparr>) = mirrors self" "mirrors (self\<lparr>vx_logfile := v\<rparr>) = mirrors self"
  "mirrors (self\<lparr>vx_io := w\<rparr>) = mirrors self" "mirrors (self\<lparr>vx_cache := w\<rparr>) = mirrors self"
  "mirrors (self\<lparr>vx_sockets := v\<rparr>) = mirrors self" "mirrors (self\<lparr>vx_cores := v\<rparr>) = mirrors self"
  "mirrors (self\<lparr>vx_threads := v\<rparr>) = mirrors self"
  by (simp_all add: mirrors_def split: option.split)

lemma careful_iomode: "careful (set_iomode v)"
proof -
  have "careful (attr_setter [''devices'', ''disk'', ''driver''] ''io'' (\<lambda>_. old) (\<lambda>v self. self\<lparr>vx_io := Some v\<rparr>) v)" for old
    by (rule careful_attr_setter) (simp_all add: text_tags_def)
  then show ?thesis unfolding careful_def set_iomode_def by (auto split: option.splits)
qed

lemma careful_cache: "careful (set_cache v)"
proof -
  have "careful (attr_setter [''devices'', ''disk'', ''driver''] ''cache'' (\<lambda>_. old) (\<lambda>v self. self\<lparr>vx_cache := Some v\<rparr>) v)" for old
    by (rule careful_attr_setter) (simp_all add: text_tags_def)
  then show ?thesis unfolding careful_def set_cache_def by (auto split: option.splits)
qed

lemma careful_setters:
  "careful (set_name v)" "careful (set_uuid v)" "careful (set_kernel v)" "careful (set_loader v)" "careful (set_cmdline v)"
  "careful (set_memory n)" "careful (set_qemu_exec v)"
  by (simp_all only: set_name_def set_uuid_def set_kernel_def set_loader_def set_cmdline_def set_memory_def set_qemu_exec_def
      name_text.setter_careful uuid_text.setter_careful memory_text.setter_careful loader_text.setter_careful
      qemu_exec_text.setter_careful kernel_text.boot_setter_careful cmdline_text.boot_setter_careful)

lemma careful_attr_setters:
  "careful (set_imagefile v)" "careful (set_logfile v)" "careful (set_sockets n)" "careful (set_cores n)" "careful (set_threads n)"
  unfolding set_imagefile_def set_logfile_def set_sockets_def set_cores_def set_threads_def
  by (rule careful_attr_setter careful_topology_setter; simp add: text_tags_def)+

lemma same_texts_qemu_arg: "same_texts e (qemu_arg v e)"
  unfolding qemu_arg_def by (rule same_texts_add) (simp_all add: text_tags_def QEMUS_NS_def)

lemma same_texts_pin: "same_texts e (pin_vcpus n ids e)"
proof (induction ids arbitrary: n e)
  case (Cons i ids)
  have "same_texts e (add_new_element [''cputune'', ''vcpupin''] (set_attrs kvs) True e)" for kvs
    by (rule same_texts_add) (simp_all add: text_tags_def)
  then show ?case using Cons.IH by (auto intro: same_texts_trans simp del: add_new_element.simps)
qed simp

lemma same_texts_epc: "same_texts e (snd (epc_args n sections s e))"
proof (induction sections arbitrary: n s e)
  case (Cons x xs)
  show ?case
    unfolding epc_args.simps Let_def
    by (rule same_texts_trans [OF same_texts_trans [OF same_texts_qemu_arg same_texts_qemu_arg] Cons.IH])
qed simp

lemma careful_add:
  "careful (enable_ssh_forward_port port)" "careful (set_hugepage_params s)" "careful (set_cpu_params s)"
  "careful (set_overcommit_params s)" "careful (bind_cpuids ids)" "careful (set_mem_numa b)"
  "careful (set_epc_params sections)" "careful (set_vsock cid)" "careful (set_hugepage_path s)" "careful (set_vtpm_param v w)"
  unfolding enable_ssh_forward_port_def set_hugepage_params_def set_cpu_params_def set_overcommit_params_def bind_cpuids_def
    set_mem_numa_def set_epc_params_def set_vsock_def set_hugepage_path_def set_vtpm_param_def
  subgoal by (intro careful_change_tree) (meson same_texts_qemu_arg same_texts_trans)
  subgoal by (intro careful_checked careful_change_tree same_texts_add) (simp_all add: text_tags_def)
  subgoal by (intro careful_change_tree) (meson same_texts_qemu_arg same_texts_trans)
  subgoal by (intro careful_change_tree) (meson same_texts_qemu_arg same_texts_trans)
  subgoal by (intro careful_checked careful_change_tree same_texts_trans [OF _ same_texts_pin] same_texts_add) (simp_all add: text_tags_def)
  subgoal by (intro careful_change_tree same_texts_trans [OF _ same_texts_attrib] same_texts_add) (simp_all add: text_tags_def)
  subgoal by (intro careful_change_tree) (metis (no_types, lifting) case_prod_unfold same_texts_epc same_texts_qemu_arg same_texts_trans)
  subgoal by (intro careful_change_tree same_texts_trans [OF _ same_texts_attrib] same_texts_add) (simp_all add: text_tags_def)
  subgoal by (intro careful_change_tree same_texts_trans [OF _ same_texts_value] same_texts_add) (simp_all add: text_tags_def)
  subgoal by (intro careful_change_tree same_texts_trans [OF _ same_texts_value] same_texts_trans [OF _ same_texts_add] same_texts_add)
      (simp_all add: text_tags_def)
  done

lemma careful_set_driver: "careful (set_driver d)"
proof (rule carefulI)
  fix self files st'
  assume *: "set_driver d (self, files) = Inr st'" "mirrors self"
  let ?f = "add_new_element_by_parent [''driver''] [(''name'', AStr d)]"
  obtain e e' where e: "vx_tree self = Some e"
    "modify_by_value [''devices'', ''interface''] ''type'' (AStr ''bridge'') ?f e = Inr (Some e')"
    "saved (self\<lparr>vx_tree := Some e'\<rparr>, files) = Inr st'"
    using *(1) unfolding set_driver_def by (auto simp: with_tree_def rbind_def split: option.splits sum.splits)
  have "same_texts e e'"
    using findall_by_value [OF e(2)] by (auto simp: same_texts_def text_tags_def simp del: add_new_element_by_parent.simps)
  with * e same_texts_mirrors show
    "st' = (self, files) \<or> (\<exists>self'. saved (self', files) = Inr st' \<and> mirrors self' \<and> vx_filepath self' = vx_filepath self)"
    by (intro disjI2 exI [of _ "self\<lparr>vx_tree := Some e'\<rparr>"]) simp
qed

lemma keeps_tag_new_disk [simp]: "keeps_tag (new_disk d io cache)"
  by (simp add: keeps_tag_def new_disk_def)

lemma careful_set_disk: "careful (set_disk d)"
proof -
  have "careful (change_tree (add_new_element [''devices'', ''disk''] (new_disk d io cache) True))" for io cache
    by (intro careful_change_tree same_texts_add) (simp_all add: text_tags_def)
  then show ?thesis
    unfolding careful_def set_disk_def
    by (auto simp: with_tree_def simp del: add_new_element.simps split: option.splits)
qed

text \<open>One operation on the object that returns.\<close>

inductive vx_step :: "vx_state \<Rightarrow> vx_state \<Rightarrow> bool" where
  name: "set_name v st = Inr st' \<Longrightarrow> vx_step st st'"
| uuid: "set_uuid v st = Inr st' \<Longrightarrow> vx_step st st'"
| "kernel": "set_kernel v st = Inr st' \<Longrightarrow> vx_step st st'"
| loader: "set_loader v st = Inr st' \<Longrightarrow> vx_step st st'"
| cmdline: "set_cmdline v st = Inr st' \<Longrightarrow> vx_step st st'"
| memory: "set_memory n st = Inr st' \<Longrightarrow> vx_step st st'"
| vcpu: "set_vcpu c st = Inr st' \<Longrightarrow> vx_step st st'"
| sockets: "set_sockets c st = Inr st' \<Longrightarrow> vx_step st st'"
| cores: "set_cores c st = Inr st' \<Longrightarrow> vx_step st st'"
| threads: "set_threads c st = Inr st' \<Longrightarrow> vx_step st st'"
| imagefile: "set_imagefile v st = Inr st' \<Longrightarrow> vx_step st st'"
| iomode: "set_iomode v st = Inr st' \<Longrightarrow> vx_step st st'"
| cache: "set_cache v st = Inr st' \<Longrightarrow> vx_step st st'"
| logfile: "set_logfile v st = Inr st' \<Longrightarrow> vx_step st st'"
| qemu_exec: "set_qemu_exec v st = Inr st' \<Longrightarrow> vx_step st st'"
| ssh_forward: "enable_ssh_forward_port port st = Inr st' \<Longrightarrow> vx_step st st'"
| hugepage_params: "set_hugepage_params s st = Inr st' \<Longrightarrow> vx_step st st'"
| driver: "set_driver s st = Inr st' \<Longrightarrow> vx_step st st'"
| cpu_params: "set_cpu_params s st = Inr st' \<Longrightarrow> vx_step st st'"
| overcommit: "set_overcommit_params s st = Inr st' \<Longrightarrow> vx_step st st'"
| cpuids: "bind_cpuids ids st = Inr st' \<Longrightarrow> vx_step st st'"
| mem_numa: "set_mem_numa b st = Inr st' \<Longrightarrow> vx_step st st'"
| epc: "set_epc_params sections st = Inr st' \<Longrightarrow> vx_step st st'"
| vsock: "set_vsock cid st = Inr st' \<Longrightarrow> vx_step st st'"
| disk: "set_disk s st = Inr st' \<Longrightarrow> vx_step st st'"
| hugepage_path: "set_hugepage_path s st = Inr st' \<Longrightarrow> vx_step st st'"
| vtpm: "set_vtpm_param v w st = Inr st' \<Longrightarrow> vx_step st st'"

lemmas careful_ops = careful_setters careful_attr_setters careful_set_vcpu careful_iomode careful_cache careful_add
  careful_set_driver careful_set_disk

lemma vx_step_good: "vx_step st st' \<Longrightarrow> good f st \<Longrightarrow> good f st'"
  by (erule vx_step.cases; hypsubst; rule careful_good, rule careful_ops, assumption, assumption)

lemma vx_steps_good: "vx_step\<^sup>*\<^sup>* st st' \<Longrightarrow> good f st \<Longrightarrow> good f st'"
  by (induction rule: rtranclp_induct) (auto intro: vx_step_good)

lemma load_mirrors: "load p files self = Inr (True, self') \<Longrightarrow> mirrors self'"
  by (auto simp: load_def mirrors_def split: option.splits)

lemma load_filepath: "load p files self = Inr (True, self') \<Longrightarrow> vx_filepath self' = Some p"
  by (auto simp: load_def split: option.splits)

lemma vx_clone_good:
  assumes "vx_clone this_dir output template new files = Inr (Some st)"
    and "doc_writable files (path_join output (new @ ''.xml''))"
  shows "good (path_join output (new @ ''.xml'')) st"
proof -
  let ?p = "path_join (get_templates_dir this_dir) (template @ ''.xml'')" and ?f = "path_join output (new @ ''.xml'')"
  obtain b obj b' st1 where *: "load ?p files VirtXml = Inr (b, obj)" "vx_save (Some ?f) (obj, files) = Inr (b', st1)"
    "set_name (Some new) st1 = Inr st" "document files ?p \<noteq> None"
    using assms(1) unfolding vx_clone_def Let_def by (auto simp: rbind_def split: if_splits sum.splits)
  have b: "b"
    using *(1,4) by (auto simp: load_def split: option.splits)
  have "good ?f st1"
    using load_mirrors [OF *(1) [simplified b]] *(2) assms(2)
    by (auto simp: vx_save_def tostring_def good_def rbind_def split: option.splits if_splits)
  then show ?thesis using careful_good [OF careful_setters(1) *(3)] by blast
qed


definition leaf :: "string \<Rightarrow> string \<Rightarrow> xml" where
  "leaf t s = Elem t [] (Some s) []"

definition demo_template :: xml where
  "demo_template =
     Elem ''domain'' [(''type'', AStr ''kvm'')] None
       [leaf ''name'' ''REPLACEME_NAME'', leaf ''uuid'' ''REPLACEME_UUID'', leaf ''memory'' ''REPLACEME_MEMORY'', leaf ''vcpu'' ''1'',
        Elem ''os'' [] None [leaf ''loader'' ''REPLACEME_LOADER'', leaf ''kernel'' ''REPLACEME_KERNEL'', leaf ''cmdline'' ''REPLACEME_CMDLINE''],
        Elem ''cpu'' [] None [Elem ''topology'' [(''sockets'', AStr ''1''), (''cores'', AStr ''1''), (''threads'', AStr ''1'')] None []],
        Elem ''devices'' [] None
          [leaf ''emulator'' ''/usr/bin/qemu-kvm'',
           Elem ''disk'' [(''type'', AStr ''file'')] None
             [Elem ''driver'' [(''name'', AStr ''qemu''), (''io'', AStr ''native''), (''cache'', AStr ''none'')] None [],
              Elem ''source'' [(''file'', AStr ''REPLACEME_IMAGE'')] None []],
           Elem ''console'' [(''type'', AStr ''pty'')] None [Elem ''log'' [(''file'', AStr ''REPLACEME_LOG'')] None []],
           Elem ''interface'' [(''type'', AStr ''bridge'')] None []]]"

definition demo_docs :: doc_files where
  "demo_docs =
     \<lparr>document = (\<lambda>p. if p = ''/opt/templates/tdx-base.xml'' then Some demo_template else None),
      doc_writable = (\<lambda>p. starts_with ''/tmp'' p)\<rparr>"

text \<open>Evaluation by rewriting.\<close>

lemmas elem_eval = set_attrs_def get_attr_def sub_element_def findall_def find_child_def modify_child_def new_element_def leaf_def

lemmas xml_eval = get_single_element_value_def set_single_element_value_def set_single_element_attrib_def qemu_arg_def QEMUS_NS_def

lemmas op_eval = text_setter_def boot_setter_def attr_setter_def topology_setter_def with_tree_def saved_def vx_save_def tostring_def
  change_tree_def saved_text_def py_strip_def py_space_def load_def vx_clone_def get_templates_dir_def path_join_def isabs_def

lemmas setter_eval = set_name_def set_uuid_def set_kernel_def set_loader_def set_cmdline_def set_memory_def set_vcpu_def count_text_def
  set_sockets_def set_cores_def set_threads_def set_imagefile_def set_iomode_def set_cache_def set_logfile_def set_qemu_exec_def
  set_cpu_params_def

lemmas demo_eval = demo_docs_def demo_template_def VirtXml_def

lemma fmt_dec_4096: "fmt_dec 4096 = ''4096''"
  by (simp add: fmt_dec_def dec_digits.simps char_of_def bit_0)


section \<open>Documents that cannot be written\<close>

lemma serializable_children: "serializable e \<longleftrightarrow> list_all (\<lambda>(k, v). is_string v) (x_attrs e) \<and> list_all serializable (x_children e)"
  by (cases e) simp

lemma serializable_sub [simp]: "serializable (sub_element c e) \<longleftrightarrow> serializable c \<and> serializable e"
  unfolding serializable_children [of "sub_element c e"] serializable_children [of e] by (auto simp: sub_element_def)

lemma serializable_modify:
  assumes "serializable (modify_child t f e)" "\<And>c. serializable (f c) \<Longrightarrow> serializable c \<and> Q" "find_child t e \<noteq> None"
  shows "serializable e \<and> Q"
proof -
  have upd: "list_all serializable (update_first P f xs) \<Longrightarrow> find P xs \<noteq> None \<Longrightarrow> list_all serializable xs \<and> Q"
    for P and xs :: "xml list"
    using assms(2) by (induction xs) (auto split: if_splits)
  show ?thesis
    using upd [of "\<lambda>c. x_tag c = t" "x_children e"] assms(1,3) unfolding serializable_children [of "modify_child t f e"] serializable_children [of e] find_child_def
    by (simp add: modify_child_def)
qed

lemma serializable_arg: "serializable (set_attrs [(k, v)] (new_element t)) = is_string v"
  by (simp add: set_attrs_def new_element_def)

lemma serializable_qemu_arg: "serializable (qemu_arg v e) \<Longrightarrow> serializable e \<and> is_string v"
proof (cases "find_child (QEMUS_NS @ ''commandline'') e = None")
  case False
  assume "serializable (qemu_arg v e)"
  then have "serializable (modify_child (QEMUS_NS @ ''commandline'')
      (add_new_element [QEMUS_NS @ ''arg''] (set_attrs [(''value'', v)]) True) e)"
    using False by (auto simp: qemu_arg_def)
  then show ?thesis
    by (rule serializable_modify) (use False in \<open>simp_all add: serializable_arg\<close>)
qed (simp add: qemu_arg_def serializable_arg)

text \<open>Forwarding the SSH port cannot work: one of the arguments is a dictionary, which no document can hold, so that the
  call ends in a type error on every object that has a document.\<close>

theorem enable_ssh_forward_port_fails:
  assumes "vx_tree self = Some e"
  shows "enable_ssh_forward_port port (self, files) = Inl TypeError"
proof -
  have "\<not> serializable (qemu_arg (AStr a) (qemu_arg (AStr b) (qemu_arg (ADict kvs) e')))" for a b kvs e'
    by (auto dest!: serializable_qemu_arg)
  with assms show ?thesis
    by (simp add: enable_ssh_forward_port_def change_tree_def with_tree_def saved_def vx_save_def tostring_def)
qed

theorem enable_ssh_forward_port_fails_witness:
  "enable_ssh_forward_port 2222 (VirtXml\<lparr>vx_tree := Some demo_template\<rparr>, demo_docs) = Inl TypeError"
  by (rule enable_ssh_forward_port_fails [of _ demo_template]) simp

section \<open>A second disk\<close>

lemma two_disks:
  assumes "keeps_tag f" "find_single [''devices'', ''disk'', t] e \<noteq> None"
  shows "find_single [''devices'', ''disk'', u] (add_new_element [''devices'', ''disk''] f True e) = None"
proof -
  obtain c d where c: "findall ''devices'' e = [c]" "findall ''disk'' c = [d]"
    using assms(2) by (auto split: list.splits if_splits)
  have "x_tag (f (new_element ''disk'')) = ''disk''" using assms(1) by (simp add: keeps_tag_def)
  then show ?thesis
    using assms(1) c by (simp add: find_child_findall findall_modify keeps_tag_def)
qed

text \<open>After a data disk is added to a machine with one disk, the image, the I/O mode and the cache mode of the machine can
  no longer be changed: the disk is not unique any more, and the setters end in an attribute error.\<close>

theorem set_disk_blocks_image:
  assumes "vx_tree self = Some e" "find_single [''devices'', ''disk'', ''source''] e \<noteq> None"
    and "set_disk d (self, files) = Inr st'" "v \<noteq> vx_imagefile self"
  shows "set_imagefile v st' = Inl AttributeError"
proof -
  obtain io cache self1 where *: "vx_io self = Some io" "vx_cache self = Some cache"
    "self1 = self\<lparr>vx_tree := Some (add_new_element [''devices'', ''disk''] (new_disk d io cache) True e)\<rparr>" "saved (self1, files) = Inr st'"
    using assms(1,3) unfolding set_disk_def change_tree_def with_tree_def
    by (auto simp del: add_new_element.simps split: option.splits)
  have st': "vx_tree (fst st') = vx_tree self1" "vx_imagefile (fst st') = vx_imagefile self1"
    using *(4) unfolding saved_def vx_save_def tostring_def
    by (auto simp: rbind_def *(3) simp del: add_new_element.simps split: option.splits if_splits)
  have "find_single [''devices'', ''disk'', ''source''] (add_new_element [''devices'', ''disk''] (new_disk d io cache) True e) = None"
    by (rule two_disks [OF _ assms(2)]) simp
  with st' assms(4) *(3) show ?thesis
    by (cases st') (simp add: set_imagefile_def attr_setter_def with_tree_def set_single_element_attrib_def
        del: add_new_element.simps find_single.simps)
qed

theorem set_disk_blocks_image_witness:
  "\<exists>self st'. load ''/opt/templates/tdx-base.xml'' demo_docs VirtXml = Inr (True, self) \<and>
     set_disk ''/tmp/data.qcow2'' (self\<lparr>vx_filepath := Some ''/tmp/a.xml''\<rparr>, demo_docs) = Inr st' \<and>
     set_imagefile (Some ''/tmp/new.qcow2'') st' = Inl AttributeError"
proof -
  let ?self = "snd (projr (load ''/opt/templates/tdx-base.xml'' demo_docs VirtXml))"
  have l: "load ''/opt/templates/tdx-base.xml'' demo_docs VirtXml = Inr (True, ?self)"
    by (simp add: elem_eval xml_eval op_eval demo_eval)
  have t: "vx_tree (?self\<lparr>vx_filepath := Some ''/tmp/a.xml''\<rparr>) = Some demo_template"
    "vx_imagefile (?self\<lparr>vx_filepath := Some ''/tmp/a.xml''\<rparr>) = Some ''REPLACEME_IMAGE''"
    by (simp_all add: elem_eval xml_eval op_eval demo_eval)
  have f: "find_single [''devices'', ''disk'', ''source''] demo_template \<noteq> None"
    by (simp add: elem_eval demo_eval)
  have "case set_disk ''/tmp/data.qcow2'' (?self\<lparr>vx_filepath := Some ''/tmp/a.xml''\<rparr>, demo_docs) of Inl _ \<Rightarrow> False | Inr _ \<Rightarrow> True"
    by (simp add: set_disk_def new_disk_def elem_eval xml_eval op_eval demo_eval)
  then obtain st' where s: "set_disk ''/tmp/data.qcow2'' (?self\<lparr>vx_filepath := Some ''/tmp/a.xml''\<rparr>, demo_docs) = Inr st'"
    by (auto split: sum.splits)
  have "set_imagefile (Some ''/tmp/new.qcow2'') st' = Inl AttributeError"
    by (rule set_disk_blocks_image [OF t(1) f s]) (simp add: t(2) del: virt_xml.select_convs)
  with l s show ?thesis by blast
qed

end
