(* ===== verification/Virt_Texts.thy ===== *)
theory Virt_Texts
  imports Virt_Xml
begin

text \<open>
  What the operations on a machine description do to the texts that the object reports: a rule per operation, and rules for
  sequences of operations, for the theories that build descriptions.
\<close>

section \<open>The reported texts\<close>

record vx_texts =
  t_name :: "string option"
  t_uuid :: "string option"
  t_kernel :: "string option"
  t_cmdline :: "string option"
  t_loader :: "string option"
  t_memory :: "string option"
  t_vcpu :: "string option"

definition texts :: "virt_xml \<Rightarrow> vx_texts" where
  "texts self =
     \<lparr>t_name = vx_name self, t_uuid = vx_uuid self, t_kernel = vx_kernel self, t_cmdline = vx_cmdline self,
      t_loader = vx_loader self, t_memory = vx_memory self, t_vcpu = vx_vcpu self\<rparr>"

definition doc_texts :: "xml \<Rightarrow> vx_texts" where
  "doc_texts e =
     \<lparr>t_name = get_single_element_value [''name''] e, t_uuid = get_single_element_value [''uuid''] e,
      t_kernel = get_single_element_value [''os'', ''kernel''] e, t_cmdline = get_single_element_value [''os'', ''cmdline''] e,
      t_loader = get_single_element_value [''os'', ''loader''] e, t_memory = get_single_element_value [''memory''] e,
      t_vcpu = get_single_element_value [''vcpu''] e\<rparr>"

text \<open>A template has a text in each of the seven elements.\<close>

definition complete_template :: "xml \<Rightarrow> bool" where
  "complete_template e \<longleftrightarrow>
     (let t = doc_texts e in
      t_name t \<noteq> None \<and> t_uuid t \<noteq> None \<and> t_kernel t \<noteq> None \<and> t_cmdline t \<noteq> None \<and> t_loader t \<noteq> None \<and>
      t_memory t \<noteq> None \<and> t_vcpu t \<noteq> None)"

definition saved_texts :: "vx_texts \<Rightarrow> vx_texts" where
  "saved_texts t =
     \<lparr>t_name = saved_text (t_name t), t_uuid = saved_text (t_uuid t), t_kernel = saved_text (t_kernel t),
      t_cmdline = saved_text (t_cmdline t), t_loader = saved_text (t_loader t), t_memory = saved_text (t_memory t),
      t_vcpu = saved_text (t_vcpu t)\<rparr>"

lemma doc_texts_saved_form: "doc_texts (saved_form e) = saved_texts (doc_texts e)"
  by (simp add: doc_texts_def saved_texts_def get_saved_form)

lemma mirrors_texts: "mirrors self \<longleftrightarrow> (\<exists>e. vx_tree self = Some e \<and> texts self = doc_texts e)"
  by (auto simp: mirrors_def texts_def doc_texts_def split: option.splits)

text \<open>The object reports these texts, and its file holds its document.\<close>

definition reports :: "string \<Rightarrow> vx_texts \<Rightarrow> vx_state \<Rightarrow> bool" where
  "reports f t st \<longleftrightarrow> good f st \<and> texts (fst st) = t"

lemma reports_file:
  assumes "reports f t (self, files)"
  shows "\<exists>e. document files f = Some (saved_form e) \<and> vx_tree self = Some e \<and> doc_texts (saved_form e) = saved_texts t"
  using assms by (auto simp: reports_def good_def mirrors_texts doc_texts_saved_form)

section \<open>The result of a setter\<close>

lemma saved_object: "saved (self, files) = Inr (self', files') \<Longrightarrow> \<exists>f. self' = self\<lparr>vx_filepath := f\<rparr>"
proof -
  have same: "\<exists>f. s = s\<lparr>vx_filepath := f\<rparr>" for s :: virt_xml
    by (rule exI [of _ "vx_filepath s"]) simp
  show "saved (self, files) = Inr (self', files') \<Longrightarrow> \<exists>f. self' = self\<lparr>vx_filepath := f\<rparr>"
    by (auto simp: saved_def vx_save_def rbind_def same split: sum.splits option.splits if_splits)
qed

locale mirrored_text = cached_text +
  assumes put_get: "put (get self) self = self"
    and put_tree: "put v (self\<lparr>vx_tree := t\<rparr>) = (put v self)\<lparr>vx_tree := t\<rparr>"
    and get_mirrors: "mirrors self \<Longrightarrow> vx_tree self = Some e \<Longrightarrow> get self = get_single_element_value p e"
begin

lemma found: "mirrors self \<Longrightarrow> vx_tree self = Some e \<Longrightarrow> get self \<noteq> None \<Longrightarrow> fst (set_single_element_value p v e)"
  by (auto simp: set_single_element_value_def get_single_element_value_def dest: get_mirrors split: option.splits)

lemma unchanged: "\<exists>t f. self = (put (get self) self)\<lparr>vx_tree := t, vx_filepath := f\<rparr>"
  by (intro exI [of _ "vx_tree self"] exI [of _ "vx_filepath self"]) (simp add: put_get)

lemma setter_result:
  assumes "text_setter p get put v (self, files) = Inr (self', files')" "mirrors self" "get self \<noteq> None"
  shows "\<exists>t f. self' = (put v self)\<lparr>vx_tree := t, vx_filepath := f\<rparr>"
proof (cases "get self = v")
  case True
  then show ?thesis using assms(1) unchanged [of self] by (simp add: text_setter_def)
next
  case False
  then obtain e e' b where e: "vx_tree self = Some e" "set_single_element_value p v e = (b, e')"
    "saved (if b then put v (self\<lparr>vx_tree := Some e'\<rparr>) else self\<lparr>vx_tree := Some e'\<rparr>, files) = Inr (self', files')"
    using assms(1) by (auto simp: text_setter_def with_tree_def Let_def split: option.splits prod.splits)
  have b using found [OF assms(2) e(1) assms(3)] e(2) by (metis fst_conv)
  with e(3) show ?thesis by (auto simp: put_tree dest!: saved_object)
qed

lemma boot_setter_result:
  assumes "boot_setter p get put v (self, files) = Inr (self', files')" "mirrors self" "get self \<noteq> None"
  shows "\<exists>t f. self' = (put v self)\<lparr>vx_tree := t, vx_filepath := f\<rparr>"
proof (cases "v = None \<and> get self \<noteq> v")
  case True
  then obtain e where "saved (put None (self\<lparr>vx_tree := Some (delete_element p e)\<rparr>), files) = Inr (self', files')"
    using assms(1) by (auto simp: boot_setter_def with_tree_def split: option.splits)
  with True show ?thesis by (auto simp: put_tree dest!: saved_object)
next
  case False
  then have "text_setter p get put v (self, files) = Inr (self', files')"
    using assms(1) by (auto simp: boot_setter_def text_setter_def)
  then show ?thesis using setter_result assms(2,3) by blast
qed

end

interpretation name_report: mirrored_text "[''name'']" vx_name "\<lambda>v self. self\<lparr>vx_name := v\<rparr>"
  by unfold_locales (simp_all add: mirrors_def)

interpretation uuid_report: mirrored_text "[''uuid'']" vx_uuid "\<lambda>v self. self\<lparr>vx_uuid := v\<rparr>"
  by unfold_locales (simp_all add: mirrors_def)

interpretation memory_report: mirrored_text "[''memory'']" vx_memory "\<lambda>v self. self\<lparr>vx_memory := v\<rparr>"
  by unfold_locales (simp_all add: mirrors_def)

interpretation vcpu_report: mirrored_text "[''vcpu'']" vx_vcpu "\<lambda>v self. self\<lparr>vx_vcpu := v\<rparr>"
  by unfold_locales (simp_all add: mirrors_def)

interpretation loader_report: mirrored_text "[''os'', ''loader'']" vx_loader "\<lambda>v self. self\<lparr>vx_loader := v\<rparr>"
  by unfold_locales (simp_all add: mirrors_def)

interpretation kernel_report: mirrored_text "[''os'', ''kernel'']" vx_kernel "\<lambda>v self. self\<lparr>vx_kernel := v\<rparr>"
  by unfold_locales (simp_all add: mirrors_def)

interpretation cmdline_report: mirrored_text "[''os'', ''cmdline'']" vx_cmdline "\<lambda>v self. self\<lparr>vx_cmdline := v\<rparr>"
  by unfold_locales (simp_all add: mirrors_def)

section \<open>Rules for operations and sequences of operations\<close>

definition leads :: "vx_state result \<Rightarrow> (vx_state \<Rightarrow> bool) \<Rightarrow> bool" where
  "leads r Q = (case r of Inl _ \<Rightarrow> True | Inr st \<Rightarrow> Q st)"

lemma leads_bind: "leads r R \<Longrightarrow> (\<And>st. R st \<Longrightarrow> leads (k st) Q) \<Longrightarrow> leads (rbind r k) Q"
  by (cases r) (simp_all add: leads_def)

lemma leads_Inr [simp]: "leads (Inr st) Q = Q st" "leads (Inl e) Q"
  by (simp_all add: leads_def)

lemma leadsI: "(\<And>st'. r = Inr st' \<Longrightarrow> Q st') \<Longrightarrow> leads r Q"
  by (cases r) (simp_all add: leads_def)

lemma leadsD: "leads r Q \<Longrightarrow> r = Inr st' \<Longrightarrow> Q st'"
  by (simp add: leads_def)

text \<open>An operation that leaves the reported texts alone.\<close>

definition quiet :: "(vx_state \<Rightarrow> vx_state result) \<Rightarrow> bool" where
  "quiet m \<longleftrightarrow> careful m \<and> (\<forall>self files self' files'. m (self, files) = Inr (self', files') \<longrightarrow> texts self' = texts self)"

lemma leads_careful:
  assumes "careful m" "reports f t st"
    and "\<And>self files self' files'. mirrors self \<Longrightarrow> texts self = t \<Longrightarrow> m (self, files) = Inr (self', files') \<Longrightarrow> texts self' = t'"
  shows "leads (m st) (reports f t')"
proof (rule leadsI)
  fix st'
  assume *: "m st = Inr st'"
  with careful_good [OF assms(1)] assms(2) have "good f st'" by (auto simp: reports_def)
  moreover have "texts (fst st') = t'"
    using assms(3) [of "fst st" "snd st" "fst st'" "snd st'"] assms(2) * by (simp add: reports_def good_def)
  ultimately show "reports f t' st'" by (simp add: reports_def)
qed

lemma leads_quiet: "quiet m \<Longrightarrow> reports f t st \<Longrightarrow> leads (m st) (reports f t)"
  by (rule leads_careful) (auto simp: quiet_def)

lemma texts_update [simp]:
  "texts (self\<lparr>vx_tree := t\<rparr>) = texts self" "texts (self\<lparr>vx_filepath := f\<rparr>) = texts self"
  "texts (self\<lparr>vx_imagefile := v\<rparr>) = texts self" "texts (self\<lparr>vx_logfile := v\<rparr>) = texts self"
  "texts (self\<lparr>vx_io := w\<rparr>) = texts self" "texts (self\<lparr>vx_cache := w\<rparr>) = texts self"
  "texts (self\<lparr>vx_sockets := v\<rparr>) = texts self" "texts (self\<lparr>vx_cores := v\<rparr>) = texts self"
  "texts (self\<lparr>vx_threads := v\<rparr>) = texts self" "texts (self\<lparr>vx_qemu_exec := v\<rparr>) = texts self"
  by (simp_all add: texts_def)

lemma saved_texts_eq: "saved (self, files) = Inr (self', files') \<Longrightarrow> texts self' = texts self"
  by (auto dest: saved_object)

lemma quiet_change_tree: "(\<And>e. same_texts e (g e)) \<Longrightarrow> quiet (change_tree g)"
  unfolding quiet_def
  by (auto simp: careful_change_tree) (auto simp: change_tree_def with_tree_def dest: saved_texts_eq split: option.splits)

lemma quietI:
  "careful m \<Longrightarrow> (\<And>self files self' files'. m (self, files) = Inr (self', files') \<Longrightarrow> texts self' = texts self) \<Longrightarrow> quiet m"
  by (simp add: quiet_def)

lemma texts_change_tree: "change_tree g (self, files) = Inr (self', files') \<Longrightarrow> texts self' = texts self"
  by (auto simp: change_tree_def with_tree_def dest: saved_texts_eq split: option.splits)

lemma texts_attr_setter:
  "attr_setter p a get put v (self, files) = Inr (self', files') \<Longrightarrow> (\<And>v self. texts (put v self) = texts self) \<Longrightarrow> texts self' = texts self"
  by (auto simp: attr_setter_def with_tree_def dest: saved_texts_eq split: option.splits prod.splits if_splits)

lemma texts_topology_setter:
  "topology_setter a get put v (self, files) = Inr (self', files') \<Longrightarrow> (\<And>v self. texts (put v self) = texts self) \<Longrightarrow> texts self' = texts self"
  by (auto simp: topology_setter_def with_tree_def Let_def dest: saved_texts_eq split: option.splits prod.splits if_splits)

lemma quiet_attr_setters:
  "quiet (set_imagefile v)" "quiet (set_logfile v)" "quiet (set_sockets n)" "quiet (set_cores n)" "quiet (set_threads n)"
  by (rule quietI, rule careful_attr_setters,
      simp add: set_imagefile_def set_logfile_def set_sockets_def set_cores_def set_threads_def,
      drule texts_attr_setter texts_topology_setter, simp_all)+

lemma quiet_drive:
  "quiet (set_iomode v)" "quiet (set_cache v)"
  by (rule quietI, rule careful_iomode careful_cache, simp add: set_iomode_def set_cache_def split: option.splits,
      drule texts_attr_setter, simp_all)+

lemma quiet_qemu_exec: "quiet (set_qemu_exec v)"
  by (rule quietI, rule careful_setters)
    (auto simp: set_qemu_exec_def text_setter_def with_tree_def Let_def dest: saved_texts_eq split: option.splits prod.splits if_splits)

lemma quiet_driver: "quiet (set_driver d)"
  by (rule quietI, rule careful_set_driver)
    (auto simp: set_driver_def with_tree_def rbind_def dest: saved_texts_eq split: option.splits sum.splits)

lemma quiet_disk: "quiet (set_disk d)"
  by (rule quietI, rule careful_set_disk)
    (auto simp: set_disk_def with_tree_def dest: texts_change_tree simp del: add_new_element.simps split: option.splits)

lemma quiet_add:
  "quiet (set_hugepage_params s)" "quiet (set_cpu_params s)" "quiet (set_overcommit_params s)" "quiet (bind_cpuids ids)"
  "quiet (set_mem_numa b)" "quiet (set_epc_params sections)" "quiet (set_vsock cid)" "quiet (set_hugepage_path s)"
  "quiet (set_vtpm_param v w)"
  by (rule quietI, rule careful_add,
      simp add: set_hugepage_params_def set_cpu_params_def set_overcommit_params_def bind_cpuids_def set_mem_numa_def set_epc_params_def
        set_vsock_def set_hugepage_path_def set_vtpm_param_def py_assert_def del: add_new_element.simps split: if_splits del: if_split,
      (drule texts_change_tree, assumption)+)+

lemmas quiet_ops = quiet_attr_setters quiet_drive quiet_qemu_exec quiet_driver quiet_disk quiet_add

text \<open>The setters of the reported texts.\<close>

lemma leads_name: "reports f t st \<Longrightarrow> t_name t \<noteq> None \<Longrightarrow> leads (set_name v st) (reports f (t\<lparr>t_name := v\<rparr>))"
  by (rule leads_careful [OF careful_setters(1)])
    (auto simp: texts_def set_name_def dest!: name_report.setter_result)

lemma leads_uuid: "reports f t st \<Longrightarrow> t_uuid t \<noteq> None \<Longrightarrow> leads (set_uuid v st) (reports f (t\<lparr>t_uuid := v\<rparr>))"
  by (rule leads_careful [OF careful_setters(2)])
    (auto simp: texts_def set_uuid_def dest!: uuid_report.setter_result)

lemma leads_kernel: "reports f t st \<Longrightarrow> t_kernel t \<noteq> None \<Longrightarrow> leads (set_kernel v st) (reports f (t\<lparr>t_kernel := v\<rparr>))"
  by (rule leads_careful [OF careful_setters(3)])
    (auto simp: texts_def set_kernel_def dest!: kernel_report.boot_setter_result)

lemma leads_loader: "reports f t st \<Longrightarrow> t_loader t \<noteq> None \<Longrightarrow> leads (set_loader v st) (reports f (t\<lparr>t_loader := v\<rparr>))"
  by (rule leads_careful [OF careful_setters(4)])
    (auto simp: texts_def set_loader_def dest!: loader_report.setter_result)

lemma leads_cmdline: "reports f t st \<Longrightarrow> t_cmdline t \<noteq> None \<Longrightarrow> leads (set_cmdline v st) (reports f (t\<lparr>t_cmdline := v\<rparr>))"
  by (rule leads_careful [OF careful_setters(5)])
    (auto simp: texts_def set_cmdline_def dest!: cmdline_report.boot_setter_result)

lemma leads_memory:
  "reports f t st \<Longrightarrow> t_memory t \<noteq> None \<Longrightarrow> leads (set_memory (NInt n) st) (reports f (t\<lparr>t_memory := Some (fmt_dec n)\<rparr>))"
  by (rule leads_careful [OF careful_setters(6)])
    (auto simp: texts_def set_memory_def dest!: memory_report.setter_result)

lemma set_vcpu_result:
  assumes "set_vcpu n (self, files) = Inr (self', files')" "mirrors self" "vx_vcpu self \<noteq> None"
  shows "\<exists>t f. self' = self\<lparr>vx_vcpu := count_text n, vx_tree := t, vx_filepath := f\<rparr>"
proof -
  have "text_setter [''vcpu''] vx_vcpu (\<lambda>v self. self\<lparr>vx_vcpu := v\<rparr>) (count_text n) (self, files) = Inr (self', files')"
    using assms(1) vcpu_report.found [OF assms(2) _ assms(3), of _ "count_text n"]
    by (auto simp: set_vcpu_def text_setter_def with_tree_def Let_def split: option.splits prod.splits if_splits)
  then show ?thesis using vcpu_report.setter_result assms(2,3) by blast
qed

lemma leads_vcpu:
  "reports f t st \<Longrightarrow> t_vcpu t \<noteq> None \<Longrightarrow> leads (set_vcpu (Inl n) st) (reports f (t\<lparr>t_vcpu := Some (fmt_dec n)\<rparr>))"
  by (rule leads_careful [OF careful_set_vcpu]) (auto simp: texts_def count_text_def dest!: set_vcpu_result)

lemma vx_clone_reports:
  assumes "vx_clone this_dir output template new files = Inr (Some st)"
    and "doc_writable files (path_join output (new @ ''.xml''))"
    and "document files (path_join (get_templates_dir this_dir) (template @ ''.xml'')) = Some e" "t_name (doc_texts e) \<noteq> None"
  shows "reports (path_join output (new @ ''.xml'')) ((doc_texts e)\<lparr>t_name := Some new\<rparr>) st"
proof -
  let ?p = "path_join (get_templates_dir this_dir) (template @ ''.xml'')" and ?f = "path_join output (new @ ''.xml'')"
  obtain b obj b' st1 where *: "load ?p files VirtXml = Inr (b, obj)" "vx_save (Some ?f) (obj, files) = Inr (b', st1)"
    "set_name (Some new) st1 = Inr st"
    using assms(1,3) unfolding vx_clone_def Let_def by (auto simp: rbind_def split: if_splits sum.splits)
  have "mirrors obj" "vx_tree obj = Some e"
    using *(1) assms(3) by (auto simp: load_def mirrors_def split: option.splits)
  then have "reports ?f (doc_texts e) st1"
    using *(2) assms(2)
    by (auto simp: vx_save_def tostring_def reports_def good_def rbind_def mirrors_texts split: option.splits if_splits)
  then show ?thesis using leadsD [OF leads_name [OF _ assms(4)] *(3)] by blast
qed

end
