(* ===== verification/Vmm.thy ===== *)
theory Vmm
  imports Py_Effect Py_Regex Dut Virt_Texts
begin

text \<open>
  \<open>pycloudstack/vmm.py\<close>: the manager that runs a guest through libvirt.  libvirt, the \<open>arp\<close> command and the
  file system's refusal to remove a file are parameters; the state is what libvirt keeps, the files, and the
  manager object.  The base class and the manager for KubeVirt are in \<open>Cluster_Kubevirt\<close>, the messages to the guest agent in
  \<open>Vmm_Agent\<close>.
\<close>

section \<open>The guest that is managed\<close>

text \<open>The attributes of a \<open>VMGuest\<close> that the manager reads.  The identifier is the text of a UUID; the sections of enclave
  page cache are an attribute of an SGX specification only.\<close>

record vm_guest =
  g_vmid :: string
  g_name :: string
  g_image :: string
  g_distro :: "string option"
  g_vmspec :: vm_spec
  g_epc :: "epc_section list option"
  g_vmtype :: string
  g_boot :: string
  g_kernel :: "string option"
  g_cmdline :: kernel_cmdline
  g_hugepages :: bool
  g_hugepage_size :: string
  g_vsock :: bool
  g_vsock_cid :: int
  g_keep :: bool
  g_cpu_ids :: "nat list option"
  g_mem_numa :: "bool option"
  g_io_mode :: "string option"
  g_cache :: "string option"
  g_diskfile_path :: "string option"
  g_tsx :: "bool option"
  g_tsc :: "bool option"
  g_mwait :: "string option"
  g_has_vtpm :: bool
  g_vtpm_path :: "string option"
  g_vtpm_log :: "string option"
  g_hugepage_path :: "string option"
  g_driver :: "string option"

section \<open>The description of the domain\<close>

definition vmm_template :: "(string \<times> string) list" where
  "vmm_template =
     [(VM_TYPE_LEGACY, ''legacy-base''), (VM_TYPE_EFI, ''ovmf-base''), (VM_TYPE_TD, ''tdx-base''), (VM_TYPE_SGX, ''sgx-base''),
      (VM_TYPE_TD_PERF, ''tdx-base-perf''), (VM_TYPE_EFI_PERF, ''ovmf-base-perf''), (VM_TYPE_LEGACY_PERF, ''legacy-base-perf''),
      (VM_TYPE_TD_SB, ''tdx-sb'')]"

definition QEMU_EXEC_CENTOS :: string where "QEMU_EXEC_CENTOS = ''/usr/libexec/qemu-kvm''"
definition QEMU_EXEC_UBUNTU :: string where "QEMU_EXEC_UBUNTU = ''/usr/bin/qemu-system-x86_64''"
definition BIOS_BINARY_LEGACY_CENTOS :: string where "BIOS_BINARY_LEGACY_CENTOS = ''/usr/share/qemu-kvm/bios.bin''"
definition BIOS_BINARY_LEGACY_UBUNTU :: string where "BIOS_BINARY_LEGACY_UBUNTU = ''/usr/share/seabios/bios.bin''"
definition BIOS_OVMF :: string where "BIOS_OVMF = ''/usr/share/qemu/OVMF.fd''"
definition SB_BIOS_OVMF :: string where "SB_BIOS_OVMF = ''/usr/share/ovmf/OVMF.tdx.fd''"

text \<open>\<open>if v:\<close> for a value that may be \<open>None\<close> or empty, \<open>if v is not None:\<close>, and \<open>if b:\<close>.\<close>

definition when_truthy :: "'a list option \<Rightarrow> ('a list \<Rightarrow> vx_state \<Rightarrow> vx_state result) \<Rightarrow> vx_state \<Rightarrow> vx_state result" where
  "when_truthy v f st = (case v of None \<Rightarrow> Inr st | Some x \<Rightarrow> if x \<noteq> [] then f x st else Inr st)"

definition when_some :: "'a option \<Rightarrow> ('a \<Rightarrow> vx_state \<Rightarrow> vx_state result) \<Rightarrow> vx_state \<Rightarrow> vx_state result" where
  "when_some v f st = (case v of None \<Rightarrow> Inr st | Some x \<Rightarrow> f x st)"

definition when_true :: "bool \<Rightarrow> (vx_state \<Rightarrow> vx_state result) \<Rightarrow> vx_state \<Rightarrow> vx_state result" where
  "when_true b f st = (if b then f st else Inr st)"

definition bios_legacy :: "string \<Rightarrow> string" where
  "bios_legacy distro = (if contains ''ubuntu'' distro then BIOS_BINARY_LEGACY_UBUNTU else BIOS_BINARY_LEGACY_CENTOS)"

text \<open>The processor argument of a trust domain.\<close>

definition td_cpu_param :: "int \<Rightarrow> vm_guest \<Rightarrow> string" where
  "td_cpu_param freq vminst =
     (if freq < 1000000 then ''host,-kvm-steal-time,pmu=off,tsc-freq=1000000000'' else ''host,-kvm-steal-time,pmu=off'')
     @ (if g_tsx vminst = Some False then '',-hle,-rtm'' else [])
     @ (if g_tsc vminst = Some False then '',-tsc-deadline'' else [])"

text \<open>The firmware and the processor arguments that depend on the type of the guest.\<close>

definition set_type_params :: "dut_env \<Rightarrow> string \<Rightarrow> vm_guest \<Rightarrow> vx_state \<Rightarrow> vx_state result" where
  "set_type_params dut distro vminst st =
    (if g_vmtype vminst \<in> {VM_TYPE_LEGACY, VM_TYPE_LEGACY_PERF} then
       rbind (set_loader (Some (bios_legacy distro)) st) (\<lambda>st.
       set_cpu_params ''host,-kvm-steal-time,pmu=off'' st)
     else if g_vmtype vminst \<in> {VM_TYPE_EFI, VM_TYPE_EFI_PERF} then
       rbind (set_loader (Some BIOS_OVMF) st) (\<lambda>st.
       set_cpu_params ''host,-kvm-steal-time,pmu=off'' st)
     else if g_vmtype vminst = VM_TYPE_SGX then
       rbind (set_loader (Some (bios_legacy distro)) st) (\<lambda>st.
       rbind (set_cpu_params (''host,host-phys-bits,+sgx,+sgx-debug,+sgx-exinfo,''
         @ ''+sgx-kss,+sgx-mode64,+sgx-provisionkey,+sgx-tokenkey,+sgx1,+sgx2,+sgxlc'') st) (\<lambda>st.
       case g_epc vminst of None \<Rightarrow> Inl AttributeError | Some e \<Rightarrow> set_epc_params e st))
     else if g_vmtype vminst \<in> {VM_TYPE_TD, VM_TYPE_TD_PERF, VM_TYPE_TD_SB} then
       rbind (set_loader (Some (if g_vmtype vminst = VM_TYPE_TD_SB then SB_BIOS_OVMF else BIOS_OVMF)) st) (\<lambda>st.
       rbind (when_some (g_hugepage_path vminst) set_hugepage_path st) (\<lambda>st.
       rbind (get_cpu_base_freq dut) (\<lambda>freq.
       set_cpu_params (td_cpu_param freq vminst) st)))
     else Inr st)"

definition set_cpu_params_xml :: "dut_env \<Rightarrow> vm_guest \<Rightarrow> vx_state \<Rightarrow> vx_state result" where
  "set_cpu_params_xml dut vminst st =
     rbind (get_distro dut) (\<lambda>distro.
     rbind (set_qemu_exec (Some (if contains ''ubuntu'' distro then QEMU_EXEC_UBUNTU else QEMU_EXEC_CENTOS)) st) (\<lambda>st.
     set_type_params dut distro vminst st))"

definition set_vtpm_xml :: "vm_guest \<Rightarrow> vx_state \<Rightarrow> vx_state result" where
  "set_vtpm_xml vminst =
     when_true (g_vmtype vminst \<in> {VM_TYPE_TD, VM_TYPE_TD_PERF}) (set_vtpm_param (g_vtpm_path vminst) (g_vtpm_log vminst))"

definition set_boot_xml :: "vm_guest \<Rightarrow> vx_state \<Rightarrow> vx_state result" where
  "set_boot_xml vminst st =
     (if g_boot vminst = BOOT_TYPE_GRUB then rbind (set_kernel None st) (\<lambda>st. set_cmdline None st)
      else rbind (set_kernel (g_kernel vminst) st) (\<lambda>st. set_cmdline (Some (kc_cmdline (g_cmdline vminst))) st))"

definition domain_devices :: "vm_guest \<Rightarrow> vx_state \<Rightarrow> vx_state result" where
  "domain_devices vminst st =
     rbind (when_truthy (g_cpu_ids vminst) bind_cpuids st) (\<lambda>st.
     rbind (when_some (g_mem_numa vminst) set_mem_numa st) (\<lambda>st.
     rbind (when_true (g_hugepages vminst) (set_hugepage_params (g_hugepage_size vminst)) st) (\<lambda>st.
     rbind (when_truthy (g_driver vminst) set_driver st) (\<lambda>st.
     rbind (when_true (g_vsock vminst) (set_vsock (g_vsock_cid vminst)) st) (\<lambda>st.
     when_truthy (g_diskfile_path vminst) set_disk st)))))"

definition prepare_domain_xml :: "dut_env \<Rightarrow> string \<Rightarrow> string \<Rightarrow> vm_guest \<Rightarrow> doc_files \<Rightarrow> vx_state result" where
  "prepare_domain_xml dut this_dir output vminst files =
     rbind (key_of vmm_template (g_vmtype vminst)) (\<lambda>template.
     rbind (vx_clone this_dir output template (g_name vminst) files) (\<lambda>xmlobj.
     case xmlobj of
       None \<Rightarrow> Inl AttributeError
     | Some st \<Rightarrow>
         rbind (set_memory (NInt (int (memsize (g_vmspec vminst)))) st) (\<lambda>st.
         rbind (set_uuid (Some (g_vmid vminst)) st) (\<lambda>st.
         rbind (set_imagefile (Some (g_image vminst)) st) (\<lambda>st.
         rbind (set_iomode (g_io_mode vminst) st) (\<lambda>st.
         rbind (set_cache (g_cache vminst) st) (\<lambda>st.
         rbind (set_logfile (Some (''/tmp/'' @ g_name vminst @ ''.log'')) st) (\<lambda>st.
         rbind (set_vcpu (Inl (int (vcpus (g_vmspec vminst)))) st) (\<lambda>st.
         rbind (set_sockets (Inl (int (sockets (g_vmspec vminst)))) st) (\<lambda>st.
         rbind (set_cores (Inl (int (cores (g_vmspec vminst)))) st) (\<lambda>st.
         rbind (set_threads (Inl (int (threads (g_vmspec vminst)))) st) (\<lambda>st.
         rbind (domain_devices vminst st) (\<lambda>st.
         rbind (set_cpu_params_xml dut vminst st) (\<lambda>st.
         rbind (when_true (g_has_vtpm vminst) (set_vtpm_xml vminst) st) (\<lambda>st.
         rbind (when_some (g_mwait vminst) (\<lambda>m. set_overcommit_params (''cpu-pm='' @ m)) st) (\<lambda>st.
         set_boot_xml vminst st))))))))))))))))"

section \<open>The description describes the guest\<close>

lemma quiet_when [intro]:
  "quiet f \<Longrightarrow> quiet (when_true b f)" "(\<And>x. quiet (g x)) \<Longrightarrow> quiet (when_some v g)" "(\<And>x. quiet (h x)) \<Longrightarrow> quiet (when_truthy w h)"
  by (auto simp: quiet_def careful_def when_true_def when_some_def when_truthy_def split: option.splits)

lemma quiet_seq: "reports f t st \<Longrightarrow> quiet m \<Longrightarrow> (\<And>st. reports f t st \<Longrightarrow> leads (k st) Q) \<Longrightarrow> leads (rbind (m st) k) Q"
  by (rule leads_bind [OF leads_quiet])

lemma leads_devices: "reports f t st \<Longrightarrow> leads (domain_devices vminst st) (reports f t)"
  unfolding domain_devices_def
  by (erule quiet_seq, (rule quiet_when quiet_ops)+)+ (rule leads_quiet, (rule quiet_when quiet_ops)+)

text \<open>The firmware that each type of guest is started with.\<close>

definition loader_for :: "string \<Rightarrow> string \<Rightarrow> string" where
  "loader_for distro vmtype =
     (if vmtype \<in> {VM_TYPE_LEGACY, VM_TYPE_LEGACY_PERF, VM_TYPE_SGX} then bios_legacy distro
      else if vmtype = VM_TYPE_TD_SB then SB_BIOS_OVMF else BIOS_OVMF)"

lemmas vm_type_defs = VM_TYPE_LEGACY_def VM_TYPE_EFI_def VM_TYPE_TD_def VM_TYPE_SGX_def VM_TYPE_TD_PERF_def VM_TYPE_EFI_PERF_def
  VM_TYPE_LEGACY_PERF_def VM_TYPE_TD_SB_def

lemma leads_type_params:
  assumes "reports f t st" "t_loader t \<noteq> None" "g_vmtype vminst \<in> set (map fst vmm_template)"
  shows "leads (set_type_params dut distro vminst st) (reports f (t\<lparr>t_loader := Some (loader_for distro (g_vmtype vminst))\<rparr>))"
proof -
  have params: "leads (set_cpu_params s st) (reports f t')" if "reports f t' st" for s st t'
    by (rule leads_quiet) (rule quiet_ops, rule that)
  have epc: "leads (rbind (set_cpu_params s st) (\<lambda>st. case x of None \<Rightarrow> Inl AttributeError | Some e \<Rightarrow> set_epc_params e st)) (reports f t')"
    if "reports f t' st" for s st t' x
    by (rule leads_bind [OF params [OF that]]) (auto split: option.split intro: leads_quiet quiet_ops)
  have paging: "leads (rbind (when_some p set_hugepage_path st) (\<lambda>st. rbind m (\<lambda>n. set_cpu_params (g n) st))) (reports f t')"
    if "reports f t' st" for p st t' g and m :: "int result"
    by (rule quiet_seq [OF that], rule quiet_when, rule quiet_ops) (cases m; simp add: params)
  have loader: "leads (rbind (set_loader l st) k) (reports f (t\<lparr>t_loader := l\<rparr>))"
    if "\<And>st. reports f (t\<lparr>t_loader := l\<rparr>) st \<Longrightarrow> leads (k st) (reports f (t\<lparr>t_loader := l\<rparr>))" for k l
    by (rule leads_bind [OF leads_loader [OF assms(1,2)]]) (rule that)
  show ?thesis
    using assms(3) unfolding set_type_params_def
    by (auto simp: vmm_template_def vm_type_defs loader_for_def simp del: leads_Inr intro!: loader params epc paging)
qed

lemma leads_cpu:
  assumes "reports f t st" "t_loader t \<noteq> None" "get_distro dut = Inr distro" "g_vmtype vminst \<in> set (map fst vmm_template)"
  shows "leads (set_cpu_params_xml dut vminst st) (reports f (t\<lparr>t_loader := Some (loader_for distro (g_vmtype vminst))\<rparr>))"
  unfolding set_cpu_params_xml_def assms(3) rbind_Inr
  by (rule quiet_seq [OF assms(1)], rule quiet_ops) (rule leads_type_params [OF _ assms(2,4)])

lemma leads_boot:
  assumes "reports f t st" "t_kernel t \<noteq> None" "t_cmdline t \<noteq> None"
  shows "leads (set_boot_xml vminst st)
    (reports f (if g_boot vminst = BOOT_TYPE_GRUB then t\<lparr>t_kernel := None, t_cmdline := None\<rparr>
      else t\<lparr>t_kernel := g_kernel vminst, t_cmdline := Some (kc_cmdline (g_cmdline vminst))\<rparr>))"
proof -
  have "leads (rbind (set_kernel k st) (\<lambda>st. set_cmdline c st)) (reports f (t\<lparr>t_kernel := k, t_cmdline := c\<rparr>))" for k c
  proof (rule leads_bind [OF leads_kernel [OF assms(1,2)]])
    fix st
    assume "reports f (t\<lparr>t_kernel := k\<rparr>) st"
    from leads_cmdline [OF this] assms(3) show "leads (set_cmdline c st) (reports f (t\<lparr>t_kernel := k, t_cmdline := c\<rparr>))"
      by simp
  qed
  then show ?thesis by (simp add: set_boot_xml_def)
qed

text \<open>What a guest asks for.\<close>

definition guest_texts :: "string \<Rightarrow> vm_guest \<Rightarrow> vx_texts" where
  "guest_texts distro vminst =
     \<lparr>t_name = Some (g_name vminst), t_uuid = Some (g_vmid vminst),
      t_kernel = (if g_boot vminst = BOOT_TYPE_GRUB then None else g_kernel vminst),
      t_cmdline = (if g_boot vminst = BOOT_TYPE_GRUB then None else Some (kc_cmdline (g_cmdline vminst))),
      t_loader = Some (loader_for distro (g_vmtype vminst)),
      t_memory = Some (fmt_dec (int (memsize (g_vmspec vminst)))),
      t_vcpu = Some (fmt_dec (int (sockets (g_vmspec vminst) * cores (g_vmspec vminst) * threads (g_vmspec vminst))))\<rparr>"

lemma quiet_vtpm: "quiet (set_vtpm_xml vminst)"
  unfolding set_vtpm_xml_def by (intro quiet_when quiet_ops)

lemma leads_prepared:
  assumes "reports f ((doc_texts e)\<lparr>t_name := Some (g_name vminst)\<rparr>) st" "complete_template e" "get_distro dut = Inr distro"
    and "g_vmtype vminst \<in> set (map fst vmm_template)"
  shows "leads
    (rbind (set_memory (NInt (int (memsize (g_vmspec vminst)))) st) (\<lambda>st.
     rbind (set_uuid (Some (g_vmid vminst)) st) (\<lambda>st.
     rbind (set_imagefile i st) (\<lambda>st. rbind (set_iomode m st) (\<lambda>st. rbind (set_cache c st) (\<lambda>st. rbind (set_logfile l st) (\<lambda>st.
     rbind (set_vcpu (Inl (int (vcpus (g_vmspec vminst)))) st) (\<lambda>st.
     rbind (set_sockets x st) (\<lambda>st. rbind (set_cores y st) (\<lambda>st. rbind (set_threads z st) (\<lambda>st.
     rbind (domain_devices vminst st) (\<lambda>st.
     rbind (set_cpu_params_xml dut vminst st) (\<lambda>st.
     rbind (when_true b (set_vtpm_xml vminst) st) (\<lambda>st.
     rbind (when_some w (\<lambda>m. set_overcommit_params (g m)) st) (\<lambda>st.
     set_boot_xml vminst st))))))))))))))) (reports f (guest_texts distro vminst))"
proof -
  let ?t0 = "(doc_texts e)\<lparr>t_name := Some (g_name vminst), t_memory := Some (fmt_dec (int (memsize (g_vmspec vminst)))),
    t_uuid := Some (g_vmid vminst)\<rparr>"
  let ?t1 = "?t0\<lparr>t_vcpu := Some (fmt_dec (int (vcpus (g_vmspec vminst))))\<rparr>"
  let ?t2 = "?t1\<lparr>t_loader := Some (loader_for distro (g_vmtype vminst))\<rparr>"
  note present = assms(2) [unfolded complete_template_def Let_def]
  have t2: "(if g_boot vminst = BOOT_TYPE_GRUB then ?t2\<lparr>t_kernel := None, t_cmdline := None\<rparr>
      else ?t2\<lparr>t_kernel := g_kernel vminst, t_cmdline := Some (kc_cmdline (g_cmdline vminst))\<rparr>) = guest_texts distro vminst"
    by (cases "doc_texts e") (simp add: guest_texts_def vcpus_def)
  have last: "leads (rbind (set_cpu_params_xml dut vminst st) (\<lambda>st. rbind (when_true b (set_vtpm_xml vminst) st) (\<lambda>st.
      rbind (when_some w (\<lambda>m. set_overcommit_params (g m)) st) (\<lambda>st. set_boot_xml vminst st)))) (reports f (guest_texts distro vminst))"
    if "reports f ?t1 st" for st
  proof (rule leads_bind [OF leads_cpu [OF that _ assms(3,4)]])
    fix st
    assume st: "reports f ?t2 st"
    show "leads (rbind (when_true b (set_vtpm_xml vminst) st) (\<lambda>st.
      rbind (when_some w (\<lambda>m. set_overcommit_params (g m)) st) (\<lambda>st. set_boot_xml vminst st))) (reports f (guest_texts distro vminst))"
      by (rule quiet_seq [OF st], intro quiet_when quiet_vtpm, erule quiet_seq, intro quiet_when quiet_ops,
          subst t2 [symmetric], erule leads_boot) (use present in simp_all)
  qed (use present in simp)
  have first: "leads (rbind (set_memory (NInt (int (memsize (g_vmspec vminst)))) st) (\<lambda>st. rbind (set_uuid (Some (g_vmid vminst)) st) k))
      (reports f (guest_texts distro vminst))"
    if "\<And>st. reports f ?t0 st \<Longrightarrow> leads (k st) (reports f (guest_texts distro vminst))" for k
    by (rule leads_bind [OF leads_memory [OF assms(1)]], use present in simp, rule leads_bind, erule leads_uuid)
      (use that present in simp_all)
  have vcpu: "leads (rbind (set_vcpu (Inl (int (vcpus (g_vmspec vminst)))) st) k) (reports f (guest_texts distro vminst))"
    if "reports f ?t0 st" "\<And>st. reports f ?t1 st \<Longrightarrow> leads (k st) (reports f (guest_texts distro vminst))" for st k
    by (rule leads_bind [OF leads_vcpu [OF that(1)]]) (use that(2) present in simp_all)
  show ?thesis
    by (rule first, (erule quiet_seq, rule quiet_ops)+, erule vcpu, (erule quiet_seq, rule quiet_ops)+,
        rule leads_bind, erule leads_devices, erule last)
qed

text \<open>C24: The description that is built for a guest describes that guest: when it is built from a complete template and its file
  can be written, it reports the name, identifier, memory, processor count, firmware and, for direct boot, the kernel and the
  command line of the guest (none of the two for boot through grub), and so does the file.\<close>

theorem prepare_domain_xml_describes:
  assumes "prepare_domain_xml dut this_dir output vminst files = Inr (self, files')"
    and "key_of vmm_template (g_vmtype vminst) = Inr template"
    and "document files (path_join (get_templates_dir this_dir) (template @ ''.xml'')) = Some e" "complete_template e"
    and "doc_writable files (path_join output (g_name vminst @ ''.xml''))" "get_distro dut = Inr distro"
  shows "texts self = guest_texts distro vminst \<and>
    (\<exists>d. document files' (path_join output (g_name vminst @ ''.xml'')) = Some d \<and>
      doc_texts d = saved_texts (guest_texts distro vminst))"
proof -
  let ?f = "path_join output (g_name vminst @ ''.xml'')"
  have ty: "g_vmtype vminst \<in> set (map fst vmm_template)"
    using assms(2) by (auto simp: key_of_def split: option.splits dest!: map_of_SomeD intro: rev_image_eqI)
  obtain st where st: "vx_clone this_dir output template (g_name vminst) files = Inr (Some st)"
    using assms(1,2) by (auto simp: prepare_domain_xml_def rbind_def split: sum.splits option.splits)
  have "reports ?f ((doc_texts e)\<lparr>t_name := Some (g_name vminst)\<rparr>) st"
    by (rule vx_clone_reports [OF st assms(5,3)]) (use assms(4) in \<open>simp add: complete_template_def Let_def\<close>)
  from leads_prepared [OF this assms(4,6) ty] have "reports ?f (guest_texts distro vminst) (self, files')"
    using assms(1) unfolding prepare_domain_xml_def assms(2) st rbind_Inr option.simps by (rule leadsD)
  then show ?thesis
    using reports_file by (fastforce simp: reports_def)
qed

definition demo_guest :: vm_guest where
  "demo_guest =
     \<lparr>g_vmid = ''0b75b1f8'', g_name = ''td-1'', g_image = ''/tmp/td-1.qcow2'', g_distro = Some ''ubuntu'', g_vmspec = model_base,
      g_epc = None, g_vmtype = VM_TYPE_TD, g_boot = BOOT_TYPE_DIRECT, g_kernel = Some ''/boot/vmlinuz'',
      g_cmdline = KernelCmdline DEFAULT_CMDLINE, g_hugepages = False, g_hugepage_size = ''2M'', g_vsock = False, g_vsock_cid = 3,
      g_keep = False, g_cpu_ids = None, g_mem_numa = None, g_io_mode = Some ''native'', g_cache = Some ''none'', g_diskfile_path = None,
      g_tsx = Some False, g_tsc = None, g_mwait = None, g_has_vtpm = False, g_vtpm_path = None, g_vtpm_log = None,
      g_hugepage_path = None, g_driver = None\<rparr>"

definition demo_host :: dut_env where
  "demo_host = demo_dut\<lparr>dut_file := (\<lambda>p.
     if p = ''/etc/os-release'' then Some (encode ''NAME=Ubuntu'')
     else if p = ''/sys/devices/system/cpu/cpu0/cpufreq/base_frequency'' then Some (encode ''2000000'') else None)\<rparr>"

lemma demo_numbers: "fmt_dec 16777216 = ''16777216''" "fmt_dec 4 = ''4''" "fmt_dec 1 = ''1''"
  by (simp_all add: fmt_dec_def dec_digits.simps char_of_def bit_0)

lemma demo_distro: "get_distro demo_host = Inr ''name=ubuntu''"
proof -
  have "decode (encode ''NAME=Ubuntu'') = Inr ''NAME=Ubuntu''"
    by (rule decode_encode_ascii) (simp add: ord_byte_def)
  moreover have "lower ''NAME=Ubuntu'' = ''name=ubuntu''"
    by (simp add: lower_def lower_char_def char_of_def bit_0)
  moreover have "split_space ''name=ubuntu'' = [''name=ubuntu'']"
    by (simp add: py_space_def)
  ultimately show ?thesis
    by (simp add: get_distro_def read_text_def demo_host_def item_of_def del: encode_simps split_space.simps)
qed

lemma demo_freq: "get_cpu_base_freq demo_host = Inr 2000000"
  by (simp add: get_cpu_base_freq_def read_text_def demo_host_def decode_def encode_def utf8_valid_ascii ord_byte_def chr_byte_def
      int_base10_def py_strip_def py_space_def char_of_def bit_0)

text \<open>Documents in which the template is found and the output directory can be written.\<close>

definition usable :: "doc_files \<Rightarrow> bool" where
  "usable docs \<longleftrightarrow> document docs ''/opt/templates/tdx-base.xml'' = Some demo_template \<and> (\<forall>p. doc_writable docs p = starts_with ''/tmp'' p)"

lemma demo_prepared_any:
  assumes "usable docs"
  shows "\<exists>x docs'. prepare_domain_xml demo_host ''/opt'' ''/tmp'' (demo_guest\<lparr>g_cmdline := l, g_distro := d\<rparr>) docs = Inr (x, docs') \<and> usable docs'"
  using assms
  by (simp add: usable_def prepare_domain_xml_def key_of_def vmm_template_def vm_type_defs demo_distro demo_freq set_cpu_params_xml_def
      set_type_params_def td_cpu_param_def when_true_def when_some_def when_truthy_def domain_devices_def set_boot_xml_def
      BOOT_TYPE_GRUB_def BOOT_TYPE_DIRECT_def Let_def demo_guest_def vcpus_def KernelCmdline_def elem_eval xml_eval op_eval setter_eval
      demo_template_def VirtXml_def model_base_def VMSpec_def demo_numbers BIOS_OVMF_def QEMU_EXEC_UBUNTU_def DEFAULT_CMDLINE_def)

theorem prepare_domain_xml_describes_witness:
  "\<exists>self files'. prepare_domain_xml demo_host ''/opt'' ''/tmp'' demo_guest demo_docs = Inr (self, files') \<and>
     texts self = guest_texts ''name=ubuntu'' demo_guest"
proof -
  obtain self files' where p: "prepare_domain_xml demo_host ''/opt'' ''/tmp'' demo_guest demo_docs = Inr (self, files')"
    using demo_prepared_any [of demo_docs "g_distro demo_guest" "g_cmdline demo_guest"] by (auto simp: usable_def demo_docs_def)
  have k: "key_of vmm_template (g_vmtype demo_guest) = Inr ''tdx-base''"
    by (simp add: key_of_def vmm_template_def demo_guest_def vm_type_defs)
  have d: "document demo_docs (path_join (get_templates_dir ''/opt'') (''tdx-base'' @ ''.xml'')) = Some demo_template"
    "complete_template demo_template" "doc_writable demo_docs (path_join ''/tmp'' (g_name demo_guest @ ''.xml''))"
    by (simp_all add: elem_eval xml_eval op_eval demo_eval demo_guest_def complete_template_def doc_texts_def)
  show ?thesis
    using prepare_domain_xml_describes [OF p k d demo_distro] p by blast
qed

section \<open>The manager\<close>

text \<open>The states of a domain that libvirt reports.\<close>

datatype dom_state = NoState | Running | Blocked | Paused | ShutdownInProgress | Shutoff | Crashed | PmSuspended

text \<open>libvirt, the host's \<open>arp\<close> table, the passing of a second and the removal of files.  A call that changes a domain gives \<open>False\<close>
  when it raises a \<open>libvirtError\<close>; a query gives \<open>None\<close> then.\<close>

record 'h libvirt =
  lv_open :: "'h \<Rightarrow> bool"
  lv_lookup :: "string \<Rightarrow> 'h \<Rightarrow> bool"
  lv_define :: "xml \<Rightarrow> 'h \<Rightarrow> string option \<times> 'h"
  lv_create :: "string \<Rightarrow> 'h \<Rightarrow> bool \<times> 'h"
  lv_destroy :: "string \<Rightarrow> 'h \<Rightarrow> bool \<times> 'h"
  lv_undefine :: "string \<Rightarrow> 'h \<Rightarrow> bool \<times> 'h"
  lv_suspend :: "string \<Rightarrow> 'h \<Rightarrow> bool \<times> 'h"
  lv_resume :: "string \<Rightarrow> 'h \<Rightarrow> bool \<times> 'h"
  lv_reboot :: "string \<Rightarrow> 'h \<Rightarrow> bool \<times> 'h"
  lv_shutdown :: "string option \<Rightarrow> string \<Rightarrow> 'h \<Rightarrow> bool \<times> 'h"
  lv_state :: "string \<Rightarrow> 'h \<Rightarrow> dom_state option"
  lv_active :: "string \<Rightarrow> 'h \<Rightarrow> bool option"
  lv_xmldesc :: "string \<Rightarrow> 'h \<Rightarrow> string option"
  arp_stdout :: "'h \<Rightarrow> string list"
  sleep_1 :: "'h \<Rightarrow> 'h"
  removable :: "string \<Rightarrow> bool"

record 'h vmm_state =
  vm_host :: 'h
  vm_docs :: doc_files
  vm_files :: "string set"
  vm_xml :: virt_xml
  vm_ip :: "string option"

definition libvirtError :: py_error where
  "libvirtError = Raised ''libvirtError''"

definition lv_call :: "('h \<Rightarrow> bool \<times> 'h) \<Rightarrow> ('h vmm_state, unit) eff" where
  "lv_call f = (\<lambda>s. case f (vm_host s) of (ok, h) \<Rightarrow> (if ok then Inr () else Inl libvirtError, s\<lparr>vm_host := h\<rparr>))"

definition lv_query :: "('h \<Rightarrow> 'a option) \<Rightarrow> ('h vmm_state, 'a) eff" where
  "lv_query f = (\<lambda>s. (case f (vm_host s) of None \<Rightarrow> Inl libvirtError | Some x \<Rightarrow> Inr x, s))"

text \<open>A call on the result of \<open>_get_domain\<close>, which is \<open>None\<close> for an unknown domain.\<close>

definition on_dom :: "string option \<Rightarrow> (string \<Rightarrow> ('s, 'a) eff) \<Rightarrow> ('s, 'a) eff" where
  "on_dom handle f = (case handle of None \<Rightarrow> eraise AttributeError | Some d \<Rightarrow> f d)"

text \<open>\<open>_connect_virt\<close>: a connection that can not be opened is an assertion that fails.\<close>

definition connect_virt :: "'h libvirt \<Rightarrow> 'h \<Rightarrow> unit result" where
  "connect_virt lv h = py_assert (lv_open lv h)"

declare connect_virt_def [simp]

definition new_manager ::
  "'h libvirt \<Rightarrow> dut_env \<Rightarrow> string \<Rightarrow> string \<Rightarrow> vm_guest \<Rightarrow> 'h \<Rightarrow> doc_files \<Rightarrow> string set \<Rightarrow> 'h vmm_state result"
where
  "new_manager lv dut this_dir output vminst h docs files =
     rbind (connect_virt lv h) (\<lambda>_.
     rbind (prepare_domain_xml dut this_dir output vminst docs) (\<lambda>(xmlobj, docs).
     Inr \<lparr>vm_host = h, vm_docs = docs, vm_files = files, vm_xml = xmlobj, vm_ip = None\<rparr>))"

definition get_domain :: "'h libvirt \<Rightarrow> vm_guest \<Rightarrow> ('h vmm_state, string option) eff" where
  "get_domain lv vminst = eget (\<lambda>s. if lv_lookup lv (g_vmid vminst) (vm_host s) then Some (g_vmid vminst) else None)"

definition get_domain_by_uuid :: "'h libvirt \<Rightarrow> string \<Rightarrow> ('h vmm_state, string option) eff" where
  "get_domain_by_uuid lv domain_uuid = eget (\<lambda>s. if lv_lookup lv domain_uuid (vm_host s) then Some domain_uuid else None)"

definition vmm_create :: "'h libvirt \<Rightarrow> ('h vmm_state, unit) eff" where
  "vmm_create lv = (\<lambda>s.
     case tostring (vm_xml s) of
       Inl e \<Rightarrow> (Inl e, s)
     | Inr x \<Rightarrow>
         (case lv_define lv x (vm_host s) of
            (None, h) \<Rightarrow> (Inl libvirtError, s\<lparr>vm_host := h\<rparr>)
          | (Some d, h) \<Rightarrow> lv_call (lv_create lv d) (s\<lparr>vm_host := h\<rparr>)))"

definition is_running :: "'h libvirt \<Rightarrow> vm_guest \<Rightarrow> ('h vmm_state, bool) eff" where
  "is_running lv vminst =
     ebind (get_domain lv vminst) (\<lambda>dom. on_dom dom (\<lambda>d.
     ebind (lv_query (lv_state lv d)) (\<lambda>st. eret (st = Running))))"

definition is_shutoff :: "'h libvirt \<Rightarrow> vm_guest \<Rightarrow> ('h vmm_state, bool) eff" where
  "is_shutoff lv vminst =
     ebind (get_domain lv vminst) (\<lambda>dom. on_dom dom (\<lambda>d.
     ebind (lv_query (lv_state lv d)) (\<lambda>st. eret (st = Shutoff))))"

definition vmm_suspend :: "'h libvirt \<Rightarrow> vm_guest \<Rightarrow> ('h vmm_state, unit) eff" where
  "vmm_suspend lv vminst =
     ebind (get_domain lv vminst) (\<lambda>dom.
     ebind (is_running lv vminst) (\<lambda>running.
     if running then on_dom dom (\<lambda>d. lv_call (lv_suspend lv d)) else eret ()))"

definition vmm_resume :: "'h libvirt \<Rightarrow> vm_guest \<Rightarrow> ('h vmm_state, unit) eff" where
  "vmm_resume lv vminst =
     ebind (get_domain lv vminst) (\<lambda>dom.
     ebind (is_running lv vminst) (\<lambda>running.
     if \<not> running then on_dom dom (\<lambda>d. lv_call (lv_resume lv d)) else eret ()))"

definition vmm_start :: "'h libvirt \<Rightarrow> vm_guest \<Rightarrow> ('h vmm_state, unit) eff" where
  "vmm_start lv vminst =
     ebind (is_shutoff lv vminst) (\<lambda>off.
     if off then ebind (get_domain lv vminst) (\<lambda>dom. on_dom dom (\<lambda>d. lv_call (lv_create lv d)))
     else vmm_resume lv vminst)"

definition vmm_reboot :: "'h libvirt \<Rightarrow> vm_guest \<Rightarrow> ('h vmm_state, unit) eff" where
  "vmm_reboot lv vminst = ebind (get_domain lv vminst) (\<lambda>dom. on_dom dom (\<lambda>d. lv_call (lv_reboot lv d)))"

text \<open>\<open>shutdown\<close>: an unknown mode does nothing.  The modes are passed on as flags.\<close>

definition vmm_shutdown :: "'h libvirt \<Rightarrow> vm_guest \<Rightarrow> string option \<Rightarrow> ('h vmm_state, unit) eff" where
  "vmm_shutdown lv vminst mode =
     ebind (get_domain lv vminst) (\<lambda>dom.
     if mode \<in> {None, Some ''default'', Some ''acpi'', Some ''agent''} then on_dom dom (\<lambda>d. lv_call (lv_shutdown lv mode d))
     else eret ())"

definition vmm_get_state :: "'h libvirt \<Rightarrow> vm_guest \<Rightarrow> ('h vmm_state, string option) eff" where
  "vmm_get_state lv vminst =
     ebind (get_domain lv vminst) (\<lambda>dom. on_dom dom (\<lambda>d.
     ebind (lv_query (lv_state lv d)) (\<lambda>st.
     eret (case st of
        Running \<Rightarrow> Some VM_STATE_RUNNING
      | Paused \<Rightarrow> Some VM_STATE_PAUSE
      | ShutdownInProgress \<Rightarrow> Some VM_STATE_SHUTDOWN_IN_PROGRESS
      | Shutoff \<Rightarrow> Some VM_STATE_SHUTDOWN
      | _ \<Rightarrow> None))))"

text \<open>\<open>destroy\<close>: errors of libvirt and of the file system are only logged.\<close>

definition destroy_domain :: "'h libvirt \<Rightarrow> string \<Rightarrow> bool \<Rightarrow> 'h \<Rightarrow> 'h" where
  "destroy_domain lv d is_undefined h =
     (let h = (if lv_active lv d h = Some True then snd (lv_destroy lv d h) else h) in
      if is_undefined then snd (lv_undefine lv d h) else h)"

definition vmm_destroy :: "'h libvirt \<Rightarrow> vm_guest \<Rightarrow> bool \<Rightarrow> ('h vmm_state, unit) eff" where
  "vmm_destroy lv vminst is_undefined =
     ebind (get_domain lv vminst) (\<lambda>dom.
     ebind (case dom of None \<Rightarrow> eret () | Some d \<Rightarrow> eput (\<lambda>s. s\<lparr>vm_host := destroy_domain lv d is_undefined (vm_host s)\<rparr>)) (\<lambda>_.
     ebind (eget (\<lambda>s. vx_filepath (vm_xml s))) (\<lambda>path.
     case path of
       None \<Rightarrow> eraise TypeError
     | Some p \<Rightarrow> eput (\<lambda>s. if removable lv p then s\<lparr>vm_docs := (vm_docs s)\<lparr>document := (document (vm_docs s))(p := None)\<rparr>\<rparr> else s))))"

definition delete_log :: "'h libvirt \<Rightarrow> ('h vmm_state, unit) eff" where
  "delete_log lv =
     ebind (eget (\<lambda>s. vx_logfile (vm_xml s))) (\<lambda>log.
     case log of
       None \<Rightarrow> eraise TypeError
     | Some p \<Rightarrow> eput (\<lambda>s. if removable lv p then s\<lparr>vm_files := vm_files s - {p}\<rparr> else s))"

section \<open>The address of a guest\<close>

definition mac_in_xml :: regex where
  "mac_in_xml = [(False, Lit ''<mac address=''), (False, Lit [CHR 0x27]), (True, Rep (\<lambda>c. rx_alnum c \<or> c = CHR '':'') 1 None),
     (False, Lit [CHR 0x27])]"

definition ip_in_line :: regex where
  "ip_in_line = [(True, Rep rx_digit 1 (Some 3)), (True, Lit ''.''), (True, Rep rx_digit 1 (Some 3)), (True, Lit ''.''),
     (True, Rep rx_digit 1 (Some 3)), (True, Lit ''.''), (True, Rep rx_digit 1 (Some 3))]"

definition mac_in_line :: regex where
  "mac_in_line = [(True, Rep rx_word 1 None), (True, Lit '':''), (True, Rep rx_word 1 None), (True, Lit '':''),
     (True, Rep rx_word 1 None), (True, Lit '':''), (True, Rep rx_word 1 None), (True, Lit '':''),
     (True, Rep rx_word 1 None), (True, Lit '':''), (True, Rep rx_word 1 None)]"

definition vtpm_id_in_xml :: regex where
  "vtpm_id_in_xml = [(False, Lit ''<vtpmid>''), (True, Rep (\<lambda>c. c \<noteq> CHR 0x0A) 0 None), (False, Lit ''</vtpmid>'')]"

definition get_vtpm_id :: "'h libvirt \<Rightarrow> vm_guest \<Rightarrow> ('h vmm_state, string) eff" where
  "get_vtpm_id lv vminst =
     ebind (get_domain lv vminst) (\<lambda>dom. on_dom dom (\<lambda>d.
     ebind (lv_query (lv_xmldesc lv d)) (\<lambda>x.
     case rx_search vtpm_id_in_xml x of None \<Rightarrow> eraise AttributeError | Some v \<Rightarrow> eret v)))"

definition ARP_INTERVAL :: nat where
  "ARP_INTERVAL = 120"

text \<open>One reading of the table: a later line with the address wins.\<close>

fun arp_scan :: "string \<Rightarrow> string list \<Rightarrow> string option \<Rightarrow> string option" where
  "arp_scan mac [] ip = ip"
| "arp_scan mac (line # ls) ip =
     (case (rx_search ip_in_line line, rx_search mac_in_line line) of
        (Some ipaddr, Some macaddr) \<Rightarrow> arp_scan mac ls (if macaddr = mac then Some ipaddr else ip)
      | _ \<Rightarrow> arp_scan mac ls ip)"

fun arp_wait :: "'h libvirt \<Rightarrow> string \<Rightarrow> nat \<Rightarrow> 'h vmm_state \<Rightarrow> 'h vmm_state" where
  "arp_wait lv mac 0 s = s"
| "arp_wait lv mac (Suc retry) s =
     (let s = s\<lparr>vm_ip := arp_scan mac (arp_stdout lv (vm_host s)) (vm_ip s)\<rparr> in
      if vm_ip s \<noteq> None then s else arp_wait lv mac retry (s\<lparr>vm_host := sleep_1 lv (vm_host s)\<rparr>))"

definition get_ip :: "'h libvirt \<Rightarrow> vm_guest \<Rightarrow> bool \<Rightarrow> ('h vmm_state, string option) eff" where
  "get_ip lv vminst force_refresh =
     ebind (eget vm_ip) (\<lambda>ip.
     if \<not> force_refresh \<and> ip \<noteq> None then eret ip
     else
       ebind (get_domain lv vminst) (\<lambda>dom. on_dom dom (\<lambda>d.
       ebind (lv_query (lv_xmldesc lv d)) (\<lambda>x.
       case rx_search mac_in_xml x of
         None \<Rightarrow> eraise AttributeError
       | Some mac \<Rightarrow> ebind (eput (arp_wait lv mac ARP_INTERVAL)) (\<lambda>_. eget vm_ip)))))"

text \<open>The operations that the manager does not implement.\<close>

definition vmm_update_kernel_cmdline :: "kernel_cmdline \<Rightarrow> ('s, unit) eff" where
  "vmm_update_kernel_cmdline cmdline = eraise NotImplementedError"

definition vmm_update_kernel :: "string \<Rightarrow> ('s, unit) eff" where
  "vmm_update_kernel new_kernel = eraise NotImplementedError"

definition vmm_update_vmspec :: "vm_spec \<Rightarrow> ('s, unit) eff" where
  "vmm_update_vmspec new_vmspec = eraise NotImplementedError"

section \<open>Waiting for an address\<close>

lemma arp_scan_old: "arp_scan mac ls (Some old) = Some (case arp_scan mac ls None of None \<Rightarrow> old | Some ip \<Rightarrow> ip)"
proof (induction ls arbitrary: old)
  case (Cons l ls)
  show ?case
    using Cons [of old] Cons by (simp split: option.splits)
qed simp

text \<open>The address that the \<open>k\<close>-th reading of the table shows.\<close>

definition seen_ip :: "'h libvirt \<Rightarrow> string \<Rightarrow> 'h \<Rightarrow> nat \<Rightarrow> string option" where
  "seen_ip lv mac h k = arp_scan mac (arp_stdout lv ((sleep_1 lv ^^ k) h)) None"

lemma arp_wait_step:
  assumes "vm_ip s = None" "seen_ip lv mac (vm_host s) 0 = None"
  shows "arp_wait lv mac (Suc n) s = arp_wait lv mac n (s\<lparr>vm_host := sleep_1 lv (vm_host s)\<rparr>)"
proof -
  have same: "s\<lparr>vm_ip := None\<rparr> = s" using assms(1) by (cases s) simp
  have "arp_scan mac (arp_stdout lv (vm_host s)) (vm_ip s) = None" using assms by (simp add: seen_ip_def)
  then show ?thesis unfolding arp_wait.simps Let_def by (simp only: same) (simp add: assms(1))
qed

lemma seen_ip_shift: "seen_ip lv mac (sleep_1 lv h) j = seen_ip lv mac h (Suc j)"
  by (simp add: seen_ip_def funpow_swap1)

lemma arp_wait_finds:
  "vm_ip s = None \<Longrightarrow> k < n \<Longrightarrow> (\<And>j. j < k \<Longrightarrow> seen_ip lv mac (vm_host s) j = None) \<Longrightarrow> seen_ip lv mac (vm_host s) k = Some ip
    \<Longrightarrow> arp_wait lv mac n s = s\<lparr>vm_ip := Some ip, vm_host := (sleep_1 lv ^^ k) (vm_host s)\<rparr>"
proof (induction n arbitrary: s k)
  case (Suc n)
  show ?case
  proof (cases k)
    case 0
    then show ?thesis using Suc.prems by (simp add: seen_ip_def)
  next
    case (Suc m)
    have "seen_ip lv mac (vm_host s) 0 = None" using Suc.prems(3) [of 0] Suc by simp
    note arp_wait_step [OF Suc.prems(1) this]
    then show ?thesis
      using Suc Suc.prems Suc.IH [of "s\<lparr>vm_host := sleep_1 lv (vm_host s)\<rparr>" m] by (simp add: seen_ip_shift funpow_swap1)
  qed
qed simp

lemma arp_wait_gives_up:
  "vm_ip s = None \<Longrightarrow> (\<And>j. j < n \<Longrightarrow> seen_ip lv mac (vm_host s) j = None)
    \<Longrightarrow> arp_wait lv mac n s = s\<lparr>vm_host := (sleep_1 lv ^^ n) (vm_host s)\<rparr>"
proof (induction n arbitrary: s)
  case (Suc n)
  have "seen_ip lv mac (vm_host s) 0 = None" using Suc.prems(2) [of 0] by simp
  note arp_wait_step [OF Suc.prems(1) this]
  then show ?case
    using Suc by (simp add: seen_ip_shift funpow_swap1)
qed simp

end
