(* ===== verification/Vmm_Laws.thy ===== *)
theory Vmm_Laws
  imports Vmm
begin

text \<open>
  What the manager does to a domain: the documented behaviour of libvirt as a hypothesis, the life cycle that the manager
  promises as an abstract machine, and the proof that the operations implement it; and how long the manager looks for the
  address of a guest.
\<close>

section \<open>The documented behaviour of libvirt\<close>

definition status :: "'h libvirt \<Rightarrow> string \<Rightarrow> 'h \<Rightarrow> dom_state option" where
  "status lv u h = (if lv_lookup lv u h then lv_state lv u h else None)"

text \<open>\<open>call_moves f pre post\<close>: the call succeeds exactly on a domain in the state \<open>pre\<close> and moves it to \<open>post\<close>; a call that fails
  leaves it as it was.\<close>

definition call_moves :: "'h libvirt \<Rightarrow> string \<Rightarrow> ('h \<Rightarrow> bool \<times> 'h) \<Rightarrow> (dom_state option \<Rightarrow> bool) \<Rightarrow> dom_state option \<Rightarrow> bool" where
  "call_moves lv u f pre post \<longleftrightarrow>
     (\<forall>h. (fst (f h) \<longleftrightarrow> pre (status lv u h)) \<and> status lv u (snd (f h)) = (if pre (status lv u h) then post else status lv u h))"

text \<open>The life of one persistent domain on a host without failures, for the states that the manager brings it into: a
  domain that is defined is shut off; a start needs a domain that is shut off, a suspension a running one and a
  resumption a paused one; destroying needs an active domain, and a domain that is shut off can be undefined.\<close>

definition libvirt_laws :: "'h libvirt \<Rightarrow> string \<Rightarrow> bool" where
  "libvirt_laws lv u \<longleftrightarrow>
     (\<forall>h. lv_lookup lv u h \<longrightarrow> lv_state lv u h \<noteq> None) \<and>
     (\<forall>h. lv_active lv u h = map_option (\<lambda>d. d \<noteq> Shutoff) (status lv u h)) \<and>
     (\<forall>e h. get_single_element_value [''uuid''] e = Some u \<longrightarrow>
        fst (lv_define lv e h) = Some u \<and>
        status lv u (snd (lv_define lv e h)) = (if status lv u h = None then Some Shutoff else status lv u h)) \<and>
     call_moves lv u (lv_create lv u) (\<lambda>d. d = Some Shutoff) (Some Running) \<and>
     call_moves lv u (lv_suspend lv u) (\<lambda>d. d = Some Running) (Some Paused) \<and>
     call_moves lv u (lv_resume lv u) (\<lambda>d. d = Some Paused) (Some Running) \<and>
     call_moves lv u (lv_destroy lv u) (\<lambda>d. d \<noteq> None \<and> d \<noteq> Some Shutoff) (Some Shutoff) \<and>
     call_moves lv u (lv_undefine lv u) (\<lambda>d. d = Some Shutoff) None"

section \<open>The life cycle\<close>

datatype vmm_op = Create | Start | Suspend | Resume | Destroy bool

definition do_op :: "'h libvirt \<Rightarrow> vm_guest \<Rightarrow> vmm_op \<Rightarrow> ('h vmm_state, unit) eff" where
  "do_op lv vminst op =
     (case op of
        Create \<Rightarrow> vmm_create lv
      | Start \<Rightarrow> vmm_start lv vminst
      | Suspend \<Rightarrow> vmm_suspend lv vminst
      | Resume \<Rightarrow> vmm_resume lv vminst
      | Destroy is_undefined \<Rightarrow> vmm_destroy lv vminst is_undefined)"

text \<open>What the manager promises: the state after an operation, or the exception that leaves the state as it was.\<close>

fun life :: "vmm_op \<Rightarrow> dom_state option \<Rightarrow> dom_state option result" where
  "life Create d = (if d = None \<or> d = Some Shutoff then Inr (Some Running) else Inl libvirtError)"
| "life Start d =
     (if d = None then Inl AttributeError
      else if d = Some Shutoff \<or> d = Some Paused \<or> d = Some Running then Inr (Some Running)
      else Inl libvirtError)"
| "life Suspend d = (if d = None then Inl AttributeError else if d = Some Running then Inr (Some Paused) else Inr d)"
| "life Resume d =
     (if d = None then Inl AttributeError
      else if d = Some Paused \<or> d = Some Running then Inr (Some Running)
      else Inl libvirtError)"
| "life (Destroy is_undefined) d = Inr (if is_undefined \<or> d = None then None else Some Shutoff)"

text \<open>A sequence of operations; an exception ends it.\<close>

fun do_ops :: "'h libvirt \<Rightarrow> vm_guest \<Rightarrow> vmm_op list \<Rightarrow> ('h vmm_state, unit) eff" where
  "do_ops lv vminst [] = eret ()"
| "do_ops lv vminst (op # ops) = ebind (do_op lv vminst op) (\<lambda>_. do_ops lv vminst ops)"

fun lives :: "vmm_op list \<Rightarrow> dom_state option \<Rightarrow> unit result \<times> dom_state option" where
  "lives [] d = (Inr (), d)"
| "lives (op # ops) d = (case life op d of Inl e \<Rightarrow> (Inl e, d) | Inr d' \<Rightarrow> lives ops d')"

text \<open>The manager's document is the one of the guest and can be passed on.\<close>

definition ready :: "vm_guest \<Rightarrow> 'h vmm_state \<Rightarrow> bool" where
  "ready vminst s \<longleftrightarrow>
     vx_filepath (vm_xml s) \<noteq> None \<and>
     (\<exists>e. tostring (vm_xml s) = Inr e \<and> get_single_element_value [''uuid''] e = Some (g_vmid vminst))"

section \<open>The operations implement the life cycle\<close>

definition implements :: "'h libvirt \<Rightarrow> vm_guest \<Rightarrow> ('h vmm_state, unit) eff \<Rightarrow> (dom_state option \<Rightarrow> dom_state option result) \<Rightarrow> bool" where
  "implements lv vminst m spec \<longleftrightarrow>
     (\<forall>s. ready vminst s \<longrightarrow>
        (let (r, s') = m s; d = status lv (g_vmid vminst) (vm_host s); d' = status lv (g_vmid vminst) (vm_host s') in
         vm_xml s' = vm_xml s \<and> (case spec d of Inl e \<Rightarrow> r = Inl e \<and> d' = d | Inr x \<Rightarrow> r = Inr () \<and> d' = x)))"

lemma is_running_run:
  assumes "libvirt_laws lv (g_vmid vminst)"
  shows "is_running lv vminst s =
    (case status lv (g_vmid vminst) (vm_host s) of None \<Rightarrow> Inl AttributeError | Some d \<Rightarrow> Inr (d = Running), s)"
    and "is_shutoff lv vminst s =
    (case status lv (g_vmid vminst) (vm_host s) of None \<Rightarrow> Inl AttributeError | Some d \<Rightarrow> Inr (d = Shutoff), s)"
  using assms
  by (auto simp: is_running_def is_shutoff_def get_domain_def on_dom_def status_def lv_query_def libvirt_laws_def ebind_def split: option.splits)

lemma get_domain_run:
  assumes "libvirt_laws lv (g_vmid vminst)"
  shows "get_domain lv vminst s =
    (Inr (if status lv (g_vmid vminst) (vm_host s) = None then None else Some (g_vmid vminst)), s)"
  using assms by (auto simp: get_domain_def status_def libvirt_laws_def)

lemma lv_call_moves:
  assumes "call_moves lv u f pre post" "lv_call f s = (r, s')"
  shows "vm_xml s' = vm_xml s" "r = (if pre (status lv u (vm_host s)) then Inr () else Inl libvirtError)"
    "status lv u (vm_host s') = (if pre (status lv u (vm_host s)) then post else status lv u (vm_host s))"
proof -
  obtain ok h where f: "f (vm_host s) = (ok, h)" by (cases "f (vm_host s)")
  have "ok = pre (status lv u (vm_host s))"
    "status lv u h = (if pre (status lv u (vm_host s)) then post else status lv u (vm_host s))"
    using assms(1) f unfolding call_moves_def by (metis fst_conv, metis snd_conv)
  then show "vm_xml s' = vm_xml s" "r = (if pre (status lv u (vm_host s)) then Inr () else Inl libvirtError)"
    "status lv u (vm_host s') = (if pre (status lv u (vm_host s)) then post else status lv u (vm_host s))"
    using assms(2) f by (auto simp: lv_call_def)
qed

lemma libvirt_lawsD:
  assumes "libvirt_laws lv u"
  shows "call_moves lv u (lv_create lv u) (\<lambda>d. d = Some Shutoff) (Some Running)"
    "call_moves lv u (lv_suspend lv u) (\<lambda>d. d = Some Running) (Some Paused)"
    "call_moves lv u (lv_resume lv u) (\<lambda>d. d = Some Paused) (Some Running)"
    "call_moves lv u (lv_destroy lv u) (\<lambda>d. d \<noteq> None \<and> d \<noteq> Some Shutoff) (Some Shutoff)"
    "call_moves lv u (lv_undefine lv u) (\<lambda>d. d = Some Shutoff) None"
    "lv_active lv u h = map_option (\<lambda>d. d \<noteq> Shutoff) (status lv u h)"
    "get_single_element_value [''uuid''] e = Some u \<Longrightarrow> fst (lv_define lv e h) = Some u \<and>
        status lv u (snd (lv_define lv e h)) = (if status lv u h = None then Some Shutoff else status lv u h)"
  using assms unfolding libvirt_laws_def by blast+

lemma implementsI:
  assumes "\<And>s r s'. ready vminst s \<Longrightarrow> m s = (r, s') \<Longrightarrow> vm_xml s' = vm_xml s \<and>
    (case spec (status lv (g_vmid vminst) (vm_host s)) of
       Inl e \<Rightarrow> r = Inl e \<and> status lv (g_vmid vminst) (vm_host s') = status lv (g_vmid vminst) (vm_host s)
     | Inr x \<Rightarrow> r = Inr () \<and> status lv (g_vmid vminst) (vm_host s') = x)"
  shows "implements lv vminst m spec"
  unfolding implements_def Let_def using assms by (simp split: prod.split)

lemma implementsD:
  assumes "implements lv vminst m spec" "ready vminst s" "m s = (r, s')"
  shows "vm_xml s' = vm_xml s \<and>
    (case spec (status lv (g_vmid vminst) (vm_host s)) of
       Inl e \<Rightarrow> r = Inl e \<and> status lv (g_vmid vminst) (vm_host s') = status lv (g_vmid vminst) (vm_host s)
     | Inr x \<Rightarrow> r = Inr () \<and> status lv (g_vmid vminst) (vm_host s') = x)"
  using assms(1) [unfolded implements_def, rule_format, OF assms(2)] assms(3) by (simp add: Let_def)

lemma suspend_implements:
  assumes "libvirt_laws lv (g_vmid vminst)"
  shows "implements lv vminst (vmm_suspend lv vminst) (life Suspend)"
proof (rule implementsI, goal_cases)
  case (1 s r s')
  then show ?case
    using lv_call_moves [OF libvirt_lawsD(2) [OF assms], of s r s']
    by (auto simp: vmm_suspend_def ebind_def get_domain_run [OF assms] is_running_run [OF assms] on_dom_def split: option.splits if_splits)
qed

lemma resume_implements:
  assumes "libvirt_laws lv (g_vmid vminst)"
  shows "implements lv vminst (vmm_resume lv vminst) (life Resume)"
proof (rule implementsI, goal_cases)
  case (1 s r s')
  then show ?case
    using lv_call_moves [OF libvirt_lawsD(3) [OF assms], of s r s']
    by (auto simp: vmm_resume_def ebind_def get_domain_run [OF assms] is_running_run [OF assms] on_dom_def split: option.splits if_splits)
qed

lemma start_implements:
  assumes "libvirt_laws lv (g_vmid vminst)"
  shows "implements lv vminst (vmm_start lv vminst) (life Start)"
proof (rule implementsI, goal_cases)
  case (1 s r s')
  let ?d = "status lv (g_vmid vminst) (vm_host s)"
  consider "?d = None" | "?d = Some Shutoff" | d where "?d = Some d" "d \<noteq> Shutoff" by (cases ?d) auto
  then show ?case
  proof cases
    case 2
    then show ?thesis
      using 1 lv_call_moves [OF libvirt_lawsD(1) [OF assms], of s r s']
      by (auto simp: vmm_start_def ebind_def get_domain_run [OF assms] is_running_run [OF assms] on_dom_def)
  next
    case 3
    then have "vmm_resume lv vminst s = (r, s')"
      using 1 by (simp add: vmm_start_def ebind_def is_running_run [OF assms])
    then show ?thesis
      using implementsD [OF resume_implements [OF assms] 1(1)] 3 by (auto split: if_splits)
  qed (use 1 in \<open>simp add: vmm_start_def ebind_def is_running_run [OF assms]\<close>)
qed

lemma create_implements:
  assumes "libvirt_laws lv (g_vmid vminst)"
  shows "implements lv vminst (vmm_create lv) (life Create)"
proof (rule implementsI, goal_cases)
  case (1 s r s')
  let ?u = "g_vmid vminst"
  obtain e where e: "tostring (vm_xml s) = Inr e" "get_single_element_value [''uuid''] e = Some ?u"
    using 1(1) by (auto simp: ready_def)
  obtain h where h: "lv_define lv e (vm_host s) = (Some ?u, h)"
    "status lv ?u h = (if status lv ?u (vm_host s) = None then Some Shutoff else status lv ?u (vm_host s))"
    using libvirt_lawsD(7) [OF assms e(2), of "vm_host s"] by (cases "lv_define lv e (vm_host s)") auto
  have "lv_call (lv_create lv ?u) (s\<lparr>vm_host := h\<rparr>) = (r, s')"
    using 1(2) e(1) h(1) by (simp add: vmm_create_def)
  from lv_call_moves [OF libvirt_lawsD(1) [OF assms] this] h(2) show ?case
    by auto
qed

lemma destroy_implements:
  assumes "libvirt_laws lv (g_vmid vminst)"
  shows "implements lv vminst (vmm_destroy lv vminst is_undefined) (life (Destroy is_undefined))"
proof (rule implementsI, goal_cases)
  case (1 s r s')
  let ?u = "g_vmid vminst" and ?h = "vm_host s"
  have moves: "status lv ?u (snd (lv_destroy lv ?u h)) = (if status lv ?u h \<noteq> None \<and> status lv ?u h \<noteq> Some Shutoff then Some Shutoff else status lv ?u h)"
    "status lv ?u (snd (lv_undefine lv ?u h)) = (if status lv ?u h = Some Shutoff then None else status lv ?u h)" for h
    using libvirt_lawsD(4,5) [OF assms] unfolding call_moves_def by blast+
  have "status lv ?u (destroy_domain lv ?u is_undefined ?h) = (if is_undefined then None else Some Shutoff)" if "status lv ?u ?h \<noteq> None"
    using that by (auto simp: destroy_domain_def Let_def moves libvirt_lawsD(6) [OF assms])
  then show ?case
    using 1 by (auto simp: vmm_destroy_def ebind_def get_domain_run [OF assms] ready_def split: option.splits if_splits)
qed

lemma do_op_implements:
  assumes "libvirt_laws lv (g_vmid vminst)"
  shows "implements lv vminst (do_op lv vminst op) (life op)"
  using assms
  by (cases op) (simp_all add: do_op_def create_implements start_implements suspend_implements resume_implements destroy_implements
      del: life.simps)

lemma ready_xml: "vm_xml s' = vm_xml s \<Longrightarrow> ready vminst s' = ready vminst s"
  by (simp add: ready_def)


text \<open>A host that keeps the state of each domain.\<close>

definition demo_call :: "(dom_state option \<Rightarrow> bool) \<Rightarrow> dom_state option \<Rightarrow> string \<Rightarrow> (string \<rightharpoonup> dom_state) \<Rightarrow> bool \<times> (string \<rightharpoonup> dom_state)" where
  "demo_call pre post u h = (if pre (h u) then (True, h(u := post)) else (False, h))"

definition demo_libvirt :: "(string \<rightharpoonup> dom_state) libvirt" where
  "demo_libvirt =
     \<lparr>lv_open = (\<lambda>h. True),
      lv_lookup = (\<lambda>u h. h u \<noteq> None),
      lv_define = (\<lambda>e h. case get_single_element_value [''uuid''] e of
        None \<Rightarrow> (None, h) | Some u \<Rightarrow> (Some u, if h u = None then h(u \<mapsto> Shutoff) else h)),
      lv_create = demo_call (\<lambda>d. d = Some Shutoff) (Some Running),
      lv_destroy = demo_call (\<lambda>d. d \<noteq> None \<and> d \<noteq> Some Shutoff) (Some Shutoff),
      lv_undefine = demo_call (\<lambda>d. d = Some Shutoff) None,
      lv_suspend = demo_call (\<lambda>d. d = Some Running) (Some Paused),
      lv_resume = demo_call (\<lambda>d. d = Some Paused) (Some Running),
      lv_reboot = demo_call (\<lambda>d. d = Some Running) (Some Running),
      lv_shutdown = (\<lambda>mode. demo_call (\<lambda>d. d = Some Running) (Some ShutdownInProgress)),
      lv_state = (\<lambda>u h. h u),
      lv_active = (\<lambda>u h. map_option (\<lambda>d. d \<noteq> Shutoff) (h u)),
      lv_xmldesc = (\<lambda>u h. Some (''<mac address='' @ [CHR 0x27] @ ''52:54:00:12:34:56'' @ [CHR 0x27])),
      arp_stdout = (\<lambda>h. [''? (192.168.122.7) at 52:54:00:12:34:56 [ether] on virbr0'']),
      sleep_1 = (\<lambda>h. h),
      removable = (\<lambda>p. True)\<rparr>"

lemma demo_libvirt_laws: "libvirt_laws demo_libvirt u"
  by (auto simp: libvirt_laws_def call_moves_def status_def demo_libvirt_def demo_call_def)

definition demo_state :: "(string \<rightharpoonup> dom_state) vmm_state" where
  "demo_state =
     \<lparr>vm_host = Map.empty, vm_docs = demo_docs, vm_files = {},
      vm_xml = VirtXml\<lparr>vx_tree := Some (Elem ''domain'' [] None [leaf ''uuid'' ''0b75b1f8'']), vx_filepath := Some ''/tmp/td-1.xml''\<rparr>,
      vm_ip = None\<rparr>"


section \<open>The address of a guest\<close>



text \<open>A forced refresh does not drop the old address: if the first reading does not show the guest, the old address is
  returned.\<close>

lemma get_ip_stale:
  assumes "lv_lookup lv (g_vmid vminst) (vm_host s)" "lv_xmldesc lv (g_vmid vminst) (vm_host s) = Some x"
    and "rx_search mac_in_xml x = Some mac" "vm_ip s = Some old" "seen_ip lv mac (vm_host s) 0 = None"
  shows "get_ip lv vminst True s = (Inr (Some old), s)"
proof -
  have "arp_wait lv mac (Suc n) s = s" for n
    using assms(4,5) by (cases s) (simp add: seen_ip_def arp_scan_old)
  from this [of 119] show ?thesis
    using assms(1-4) by (simp add: get_ip_def ebind_def get_domain_def on_dom_def lv_query_def ARP_INTERVAL_def)
qed

end
