(* ===== verification/Vm_Guest.thy ===== *)
theory Vm_Guest
  imports Cmd_Runner Vmm_Laws
begin

text \<open>
  \<open>pycloudstack/vmguest.py\<close>: a guest with its manager, and the factory that creates and removes guests.  The state that the
  guests of a process share is the host (libvirt, files and commands), the documents, and the default
  command line, which is one object for all calls that do not pass their own.  Waiting for the SSH
  port of a guest and the SSH client are in \<open>Guest_Ssh\<close>.
\<close>

section \<open>The shared state\<close>

record 'h shared =
  sh_host :: 'h
  sh_docs :: doc_files
  sh_files :: "string set"
  sh_cmdline :: kernel_cmdline

text \<open>What is fixed for a process: libvirt, the commands, the device, the directories, the name of the user, the path with
  symbolic links resolved, and whether a file exists.\<close>

record 'h guest_env =
  ge_libvirt :: "'h libvirt"
  ge_cmd :: "'h cmd_env"
  ge_dut :: dut_env
  ge_this_dir :: string
  ge_output :: string
  ge_user :: string

text \<open>A guest object: its attributes, the document and the cached address of its manager, its image and its port.\<close>

record guest_inst =
  gi_guest :: vm_guest
  gi_xml :: virt_xml
  gi_ip :: "string option"
  gi_image :: vm_image
  gi_ssh_forward_port :: nat

definition BOOT_TIMEOUT :: nat where "BOOT_TIMEOUT = 180"
definition HUGEPAGES_2M :: string where "HUGEPAGES_2M = ''2M''"
definition HUGEPAGES_1G :: string where "HUGEPAGES_1G = ''1G''"
definition VTPM_PATH :: string where "VTPM_PATH = ''/usr/share/tdx-vtpm/vtpmtd.bin''"

text \<open>An operation of the manager of one guest, on the shared state.\<close>

definition with_vmm :: "guest_inst \<Rightarrow> ('h vmm_state, 'a) eff \<Rightarrow> 'h shared \<Rightarrow> 'a result \<times> guest_inst \<times> 'h shared" where
  "with_vmm gi m s =
     (case m \<lparr>vm_host = sh_host s, vm_docs = sh_docs s, vm_files = sh_files s, vm_xml = gi_xml gi, vm_ip = gi_ip gi\<rparr> of
        (r, v) \<Rightarrow>
          (r, gi\<lparr>gi_xml := vm_xml v, gi_ip := vm_ip v\<rparr>,
           s\<lparr>sh_host := vm_host v, sh_docs := vm_docs v, sh_files := vm_files v\<rparr>))"

definition ROOTFS_UBUNTU :: string where "ROOTFS_UBUNTU = ''root=/dev/vda1''"
definition ROOTFS_CENTOS :: string where "ROOTFS_CENTOS = ''root=/dev/vda3''"

definition rootfs_of :: "string option \<Rightarrow> string" where
  "rootfs_of guest_distro = (if guest_distro = Some ''ubuntu'' then ROOTFS_UBUNTU else ROOTFS_CENTOS)"

text \<open>\<open>VMGuest.__init__\<close> with a libvirt manager.  The command line object that is passed is changed in place: \<open>own\<close> is \<open>None\<close> when it is
  the shared default object.  The other attributes are in \<open>g\<close>.\<close>

definition VMGuest :: "'h guest_env \<Rightarrow> vm_guest \<Rightarrow> vm_image \<Rightarrow> kernel_cmdline option \<Rightarrow> 'h shared \<Rightarrow> guest_inst result \<times> 'h shared" where
  "VMGuest env g img own s =
     (let line = add_field_from_string (case own of None \<Rightarrow> sh_cmdline s | Some l \<Rightarrow> l) (rootfs_of (g_distro g));
          s = (if own = None then s\<lparr>sh_cmdline := line\<rparr> else s);
          port = find_free_port (ge_dut env);
          kernel_ok = (case g_kernel g of None \<Rightarrow> False | Some k \<Rightarrow> os_exists (ge_cmd env) k (sh_host s)) in
      if g_boot g = BOOT_TYPE_DIRECT \<and> \<not> kernel_ok then (Inl AssertionError, s)
      else
        let g = g\<lparr>g_cmdline := line, g_image := img_filepath img, g_keep := False,
                  g_kernel := (if g_boot g = BOOT_TYPE_DIRECT then map_option (os_realpath (ge_cmd env)) (g_kernel g) else g_kernel g)\<rparr> in
        (case new_manager (ge_libvirt env) (ge_dut env) (ge_this_dir env) (ge_output env) g (sh_host s) (sh_docs s) (sh_files s) of
           Inl e \<Rightarrow> (Inl e, s)
         | Inr v \<Rightarrow>
             (Inr \<lparr>gi_guest = g, gi_xml = vm_xml v, gi_ip = vm_ip v, gi_image = img, gi_ssh_forward_port = port\<rparr>,
              s\<lparr>sh_docs := vm_docs v\<rparr>)))"

section \<open>The operations of a guest\<close>

definition guest_create :: "'h guest_env \<Rightarrow> guest_inst \<Rightarrow> 'h shared \<Rightarrow> unit result \<times> guest_inst \<times> 'h shared" where
  "guest_create env gi = with_vmm gi (vmm_create (ge_libvirt env))"

definition guest_start :: "'h guest_env \<Rightarrow> guest_inst \<Rightarrow> 'h shared \<Rightarrow> unit result \<times> guest_inst \<times> 'h shared" where
  "guest_start env gi = with_vmm gi (vmm_start (ge_libvirt env) (gi_guest gi))"

definition guest_suspend :: "'h guest_env \<Rightarrow> guest_inst \<Rightarrow> 'h shared \<Rightarrow> unit result \<times> guest_inst \<times> 'h shared" where
  "guest_suspend env gi = with_vmm gi (vmm_suspend (ge_libvirt env) (gi_guest gi))"

definition guest_resume :: "'h guest_env \<Rightarrow> guest_inst \<Rightarrow> 'h shared \<Rightarrow> unit result \<times> guest_inst \<times> 'h shared" where
  "guest_resume env gi = with_vmm gi (vmm_resume (ge_libvirt env) (gi_guest gi))"

definition guest_shutdown :: "'h guest_env \<Rightarrow> string option \<Rightarrow> guest_inst \<Rightarrow> 'h shared \<Rightarrow> unit result \<times> guest_inst \<times> 'h shared" where
  "guest_shutdown env mode gi = with_vmm gi (vmm_shutdown (ge_libvirt env) (gi_guest gi) mode)"

definition guest_reboot :: "'h guest_env \<Rightarrow> guest_inst \<Rightarrow> 'h shared \<Rightarrow> unit result \<times> guest_inst \<times> 'h shared" where
  "guest_reboot env gi = with_vmm gi (vmm_reboot (ge_libvirt env) (gi_guest gi))"

definition guest_state :: "'h guest_env \<Rightarrow> guest_inst \<Rightarrow> 'h shared \<Rightarrow> string option result \<times> guest_inst \<times> 'h shared" where
  "guest_state env gi = with_vmm gi (vmm_get_state (ge_libvirt env) (gi_guest gi))"

definition guest_get_ip :: "'h guest_env \<Rightarrow> bool \<Rightarrow> guest_inst \<Rightarrow> 'h shared \<Rightarrow> string option result \<times> guest_inst \<times> 'h shared" where
  "guest_get_ip env force_refresh gi = with_vmm gi (get_ip (ge_libvirt env) (gi_guest gi) force_refresh)"

text \<open>\<open>destroy\<close>: the lists of domains that it logs are left out.\<close>

definition guest_destroy :: "'h guest_env \<Rightarrow> bool \<Rightarrow> bool \<Rightarrow> bool \<Rightarrow> guest_inst \<Rightarrow> 'h shared \<Rightarrow> unit result \<times> guest_inst \<times> 'h shared" where
  "guest_destroy env delete_image delete_log_file is_undefined gi s =
     (case with_vmm gi (vmm_destroy (ge_libvirt env) (gi_guest gi) is_undefined) s of
        (Inl e, gi, s) \<Rightarrow> (Inl e, gi, s)
      | (Inr _, gi, s) \<Rightarrow>
          let s = (if delete_image then s\<lparr>sh_host := snd (img_destroy (ge_cmd env) (gi_image gi) (sh_host s))\<rparr> else s) in
          if delete_log_file then with_vmm gi (delete_log (ge_libvirt env)) s else (Inr (), gi, s))"

text \<open>The updates: the attribute of the guest is changed before the manager refuses.\<close>

definition guest_update_kernel_cmdline :: "kernel_cmdline \<Rightarrow> guest_inst \<Rightarrow> 'h shared \<Rightarrow> unit result \<times> guest_inst \<times> 'h shared" where
  "guest_update_kernel_cmdline cmdline gi =
     (let gi = gi\<lparr>gi_guest := (gi_guest gi)\<lparr>g_cmdline := cmdline\<rparr>\<rparr> in with_vmm gi (vmm_update_kernel_cmdline cmdline))"

definition guest_update_kernel :: "string \<Rightarrow> guest_inst \<Rightarrow> 'h shared \<Rightarrow> unit result \<times> guest_inst \<times> 'h shared" where
  "guest_update_kernel new gi =
     (let gi = gi\<lparr>gi_guest := (gi_guest gi)\<lparr>g_kernel := Some new\<rparr>\<rparr> in with_vmm gi (vmm_update_kernel new))"

definition guest_update_vmspec :: "vm_spec \<Rightarrow> guest_inst \<Rightarrow> 'h shared \<Rightarrow> unit result \<times> guest_inst \<times> 'h shared" where
  "guest_update_vmspec new gi =
     (let gi = gi\<lparr>gi_guest := (gi_guest gi)\<lparr>g_vmspec := new\<rparr>\<rparr> in with_vmm gi (vmm_update_vmspec new))"

text \<open>\<open>wait_for_state\<close>: one look per second.\<close>

fun wait_loop :: "'h guest_env \<Rightarrow> string \<Rightarrow> nat \<Rightarrow> guest_inst \<Rightarrow> 'h shared \<Rightarrow> bool result \<times> guest_inst \<times> 'h shared" where
  "wait_loop env wanted 0 gi s = (Inr False, gi, s)"
| "wait_loop env wanted (Suc n) gi s =
     (case guest_state env gi s of
        (Inl e, gi, s) \<Rightarrow> (Inl e, gi, s)
      | (Inr None, gi, s) \<Rightarrow> (Inl AssertionError, gi, s)
      | (Inr (Some _), gi, s) \<Rightarrow>
          (case guest_state env gi s of
             (Inl e, gi, s) \<Rightarrow> (Inl e, gi, s)
           | (Inr st, gi, s) \<Rightarrow>
               if st = Some wanted then (Inr True, gi, s)
               else wait_loop env wanted n gi (s\<lparr>sh_host := sleep_1 (ge_libvirt env) (sh_host s)\<rparr>)))"

definition wait_for_state :: "'h guest_env \<Rightarrow> string \<Rightarrow> nat \<Rightarrow> guest_inst \<Rightarrow> 'h shared \<Rightarrow> bool result \<times> guest_inst \<times> 'h shared" where
  "wait_for_state env wanted timeout gi s = wait_loop env wanted timeout gi s"

text \<open>\<open>ssh_run\<close> that waits for the command; a command that fails marks the guest to be kept.  \<open>scp_in\<close> gives \<open>None\<close> (Python's \<open>False\<close>) if
  there is nothing to copy.\<close>

definition DEFAULT_SSH_PORT :: int where "DEFAULT_SSH_PORT = 22"

definition on_host :: "('h, 'a) eff \<Rightarrow> 'h shared \<Rightarrow> 'a result \<times> 'h shared" where
  "on_host m s = (case m (sh_host s) of (r, h) \<Rightarrow> (r, s\<lparr>sh_host := h\<rparr>))"

definition ssh_run :: "'h guest_env \<Rightarrow> string list \<Rightarrow> string \<Rightarrow> guest_inst \<Rightarrow> 'h shared \<Rightarrow> cmd_runner result \<times> guest_inst \<times> 'h shared" where
  "ssh_run env cmdarr ssh_id_key gi s =
     (case guest_get_ip env False gi s of
        (Inl e, gi, s) \<Rightarrow> (Inl e, gi, s)
      | (Inr ip, gi, s) \<Rightarrow>
          (case on_host (ebind (SSHCmdRunner (ge_cmd env) cmdarr ssh_id_key DEFAULT_SSH_PORT ''root'' (fmt_value ip)) (runwait (ge_cmd env))) s of
             (Inl e, s) \<Rightarrow> (Inl e, gi, s)
           | (Inr runner, s) \<Rightarrow>
               (Inr runner,
                if r_retcode runner \<noteq> Some 0 then gi\<lparr>gi_guest := (gi_guest gi)\<lparr>g_keep := True\<rparr>\<rparr> else gi, s)))"

definition scp_command :: "string \<Rightarrow> string \<Rightarrow> string \<Rightarrow> string list" where
  "scp_command ssh_id_key source target =
     [''scp'', ''-o'', ''StrictHostKeyChecking=no'', ''-o'', ''UserKnownHostsFile=/dev/null'', ''-o'', ''ConnectTimeout=30'',
      ''-o'', ''PreferredAuthentications=publickey'', ''-i'', ssh_id_key, ''-r'', source, target]"

definition scp_run :: "'h guest_env \<Rightarrow> string \<Rightarrow> (string \<Rightarrow> string list) \<Rightarrow> guest_inst \<Rightarrow> 'h shared \<Rightarrow> cmd_runner result \<times> guest_inst \<times> 'h shared" where
  "scp_run env ssh_id_key cmd gi s =
     (if \<not> os_chmod (ge_cmd env) ssh_id_key (sh_host s) then (Inl OSError, gi, s)
      else
        (case guest_get_ip env False gi s of
           (Inl e, gi, s) \<Rightarrow> (Inl e, gi, s)
         | (Inr ip, gi, s) \<Rightarrow>
             (case on_host (runwait (ge_cmd env) (NativeCmdRunner (cmd (fmt_value ip)))) s of (r, s) \<Rightarrow> (r, gi, s))))"

definition scp_in :: "'h guest_env \<Rightarrow> string \<Rightarrow> string \<Rightarrow> string \<Rightarrow> guest_inst \<Rightarrow> 'h shared \<Rightarrow> cmd_runner option result \<times> guest_inst \<times> 'h shared" where
  "scp_in env source target ssh_id_key gi s =
     (if \<not> os_exists (ge_cmd env) source (sh_host s) then (Inr None, gi, s)
      else
        (case scp_run env ssh_id_key (\<lambda>ip. scp_command ssh_id_key source (''root@'' @ ip @ '':'' @ target)) gi s of
           (r, gi, s) \<Rightarrow> (rbind r (\<lambda>runner. Inr (Some runner)), gi, s)))"

definition scp_out :: "'h guest_env \<Rightarrow> string \<Rightarrow> string \<Rightarrow> string \<Rightarrow> guest_inst \<Rightarrow> 'h shared \<Rightarrow> cmd_runner result \<times> guest_inst \<times> 'h shared" where
  "scp_out env source target ssh_id_key gi s =
     scp_run env ssh_id_key (\<lambda>ip. scp_command ssh_id_key (''root@'' @ ip @ '':'' @ source) target) gi s"

section \<open>The factory\<close>

record vm_factory =
  f_vms :: "(string \<times> guest_inst) list"
  f_mother_image :: vm_image
  f_vm_kernel :: "string option"
  f_keep_issue_vm :: bool

definition VMGuestFactory :: "'h guest_env \<Rightarrow> string \<Rightarrow> string option \<Rightarrow> (string \<times> string) option \<Rightarrow> 'h shared \<Rightarrow> vm_factory result \<times> 'h shared" where
  "VMGuestFactory env vm_mother_image vm_kernel part s =
     (let (root, efi) = (case part of None \<Rightarrow> (''/dev/sda3'', ''/dev/sda2'') | Some p \<Rightarrow> p) in
      case on_host (VMImage (ge_cmd env) vm_mother_image root efi) s of
        (Inl e, s) \<Rightarrow> (Inl e, s)
      | (Inr img, s) \<Rightarrow> (Inr \<lparr>f_vms = [], f_mother_image = img, f_vm_kernel = vm_kernel, f_keep_issue_vm = False\<rparr>, s))"

text \<open>The arguments of \<open>new_vm\<close>; the attributes that are not used by the manager are left out.\<close>

record vm_request =
  q_vmtype :: string
  q_vmspec :: vm_spec
  q_epc :: "epc_section list option"
  q_cmdline :: "kernel_cmdline option"
  q_auto_start :: bool
  q_hugepages :: bool
  q_hugepage_size :: "string option"
  q_boot :: string
  q_disk_img :: "vm_image option"
  q_vsock :: bool
  q_vsock_cid :: int
  q_io_mode :: "string option"
  q_cache :: "string option"
  q_diskfile_path :: "string option"
  q_cpu_ids :: "nat list option"
  q_tsx :: "bool option"
  q_tsc :: "bool option"
  q_mwait :: "string option"
  q_has_vtpm :: bool
  q_vtpm_path :: "string option"
  q_vtpm_log :: "string option"
  q_hugepage_path :: "string option"
  q_driver :: "string option"
  q_mem_numa :: "bool option"

definition or_default :: "'a option \<Rightarrow> 'a \<Rightarrow> 'a option" where
  "or_default v d = (case v of None \<Rightarrow> Some d | Some x \<Rightarrow> Some x)"

text \<open>The attributes of the guest that a request leads to.\<close>

definition guest_of_request :: "vm_factory \<Rightarrow> string \<Rightarrow> string \<Rightarrow> vm_image \<Rightarrow> vm_request \<Rightarrow> vm_guest" where
  "guest_of_request fac vm_id vm_name img q =
     \<lparr>g_vmid = vm_id, g_name = vm_name, g_image = img_filepath img,
      g_distro = Some (if contains ''ubuntu'' (img_filepath (f_mother_image fac)) then ''ubuntu'' else ''centos''),
      g_vmspec = q_vmspec q, g_epc = q_epc q, g_vmtype = q_vmtype q,
      g_boot = (if q_vmtype q = VM_TYPE_SGX then BOOT_TYPE_GRUB else q_boot q),
      g_kernel = f_vm_kernel fac, g_cmdline = KernelCmdline [], g_hugepages = q_hugepages q,
      g_hugepage_size = (case q_hugepage_size q of None \<Rightarrow> HUGEPAGES_2M | Some z \<Rightarrow> z),
      g_vsock = q_vsock q, g_vsock_cid = q_vsock_cid q, g_keep = False, g_cpu_ids = q_cpu_ids q, g_mem_numa = q_mem_numa q,
      g_io_mode = or_default (q_io_mode q) ''native'', g_cache = or_default (q_cache q) ''none'',
      g_diskfile_path = q_diskfile_path q, g_tsx = q_tsx q, g_tsc = q_tsc q, g_mwait = q_mwait q, g_has_vtpm = q_has_vtpm q,
      g_vtpm_path = (if q_has_vtpm q then or_default (q_vtpm_path q) VTPM_PATH else q_vtpm_path q),
      g_vtpm_log = (if q_has_vtpm q then or_default (q_vtpm_log q) (''/tmp/'' @ vm_name @ ''_vtpm_td.log'') else q_vtpm_log q),
      g_hugepage_path = q_hugepage_path q, g_driver = q_driver q\<rparr>"

text \<open>\<open>new_vm\<close>, with a new UUID and the time as text.  With \<open>auto_start\<close> the guest is created and started, and the guest is known to
  the factory before that.\<close>

definition start_guest :: "'h guest_env \<Rightarrow> guest_inst \<Rightarrow> 'h shared \<Rightarrow> unit result \<times> guest_inst \<times> 'h shared" where
  "start_guest env gi s =
     (case guest_create env gi s of
        (Inl e, gi, s) \<Rightarrow> (Inl e, gi, s)
      | (Inr _, gi, s) \<Rightarrow> guest_start env gi s)"

definition new_name :: "'h guest_env \<Rightarrow> string \<Rightarrow> vm_request \<Rightarrow> string" where
  "new_name env current_time q = q_vmtype q @ ''-'' @ ge_user env @ ''-'' @ current_time"

definition new_vm ::
  "'h guest_env \<Rightarrow> string \<Rightarrow> string \<Rightarrow> vm_request \<Rightarrow> vm_factory \<Rightarrow> 'h shared \<Rightarrow> guest_inst result \<times> vm_factory \<times> 'h shared"
where
  "new_vm env vm_id current_time q fac s =
     (if q_hugepages q \<and> q_vmtype q \<in> {VM_TYPE_TD, VM_TYPE_TD_PERF} \<and> q_hugepage_path q = None then (Inl AssertionError, fac, s)
      else
        let vm_name = new_name env current_time q in
        (case (case q_disk_img q of Some i \<Rightarrow> (Inr i, s) | None \<Rightarrow> on_host (img_clone (ge_cmd env) (f_mother_image fac) (vm_name @ ''.qcow2'') None) s) of
           (Inl e, s) \<Rightarrow> (Inl e, fac, s)
         | (Inr img, s) \<Rightarrow>
             (case VMGuest env (guest_of_request fac vm_id vm_name img q) img (q_cmdline q) s of
                (Inl e, s) \<Rightarrow> (Inl e, fac, s)
              | (Inr gi, s) \<Rightarrow>
                  if \<not> q_auto_start q then (Inr gi, fac\<lparr>f_vms := AList.update vm_name gi (f_vms fac)\<rparr>, s)
                  else
                    (case start_guest env gi s of
                       (r, gi, s) \<Rightarrow> (rbind r (\<lambda>_. Inr gi), fac\<lparr>f_vms := AList.update vm_name gi (f_vms fac)\<rparr>, s)))))"

definition destroy_and_forget :: "'h guest_env \<Rightarrow> guest_inst \<Rightarrow> vm_factory \<Rightarrow> 'h shared \<Rightarrow> unit result \<times> vm_factory \<times> 'h shared" where
  "destroy_and_forget env inst fac s =
     (case guest_destroy env True True True inst s of
        (Inl e, _, s) \<Rightarrow> (Inl e, fac, s)
      | (Inr _, _, s) \<Rightarrow> (Inr (), fac\<lparr>f_vms := AList.delete (g_name (gi_guest inst)) (f_vms fac)\<rparr>, s))"

definition factory_remove :: "'h guest_env \<Rightarrow> guest_inst \<Rightarrow> vm_factory \<Rightarrow> 'h shared \<Rightarrow> unit result \<times> vm_factory \<times> 'h shared" where
  "factory_remove env inst fac s =
     (if \<not> f_keep_issue_vm fac then destroy_and_forget env inst fac s
      else if \<not> g_keep (gi_guest inst) then destroy_and_forget env inst fac s
      else (Inr (), fac, s))"

fun remove_each :: "'h guest_env \<Rightarrow> guest_inst list \<Rightarrow> vm_factory \<Rightarrow> 'h shared \<Rightarrow> unit result \<times> vm_factory \<times> 'h shared" where
  "remove_each env [] fac s = (Inr (), fac, s)"
| "remove_each env (inst # insts) fac s =
     (case factory_remove env inst fac s of
        (Inl e, fac, s) \<Rightarrow> (Inl e, fac, s)
      | (Inr _, fac, s) \<Rightarrow> remove_each env insts fac s)"

definition removeall :: "'h guest_env \<Rightarrow> vm_factory \<Rightarrow> 'h shared \<Rightarrow> unit result \<times> vm_factory \<times> 'h shared" where
  "removeall env fac s = remove_each env (map snd (f_vms fac)) fac s"

definition set_keep_issue_vm :: "bool \<Rightarrow> vm_factory \<Rightarrow> vm_factory" where
  "set_keep_issue_vm keep_issue_vm fac = fac\<lparr>f_keep_issue_vm := keep_issue_vm\<rparr>"

section \<open>Waiting for a state\<close>

definition state_name :: "dom_state \<Rightarrow> string option" where
  "state_name d =
     (case d of
        Running \<Rightarrow> Some VM_STATE_RUNNING
      | Paused \<Rightarrow> Some VM_STATE_PAUSE
      | ShutdownInProgress \<Rightarrow> Some VM_STATE_SHUTDOWN_IN_PROGRESS
      | Shutoff \<Rightarrow> Some VM_STATE_SHUTDOWN
      | _ \<Rightarrow> None)"

text \<open>The state that the manager reports on a host, if the domain is there and in one of the four known states.\<close>

definition reported :: "'h guest_env \<Rightarrow> guest_inst \<Rightarrow> 'h \<Rightarrow> string option" where
  "reported env gi h = Option.bind (status (ge_libvirt env) (g_vmid (gi_guest gi)) h) state_name"

lemma guest_state_reported:
  assumes "reported env gi (sh_host s) = Some n"
  shows "guest_state env gi s = (Inr (Some n), gi, s)"
  using assms
  by (cases s; cases gi)
    (auto simp: guest_state_def with_vmm_def vmm_get_state_def get_domain_def on_dom_def lv_query_def ebind_def reported_def status_def
      state_name_def split: if_splits option.splits Option.bind_splits dom_state.splits)

lemma wait_loop_reported:
  "(\<And>j. j < n \<Longrightarrow> reported env gi ((sleep_1 (ge_libvirt env) ^^ j) (sh_host s)) \<noteq> None) \<Longrightarrow>
    fst (wait_loop env wanted n gi s) = Inr (\<exists>j<n. reported env gi ((sleep_1 (ge_libvirt env) ^^ j) (sh_host s)) = Some wanted)"
proof (induction n arbitrary: s)
  case (Suc n)
  let ?rep = "\<lambda>s j. reported env gi ((sleep_1 (ge_libvirt env) ^^ j) (sh_host s))"
  let ?s = "s\<lparr>sh_host := sleep_1 (ge_libvirt env) (sh_host s)\<rparr>"
  have shift: "?rep ?s j = ?rep s (Suc j)" for j by (simp add: funpow_swap1)
  obtain x where x: "reported env gi (sh_host s) = Some x" using Suc.prems [of 0] by auto
  note look = guest_state_reported [OF x]
  show ?case
  proof (cases "x = wanted")
    case True
    then show ?thesis using look x by (auto intro!: exI [of _ 0])
  next
    case False
    have "fst (wait_loop env wanted n gi ?s) = Inr (\<exists>j<n. ?rep s (Suc j) = Some wanted)"
      using Suc.IH [of ?s] Suc.prems [of "Suc j" for j] unfolding shift by (metis Suc_less_eq)
    moreover have "(\<exists>j<n. ?rep s (Suc j) = Some wanted) \<longleftrightarrow> (\<exists>j<Suc n. ?rep s j = Some wanted)"
      using x False unfolding Nat.Ex_less_Suc2 by simp
    ultimately show ?thesis using look False by simp
  qed
qed simp

text \<open>C37: Waiting for a state ends, and with the right answer: while the domain is there and in a known state, the answer is
  true exactly when the wanted state is reported at one of the looks, one per second, within the timeout.\<close>

theorem wait_for_state_iff:
  assumes "\<And>j. j < timeout \<Longrightarrow> reported env gi ((sleep_1 (ge_libvirt env) ^^ j) (sh_host s)) \<noteq> None"
  shows "fst (wait_for_state env wanted timeout gi s) =
    Inr (\<exists>j<timeout. reported env gi ((sleep_1 (ge_libvirt env) ^^ j) (sh_host s)) = Some wanted)"
  unfolding wait_for_state_def by (rule wait_loop_reported) (rule assms)

section \<open>The shared command line\<close>

lemma add_field_present: "is_field_exists (add_field_from_string self f) f" if "py_strip f = f"
  using that by (auto simp: add_field_from_string_def is_field_exists_def contains_iff intro: exI [of _ "kc_cmdline self @ '' ''"])

lemma add_field_keeps: "is_field_exists self f \<Longrightarrow> is_field_exists (add_field_from_string self g) f"
  unfolding add_field_from_string_def is_field_exists_def contains_iff by (auto; metis append.assoc)

lemma rootfs_strip: "py_strip (rootfs_of d) = rootfs_of d"
  by (simp add: rootfs_of_def ROOTFS_UBUNTU_def ROOTFS_CENTOS_def py_strip_def py_space_def)

lemma VMGuest_cmdline:
  assumes "VMGuest env g img own s = (Inr gi, s')"
  shows "g_cmdline (gi_guest gi) = add_field_from_string (case own of None \<Rightarrow> sh_cmdline s | Some l \<Rightarrow> l) (rootfs_of (g_distro g))"
    and "own = None \<Longrightarrow> sh_cmdline s' = g_cmdline (gi_guest gi)"
  using assms by (auto simp: VMGuest_def Let_def split: if_splits sum.splits)

text \<open>C39: Guests that are created without a command line of their own share one: after a guest of an Ubuntu image, a guest of any
  other image is started with the root file systems of both on its command line.\<close>

theorem default_cmdline_shared:
  assumes "VMGuest env g1 img1 None s1 = (Inr gi1, s2)" "g_distro g1 = Some ''ubuntu''"
    and "VMGuest env g2 img2 None s2 = (Inr gi2, s3)" "g_distro g2 \<noteq> Some ''ubuntu''"
  shows "is_field_exists (g_cmdline (gi_guest gi2)) ''root=/dev/vda1'' \<and> is_field_exists (g_cmdline (gi_guest gi2)) ''root=/dev/vda3''"
proof -
  have r: "rootfs_of (g_distro g1) = ''root=/dev/vda1''" "rootfs_of (g_distro g2) = ''root=/dev/vda3''"
    using assms(2,4) by (simp_all add: rootfs_of_def ROOTFS_UBUNTU_def ROOTFS_CENTOS_def)
  have "is_field_exists (sh_cmdline s2) ''root=/dev/vda1''"
    using VMGuest_cmdline [OF assms(1)] add_field_present [OF rootfs_strip [of "g_distro g1"]] by (simp add: r)
  then show ?thesis
    using VMGuest_cmdline(1) [OF assms(3)] add_field_keeps add_field_present [OF rootfs_strip [of "g_distro g2"]] by (simp add: r)
qed

section \<open>A process with guests\<close>

definition demo_cmd :: "'c cmd_env" where
  "demo_cmd = \<lparr>spawn = (\<lambda>args c. (Some (0, [], []), c)), os_exists = (\<lambda>p c. True), os_remove = (\<lambda>p c. (True, c)),
     os_chmod = (\<lambda>p c. True), os_realpath = (\<lambda>p. p)\<rparr>"

definition demo_env :: "(string \<rightharpoonup> dom_state) guest_env" where
  "demo_env = \<lparr>ge_libvirt = demo_libvirt, ge_cmd = demo_cmd, ge_dut = demo_host, ge_this_dir = ''/opt'', ge_output = ''/tmp'', ge_user = ''cpio''\<rparr>"

definition demo_shared :: "(string \<rightharpoonup> dom_state) shared" where
  "demo_shared = \<lparr>sh_host = Map.empty, sh_docs = demo_docs, sh_files = {}, sh_cmdline = KernelCmdline DEFAULT_CMDLINE\<rparr>"

definition demo_img :: vm_image where
  "demo_img = \<lparr>img_filepath = ''/tmp/td-1.qcow2'', img_part_root = ''/dev/sda3'', img_part_efi = ''/dev/sda2''\<rparr>"

lemma demo_guest_created:
  assumes "usable (sh_docs s)"
  shows "\<exists>gi s'. VMGuest demo_env (demo_guest\<lparr>g_distro := d\<rparr>) demo_img None s = (Inr gi, s') \<and> usable (sh_docs s')"
proof -
  let ?l = "add_field_from_string (sh_cmdline s) (rootfs_of d)"
  obtain x docs' where "prepare_domain_xml demo_host ''/opt'' ''/tmp'' (demo_guest\<lparr>g_cmdline := ?l, g_distro := d\<rparr>) (sh_docs s) = Inr (x, docs')"
    "usable docs'"
    using demo_prepared_any [OF assms] by blast
  then show ?thesis
    by (simp add: VMGuest_def demo_env_def demo_cmd_def new_manager_def demo_libvirt_def py_assert_def Let_def demo_guest_def demo_img_def)
qed

theorem default_cmdline_shared_witness:
  "\<exists>gi1 s2 gi2 s3. VMGuest demo_env (demo_guest\<lparr>g_distro := Some ''ubuntu''\<rparr>) demo_img None demo_shared = (Inr gi1, s2) \<and>
     VMGuest demo_env (demo_guest\<lparr>g_distro := Some ''centos''\<rparr>) demo_img None s2 = (Inr gi2, s3) \<and>
     is_field_exists (g_cmdline (gi_guest gi2)) ''root=/dev/vda1'' \<and> is_field_exists (g_cmdline (gi_guest gi2)) ''root=/dev/vda3''"
proof -
  have "usable (sh_docs demo_shared)" by (simp add: usable_def demo_shared_def demo_docs_def)
  then obtain gi1 s2 where 1: "VMGuest demo_env (demo_guest\<lparr>g_distro := Some ''ubuntu''\<rparr>) demo_img None demo_shared = (Inr gi1, s2)"
    "usable (sh_docs s2)"
    using demo_guest_created by blast
  then obtain gi2 s3 where 2: "VMGuest demo_env (demo_guest\<lparr>g_distro := Some ''centos''\<rparr>) demo_img None s2 = (Inr gi2, s3)"
    using demo_guest_created by blast
  from default_cmdline_shared [OF 1(1) _ 2] 1 2 show ?thesis by auto
qed

definition demo_inst :: guest_inst where
  "demo_inst = \<lparr>gi_guest = demo_guest, gi_xml = VirtXml\<lparr>vx_filepath := Some ''/tmp/td-1.xml'', vx_logfile := Some ''/tmp/td-1.log''\<rparr>, gi_ip = None,
     gi_image = demo_img, gi_ssh_forward_port = 40000\<rparr>"

theorem wait_for_state_iff_witness:
  "fst (wait_for_state demo_env VM_STATE_RUNNING 3 demo_inst (demo_shared\<lparr>sh_host := [''0b75b1f8'' \<mapsto> Running]\<rparr>)) = Inr True"
proof -
  have sleep: "(sleep_1 demo_libvirt ^^ j) h = h" for j h
    by (induction j) (simp_all add: demo_libvirt_def)
  have rep: "reported demo_env demo_inst ((sleep_1 (ge_libvirt demo_env) ^^ j) [''0b75b1f8'' \<mapsto> Running]) = Some VM_STATE_RUNNING" for j
    by (simp add: demo_env_def sleep reported_def status_def demo_inst_def demo_guest_def state_name_def)
      (simp add: demo_libvirt_def state_name_def)
  show ?thesis
    using wait_for_state_iff [of 3 demo_env demo_inst "demo_shared\<lparr>sh_host := [''0b75b1f8'' \<mapsto> Running]\<rparr>" VM_STATE_RUNNING] rep
    by (auto simp del: fun_upd_apply intro: exI [of _ 0])
qed

section \<open>The files of a guest\<close>

text \<open>A manager can remove the files of a guest if its document knows them.\<close>

definition knows_files :: "virt_xml \<Rightarrow> bool" where
  "knows_files self \<longleftrightarrow> vx_filepath self \<noteq> None \<and> vx_logfile self \<noteq> None"

definition keeps_files :: "(vx_state \<Rightarrow> vx_state result) \<Rightarrow> bool" where
  "keeps_files m \<longleftrightarrow> (\<forall>st st'. m st = Inr st' \<longrightarrow> knows_files (fst st) \<longrightarrow> knows_files (fst st'))"

lemma saved_files: "saved (self, files) = Inr (self', files') \<Longrightarrow> vx_filepath self' \<noteq> None \<and> vx_logfile self' = vx_logfile self"
  by (auto simp: saved_def vx_save_def rbind_def split: sum.splits option.splits if_splits)

lemma keeps_filesI:
  "(\<And>self files self' files'. m (self, files) = Inr (self', files') \<Longrightarrow> knows_files self \<Longrightarrow> knows_files self') \<Longrightarrow> keeps_files m"
  unfolding keeps_files_def by auto

lemma keeps_files_change_tree: "keeps_files (change_tree f)"
  by (rule keeps_filesI) (auto simp: change_tree_def with_tree_def knows_files_def dest: saved_files split: option.splits)

lemma keeps_files_text_setter: "(\<And>v self. vx_logfile (put v self) = vx_logfile self) \<Longrightarrow> keeps_files (text_setter p get put v)"
  by (rule keeps_filesI)
    (auto simp: text_setter_def with_tree_def Let_def knows_files_def dest!: saved_files split: option.splits prod.splits if_splits)

lemma keeps_files_boot_setter: "(\<And>v self. vx_logfile (put v self) = vx_logfile self) \<Longrightarrow> keeps_files (boot_setter p get put v)"
  by (rule keeps_filesI)
    (auto simp: boot_setter_def with_tree_def Let_def knows_files_def dest!: saved_files split: option.splits prod.splits if_splits)

lemma keeps_files_topology: "(\<And>v self. vx_logfile (put v self) = vx_logfile self) \<Longrightarrow> keeps_files (topology_setter a get put v)"
  by (rule keeps_filesI)
    (auto simp: topology_setter_def with_tree_def Let_def knows_files_def dest!: saved_files split: option.splits prod.splits if_splits)

lemma keeps_files_setters:
  "keeps_files (set_kernel v)" "keeps_files (set_loader v)" "keeps_files (set_cmdline v)" "keeps_files (set_qemu_exec v)"
  "keeps_files (set_sockets n)" "keeps_files (set_cores n)" "keeps_files (set_threads n)"
  unfolding set_kernel_def set_loader_def set_cmdline_def set_qemu_exec_def set_sockets_def set_cores_def set_threads_def
  by (rule keeps_files_text_setter keeps_files_boot_setter keeps_files_topology; simp)+

lemma keeps_files_vcpu: "keeps_files (set_vcpu n)"
  by (rule keeps_filesI)
    (auto simp: set_vcpu_def with_tree_def Let_def knows_files_def dest!: saved_files split: option.splits prod.splits if_splits)

lemma keeps_files_checked: "keeps_files m \<Longrightarrow> keeps_files (\<lambda>st. rbind (py_assert b) (\<lambda>_. m st))"
  by (cases b) (simp_all add: keeps_files_def py_assert_def)

lemma keeps_files_add:
  "keeps_files (set_hugepage_params z)" "keeps_files (set_cpu_params z)" "keeps_files (set_overcommit_params z)" "keeps_files (bind_cpuids ids)"
  "keeps_files (set_mem_numa b)" "keeps_files (set_epc_params sections)" "keeps_files (set_vsock cid)" "keeps_files (set_hugepage_path z)"
  "keeps_files (set_vtpm_param v w)"
  unfolding set_hugepage_params_def set_cpu_params_def set_overcommit_params_def bind_cpuids_def set_mem_numa_def set_epc_params_def
    set_vsock_def set_hugepage_path_def set_vtpm_param_def
  by (rule keeps_files_change_tree | rule keeps_files_checked)+

lemma keeps_files_driver: "keeps_files (set_driver d)"
  by (rule keeps_filesI)
    (auto simp: set_driver_def with_tree_def rbind_def knows_files_def dest!: saved_files split: option.splits sum.splits)

lemma keeps_files_disk: "keeps_files (set_disk d)"
proof (rule keeps_filesI)
  fix self files self' files'
  assume "set_disk d (self, files) = Inr (self', files')" "knows_files self"
  then show "knows_files self'"
    using keeps_files_change_tree unfolding keeps_files_def
    by (fastforce simp: set_disk_def with_tree_def simp del: add_new_element.simps split: option.splits)
qed

lemma keeps_files_when:
  "keeps_files f \<Longrightarrow> keeps_files (when_true b f)" "(\<And>x. keeps_files (g x)) \<Longrightarrow> keeps_files (when_some v g)"
  "(\<And>x. keeps_files (h x)) \<Longrightarrow> keeps_files (when_truthy w h)"
  by (auto simp: keeps_files_def when_true_def when_some_def when_truthy_def split: option.splits)

lemma keeps_files_bind:
  assumes "keeps_files m" "keeps_files k"
  shows "keeps_files (\<lambda>st. rbind (m st) k)"
  unfolding keeps_files_def
proof (intro allI impI)
  fix st st'
  assume "rbind (m st) k = Inr st'" "knows_files (fst st)"
  then obtain st1 where "m st = Inr st1" "k st1 = Inr st'" by (cases "m st") auto
  with assms \<open>knows_files (fst st)\<close> show "knows_files (fst st')" unfolding keeps_files_def by blast
qed

lemma keeps_files_result: "(\<And>x. keeps_files (k x)) \<Longrightarrow> keeps_files (\<lambda>st. rbind r (\<lambda>x. k x st))"
  by (cases r) (auto simp: keeps_files_def)

lemmas keeps_files_ops = keeps_files_setters keeps_files_vcpu keeps_files_add keeps_files_driver keeps_files_disk

lemma keeps_files_devices: "keeps_files (domain_devices vminst)"
  unfolding domain_devices_def [abs_def]
  by (intro keeps_files_bind keeps_files_when keeps_files_ops)

lemma keeps_files_const: "keeps_files (\<lambda>st. Inl e)" "keeps_files Inr"
  by (simp_all add: keeps_files_def)

lemma keeps_files_if: "keeps_files f \<Longrightarrow> keeps_files g \<Longrightarrow> keeps_files (\<lambda>st. if b then f st else g st)"
  by (cases b) simp_all

lemma keeps_files_type_params: "keeps_files (set_type_params dut distro vminst)"
proof -
  have epc: "keeps_files (\<lambda>st. case x of None \<Rightarrow> Inl AttributeError | Some e \<Rightarrow> set_epc_params e st)" for x
    by (cases x) (simp_all add: keeps_files_const keeps_files_ops)
  show ?thesis
    unfolding set_type_params_def [abs_def]
    by (intro keeps_files_if keeps_files_bind keeps_files_result keeps_files_when keeps_files_ops keeps_files_const epc)
qed

lemma keeps_files_boot: "keeps_files (set_boot_xml vminst)"
  unfolding set_boot_xml_def [abs_def] by (intro keeps_files_if keeps_files_bind keeps_files_ops)

lemma keeps_files_cpu: "keeps_files (set_cpu_params_xml dut vminst)"
  unfolding set_cpu_params_xml_def [abs_def]
  by (intro keeps_files_result keeps_files_bind keeps_files_type_params keeps_files_ops)

lemma keeps_files_vtpm: "keeps_files (set_vtpm_xml vminst)"
  unfolding set_vtpm_xml_def by (intro keeps_files_when keeps_files_ops)

lemma set_logfile_known: "set_logfile (Some f) (self, files) = Inr (self', files') \<Longrightarrow> vx_filepath self \<noteq> None \<Longrightarrow> knows_files self'"
  by (auto simp: set_logfile_def attr_setter_def with_tree_def knows_files_def dest!: saved_files split: option.splits prod.splits if_splits)

definition keeps_path :: "(vx_state \<Rightarrow> vx_state result) \<Rightarrow> bool" where
  "keeps_path m \<longleftrightarrow> (\<forall>self files self' files'. m (self, files) = Inr (self', files') \<longrightarrow> vx_filepath self \<noteq> None \<longrightarrow> vx_filepath self' \<noteq> None)"

lemma keeps_path_text: "keeps_path (text_setter p get put v)"
  unfolding keeps_path_def by (auto simp: text_setter_def with_tree_def Let_def dest!: saved_files split: option.splits prod.splits if_splits)

lemma keeps_path_attr: "keeps_path (attr_setter p a get put v)"
  unfolding keeps_path_def by (auto simp: attr_setter_def with_tree_def dest!: saved_files split: option.splits prod.splits if_splits)

lemma keeps_path_ops:
  "keeps_path (set_name v)" "keeps_path (set_uuid v)" "keeps_path (set_memory n)" "keeps_path (set_imagefile v)"
  "keeps_path (set_iomode v)" "keeps_path (set_cache v)"
  unfolding set_name_def set_uuid_def set_memory_def set_imagefile_def
  by (simp_all add: keeps_path_text keeps_path_attr)
    (use keeps_path_attr in \<open>fastforce simp: keeps_path_def set_iomode_def set_cache_def split: option.splits\<close>)+

lemma vx_clone_path:
  assumes "vx_clone this_dir output template new files = Inr (Some (self, files'))"
  shows "vx_filepath self \<noteq> None"
proof -
  let ?p = "path_join (get_templates_dir this_dir) (template @ ''.xml'')" and ?f = "path_join output (new @ ''.xml'')"
  obtain b obj b' obj1 files1 where *: "load ?p files VirtXml = Inr (b, obj)" "vx_save (Some ?f) (obj, files) = Inr (b', obj1, files1)"
    "set_name (Some new) (obj1, files1) = Inr (self, files')" "document files ?p \<noteq> None"
    using assms unfolding vx_clone_def Let_def by (auto simp: rbind_def split: if_splits sum.splits)
  have "vx_filepath obj \<noteq> None" using *(1,4) by (auto simp: load_def split: option.splits)
  then have "vx_filepath obj1 \<noteq> None"
    using *(2) by (auto simp: vx_save_def rbind_def split: sum.splits if_splits)
  then show ?thesis using *(3) keeps_path_ops(1) unfolding keeps_path_def by blast
qed

lemma leads_path: "keeps_path m \<Longrightarrow> vx_filepath (fst st) \<noteq> None \<Longrightarrow> leads (m st) (\<lambda>st. vx_filepath (fst st) \<noteq> None)"
  by (cases st) (auto simp: keeps_path_def leads_def split: sum.splits)

lemma leads_logfile: "vx_filepath (fst st) \<noteq> None \<Longrightarrow> leads (set_logfile (Some f) st) (\<lambda>st. knows_files (fst st))"
  by (cases st) (auto intro!: leadsI dest: set_logfile_known)

lemma leads_keeps_files: "keeps_files m \<Longrightarrow> knows_files (fst st) \<Longrightarrow> leads (m st) (\<lambda>st. knows_files (fst st))"
  by (cases st) (auto simp: keeps_files_def leads_def split: sum.splits)

lemma path_seq:
  "vx_filepath (fst st) \<noteq> None \<Longrightarrow> keeps_path m \<Longrightarrow> (\<And>st. vx_filepath (fst st) \<noteq> None \<Longrightarrow> leads (k st) Q) \<Longrightarrow> leads (rbind (m st) k) Q"
  by (rule leads_bind [OF leads_path])

lemma files_seq:
  "knows_files (fst st) \<Longrightarrow> keeps_files m \<Longrightarrow> (\<And>st. knows_files (fst st) \<Longrightarrow> leads (k st) Q) \<Longrightarrow> leads (rbind (m st) k) Q"
  by (rule leads_bind [OF leads_keeps_files])

lemma prepare_knows_files:
  assumes "prepare_domain_xml dut this_dir output vminst docs = Inr (self, docs')"
  shows "knows_files self"
proof -
  have "leads (prepare_domain_xml dut this_dir output vminst docs) (\<lambda>st. knows_files (fst st))"
  proof (cases "key_of vmm_template (g_vmtype vminst)")
    case (Inr template)
    show ?thesis
    proof (cases "vx_clone this_dir output template (g_name vminst) docs")
      case clone: (Inr r)
      show ?thesis
      proof (cases r)
        case (Some st)
        then have "vx_filepath (fst st) \<noteq> None" using clone vx_clone_path by (cases st) auto
        then show ?thesis
          unfolding prepare_domain_xml_def Inr clone Some rbind_Inr option.simps
          by (rule path_seq, intro keeps_path_ops) ((erule path_seq, rule keeps_path_ops)+, rule leads_bind, erule leads_logfile,
              (erule files_seq, (rule keeps_files_ops keeps_files_devices keeps_files_cpu)?, (intro keeps_files_when keeps_files_ops keeps_files_vtpm)?)+,
              rule leads_keeps_files, rule keeps_files_boot, assumption)
      qed (simp add: prepare_domain_xml_def Inr clone)
    qed (simp add: prepare_domain_xml_def Inr)
  qed (simp add: prepare_domain_xml_def)
  with assms show ?thesis by (auto dest: leadsD)
qed

section \<open>The guests of a factory\<close>

text \<open>Every guest is filed under its name and knows its files.\<close>

definition factory_ok :: "vm_factory \<Rightarrow> bool" where
  "factory_ok fac \<longleftrightarrow>
     distinct (map fst (f_vms fac)) \<and>
     list_all (\<lambda>(n, gi). n = g_name (gi_guest gi) \<and> knows_files (gi_xml gi)) (f_vms fac)"

lemma VMGuest_ok:
  assumes "VMGuest env g img own s = (Inr gi, s')"
  shows "g_name (gi_guest gi) = g_name g" "knows_files (gi_xml gi)"
  using assms prepare_knows_files
  by (fastforce simp: VMGuest_def new_manager_def Let_def rbind_def py_assert_def split: if_splits sum.splits prod.splits)+

lemma with_vmm_keeps:
  assumes "with_vmm gi m s = (r, gi', s')" "\<And>v r' v'. m v = (r', v') \<Longrightarrow> vm_xml v' = vm_xml v"
  shows "gi_xml gi' = gi_xml gi" "gi_guest gi' = gi_guest gi"
  using assms by (auto simp: with_vmm_def split: prod.splits)

lemma lv_call_xml: "lv_call f v = (r, v') \<Longrightarrow> vm_xml v' = vm_xml v"
  by (auto simp: lv_call_def split: prod.splits)

lemma vmm_create_xml: "vmm_create lv v = (r, v') \<Longrightarrow> vm_xml v' = vm_xml v"
  by (auto simp: vmm_create_def dest!: lv_call_xml split: sum.splits prod.splits option.splits)

lemma vmm_start_xml: "vmm_start lv g v = (r, v') \<Longrightarrow> vm_xml v' = vm_xml v"
  by (auto simp: vmm_start_def vmm_resume_def is_shutoff_def is_running_def get_domain_def on_dom_def lv_query_def ebind_def
      dest!: lv_call_xml split: sum.splits prod.splits option.splits if_splits)

lemma start_guest_keeps:
  assumes "start_guest env gi s = (r, gi', s')"
  shows "gi_xml gi' = gi_xml gi" "gi_guest gi' = gi_guest gi"
proof -
  obtain r1 gi1 s1 where c: "guest_create env gi s = (r1, gi1, s1)" by (cases "guest_create env gi s") auto
  have 1: "gi_xml gi1 = gi_xml gi" "gi_guest gi1 = gi_guest gi"
    using with_vmm_keeps [OF c [unfolded guest_create_def] vmm_create_xml] by auto
  have "gi_xml gi' = gi_xml gi1" "gi_guest gi' = gi_guest gi1" if "guest_start env gi1 s1 = (r, gi', s')"
    using with_vmm_keeps [OF that [unfolded guest_start_def] vmm_start_xml] by auto
  with 1 c assms show "gi_xml gi' = gi_xml gi" "gi_guest gi' = gi_guest gi"
    by (auto simp: start_guest_def split: sum.splits)
qed

lemma factory_ok_update:
  assumes "factory_ok fac" "n = g_name (gi_guest gi)" "knows_files (gi_xml gi)"
  shows "factory_ok (fac\<lparr>f_vms := AList.update n gi (f_vms fac)\<rparr>)"
proof -
  have "list_all (\<lambda>(n, gi). n = g_name (gi_guest gi) \<and> knows_files (gi_xml gi)) (AList.update n gi xs)"
    if "list_all (\<lambda>(n, gi). n = g_name (gi_guest gi) \<and> knows_files (gi_xml gi)) xs" for xs
    using that assms(2,3) by (induction xs) auto
  with assms(1) show ?thesis by (auto simp: factory_ok_def distinct_update)
qed

lemma new_vm_ok:
  assumes "new_vm env vm_id now q fac s = (r, fac', s')" "factory_ok fac"
  shows "factory_ok fac'"
proof -
  let ?n = "new_name env now q"
  have upd: "factory_ok (fac\<lparr>f_vms := AList.update ?n gi' (f_vms fac)\<rparr>)"
    if "VMGuest env (guest_of_request fac vm_id ?n img q) img own s0 = (Inr gi, s1)" "gi_xml gi' = gi_xml gi" "gi_guest gi' = gi_guest gi"
    for img own s0 gi s1 gi'
    using factory_ok_update [OF assms(2), of ?n gi'] VMGuest_ok [OF that(1)] that(2,3) by (simp add: guest_of_request_def)
  show ?thesis
    using assms
    by (auto simp: new_vm_def Let_def split: if_splits prod.splits sum.splits intro: upd dest: start_guest_keeps)
qed

lemma guest_destroy_returns:
  assumes "knows_files (gi_xml gi)"
  shows "\<exists>gi' s'. guest_destroy env del_img del_log undef gi s = (Inr (), gi', s')"
proof -
  obtain p l where p: "vx_filepath (gi_xml gi) = Some p" "vx_logfile (gi_xml gi) = Some l"
    using assms by (auto simp: knows_files_def)
  obtain v where v: "vmm_destroy (ge_libvirt env) (gi_guest gi) undef
      \<lparr>vm_host = sh_host s, vm_docs = sh_docs s, vm_files = sh_files s, vm_xml = gi_xml gi, vm_ip = gi_ip gi\<rparr> = (Inr (), v)"
    "vm_xml v = gi_xml gi"
    using p by (cases "lv_lookup (ge_libvirt env) (g_vmid (gi_guest gi)) (sh_host s)") (auto simp: vmm_destroy_def ebind_def get_domain_def)
  show ?thesis
    using p v by (auto simp: guest_destroy_def with_vmm_def delete_log_def Let_def ebind_def)
qed

text \<open>The factories of a process, with what its guests do in between: a command that fails in a guest marks it to be kept.\<close>

inductive factory_reach :: "'h guest_env \<Rightarrow> vm_factory \<Rightarrow> bool" for env where
  created: "VMGuestFactory env file krnl part s = (Inr fac, s') \<Longrightarrow> factory_reach env fac"
| guest: "factory_reach env fac \<Longrightarrow> new_vm env vm_id now q fac s = (r, fac', s') \<Longrightarrow> factory_reach env fac'"
| command: "factory_reach env fac \<Longrightarrow> (n, gi) \<in> set (f_vms fac) \<Longrightarrow> ssh_run env cmdarr key gi s = (r, gi', s')
    \<Longrightarrow> factory_reach env (fac\<lparr>f_vms := AList.update n gi' (f_vms fac)\<rparr>)"
| removal: "factory_reach env fac \<Longrightarrow> factory_remove env inst fac s = (r, fac', s') \<Longrightarrow> factory_reach env fac'"
| option: "factory_reach env fac \<Longrightarrow> factory_reach env (set_keep_issue_vm b fac)"

lemma arp_wait_xml: "vm_xml (arp_wait lv mac n v) = vm_xml v"
  by (induction n arbitrary: v) (simp_all add: Let_def)

lemma get_ip_xml: "get_ip lv g force v = (r, v') \<Longrightarrow> vm_xml v' = vm_xml v"
  by (auto simp: get_ip_def get_domain_def on_dom_def lv_query_def ebind_def arp_wait_xml split: if_splits option.splits)

lemma ssh_run_keeps:
  assumes "ssh_run env cmdarr key gi s = (r, gi', s')"
  shows "gi_xml gi' = gi_xml gi" "g_name (gi_guest gi') = g_name (gi_guest gi)"
proof -
  obtain r1 gi1 s1 where c: "guest_get_ip env False gi s = (r1, gi1, s1)" by (cases "guest_get_ip env False gi s") auto
  have "gi_xml gi1 = gi_xml gi" "gi_guest gi1 = gi_guest gi"
    using with_vmm_keeps [OF c [unfolded guest_get_ip_def] get_ip_xml] by auto
  with c assms show "gi_xml gi' = gi_xml gi" "g_name (gi_guest gi') = g_name (gi_guest gi)"
    by (auto simp: ssh_run_def split: sum.splits prod.splits if_splits)
qed

lemma factory_ok_delete: "factory_ok fac \<Longrightarrow> factory_ok (fac\<lparr>f_vms := AList.delete n (f_vms fac)\<rparr>)"
  using distinct_delete [of "f_vms fac" n] by (auto simp: factory_ok_def list_all_iff AList.delete_eq)

lemma factory_remove_ok: "factory_remove env inst fac s = (r, fac', s') \<Longrightarrow> factory_ok fac \<Longrightarrow> factory_ok fac'"
  by (auto simp: factory_remove_def destroy_and_forget_def factory_ok_delete split: if_splits sum.splits prod.splits)

lemma factory_reach_ok: "factory_reach env fac \<Longrightarrow> factory_ok fac"
proof (induction rule: factory_reach.induct)
  case created
  then show ?case by (auto simp: VMGuestFactory_def factory_ok_def split: prod.splits sum.splits)
next
  case (command fac n gi cmdarr key s r gi' s')
  from command.IH command.hyps(2) have "n = g_name (gi_guest gi)" "knows_files (gi_xml gi)"
    by (auto simp: factory_ok_def list_all_iff)
  with ssh_run_keeps [OF command.hyps(3)] command.IH show ?case by (intro factory_ok_update) auto
next
  case (option fac b)
  then show ?case by (simp add: factory_ok_def set_keep_issue_vm_def)
qed (auto intro: new_vm_ok factory_remove_ok)

definition kept :: "vm_factory \<Rightarrow> guest_inst \<Rightarrow> bool" where
  "kept fac gi \<longleftrightarrow> f_keep_issue_vm fac \<and> g_keep (gi_guest gi)"

lemma remove_each_run:
  assumes "factory_ok (fac\<lparr>f_vms := ks @ vs\<rparr>)" "list_all (\<lambda>(n, gi). kept fac gi) ks"
  shows "\<exists>s'. remove_each env (map snd vs) (fac\<lparr>f_vms := ks @ vs\<rparr>) s =
    (Inr (), fac\<lparr>f_vms := ks @ filter (\<lambda>(n, gi). kept fac gi) vs\<rparr>, s')"
  using assms
proof (induction vs arbitrary: ks s)
  case (Cons v vs)
  obtain n gi where v: "v = (n, gi)" by (cases v)
  have gi: "n = g_name (gi_guest gi)" "knows_files (gi_xml gi)" "n \<notin> fst ` set ks" "n \<notin> fst ` set vs"
    using Cons.prems(1) by (auto simp: factory_ok_def v)
  show ?case
  proof (cases "kept fac gi")
    case True
    then have "factory_remove env gi (fac\<lparr>f_vms := ks @ v # vs\<rparr>) s = (Inr (), fac\<lparr>f_vms := (ks @ [v]) @ vs\<rparr>, s)"
      by (simp add: factory_remove_def kept_def)
    with Cons.IH [of "ks @ [v]" s] Cons.prems True show ?thesis by (simp add: v)
  next
    case False
    obtain gi' s' where d: "guest_destroy env True True True gi s = (Inr (), gi', s')"
      using guest_destroy_returns [OF gi(2)] by blast
    have "AList.delete n (ks @ v # vs) = ks @ vs"
      using delete_id [OF gi(3)] delete_id [OF gi(4)] by (simp add: AList.delete_eq v)
    then have step: "factory_remove env gi (fac\<lparr>f_vms := ks @ v # vs\<rparr>) s = (Inr (), fac\<lparr>f_vms := ks @ vs\<rparr>, s')"
      using False d by (auto simp: factory_remove_def destroy_and_forget_def kept_def gi(1) [symmetric])
    have "factory_ok (fac\<lparr>f_vms := ks @ vs\<rparr>)" using Cons.prems(1) by (auto simp: factory_ok_def v)
    from Cons.IH [OF this Cons.prems(2), of s'] step False show ?thesis by (auto simp: v)
  qed
qed simp



end
