(* ===== verification/Guest_Ssh.thy ===== *)
theory Guest_Ssh
  imports Py_Poll Vm_Guest
begin

text \<open>
  The rest of \<open>pycloudstack/vmguest.py\<close>: the state of the vTPM domain, waiting for the SSH port of a guest, and the class \<open>VirshSSH\<close>.  Sockets,
  the clock and the package \<open>paramiko\<close> are parameters over the state of the host.  Both waiting loops look at the clock, so
  that they may not return: they are partial, and their end is proved from what the clock does.
\<close>

section \<open>The vTPM domain\<close>

definition vtpm_td_dom :: "'h libvirt \<Rightarrow> vm_guest \<Rightarrow> ('h vmm_state, string option \<times> string option) eff" where
  "vtpm_td_dom lv vminst =
     (\<lambda>v. case get_vtpm_id lv vminst v of
        (Inl e, v') \<Rightarrow> (if e = libvirtError then Inr (None, None) else Inl e, v')
      | (Inr dom_uuid, v') \<Rightarrow> ebind (get_domain_by_uuid lv dom_uuid) (\<lambda>dom. eret (dom, Some dom_uuid)) v')"

definition get_vtpm_td_dom ::
  "'h guest_env \<Rightarrow> guest_inst \<Rightarrow> 'h shared \<Rightarrow> (string option \<times> string option) result \<times> guest_inst \<times> 'h shared" where
  "get_vtpm_td_dom env gi = with_vmm gi (vtpm_td_dom (ge_libvirt env) (gi_guest gi))"

definition vtpm_state :: "'h guest_env \<Rightarrow> guest_inst \<Rightarrow> 'h shared \<Rightarrow> string option result \<times> guest_inst \<times> 'h shared" where
  "vtpm_state env gi =
     with_vmm gi
       (ebind (eassert (g_has_vtpm (gi_guest gi))) (\<lambda>_.
        ebind (vtpm_td_dom (ge_libvirt env) (gi_guest gi)) (\<lambda>(dom, _).
        on_dom dom (\<lambda>d.
        ebind (lv_query (lv_state (ge_libvirt env) d)) (\<lambda>st.
        eret
          (if st = Running then Some VM_STATE_RUNNING
           else if st = Paused then Some VM_STATE_PAUSE
           else if st = ShutdownInProgress then Some VM_STATE_SHUTDOWN_IN_PROGRESS
           else if st = Shutoff then Some VM_STATE_SHUTDOWN
           else None))))))"

section \<open>Waiting for the SSH port\<close>

text \<open>\<open>sock_recv\<close> gives \<open>None\<close> when the socket times out, and raises for other failures.\<close>

record 'h ssh_env =
  time_time :: "'h \<Rightarrow> int"
  time_sleep :: "int \<Rightarrow> 'h \<Rightarrow> 'h"
  connect_ex :: "string \<Rightarrow> int \<Rightarrow> int \<Rightarrow> 'h \<Rightarrow> int \<times> 'h"
  sock_recv :: "nat \<Rightarrow> ('h, bytes option) eff"
  sock_shutdown :: "'h \<Rightarrow> 'h"

definition LOOPBACK :: string where "LOOPBACK = ''127.0.0.1''"
definition DEFAULT_CHECK_INTERVAL :: int where "DEFAULT_CHECK_INTERVAL = 1"

text \<open>Opening the socket and reading from it: \<open>True\<close> when the answer starts with \<open>SSH-\<close>.  \<open>shutdown\<close> may fail without effect.\<close>

definition probe_ssh :: "'h ssh_env \<Rightarrow> int \<Rightarrow> int \<Rightarrow> string \<Rightarrow> int \<Rightarrow> ('h, bool) eff" where
  "probe_ssh S timeout check_interval ssh_ip ssh_port h =
     (case connect_ex S ssh_ip ssh_port timeout h of
        (retcode, h) \<Rightarrow>
          if retcode \<noteq> 0 then (Inr False, time_sleep S check_interval h)
          else
            (case sock_recv S 4096 h of
               (Inl e, h) \<Rightarrow> (Inl e, h)
             | (Inr None, h) \<Rightarrow> (Inr False, h)
             | (Inr (Some data), h) \<Rightarrow>
                 (case decode data of
                    Inl e \<Rightarrow> (Inl e, h)
                  | Inr sdata \<Rightarrow> (Inr (starts_with ''SSH-'' sdata), sock_shutdown S h))))"

text \<open>One round of the loop: the address, with the forwarded port as the fallback, and the probe.\<close>

definition ssh_round :: "'h guest_env \<Rightarrow> 'h ssh_env \<Rightarrow> int \<Rightarrow> int \<Rightarrow> (guest_inst \<times> 'h shared, bool) eff" where
  "ssh_round env S timeout check_interval gs =
     (case guest_get_ip env True (fst gs) (snd gs) of
        (r, gi, s) \<Rightarrow>
          (let probe = (\<lambda>ip port.
                 case on_host (probe_ssh S timeout check_interval ip port) s of (b, s) \<Rightarrow> (b, (gi, s)))
           in
             (case r of
                Inr None \<Rightarrow> (Inr False, (gi, s))
              | Inr (Some ip) \<Rightarrow> probe ip DEFAULT_SSH_PORT
              | Inl e \<Rightarrow> if e = NotImplementedError then probe LOOPBACK (int (gi_ssh_forward_port gi)) else (Inl e, (gi, s)))))"

partial_function (option) ssh_loop ::
  "('s, bool) eff \<Rightarrow> ('s \<Rightarrow> int) \<Rightarrow> int \<Rightarrow> int \<Rightarrow> int \<Rightarrow> ('s, bool) leff" where
  "ssh_loop attempt clock timeout tstart tnow st =
     (if tnow - tstart < timeout then
        (case attempt st of
           (Inl e, st') \<Rightarrow> Some (Inl e, st')
         | (Inr ok, st') \<Rightarrow>
             if ok then Some (Inr True, st') else ssh_loop attempt clock timeout tstart (clock st') st')
      else Some (Inr False, st))"

definition wait_for_ssh_ready :: "'h guest_env \<Rightarrow> 'h ssh_env \<Rightarrow> int \<Rightarrow> int \<Rightarrow> (guest_inst \<times> 'h shared, bool) leff" where
  "wait_for_ssh_ready env S timeout check_interval gs =
     (let clock = (\<lambda>gs. time_time S (sh_host (snd gs))) in
      ssh_loop (ssh_round env S timeout check_interval) clock timeout (clock gs) (clock gs) gs)"

section \<open>The client\<close>

text \<open>\<open>paramiko\<close>: connecting with the address, the name, the password and the port; a channel for files, copying a file
  through it, and closing it; running a command, which gives its
  exit status and its two outputs; and closing.  \<open>run_shell\<close> gives the exit status of a command of the shell.\<close>

record 'h paramiko =
  p_time :: "'h \<Rightarrow> int"
  p_sleep :: "int \<Rightarrow> 'h \<Rightarrow> 'h"
  p_connect :: "string \<Rightarrow> string \<Rightarrow> string \<Rightarrow> int \<Rightarrow> ('h, unit) eff"
  open_sftp :: "('h, unit) eff"
  sftp_put :: "string \<Rightarrow> string \<Rightarrow> ('h, unit) eff"
  sftp_get :: "string \<Rightarrow> string \<Rightarrow> ('h, unit) eff"
  sftp_close :: "('h, unit) eff"
  exec_command :: "string \<Rightarrow> ('h, int \<times> bytes \<times> bytes) eff"
  p_close :: "('h, unit) eff"
  run_shell :: "string \<Rightarrow> ('h, int) eff"

definition CONNECT_SLEEP :: int where "CONNECT_SLEEP = 1"
definition CONNECT_TIMEOUT :: int where "CONNECT_TIMEOUT = 60"

record virsh_ssh =
  vs_username :: string
  vs_password :: string
  vs_port :: int
  vs_ip :: string

text \<open>An exception of the protocol that is not about the banner ends the attempts; every other exception is ignored.\<close>

definition fatal :: "py_error \<Rightarrow> bool" where
  "fatal e = (case e of SSHException msg \<Rightarrow> \<not> contains ''Error reading SSH protocol banner'' msg | _ \<Rightarrow> False)"

partial_function (option) connect_loop :: "'h paramiko \<Rightarrow> virsh_ssh \<Rightarrow> int \<Rightarrow> int \<Rightarrow> ('h, unit) leff" where
  "connect_loop P vs timeout timeout_start h =
     (case p_connect P (vs_ip vs) (vs_username vs) (vs_password vs) (vs_port vs) h of
        (Inr _, h) \<Rightarrow> Some (Inr (), h)
      | (Inl e, h) \<Rightarrow>
          if p_time P h \<ge> timeout_start + timeout then Some (Inl AssertionError, h)
          else
            (let h = p_sleep P CONNECT_SLEEP h in
             if fatal e then Some (Inl AssertionError, h) else connect_loop P vs timeout timeout_start h))"

definition wait_and_connect :: "'h paramiko \<Rightarrow> virsh_ssh \<Rightarrow> int \<Rightarrow> ('h, unit) leff" where
  "wait_and_connect P vs timeout h = connect_loop P vs timeout (p_time P h) h"

text \<open>The constructor, for a machine whose \<open>get_ip\<close> is an operation on the host.\<close>

definition VirshSSH :: "'h paramiko \<Rightarrow> ('h, string option) eff \<Rightarrow> int \<Rightarrow> ('h, virsh_ssh) leff" where
  "VirshSSH P machine_get_ip timeout =
     lbind (lift_eff machine_get_ip) (\<lambda>vm_ip.
     case vm_ip of
       None \<Rightarrow> lift_eff (eraise AssertionError)
     | Some ip \<Rightarrow>
         (let vs = \<lparr>vs_username = ''root'', vs_password = ''123456'', vs_port = DEFAULT_SSH_PORT, vs_ip = ip\<rparr> in
          lbind (wait_and_connect P vs timeout) (\<lambda>_. lret vs)))"

definition rsync_command :: "virsh_ssh \<Rightarrow> string \<Rightarrow> string \<Rightarrow> bool \<Rightarrow> string" where
  "rsync_command vs fname dest sudo =
     (let ssh_opts = ''-o StrictHostKeyChecking=no -o UserKnownHostsFile=/dev/null -p '' @ fmt_dec (vs_port vs);
          rsync_opts = ''-atrv --delete --exclude=\"*~\"''
            @ '' -e \"sshpass -p '' @ vs_password vs @ '' ssh '' @ ssh_opts @ ''\"''
            @ (if sudo then '' --rsync-path=\"sudo rsync\"'' else [])
      in ''rsync '' @ rsync_opts @ ''  '' @ fname @ '' '' @ vs_username vs @ ''@'' @ vs_ip vs @ '':'' @ dest)"

definition rsync_file :: "'h paramiko \<Rightarrow> virsh_ssh \<Rightarrow> string \<Rightarrow> string \<Rightarrow> bool \<Rightarrow> ('h, unit) eff" where
  "rsync_file P vs fname dest sudo =
     ebind (run_shell P (rsync_command vs fname dest sudo)) (\<lambda>status.
     if status = 0 then eret () else eraise (Raised ''CalledProcessError''))"

text \<open>\<open>check_exec\<close> gives the output; the error output is decoded only to be printed after a failure.\<close>

definition check_exec :: "'h paramiko \<Rightarrow> string \<Rightarrow> ('h, string \<times> bytes) eff" where
  "check_exec P cmd =
     ebind (exec_command P cmd) (\<lambda>(ret_status, out, err).
     ebind (eres (decode out)) (\<lambda>stdout.
     ebind (if ret_status \<noteq> 0 then ebind (eres (decode err)) (\<lambda>_. eret ()) else eret ()) (\<lambda>_.
     ebind (eassert (0 = ret_status)) (\<lambda>_.
     eret (stdout, err)))))"

definition vs_put :: "'h paramiko \<Rightarrow> string \<Rightarrow> string \<Rightarrow> ('h, unit) eff" where
  "vs_put P local_file remote_file =
     ebind (open_sftp P) (\<lambda>_.
     ebind (sftp_put P local_file remote_file) (\<lambda>_.
     sftp_close P))"

definition vs_get :: "'h paramiko \<Rightarrow> string \<Rightarrow> string \<Rightarrow> ('h, unit) eff" where
  "vs_get P remote_file local_file =
     ebind (open_sftp P) (\<lambda>_.
     ebind (sftp_get P remote_file local_file) (\<lambda>_.
     sftp_close P))"

definition vs_poweroff :: "'h paramiko \<Rightarrow> ('h, unit) eff" where
  "vs_poweroff P = ebind (exec_command P ''poweroff'') (\<lambda>_. eret ())"

definition vs_close :: "'h paramiko \<Rightarrow> ('h, unit) eff" where
  "vs_close P = p_close P"

section \<open>The loops end\<close>

text \<open>A loop ends when each attempt that is not ready takes time.\<close>

lemma ssh_loop_outcome:
  assumes "\<And>st st'. attempt st = (Inr False, st') \<Longrightarrow> clock st < clock st'"
  shows "\<exists>r st'. ssh_loop attempt clock timeout tstart (clock st) st = Some (r, st') \<and>
    (r = Inr True \<longrightarrow> (\<exists>st0. attempt st0 = (Inr True, st') \<and> clock st0 - tstart < timeout)) \<and>
    (r = Inr False \<longrightarrow> timeout \<le> clock st' - tstart)"
proof (induction "nat (timeout - (clock st - tstart))" arbitrary: st rule: less_induct)
  case less
  show ?case
  proof (cases "clock st - tstart < timeout \<and> (\<exists>st'. attempt st = (Inr False, st'))")
    case True
    then obtain st' where st': "attempt st = (Inr False, st')" by blast
    then have "nat (timeout - (clock st' - tstart)) < nat (timeout - (clock st - tstart))"
      using assms [OF st'] True by simp
    then show ?thesis
      using less st' True by (subst ssh_loop.simps) simp
  next
    case False
    then show ?thesis
      by (subst ssh_loop.simps) (auto split: prod.splits sum.splits)
  qed
qed

lemma connect_loop_returns:
  assumes sleep: "\<And>h. p_time P (p_sleep P CONNECT_SLEEP h) \<ge> p_time P h + CONNECT_SLEEP"
    and connect: "\<And>h. p_time P (snd (p_connect P (vs_ip vs) (vs_username vs) (vs_password vs) (vs_port vs) h)) \<ge> p_time P h"
  shows "connect_loop P vs timeout t0 h \<noteq> None"
proof (induction "nat (t0 + timeout - p_time P h)" arbitrary: h rule: less_induct)
  case less
  obtain r h1 where c: "p_connect P (vs_ip vs) (vs_username vs) (vs_password vs) (vs_port vs) h = (r, h1)" by fastforce
  have "p_time P h1 \<ge> p_time P h" using connect [of h] by (simp add: c)
  then have "nat (t0 + timeout - p_time P (p_sleep P CONNECT_SLEEP h1)) < nat (t0 + timeout - p_time P h)"
    if "p_time P h1 < t0 + timeout"
    using that sleep [of h1] by (simp add: CONNECT_SLEEP_def)
  then show ?case
    using less by (subst connect_loop.simps) (auto simp: c Let_def split: sum.splits)
qed

lemma VirshSSH_returns:
  assumes "\<And>h. p_time P (p_sleep P CONNECT_SLEEP h) \<ge> p_time P h + CONNECT_SLEEP"
    and "\<And>ip user word port h. p_time P (snd (p_connect P ip user word port h)) \<ge> p_time P h"
  shows "VirshSSH P machine_get_ip timeout h \<noteq> None"
  unfolding VirshSSH_def
proof (rule lbind_total)
  have "connect_loop P vs timeout t0 h' \<noteq> None" for vs t0 h'
    using assms by (intro connect_loop_returns)
  then have conn: "lbind (wait_and_connect P vs timeout) (\<lambda>_. lret vs) h' \<noteq> None" for vs h'
    by (intro lbind_total) (simp_all add: wait_and_connect_def del: not_None_eq)
  show "(case vm_ip of None \<Rightarrow> lift_eff (eraise AssertionError)
      | Some ip \<Rightarrow> let vs = \<lparr>vs_username = ''root'', vs_password = ''123456'', vs_port = DEFAULT_SSH_PORT, vs_ip = ip\<rparr>
                   in lbind (wait_and_connect P vs timeout) (\<lambda>_. lret vs)) h' \<noteq> None" for vm_ip h'
    using conn by (cases vm_ip) (simp_all add: Let_def del: not_None_eq)
qed simp

text \<open>What the clock does: it never goes back, and sleeping and reading from a socket take time.\<close>

definition clock_laws :: "'h libvirt \<Rightarrow> 'h ssh_env \<Rightarrow> bool" where
  "clock_laws lv S \<longleftrightarrow>
     (\<forall>h. time_time S h < time_time S (sleep_1 lv h)) \<and>
     (\<forall>h n. 0 < n \<longrightarrow> time_time S h < time_time S (time_sleep S n h)) \<and>
     (\<forall>h ip port t. time_time S h \<le> time_time S (snd (connect_ex S ip port t h))) \<and>
     (\<forall>h n. time_time S h < time_time S (snd (sock_recv S n h))) \<and>
     (\<forall>h. time_time S h \<le> time_time S (sock_shutdown S h))"

lemma clock_lawD:
  assumes "clock_laws lv S"
  shows "time_time S h < time_time S (sleep_1 lv h)" and "0 < n \<Longrightarrow> time_time S h < time_time S (time_sleep S n h)"
    and "connect_ex S ip port t h = (c, h') \<Longrightarrow> time_time S h \<le> time_time S h'"
    and "sock_recv S k h = (d, h') \<Longrightarrow> time_time S h < time_time S h'"
    and "time_time S h \<le> time_time S (sock_shutdown S h)"
  using assms unfolding clock_laws_def by (blast, blast, metis snd_conv, metis snd_conv, blast)

lemma arp_wait_time:
  assumes "clock_laws lv S"
  shows "time_time S (vm_host v) \<le> time_time S (vm_host (arp_wait lv mac n v)) \<and>
    (0 < n \<and> vm_ip (arp_wait lv mac n v) = None \<longrightarrow> time_time S (vm_host v) < time_time S (vm_host (arp_wait lv mac n v)))"
proof (induction n arbitrary: v)
  case (Suc n)
  let ?v = "v\<lparr>vm_ip := arp_scan mac (arp_stdout lv (vm_host v)) (vm_ip v), vm_host := sleep_1 lv (vm_host v)\<rparr>"
  have "time_time S (vm_host v) < time_time S (vm_host ?v)"
    using clock_lawD(1) [OF assms] by simp
  then show ?case
    using Suc [of ?v] by (auto simp: Let_def)
qed simp

lemma get_ip_time:
  assumes "clock_laws lv S" and "get_ip lv vminst True v = (r, v')"
  shows "time_time S (vm_host v) \<le> time_time S (vm_host v') \<and> (r = Inr None \<longrightarrow> time_time S (vm_host v) < time_time S (vm_host v'))"
proof -
  have "0 < ARP_INTERVAL" by (simp add: ARP_INTERVAL_def)
  then show ?thesis
    using assms(2) arp_wait_time [OF assms(1), of v _ ARP_INTERVAL]
    by (auto simp: get_ip_def get_domain_def on_dom_def lv_query_def ebind_def split: prod.splits sum.splits option.splits if_splits)
qed

lemma probe_ssh_time:
  assumes "clock_laws lv S" and "0 < check_interval" and "probe_ssh S timeout check_interval ip port h = (Inr False, h')"
  shows "time_time S h < time_time S h'"
proof -
  obtain c h1 where c: "connect_ex S ip port timeout h = (c, h1)" by fastforce
  obtain d h2 where d: "sock_recv S 4096 h1 = (d, h2)" by fastforce
  have t: "time_time S h \<le> time_time S h1" "time_time S h1 < time_time S h2" "time_time S h2 \<le> time_time S (sock_shutdown S h2)"
    "time_time S h1 < time_time S (time_sleep S check_interval h1)"
    using clock_lawD [OF assms(1)] assms(2) c d by blast+
  show ?thesis
  proof (cases "c = 0")
    case True
    then have "h' = h2 \<or> h' = sock_shutdown S h2"
      using assms(3) by (auto simp: probe_ssh_def c d split: sum.splits option.splits)
    then show ?thesis using t by auto
  next
    case False
    then show ?thesis using assms(3) t by (simp add: probe_ssh_def c)
  qed
qed

lemma ssh_round_time:
  assumes "clock_laws (ge_libvirt env) S" and "0 < check_interval"
    and "ssh_round env S timeout check_interval gs = (Inr False, gs')"
  shows "time_time S (sh_host (snd gs)) < time_time S (sh_host (snd gs'))"
proof -
  obtain r gi s where ip: "guest_get_ip env True (fst gs) (snd gs) = (r, gi, s)" by (metis prod.exhaust)
  have le: "time_time S (sh_host (snd gs)) \<le> time_time S (sh_host s)"
    and lt: "r = Inr None \<Longrightarrow> time_time S (sh_host (snd gs)) < time_time S (sh_host s)"
    using ip get_ip_time [OF assms(1)] by (fastforce simp: guest_get_ip_def with_vmm_def split: prod.splits)+
  have probe: "time_time S (sh_host s) < time_time S (sh_host (snd gs'))"
    if "(case on_host (probe_ssh S timeout check_interval a b) s of (x, s) \<Rightarrow> (x, gi, s)) = (Inr False, gs')" for a b
    using that probe_ssh_time [OF assms(1,2)] by (auto simp: on_host_def split: prod.splits)
  show ?thesis
    using assms(3) le lt probe unfolding ssh_round_def ip Let_def
    by (auto split: sum.splits option.splits if_splits intro: le_less_trans)
qed


section \<open>A concrete host\<close>

text \<open>The state is the time; the guest appears after three seconds and answers after five.\<close>

definition clock_demo_libvirt :: "int libvirt" where
  "clock_demo_libvirt =
     \<lparr>lv_open = \<lambda>h. True, lv_lookup = \<lambda>d h. True, lv_define = \<lambda>x h. (None, h), lv_create = \<lambda>d h. (True, h),
      lv_destroy = \<lambda>d h. (True, h), lv_undefine = \<lambda>d h. (True, h), lv_suspend = \<lambda>d h. (True, h), lv_resume = \<lambda>d h. (True, h),
      lv_reboot = \<lambda>d h. (True, h), lv_shutdown = \<lambda>m d h. (True, h), lv_state = \<lambda>d h. Some Running, lv_active = \<lambda>d h. Some True,
      lv_xmldesc = \<lambda>d h. Some ''<mac address='52:54:00:12:34:56'/>'',
      arp_stdout = \<lambda>h. if 3 \<le> h then [''? (192.168.122.7) at 52:54:00:12:34:56 [ether] on virbr0''] else [],
      sleep_1 = \<lambda>h. h + 1, removable = \<lambda>f. True\<rparr>"

definition clock_demo_ssh :: "int ssh_env" where
  "clock_demo_ssh =
     \<lparr>time_time = \<lambda>h. h, time_sleep = \<lambda>n h. h + n, connect_ex = \<lambda>ip port t h. (if 5 \<le> h then 0 else 111, h),
      sock_recv = \<lambda>n h. (Inr (Some (encode ''SSH-2.0'')), h + 1), sock_shutdown = \<lambda>h. h\<rparr>"

definition clock_demo_env :: "int guest_env" where
  "clock_demo_env =
     \<lparr>ge_libvirt = clock_demo_libvirt, ge_cmd = demo_cmd, ge_dut = demo_host, ge_this_dir = ''/'', ge_output = ''/tmp'', ge_user = ''u''\<rparr>"

definition clock_demo_guest :: "guest_inst \<times> int shared" where
  "clock_demo_guest = (demo_inst, \<lparr>sh_host = 0, sh_docs = demo_docs, sh_files = {}, sh_cmdline = g_cmdline demo_guest\<rparr>)"


end
