(* ===== verification/Cmd_Thread.thy ===== *)
theory Cmd_Thread
  imports Cmd_Runner
begin

text \<open>
  The thread of \<open>pycloudstack/cmdrunner.py\<close>: \<open>_execute\<close> reads the output of the process to its end, then its error output to its end,
  and then asks for the exit code.  The process writes into two pipes of a bounded capacity and blocks when one is full.  The two
  run in parallel, as a relation with one rule per step of either; \<open>terminate\<close> comes from another thread.
\<close>

section \<open>Process and thread\<close>

text \<open>The process writes characters to its two outputs and then exits.\<close>

datatype act = Out char | Err char

fun outs :: "act list \<Rightarrow> string" where
  "outs [] = []"
| "outs (Out c # as) = c # outs as"
| "outs (Err c # as) = outs as"

fun errs :: "act list \<Rightarrow> string" where
  "errs [] = []"
| "errs (Err c # as) = c # errs as"
| "errs (Out c # as) = errs as"

text \<open>Where the thread is: at the condition of the loop, reading one of the outputs (with the text so far), at \<open>poll()\<close>, or at the end.\<close>

datatype phase = At_loop | Reading_out string | Reading_err string | At_poll | Finished

record thread_state =
  t_acts :: "act list"
  t_code :: int
  t_status :: "int option"
  t_pipe_out :: string
  t_pipe_err :: string
  t_phase :: phase
  t_stdout :: "string list"
  t_stderr :: "string list"
  t_returncode :: "int option"
  t_is_terminate :: bool
  t_retcode :: "int option"

text \<open>The lines of a text in universal newline mode, each stripped.\<close>

definition stripped_lines :: "string \<Rightarrow> string list" where
  "stripped_lines s = map py_strip (read_lines (universal_newlines s))"

definition start_thread :: "act list \<Rightarrow> int \<Rightarrow> thread_state" where
  "start_thread as code =
     \<lparr>t_acts = as, t_code = code, t_status = None, t_pipe_out = [], t_pipe_err = [], t_phase = At_loop, t_stdout = [],
      t_stderr = [], t_returncode = None, t_is_terminate = False, t_retcode = None\<rparr>"

text \<open>The condition of the loop, and the statement after it.\<close>

definition loop_head :: "thread_state \<Rightarrow> thread_state" where
  "loop_head s =
     (if t_returncode s = None \<and> \<not> t_is_terminate s then s\<lparr>t_phase := Reading_out []\<rparr>
      else s\<lparr>t_phase := Finished, t_retcode := t_returncode s\<rparr>)"

inductive tstep :: "nat \<Rightarrow> thread_state \<Rightarrow> thread_state \<Rightarrow> bool" for cap where
  write_out: "\<lbrakk>t_status s = None; t_acts s = Out c # as; length (t_pipe_out s) < cap\<rbrakk> \<Longrightarrow>
     tstep cap s (s\<lparr>t_acts := as, t_pipe_out := t_pipe_out s @ [c]\<rparr>)"
| write_err: "\<lbrakk>t_status s = None; t_acts s = Err c # as; length (t_pipe_err s) < cap\<rbrakk> \<Longrightarrow>
     tstep cap s (s\<lparr>t_acts := as, t_pipe_err := t_pipe_err s @ [c]\<rparr>)"
| exit: "\<lbrakk>t_status s = None; t_acts s = []\<rbrakk> \<Longrightarrow> tstep cap s (s\<lparr>t_status := Some (t_code s)\<rparr>)"
| enter: "t_phase s = At_loop \<Longrightarrow> tstep cap s (loop_head s)"
| read_out: "\<lbrakk>t_phase s = Reading_out buf; t_pipe_out s = c # p\<rbrakk> \<Longrightarrow>
     tstep cap s (s\<lparr>t_phase := Reading_out (buf @ [c]), t_pipe_out := p\<rparr>)"
| end_out: "\<lbrakk>t_phase s = Reading_out buf; t_pipe_out s = []; t_status s \<noteq> None\<rbrakk> \<Longrightarrow>
     tstep cap s (s\<lparr>t_phase := Reading_err [], t_stdout := t_stdout s @ stripped_lines buf\<rparr>)"
| read_err: "\<lbrakk>t_phase s = Reading_err buf; t_pipe_err s = c # p\<rbrakk> \<Longrightarrow>
     tstep cap s (s\<lparr>t_phase := Reading_err (buf @ [c]), t_pipe_err := p\<rparr>)"
| end_err: "\<lbrakk>t_phase s = Reading_err buf; t_pipe_err s = []; t_status s \<noteq> None\<rbrakk> \<Longrightarrow>
     tstep cap s (s\<lparr>t_phase := At_poll, t_stderr := t_stderr s @ stripped_lines buf\<rparr>)"
| poll_code: "t_phase s = At_poll \<Longrightarrow> tstep cap s (loop_head (s\<lparr>t_returncode := t_status s\<rparr>))"

text \<open>\<open>terminate\<close>: the flag, and the signal that ends a process that still runs.\<close>

definition terminate :: "thread_state \<Rightarrow> thread_state" where
  "terminate s =
     (let s = s\<lparr>t_is_terminate := True\<rparr> in
      if t_status s = None then s\<lparr>t_status := Some (- 9), t_acts := []\<rparr> else s)"

inductive_cases tstepE: "tstep cap s s'"

definition stuck :: "nat \<Rightarrow> thread_state \<Rightarrow> bool" where
  "stuck cap s \<longleftrightarrow> t_phase s \<noteq> Finished \<and> (\<nexists>s'. tstep cap s s')"

section \<open>The invariant\<close>

text \<open>What the thread has read of each output, while it was not terminated.\<close>

definition thread_inv :: "nat \<Rightarrow> act list \<Rightarrow> int \<Rightarrow> thread_state \<Rightarrow> bool" where
  "thread_inv cap as code s \<longleftrightarrow>
     \<not> t_is_terminate s \<and> t_code s = code \<and> length (t_pipe_err s) \<le> cap \<and>
     (t_status s = None \<or> t_status s = Some code \<and> t_acts s = []) \<and>
     (case t_phase s of
        At_loop \<Rightarrow>
          t_pipe_out s @ outs (t_acts s) = outs as \<and> t_pipe_err s @ errs (t_acts s) = errs as \<and>
          t_stdout s = [] \<and> t_stderr s = [] \<and> t_returncode s = None
      | Reading_out buf \<Rightarrow>
          buf @ t_pipe_out s @ outs (t_acts s) = outs as \<and> t_pipe_err s @ errs (t_acts s) = errs as \<and>
          t_stdout s = [] \<and> t_stderr s = [] \<and> t_returncode s = None
      | Reading_err buf \<Rightarrow>
          t_status s = Some code \<and> buf @ t_pipe_err s = errs as \<and> length (errs as) \<le> cap \<and>
          t_stdout s = stripped_lines (outs as) \<and> t_stderr s = [] \<and> t_returncode s = None
      | At_poll \<Rightarrow>
          t_status s = Some code \<and> length (errs as) \<le> cap \<and>
          t_stdout s = stripped_lines (outs as) \<and> t_stderr s = stripped_lines (errs as)
      | Finished \<Rightarrow>
          t_retcode s = Some code \<and> length (errs as) \<le> cap \<and>
          t_stdout s = stripped_lines (outs as) \<and> t_stderr s = stripped_lines (errs as))"

lemma thread_inv_start: "thread_inv cap as code (start_thread as code)"
  by (simp add: thread_inv_def start_thread_def)

lemma thread_inv_step:
  assumes "tstep cap s s'" and "thread_inv cap as code s"
  shows "thread_inv cap as code s'"
  using assms
proof (induction rule: tstep.induct)
  case (end_out s buf)
  then have "errs as = t_pipe_err s" by (auto simp: thread_inv_def)
  with end_out show ?case by (auto simp: thread_inv_def)
qed (auto simp: thread_inv_def loop_head_def split: phase.splits)

lemma thread_inv_reach:
  assumes "(tstep cap)\<^sup>*\<^sup>* (start_thread as code) s"
  shows "thread_inv cap as code s"
  using assms by (induction rule: rtranclp_induct) (auto intro: thread_inv_start thread_inv_step)

section \<open>Every run ends\<close>

fun phase_weight :: "phase \<Rightarrow> nat" where
  "phase_weight At_loop = 4"
| "phase_weight (Reading_out buf) = 3"
| "phase_weight (Reading_err buf) = 2"
| "phase_weight At_poll = 1"
| "phase_weight Finished = 0"

definition work_left :: "thread_state \<Rightarrow> nat" where
  "work_left s =
     2 * length (t_acts s) + length (t_pipe_out s) + length (t_pipe_err s) + (if t_status s = None then 1 else 0) + phase_weight (t_phase s)"

lemma work_decreases:
  assumes "tstep cap s s'" and "thread_inv cap as code s"
  shows "work_left s' < work_left s"
  using assms
  by (induction rule: tstep.induct) (auto simp: work_left_def thread_inv_def loop_head_def split: phase.splits)

lemma steps_bounded:
  assumes "(tstep cap ^^ n) s s'" and "thread_inv cap as code s"
  shows "n + work_left s' \<le> work_left s"
  using assms
proof (induction n arbitrary: s')
  case (Suc n)
  then obtain t where t: "(tstep cap ^^ n) s t" "tstep cap t s'" by auto
  then have "thread_inv cap as code t"
    using Suc.prems(2) thread_inv_step by (induction n arbitrary: t s') auto
  then show ?case
    using Suc.IH [OF t(1) Suc.prems(2)] work_decreases [OF t(2)] by fastforce
qed simp

lemma run_to_end:
  assumes "thread_inv cap as code s"
  shows "\<exists>s'. (tstep cap)\<^sup>*\<^sup>* s s' \<and> (\<nexists>s''. tstep cap s' s'')"
  using assms
proof (induction "work_left s" arbitrary: s rule: less_induct)
  case less
  show ?case
  proof (cases "\<exists>t. tstep cap s t")
    case True
    then obtain t where t: "tstep cap s t" by blast
    then obtain s' where "(tstep cap)\<^sup>*\<^sup>* t s'" "\<nexists>s''. tstep cap s' s''"
      using less.hyps [OF work_decreases [OF t less.prems]] thread_inv_step [OF t less.prems] by blast
    then show ?thesis using t by (meson converse_rtranclp_into_rtranclp)
  qed blast
qed

section \<open>When it blocks\<close>

text \<open>A thread can always go on if the error output fits into its pipe, or if the process has ended.\<close>

lemma terminated_progress:
  assumes "t_status s \<noteq> None" and "t_phase s \<noteq> Finished"
  shows "\<exists>s'. tstep cap s s'"
proof (cases "t_phase s")
  case (Reading_out buf)
  then show ?thesis using assms(1) by (cases "t_pipe_out s") (blast intro: read_out end_out)+
next
  case (Reading_err buf)
  then show ?thesis using assms(1) by (cases "t_pipe_err s") (blast intro: read_err end_err)+
qed (use assms(2) in \<open>auto intro: enter poll_code\<close>)

lemma thread_progress:
  assumes inv: "thread_inv cap as code s" and "length (errs as) \<le> cap" and "0 < cap" and "t_phase s \<noteq> Finished"
  shows "\<exists>s'. tstep cap s s'"
proof (cases "t_status s = None \<and> t_phase s \<noteq> At_loop")
  case False
  then show ?thesis
    using terminated_progress [of s cap] assms(4) enter by blast
next
  case True
  then obtain buf where ph: "t_phase s = Reading_out buf"
    using inv assms(4) by (cases "t_phase s") (auto simp: thread_inv_def)
  show ?thesis
  proof (cases "t_pipe_out s")
    case (Cons c p)
    then show ?thesis using read_out [OF ph] by blast
  next
    case empty: Nil
    show ?thesis
    proof (cases "t_acts s")
      case Nil
      then show ?thesis using True exit by blast
    next
      case (Cons a acts)
      have "t_pipe_err s @ errs (a # acts) = errs as"
        using inv ph Cons by (simp add: thread_inv_def)
      then have "length (t_pipe_err s) + length (errs (a # acts)) \<le> cap"
        using assms(2) by (metis length_append)
      then show ?thesis
        using True empty Cons assms(3) write_out [of s _ acts cap] write_err [of s _ acts cap] by (cases a) fastforce+
    qed
  qed
qed

lemma terminate_not_stuck: "\<not> stuck cap (terminate s)"
proof -
  have "t_status (terminate s) \<noteq> None" by (simp add: terminate_def Let_def)
  then show ?thesis using terminated_progress unfolding stuck_def by blast
qed

text \<open>C28: the runner of a command and its process block each other exactly when the process writes more to its error output
  than the pipe holds: the thread waits for the end of the other output, which never comes, and the process waits
  for the thread to read.  In every other case each run goes on until the thread has finished.\<close>

theorem runner_blocks_iff:
  assumes "0 < cap"
  shows "(\<exists>s. (tstep cap)\<^sup>*\<^sup>* (start_thread as code) s \<and> stuck cap s) \<longleftrightarrow> cap < length (errs as)"
proof
  assume "\<exists>s. (tstep cap)\<^sup>*\<^sup>* (start_thread as code) s \<and> stuck cap s"
  then obtain s where s: "(tstep cap)\<^sup>*\<^sup>* (start_thread as code) s" "stuck cap s" by blast
  then show "cap < length (errs as)"
    using thread_progress [OF thread_inv_reach [OF s(1)] _ assms] by (auto simp: stuck_def not_less [symmetric])
next
  assume long: "cap < length (errs as)"
  obtain s where s: "(tstep cap)\<^sup>*\<^sup>* (start_thread as code) s" "\<nexists>s'. tstep cap s s'"
    using run_to_end [OF thread_inv_start] by blast
  have "t_phase s \<noteq> Finished"
    using thread_inv_reach [OF s(1)] long by (auto simp: thread_inv_def)
  then show "\<exists>s. (tstep cap)\<^sup>*\<^sup>* (start_thread as code) s \<and> stuck cap s"
    using s by (auto simp: stuck_def)
qed


theorem runner_blocks_iff_witness:
  "(0 :: nat) < 2 \<and> (\<exists>s. (tstep 2)\<^sup>*\<^sup>* (start_thread [Err CHR ''a'', Err CHR ''b'', Err CHR ''c'', Out CHR ''d''] 0) s \<and> stuck 2 s)"
  using runner_blocks_iff [of 2 "[Err CHR ''a'', Err CHR ''b'', Err CHR ''c'', Out CHR ''d'']" 0] by simp


section \<open>The command as one step\<close>

text \<open>\<open>runnowait\<close> starts the thread; a command that can not be started ends it at once.  What the operating system makes of the command, its
  writes and its exit code, is a parameter.\<close>

definition runnowait :: "(string list \<Rightarrow> (act list \<times> int) option) \<Rightarrow> cmd_runner \<Rightarrow> thread_state option" where
  "runnowait popen self = map_option (\<lambda>(as, code). start_thread as code) (popen (r_cmdarr self))"

text \<open>A thread that has finished holds what \<open>Cmd_Runner\<close> gives for the command as one step: the model of a runner that
  is waited for agrees with the thread.\<close>

lemma thread_implements_runwait:
  assumes spawn: "spawn env cmd c =
      (Some (code, read_lines (universal_newlines (outs as)), read_lines (universal_newlines (errs as))), c')"
    and "popen cmd = Some (as, code)" and "runnowait popen (NativeCmdRunner cmd) = Some s0"
    and "(tstep cap)\<^sup>*\<^sup>* s0 s" and "t_phase s = Finished"
  shows "runwait env (NativeCmdRunner cmd) c =
    (Inr \<lparr>r_cmdarr = cmd, r_stdout = t_stdout s, r_stderr = t_stderr s, r_retcode = t_retcode s\<rparr>, c')"
proof -
  have "s0 = start_thread as code"
    using assms(2,3) by (simp add: runnowait_def NativeCmdRunner_def)
  then have "thread_inv cap as code s"
    using assms(4) thread_inv_reach by blast
  then show ?thesis
    using assms(1,5) by (simp add: thread_inv_def runwait_def execute_def NativeCmdRunner_def stripped_lines_def)
qed

end
