(* ===== verification/Py_Json.thy ===== *)
theory Py_Json
  imports Py_Text
begin

text \<open>
  The module \<open>json\<close>: values, access to them, and \<open>json.loads\<close> as a tokenizer and a machine with a stack.  A string is the text in
  UTF-8, and a \<open>JFloat\<close> keeps the literal.  The limits of the interpreter on the depth of nesting and on the length of
  integers are left out.
\<close>

datatype json =
    JNull
  | JBool bool
  | JInt int
  | JFloat string
  | JStr string
  | JList "json list"
  | JObj "(string \<times> json) list"

section \<open>Access\<close>

text \<open>\<open>v[key]\<close> and \<open>key in v\<close> for a string, and \<open>v[0]\<close>.\<close>

fun js_item :: "json \<Rightarrow> string \<Rightarrow> json result" where
  "js_item (JObj d) key = key_of d key"
| "js_item _ key = Inl TypeError"

fun js_has :: "string \<Rightarrow> json \<Rightarrow> bool result" where
  "js_has key (JObj d) = Inr (key \<in> fst ` set d)"
| "js_has key (JList xs) = Inr (JStr key \<in> set xs)"
| "js_has key (JStr s) = Inr (contains key s)"
| "js_has key _ = Inl TypeError"

fun js_first :: "json \<Rightarrow> json result" where
  "js_first (JList xs) = item_of xs 0"
| "js_first (JStr s) = rbind (item_of s 0) (\<lambda>c. Inr (JStr [c]))"
| "js_first (JObj d) = Inl KeyError"
| "js_first _ = Inl TypeError"

section \<open>Strings\<close>

text \<open>A code point in UTF-8; a lone surrogate keeps its three bytes.\<close>

definition utf8_code :: "nat \<Rightarrow> string" where
  "utf8_code n =
     map char_of
       (if n < 0x80 then [n]
        else if n < 0x800 then [0xC0 + n div 64, 0x80 + n mod 64]
        else if n < 0x10000 then [0xE0 + n div 4096, 0x80 + n div 64 mod 64, 0x80 + n mod 64]
        else [0xF0 + n div 262144, 0x80 + n div 4096 mod 64, 0x80 + n div 64 mod 64, 0x80 + n mod 64])"

definition hex4 :: "string \<Rightarrow> nat option" where
  "hex4 s = (if 4 \<le> length s then hex_fold 0 (take 4 s) else None)"

definition js_escape :: "char \<Rightarrow> char option" where
  "js_escape e =
     map_of
       [(CHR 0x22, CHR 0x22), (CHR 0x5C, CHR 0x5C), (CHR ''/'', CHR ''/''), (CHR ''b'', CHR 0x08), (CHR ''f'', CHR 0x0C),
        (CHR ''n'', CHR 0x0A), (CHR ''r'', CHR 0x0D), (CHR ''t'', CHR 0x09)] e"

text \<open>The escape after \<open>\u\<close>: the text and what follows; two escapes may form a pair of surrogates.\<close>

definition js_unicode :: "string \<Rightarrow> (string \<times> string) option" where
  "js_unicode s =
     (case hex4 s of
        None \<Rightarrow> None
      | Some a \<Rightarrow>
          (let r = drop 4 s in
           if 0xD800 \<le> a \<and> a \<le> 0xDBFF \<and> starts_with [CHR 0x5C, CHR ''u''] r then
             (case hex4 (drop 2 r) of
                None \<Rightarrow> None
              | Some b \<Rightarrow>
                  if 0xDC00 \<le> b \<and> b \<le> 0xDFFF
                  then Some (utf8_code (0x10000 + (a - 0xD800) * 1024 + (b - 0xDC00)), drop 6 r)
                  else Some (utf8_code a, r))
           else Some (utf8_code a, r)))"

lemma js_unicode_length [termination_simp]: "js_unicode s = Some (t, r) \<Longrightarrow> length r < length s"
  by (auto simp: js_unicode_def hex4_def Let_def split: option.splits if_splits)

lemma js_unicode_length' [termination_simp]: "Some (t, r) = js_unicode s \<Longrightarrow> length r < Suc (Suc (length s))"
  using js_unicode_length [of s t r] by simp

text \<open>The text of a string up to its closing quote; control characters are not allowed in it.\<close>

fun scan_str :: "string \<Rightarrow> (string \<times> string) option" where
  "scan_str [] = None"
| "scan_str (c # s) =
     (if c = CHR 0x22 then Some ([], s)
      else if c = CHR 0x5C then
        (case s of
           [] \<Rightarrow> None
         | e # s' \<Rightarrow>
             if e = CHR ''u'' then
               (case js_unicode s' of
                  None \<Rightarrow> None
                | Some (t, r) \<Rightarrow> map_option (\<lambda>(t', r'). (t @ t', r')) (scan_str r))
             else
               (case js_escape e of
                  None \<Rightarrow> None
                | Some x \<Rightarrow> map_option (\<lambda>(t', r'). (x # t', r')) (scan_str s')))
      else if (of_char c :: nat) < 32 then None
      else map_option (\<lambda>(t', r'). (c # t', r')) (scan_str s))"

section \<open>Numbers\<close>

definition is_digit :: "char \<Rightarrow> bool" where
  "is_digit c \<longleftrightarrow> 48 \<le> (of_char c :: nat) \<and> (of_char c :: nat) \<le> 57"

text \<open>The parts of \<open>-?(0|[1-9]\d*)(\.\d+)?([eE][-+]?\d+)?\<close>, each with what follows.\<close>

definition int_part :: "string \<Rightarrow> string \<times> string" where
  "int_part s =
     (if starts_with ''0'' s then (''0'', drop 1 s) else (takeWhile is_digit s, dropWhile is_digit s))"

definition frac_part :: "string \<Rightarrow> string \<times> string" where
  "frac_part s =
     (case s of
        [] \<Rightarrow> ([], s)
      | c # r \<Rightarrow> if c = CHR ''.'' \<and> takeWhile is_digit r \<noteq> [] then (c # takeWhile is_digit r, dropWhile is_digit r) else ([], s))"

definition exp_part :: "string \<Rightarrow> string \<times> string" where
  "exp_part s =
     (case s of
        [] \<Rightarrow> ([], s)
      | c # r \<Rightarrow>
          let sign = (if starts_with ''+'' r \<or> starts_with ''-'' r then take 1 r else []);
              ds = drop (length sign) r
          in if c \<in> {CHR ''e'', CHR ''E''} \<and> takeWhile is_digit ds \<noteq> []
             then (c # sign @ takeWhile is_digit ds, dropWhile is_digit ds) else ([], s))"

definition dec_value :: "string \<Rightarrow> nat" where
  "dec_value s = foldl (\<lambda>n c. 10 * n + (of_char c - 48)) 0 s"

definition scan_num :: "string \<Rightarrow> (json \<times> string) option" where
  "scan_num s =
     (let sign = (if starts_with ''-'' s then ''-'' else []);
          (i, r) = int_part (drop (length sign) s);
          (f, r) = frac_part r;
          (e, r) = exp_part r
      in if i = [] then None
         else if f = [] \<and> e = [] then Some (JInt (if sign = [] then int (dec_value i) else - int (dec_value i)), r)
         else Some (JFloat (sign @ i @ f @ e), r))"

lemma int_part_length: "int_part s = (i, r) \<Longrightarrow> length r + length i = length s"
proof (cases "starts_with ''0'' s")
  case False
  moreover have "length s = length (takeWhile is_digit s) + length (dropWhile is_digit s)"
    by (metis length_append takeWhile_dropWhile_id)
  moreover assume "int_part s = (i, r)"
  ultimately show ?thesis by (auto simp: int_part_def)
qed (auto simp: int_part_def starts_with_iff)

lemma frac_part_length: "length (snd (frac_part s)) \<le> length s"
  by (auto simp: frac_part_def length_dropWhile_le le_SucI split: list.splits)

lemma exp_part_length: "length (snd (exp_part s)) \<le> length s"
proof (cases s)
  case (Cons c r)
  have "length (dropWhile is_digit (drop n r)) \<le> Suc (length r)" for n
    using length_dropWhile_le [of is_digit "drop n r"] by simp
  then show ?thesis
    by (simp add: Cons exp_part_def Let_def)
qed (simp add: exp_part_def)

lemma scan_num_length: "scan_num s = Some (v, r) \<Longrightarrow> length r < length s"
proof -
  assume scan: "scan_num s = Some (v, r)"
  define sign where "sign = (if starts_with ''-'' s then ''-'' else [])"
  obtain i r1 where i: "int_part (drop (length sign) s) = (i, r1)" by fastforce
  have "r = snd (exp_part (snd (frac_part r1)))" "i \<noteq> []"
    using scan i by (auto simp: scan_num_def Let_def sign_def split: prod.splits if_splits)
  moreover have "length (snd (exp_part (snd (frac_part r1)))) \<le> length r1"
    using exp_part_length frac_part_length le_trans by blast
  moreover have "length r1 + length i \<le> length s"
    using int_part_length [OF i] by simp
  ultimately show "length r < length s" by (cases i) auto
qed

lemma scan_str_length: "scan_str s = Some (t, r) \<Longrightarrow> length r < length s"
proof (induction s arbitrary: t rule: scan_str.induct)
  case (2 c s)
  show ?case
    using 2 by (auto split: if_splits list.splits option.splits dest!: js_unicode_length) (force+)
qed simp

section \<open>Tokens\<close>

datatype token = Punct_tok char | Str_tok string | Atom_tok json

definition js_space :: "char \<Rightarrow> bool" where
  "js_space c \<longleftrightarrow> (of_char c :: nat) \<in> {9, 10, 13, 32}"

definition js_punct :: "char \<Rightarrow> bool" where
  "js_punct c \<longleftrightarrow> c \<in> {CHR ''['', CHR '']'', CHR ''{'', CHR ''}'', CHR '','', CHR '':''}"

definition js_words :: "(string \<times> json) list" where
  "js_words =
     [(''null'', JNull), (''true'', JBool True), (''false'', JBool False), (''NaN'', JFloat ''NaN''),
      (''Infinity'', JFloat ''Infinity''), (''-Infinity'', JFloat ''-Infinity'')]"

definition scan_atom :: "string \<Rightarrow> (json \<times> string) option" where
  "scan_atom s =
     (case filter (\<lambda>(w, v). starts_with w s) js_words of
        (w, v) # _ \<Rightarrow> Some (v, drop (length w) s)
      | [] \<Rightarrow> scan_num s)"

lemma scan_atom_length: "scan_atom s = Some (v, r) \<Longrightarrow> length r < length s"
proof -
  assume scan: "scan_atom s = Some (v, r)"
  show "length r < length s"
  proof (cases "filter (\<lambda>(w, v). starts_with w s) js_words")
    case Nil
    then show ?thesis using scan scan_num_length by (simp add: scan_atom_def)
  next
    case (Cons wv l)
    obtain w v' where wv: "wv = (w, v')" by fastforce
    have "(w, v') \<in> set js_words" "starts_with w s"
      using Cons unfolding wv filter_eq_Cons_iff by (metis in_set_conv_decomp, auto)
    moreover have "[] \<notin> fst ` set js_words" by (simp add: js_words_def)
    ultimately have "w \<noteq> []" "starts_with w s" by force+
    then show ?thesis
      using scan Cons wv by (auto simp: scan_atom_def starts_with_iff)
  qed
qed

lemma scan_lengths [termination_simp]:
  "scan_str s = Some (t, r) \<Longrightarrow> length r < Suc (length s)"
  "scan_atom (c # s) = Some (v, r) \<Longrightarrow> length r < Suc (length s)"
  using scan_str_length [of s t r] scan_atom_length [of "c # s" v r] by simp_all

fun tokenize :: "string \<Rightarrow> token list option" where
  "tokenize [] = Some []"
| "tokenize (c # s) =
     (if js_space c then tokenize s
      else if js_punct c then map_option (\<lambda>ts. Punct_tok c # ts) (tokenize s)
      else if c = CHR 0x22 then
        (case scan_str s of
           None \<Rightarrow> None
         | Some (t, r) \<Rightarrow> map_option (\<lambda>ts. Str_tok t # ts) (tokenize r))
      else
        (case scan_atom (c # s) of
           None \<Rightarrow> None
         | Some (v, r) \<Rightarrow> map_option (\<lambda>ts. Atom_tok v # ts) (tokenize r)))"

section \<open>The machine\<close>

text \<open>What is expected next, and the lists and objects that are open, the innermost first; the flag of a value or name
  tells that the list or object may end instead.  A list and the members of an
  object are kept in reverse.\<close>

datatype expected = Exp_value bool | Exp_name bool | Exp_colon string | Got json

datatype frame = In_list "json list" | In_obj "(string \<times> json) list" | At_name "(string \<times> json) list" string

text \<open>Of two members with the same name the last counts.\<close>

definition mk_dict :: "(string \<times> json) list \<Rightarrow> (string \<times> json) list" where
  "mk_dict ps = fold (\<lambda>(k, v). AList.update k v) ps []"

fun js_step :: "token \<Rightarrow> expected \<Rightarrow> frame list \<Rightarrow> (expected \<times> frame list) option" where
  "js_step (Atom_tok v) (Exp_value b) fs = Some (Got v, fs)"
| "js_step (Str_tok s) (Exp_value b) fs = Some (Got (JStr s), fs)"
| "js_step (Punct_tok c) (Exp_value b) fs =
     (if c = CHR ''['' then Some (Exp_value True, In_list [] # fs)
      else if c = CHR ''{'' then Some (Exp_name True, In_obj [] # fs)
      else if b \<and> c = CHR '']'' then (case fs of In_list vs # r \<Rightarrow> Some (Got (JList (rev vs)), r) | _ \<Rightarrow> None)
      else None)"
| "js_step (Str_tok s) (Exp_name b) fs = Some (Exp_colon s, fs)"
| "js_step (Punct_tok c) (Exp_name b) fs =
     (if b \<and> c = CHR ''}'' then (case fs of In_obj ps # r \<Rightarrow> Some (Got (JObj (mk_dict (rev ps))), r) | _ \<Rightarrow> None) else None)"
| "js_step (Punct_tok c) (Exp_colon k) fs =
     (if c = CHR '':'' then (case fs of In_obj ps # r \<Rightarrow> Some (Exp_value False, At_name ps k # r) | _ \<Rightarrow> None) else None)"
| "js_step (Punct_tok c) (Got v) fs =
     (case fs of
        In_list vs # r \<Rightarrow>
          if c = CHR '','' then Some (Exp_value False, In_list (v # vs) # r)
          else if c = CHR '']'' then Some (Got (JList (rev (v # vs))), r) else None
      | At_name ps k # r \<Rightarrow>
          if c = CHR '','' then Some (Exp_name False, In_obj ((k, v) # ps) # r)
          else if c = CHR ''}'' then Some (Got (JObj (mk_dict (rev ((k, v) # ps)))), r) else None
      | _ \<Rightarrow> None)"
| "js_step t ex fs = None"

fun js_run :: "token list \<Rightarrow> expected \<Rightarrow> frame list \<Rightarrow> json option" where
  "js_run [] ex fs = (case ex of Got v \<Rightarrow> (if fs = [] then Some v else None) | _ \<Rightarrow> None)"
| "js_run (t # ts) ex fs = (case js_step t ex fs of None \<Rightarrow> None | Some (ex', fs') \<Rightarrow> js_run ts ex' fs')"

text \<open>\<open>json.loads(s)\<close>; \<open>JSONDecodeError\<close> is a \<open>ValueError\<close>.\<close>

definition json_loads :: "string \<Rightarrow> json result" where
  "json_loads s =
     (case tokenize s of
        None \<Rightarrow> Inl ValueError
      | Some ts \<Rightarrow> (case js_run ts (Exp_value False) [] of None \<Rightarrow> Inl ValueError | Some v \<Rightarrow> Inr v))"

section \<open>Lemmas\<close>

text \<open>Characters that stand for themselves in a string.\<close>

definition plain :: "char \<Rightarrow> bool" where
  "plain c \<longleftrightarrow> c \<noteq> CHR 0x22 \<and> c \<noteq> CHR 0x5C \<and> 32 \<le> (of_char c :: nat)"

lemma scan_str_plain: "\<forall>c\<in>set s. plain c \<Longrightarrow> scan_str (s @ CHR 0x22 # r) = Some (s, r)"
  by (induction s) (auto simp: plain_def)

lemma tokenize_str:
  "\<forall>c\<in>set s. plain c \<Longrightarrow> tokenize (CHR 0x22 # s @ CHR 0x22 # r) = map_option (\<lambda>ts. Str_tok s # ts) (tokenize r)"
  by (simp add: scan_str_plain js_space_def js_punct_def)

text \<open>A decimal number in front of what is no part of a number.\<close>

lemma dec_digits_digits: "\<forall>c\<in>set (dec_digits n). is_digit c"
proof (induction n rule: dec_digits.induct)
  case (1 n)
  then show ?case
    by (subst dec_digits.simps) (auto simp: is_digit_def of_char_of)
qed

lemma dec_value_snoc: "dec_value (s @ [c]) = 10 * dec_value s + (of_char c - 48)"
  by (simp add: dec_value_def)

lemma dec_value_dec_digits: "dec_value (dec_digits n) = n"
proof (induction n rule: dec_digits.induct)
  case (1 n)
  show ?case
  proof (cases "n < 10")
    case True
    then show ?thesis by (subst dec_digits.simps) (simp add: dec_value_def of_char_of)
  next
    case False
    then have "dec_value (dec_digits n) = 10 * (n div 10) + n mod 10"
      using 1 by (subst dec_digits.simps) (simp add: dec_value_snoc of_char_of)
    then show ?thesis by simp
  qed
qed

lemma dec_digits_first: "dec_digits n = c # s \<Longrightarrow> c = CHR ''0'' \<Longrightarrow> n = 0 \<and> s = []"
proof (induction n arbitrary: s rule: dec_digits.induct)
  case (1 n)
  show ?case
  proof (cases "n < 10")
    case True
    then have "[char_of (48 + n)] = c # s" using 1(2) by (subst (asm) dec_digits.simps) simp
    then have "(of_char (char_of (48 + n) :: char) :: nat) = of_char (CHR ''0'')" "s = []" using 1(3) by auto
    then show ?thesis using True by (simp add: of_char_of)
  next
    case False
    then have e: "dec_digits (n div 10) @ [char_of (48 + n mod 10)] = c # s"
      using 1(2) by (subst (asm) dec_digits.simps) simp
    have "dec_digits (n div 10) \<noteq> []" by (subst dec_digits.simps) simp
    then obtain s' where "dec_digits (n div 10) = c # s'" using e by (cases "dec_digits (n div 10)") auto
    then show ?thesis using 1(1) [OF False _ 1(3)] False by auto
  qed
qed

definition ends_number :: "string \<Rightarrow> bool" where
  "ends_number r \<longleftrightarrow> (case r of [] \<Rightarrow> True | c # _ \<Rightarrow> \<not> is_digit c \<and> c \<notin> {CHR ''.'', CHR ''e'', CHR ''E''})"

lemma ends_number_parts:
  assumes "ends_number r"
  shows "takeWhile is_digit r = []" "dropWhile is_digit r = r" "frac_part r = ([], r)" "exp_part r = ([], r)"
  using assms by (auto simp: ends_number_def frac_part_def exp_part_def Let_def split: list.splits)

lemma int_part_dec_digits:
  assumes "ends_number r"
  shows "int_part (dec_digits n @ r) = (dec_digits n, r)"
proof -
  obtain c s where cs: "dec_digits n = c # s" by (subst (asm) dec_digits.simps) (metis append_is_Nil_conv list.exhaust not_Cons_self2)
  show ?thesis
  proof (cases "c = CHR ''0''")
    case True
    then have "dec_digits n = ''0''" using dec_digits_first [OF cs] cs by auto
    then show ?thesis by (simp add: int_part_def)
  next
    case False
    then show ?thesis
      using dec_digits_digits [of n] ends_number_parts [OF assms]
      by (simp add: int_part_def cs takeWhile_append2 dropWhile_append2)
  qed
qed

lemma scan_num_fmt_dec:
  assumes "ends_number r"
  shows "scan_num (fmt_dec n @ r) = Some (JInt n, r)"
proof -
  have d: "dec_digits m \<noteq> []" "\<not> starts_with ''-'' (dec_digits m @ r)" for m
  proof -
    show ne: "dec_digits m \<noteq> []" by (subst dec_digits.simps) simp
    have "is_digit (hd (dec_digits m))" using ne dec_digits_digits [of m] by (simp add: list.set_sel(1))
    then show "\<not> starts_with ''-'' (dec_digits m @ r)" using ne by (cases "dec_digits m") (auto simp: is_digit_def)
  qed
  show ?thesis
    using d ends_number_parts [OF assms]
    by (cases "n < 0") (simp_all add: scan_num_def fmt_dec_def int_part_dec_digits [OF assms] dec_value_dec_digits Let_def)
qed

lemma not_digits: "\<not> is_digit (CHR ''n'')" "\<not> is_digit (CHR ''t'')" "\<not> is_digit (CHR ''f'')" "\<not> is_digit (CHR ''N'')"
  "\<not> is_digit (CHR ''I'')" "\<not> is_digit (CHR ''-'')"
  by (simp_all add: is_digit_def)

lemma no_word_digit:
  assumes "is_digit c"
  shows "filter (\<lambda>(w, v). starts_with w (c # s)) js_words = []"
    "filter (\<lambda>(w, v). starts_with w (CHR ''-'' # c # s)) js_words = []"
proof -
  have "c \<noteq> CHR ''n''" "c \<noteq> CHR ''t''" "c \<noteq> CHR ''f''" "c \<noteq> CHR ''N''" "c \<noteq> CHR ''I''" "c \<noteq> CHR ''-''"
    using assms not_digits by metis+
  then show "filter (\<lambda>(w, v). starts_with w (c # s)) js_words = []"
    "filter (\<lambda>(w, v). starts_with w (CHR ''-'' # c # s)) js_words = []"
    by (simp_all add: js_words_def)
qed

lemma tokenize_atom:
  assumes "scan_atom (c # s) = Some (v, r)" and "c = CHR ''-'' \<or> is_digit c"
  shows "tokenize (c # s) = map_option (\<lambda>ts. Atom_tok v # ts) (tokenize r)"
proof -
  have "\<not> js_space c" "\<not> js_punct c" "c \<noteq> CHR 0x22"
    using assms(2) by (auto simp: js_space_def js_punct_def is_digit_def)
  then show ?thesis using assms(1) by simp
qed

lemma tokenize_int:
  assumes "ends_number r"
  shows "tokenize (fmt_dec n @ r) = map_option (\<lambda>ts. Atom_tok (JInt n) # ts) (tokenize r)"
proof -
  obtain d s where ds: "dec_digits (nat \<bar>n\<bar>) = d # s" "is_digit d"
    using dec_digits_digits [of "nat \<bar>n\<bar>"] by (cases "dec_digits (nat \<bar>n\<bar>)") (simp_all add: dec_digits.simps [of "nat \<bar>n\<bar>"] split: if_splits)
  show ?thesis
  proof (cases "n < 0")
    case True
    then have n: "fmt_dec n = CHR ''-'' # d # s" using ds(1) by (simp add: fmt_dec_def)
    have "scan_atom (CHR ''-'' # d # s @ r) = Some (JInt n, r)"
      using scan_num_fmt_dec [OF assms, of n] ds(2) by (simp add: scan_atom_def no_word_digit n)
    then show ?thesis by (simp add: n tokenize_atom del: tokenize.simps)
  next
    case False
    then have n: "fmt_dec n = d # s" using ds(1) by (simp add: fmt_dec_def)
    have "scan_atom (d # s @ r) = Some (JInt n, r)"
      using scan_num_fmt_dec [OF assms, of n] ds(2) by (simp add: scan_atom_def no_word_digit n)
    then show ?thesis using ds(2) by (simp add: n tokenize_atom del: tokenize.simps)
  qed
qed

end
