(* ===== verification/Vmm_Agent.thy ===== *)
theory Vmm_Agent
  imports Py_Poll Py_Json Py_Base64 Vmm
begin

text \<open>
  The messages of \<open>VMMLibvirt\<close> (\<open>pycloudstack/vmm.py\<close>) to the agent in the guest: shutdown, reboot, and writing and reading a file.  The
  agent, behind \<open>libvirt_qemu.qemuAgentCommand\<close>, is a parameter over the state of the host: it gets the text of a command and gives
  the text of a reply, both JSON.
\<close>

section \<open>Definitions\<close>

text \<open>The domain may be \<open>None\<close>; then come the command, the timeout and the flags.\<close>

type_synonym 'h agent = "string option \<Rightarrow> string \<Rightarrow> nat \<Rightarrow> nat \<Rightarrow> ('h, string) eff"

definition qemu_agent_command :: "'h agent \<Rightarrow> 'h libvirt \<Rightarrow> vm_guest \<Rightarrow> string \<Rightarrow> ('h vmm_state, string) eff" where
  "qemu_agent_command agent lv vminst cmd =
     ebind (get_domain lv vminst) (\<lambda>dom s.
     case agent dom cmd 30 0 (vm_host s) of (r, h) \<Rightarrow> (r, s\<lparr>vm_host := h\<rparr>))"

definition qemu_agent_shutdown :: "'h agent \<Rightarrow> 'h libvirt \<Rightarrow> vm_guest \<Rightarrow> ('h vmm_state, string) eff" where
  "qemu_agent_shutdown agent lv vminst = qemu_agent_command agent lv vminst ''{\"execute\": \"guest-shutdown\"}''"

definition qemu_agent_reboot :: "'h agent \<Rightarrow> 'h libvirt \<Rightarrow> vm_guest \<Rightarrow> ('h vmm_state, string) eff" where
  "qemu_agent_reboot agent lv vminst =
     qemu_agent_command agent lv vminst ''{\"execute\": \"guest-shutdown\", \"arguments\": {\"mode\": \"reboot\"}}''"

text \<open>\<open>'%s' % v\<close> for a value of \<open>json.loads\<close>; the text of a float, a list or an object is given by \<open>repr\<close>, which is left open.\<close>

fun py_str :: "(json \<Rightarrow> string) \<Rightarrow> json \<Rightarrow> string" where
  "py_str repr (JInt n) = fmt_dec n"
| "py_str repr (JStr s) = s"
| "py_str repr (JBool b) = (if b then ''True'' else ''False'')"
| "py_str repr JNull = ''None''"
| "py_str repr v = repr v"

text \<open>The texts of the commands.\<close>

definition open_cmd :: "string \<Rightarrow> string \<Rightarrow> string" where
  "open_cmd path mode =
     ''{\"execute\": \"guest-file-open\", \"arguments\":{\"path\": \"'' @ path @ ''\", \"mode\": \"'' @ mode @ ''\"}}''"

definition write_cmd :: "string \<Rightarrow> string \<Rightarrow> string" where
  "write_cmd handle content =
     ''{\"execute\": \"guest-file-write\", \"arguments\" : {\"handle\": '' @ handle @ '', \"buf-b64\": \"'' @ content @ ''\" }}''"

definition read_cmd :: "string \<Rightarrow> string" where
  "read_cmd handle = ''{\"execute\": \"guest-file-read\", \"arguments\" : {\"handle\": '' @ handle @ '' }}''"

definition close_cmd :: "string \<Rightarrow> string \<Rightarrow> string" where
  "close_cmd space handle = ''{\"execute\": \"guest-file-close\", \"arguments\":'' @ space @ ''{\"handle\": '' @ handle @ '' }}''"

text \<open>\<open>assert "return" in ret\<close>, and \<open>json.loads(ret)["return"]\<close>.\<close>

definition assert_return :: "string \<Rightarrow> ('s, unit) eff" where
  "assert_return ret = eassert (contains ''return'' ret)"

definition return_of :: "string \<Rightarrow> json result" where
  "return_of ret = rbind (json_loads ret) (\<lambda>j. js_item j ''return'')"

definition qemu_agent_file_write ::
  "(json \<Rightarrow> string) \<Rightarrow> 'h agent \<Rightarrow> 'h libvirt \<Rightarrow> vm_guest \<Rightarrow> string \<Rightarrow> string \<Rightarrow> ('h vmm_state, bool) eff" where
  "qemu_agent_file_write repr agent lv vminst path content =
     ebind (qemu_agent_command agent lv vminst (open_cmd path ''w+'')) (\<lambda>ret.
     ebind (assert_return ret) (\<lambda>_.
     ebind (eres (return_of ret)) (\<lambda>filedescriptor.
     ebind (qemu_agent_command agent lv vminst (write_cmd (py_str repr filedescriptor) content)) (\<lambda>ret.
     ebind (assert_return ret) (\<lambda>_.
     ebind (qemu_agent_command agent lv vminst (close_cmd [] (py_str repr filedescriptor))) (\<lambda>ret.
     ebind (assert_return ret) (\<lambda>_.
     eret True)))))))"

text \<open>The second assertion looks at the first reply again, not at the content.\<close>

definition qemu_agent_file_read ::
  "(json \<Rightarrow> string) \<Rightarrow> 'h agent \<Rightarrow> 'h libvirt \<Rightarrow> vm_guest \<Rightarrow> string \<Rightarrow> ('h vmm_state, json) eff" where
  "qemu_agent_file_read repr agent lv vminst path =
     ebind (qemu_agent_command agent lv vminst (open_cmd path ''r'')) (\<lambda>ret.
     ebind (assert_return ret) (\<lambda>_.
     ebind (eres (return_of ret)) (\<lambda>filedescriptor.
     ebind (qemu_agent_command agent lv vminst (read_cmd (py_str repr filedescriptor))) (\<lambda>content.
     ebind (assert_return ret) (\<lambda>_.
     ebind (qemu_agent_command agent lv vminst (close_cmd '' '' (py_str repr filedescriptor))) (\<lambda>ret.
     ebind (assert_return ret) (\<lambda>_.
     eres (rbind (return_of content) (\<lambda>v. js_item v ''buf-b64'')))))))))"

section \<open>What the commands say\<close>

text \<open>A request as the agent reads it.\<close>

definition request :: "string \<Rightarrow> (string \<times> json) list \<Rightarrow> json" where
  "request name args = JObj [(''execute'', JStr name), (''arguments'', JObj args)]"

lemmas json_eval =
  json_loads_def js_space_def js_punct_def mk_dict_def plain_def

lemma ends_number_space: "ends_number (CHR '' '' # r)" "ends_number (CHR '','' # r)"
  by (simp_all add: ends_number_def is_digit_def)

lemma tokenize_space: "tokenize (CHR '' '' # r) = tokenize r"
  by (simp add: js_space_def)

lemma tokenize_punct: "js_punct c \<Longrightarrow> tokenize (c # r) = map_option (\<lambda>ts. Punct_tok c # ts) (tokenize r)"
  by (auto simp: js_punct_def js_space_def)

lemma open_cmd_says:
  assumes "\<forall>c\<in>set path. plain c"
  shows "json_loads (open_cmd path ''w+'') = Inr (request ''guest-file-open'' [(''path'', JStr path), (''mode'', JStr ''w+'')])"
    and "json_loads (open_cmd path ''r'') = Inr (request ''guest-file-open'' [(''path'', JStr path), (''mode'', JStr ''r'')])"
  using assms by (simp_all add: open_cmd_def request_def json_eval scan_str_plain)

lemma write_cmd_says:
  assumes "\<forall>c\<in>set content. plain c"
  shows "json_loads (write_cmd (fmt_dec fd) content) =
    Inr (request ''guest-file-write'' [(''handle'', JInt fd), (''buf-b64'', JStr content)])"
  using assms by (simp add: write_cmd_def request_def json_eval scan_str_plain tokenize_int ends_number_space)

lemma read_cmd_says: "json_loads (read_cmd (fmt_dec fd)) = Inr (request ''guest-file-read'' [(''handle'', JInt fd)])"
  by (simp add: read_cmd_def request_def json_eval tokenize_int ends_number_space)

lemma close_cmd_says:
  "json_loads (close_cmd [] (fmt_dec fd)) = Inr (request ''guest-file-close'' [(''handle'', JInt fd)])"
  "json_loads (close_cmd '' '' (fmt_dec fd)) = Inr (request ''guest-file-close'' [(''handle'', JInt fd)])"
  by (simp_all add: close_cmd_def request_def json_eval tokenize_int ends_number_space)

lemma plain_b64_char: "v < 64 \<Longrightarrow> plain (b64_char v)"
proof -
  assume "v < 64"
  then have "b64_value (b64_char v) = Some v" by (rule b64_value_char)
  then show ?thesis by (auto simp: plain_def b64_value_def Let_def split: if_splits)
qed

lemma plain_b64encode: "\<forall>c\<in>set (b64encode bs). plain c"
proof -
  have "plain (CHR ''='')" by (simp add: plain_def)
  then show ?thesis
    by (induction bs rule: b64encode.induct) (simp_all add: plain_b64_char unat_byte_div)
qed

section \<open>A file is read back as it was written\<close>

text \<open>The files of the guest, and the open handles with the file and the position.\<close>

record files_view =
  fv_files :: "string \<rightharpoonup> bytes"
  fv_open :: "int \<rightharpoonup> string \<times> nat"

text \<open>A reply is the text of an object with a member \<open>return\<close>.\<close>

definition replies :: "('h \<Rightarrow> files_view) \<Rightarrow> string result \<times> 'h \<Rightarrow> (json \<Rightarrow> bool) \<Rightarrow> files_view \<Rightarrow> bool" where
  "replies view out P w \<longleftrightarrow>
     (\<exists>ret h v. out = (Inr ret, h) \<and> contains ''return'' ret \<and> return_of ret = Inr v \<and> P v \<and> view h = w)"

text \<open>The documented behaviour of the agent, for the commands that are used: \<open>guest-file-open\<close> gives a handle at the start
  of the file, which the mode \<open>w+\<close> makes empty; \<open>guest-file-write\<close> into an empty file stores what it decodes; \<open>guest-file-read\<close> at the start
  of a file gives its first 4096 bytes; \<open>guest-file-close\<close> releases the handle.\<close>

definition open_law :: "(string \<Rightarrow> ('h, string) eff) \<Rightarrow> ('h \<Rightarrow> files_view) \<Rightarrow> bool" where
  "open_law run view \<longleftrightarrow>
     (\<forall>cmd path h.
        (json_loads cmd = Inr (request ''guest-file-open'' [(''path'', JStr path), (''mode'', JStr ''w+'')]) \<longrightarrow>
           (\<exists>fd. replies view (run cmd h) (\<lambda>v. v = JInt fd)
              \<lparr>fv_files = (fv_files (view h))(path \<mapsto> []), fv_open = (fv_open (view h))(fd \<mapsto> (path, 0))\<rparr>)) \<and>
        (json_loads cmd = Inr (request ''guest-file-open'' [(''path'', JStr path), (''mode'', JStr ''r'')]) \<and>
         path \<in> dom (fv_files (view h)) \<longrightarrow>
           (\<exists>fd. replies view (run cmd h) (\<lambda>v. v = JInt fd)
              \<lparr>fv_files = fv_files (view h), fv_open = (fv_open (view h))(fd \<mapsto> (path, 0))\<rparr>)))"

definition write_law :: "(string \<Rightarrow> ('h, string) eff) \<Rightarrow> ('h \<Rightarrow> files_view) \<Rightarrow> bool" where
  "write_law run view \<longleftrightarrow>
     (\<forall>cmd fd path buf data h.
        json_loads cmd = Inr (request ''guest-file-write'' [(''handle'', JInt fd), (''buf-b64'', JStr buf)]) \<and>
        b64decode buf = Inr data \<and> fv_open (view h) fd = Some (path, 0) \<and> fv_files (view h) path = Some [] \<longrightarrow>
        replies view (run cmd h) (\<lambda>v. True)
          \<lparr>fv_files = (fv_files (view h))(path \<mapsto> data), fv_open = (fv_open (view h))(fd \<mapsto> (path, length data))\<rparr>)"

definition read_law :: "(string \<Rightarrow> ('h, string) eff) \<Rightarrow> ('h \<Rightarrow> files_view) \<Rightarrow> bool" where
  "read_law run view \<longleftrightarrow>
     (\<forall>cmd fd path data h.
        json_loads cmd = Inr (request ''guest-file-read'' [(''handle'', JInt fd)]) \<and>
        fv_open (view h) fd = Some (path, 0) \<and> fv_files (view h) path = Some data \<longrightarrow>
        replies view (run cmd h) (\<lambda>v. js_item v ''buf-b64'' = Inr (JStr (b64encode (take 4096 data))))
          \<lparr>fv_files = fv_files (view h), fv_open = (fv_open (view h))(fd \<mapsto> (path, min 4096 (length data)))\<rparr>)"

definition close_law :: "(string \<Rightarrow> ('h, string) eff) \<Rightarrow> ('h \<Rightarrow> files_view) \<Rightarrow> bool" where
  "close_law run view \<longleftrightarrow>
     (\<forall>cmd fd h.
        json_loads cmd = Inr (request ''guest-file-close'' [(''handle'', JInt fd)]) \<and> fd \<in> dom (fv_open (view h)) \<longrightarrow>
        replies view (run cmd h) (\<lambda>v. True) \<lparr>fv_files = fv_files (view h), fv_open = (fv_open (view h))(fd := None)\<rparr>)"

lemma repliesE:
  assumes "replies view out P w"
  obtains ret h v where "out = (Inr ret, h)" "contains ''return'' ret" "return_of ret = Inr v" "P v" "view h = w"
  using assms by (auto simp: replies_def)

text \<open>A command is the agent's work on the host.\<close>

lemma qemu_agent_command_run:
  assumes "lv_lookup lv (g_vmid vminst) (vm_host s)" and "agent (Some (g_vmid vminst)) cmd 30 0 (vm_host s) = (r, h)"
  shows "qemu_agent_command agent lv vminst cmd s = (r, s\<lparr>vm_host := h\<rparr>)"
  using assms by (simp add: qemu_agent_command_def get_domain_def)

definition agent_laws :: "'h agent \<Rightarrow> string \<Rightarrow> ('h \<Rightarrow> files_view) \<Rightarrow> bool" where
  "agent_laws agent d view \<longleftrightarrow>
     (let run = (\<lambda>cmd. agent (Some d) cmd 30 0) in
      open_law run view \<and> write_law run view \<and> read_law run view \<and> close_law run view)"

text \<open>The state of the manager after a command, seen through the files of the guest.\<close>

lemma agent_open:
  assumes "agent_laws agent (g_vmid vminst) view" and "lv_lookup lv (g_vmid vminst) (vm_host s)" and "\<forall>c\<in>set path. plain c"
  shows "\<exists>ret h fd. qemu_agent_command agent lv vminst (open_cmd path ''w+'') s = (Inr ret, s\<lparr>vm_host := h\<rparr>) \<and>
      contains ''return'' ret \<and> return_of ret = Inr (JInt fd) \<and>
      view h = \<lparr>fv_files = (fv_files (view (vm_host s)))(path \<mapsto> []), fv_open = (fv_open (view (vm_host s)))(fd \<mapsto> (path, 0))\<rparr>"
    and "path \<in> dom (fv_files (view (vm_host s))) \<Longrightarrow>
     \<exists>ret h fd. qemu_agent_command agent lv vminst (open_cmd path ''r'') s = (Inr ret, s\<lparr>vm_host := h\<rparr>) \<and>
      contains ''return'' ret \<and> return_of ret = Inr (JInt fd) \<and>
      view h = \<lparr>fv_files = fv_files (view (vm_host s)), fv_open = (fv_open (view (vm_host s)))(fd \<mapsto> (path, 0))\<rparr>"
  using assms(1) open_cmd_says [OF assms(3)] unfolding agent_laws_def open_law_def replies_def Let_def
  by (fastforce intro!: qemu_agent_command_run [OF assms(2)])+

lemma agent_write:
  assumes "agent_laws agent (g_vmid vminst) view" and "lv_lookup lv (g_vmid vminst) (vm_host s)"
    and "fv_open (view (vm_host s)) fd = Some (path, 0)" and "fv_files (view (vm_host s)) path = Some []"
  shows "\<exists>ret h. qemu_agent_command agent lv vminst (write_cmd (fmt_dec fd) (b64encode data)) s = (Inr ret, s\<lparr>vm_host := h\<rparr>) \<and>
      contains ''return'' ret \<and>
      view h = \<lparr>fv_files = (fv_files (view (vm_host s)))(path \<mapsto> data),
                fv_open = (fv_open (view (vm_host s)))(fd \<mapsto> (path, length data))\<rparr>"
  using assms(1,3,4) write_cmd_says [OF plain_b64encode, of fd data] b64decode_encode [of data]
  unfolding agent_laws_def write_law_def replies_def Let_def
  by (fastforce intro!: qemu_agent_command_run [OF assms(2)])

lemma agent_read:
  assumes "agent_laws agent (g_vmid vminst) view" and "lv_lookup lv (g_vmid vminst) (vm_host s)"
    and "fv_open (view (vm_host s)) fd = Some (path, 0)" and "fv_files (view (vm_host s)) path = Some data"
  shows "\<exists>ret h v. qemu_agent_command agent lv vminst (read_cmd (fmt_dec fd)) s = (Inr ret, s\<lparr>vm_host := h\<rparr>) \<and>
      return_of ret = Inr v \<and> js_item v ''buf-b64'' = Inr (JStr (b64encode (take 4096 data))) \<and>
      view h = \<lparr>fv_files = fv_files (view (vm_host s)),
                fv_open = (fv_open (view (vm_host s)))(fd \<mapsto> (path, min 4096 (length data)))\<rparr>"
  using assms(1,3,4) read_cmd_says [of fd] unfolding agent_laws_def read_law_def replies_def Let_def
  by (fastforce intro!: qemu_agent_command_run [OF assms(2)])

lemma agent_close:
  assumes "agent_laws agent (g_vmid vminst) view" and "lv_lookup lv (g_vmid vminst) (vm_host s)"
    and "fd \<in> dom (fv_open (view (vm_host s)))" and "space \<in> {[], '' ''}"
  shows "\<exists>ret h. qemu_agent_command agent lv vminst (close_cmd space (fmt_dec fd)) s = (Inr ret, s\<lparr>vm_host := h\<rparr>) \<and>
      contains ''return'' ret \<and>
      view h = \<lparr>fv_files = fv_files (view (vm_host s)), fv_open = (fv_open (view (vm_host s)))(fd := None)\<rparr>"
proof -
  have "json_loads (close_cmd space (fmt_dec fd)) = Inr (request ''guest-file-close'' [(''handle'', JInt fd)])"
    using assms(4) close_cmd_says [of fd] by auto
  then have "replies view (agent (Some (g_vmid vminst)) (close_cmd space (fmt_dec fd)) 30 0 (vm_host s)) (\<lambda>v. True)
      \<lparr>fv_files = fv_files (view (vm_host s)), fv_open = (fv_open (view (vm_host s)))(fd := None)\<rparr>"
    using assms(1,3) unfolding agent_laws_def close_law_def Let_def by blast
  then obtain ret h v where "agent (Some (g_vmid vminst)) (close_cmd space (fmt_dec fd)) 30 0 (vm_host s) = (Inr ret, h)"
      "contains ''return'' ret" "view h = \<lparr>fv_files = fv_files (view (vm_host s)), fv_open = (fv_open (view (vm_host s)))(fd := None)\<rparr>"
    by (rule repliesE)
  then show ?thesis
    using qemu_agent_command_run [OF assms(2)] by blast
qed

lemma agent_file_written:
  assumes laws: "agent_laws agent (g_vmid vminst) view" and defined: "\<And>h. lv_lookup lv (g_vmid vminst) h"
    and path: "\<forall>c\<in>set path. plain c"
  shows "\<exists>s1. qemu_agent_file_write repr agent lv vminst path (b64encode data) s = (Inr True, s1) \<and>
    fv_files (view (vm_host s1)) = (fv_files (view (vm_host s)))(path \<mapsto> data)"
proof -
  obtain ret h fd where o: "qemu_agent_command agent lv vminst (open_cmd path ''w+'') s = (Inr ret, s\<lparr>vm_host := h\<rparr>)"
    "contains ''return'' ret" "return_of ret = Inr (JInt fd)"
    "view h = \<lparr>fv_files = (fv_files (view (vm_host s)))(path \<mapsto> []), fv_open = (fv_open (view (vm_host s)))(fd \<mapsto> (path, 0))\<rparr>"
    using agent_open(1) [OF laws defined path, of s] by blast
  then obtain ret' h' where w: "qemu_agent_command agent lv vminst (write_cmd (fmt_dec fd) (b64encode data)) (s\<lparr>vm_host := h\<rparr>)
      = (Inr ret', s\<lparr>vm_host := h'\<rparr>)" "contains ''return'' ret'"
    "view h' = \<lparr>fv_files = (fv_files (view (vm_host s)))(path \<mapsto> data), fv_open = (fv_open (view h))(fd \<mapsto> (path, length data))\<rparr>"
    using agent_write [OF laws defined, of "s\<lparr>vm_host := h\<rparr>" fd path data] by auto
  then obtain ret'' h'' where c: "qemu_agent_command agent lv vminst (close_cmd [] (fmt_dec fd)) (s\<lparr>vm_host := h'\<rparr>)
      = (Inr ret'', s\<lparr>vm_host := h''\<rparr>)" "contains ''return'' ret''" "fv_files (view h'') = fv_files (view h')"
    using agent_close [OF laws defined, of fd "s\<lparr>vm_host := h'\<rparr>" "[]"] by auto
  show ?thesis
    using o w c by (simp add: qemu_agent_file_write_def assert_return_def)
qed

lemma agent_file_content:
  assumes laws: "agent_laws agent (g_vmid vminst) view" and defined: "\<And>h. lv_lookup lv (g_vmid vminst) h"
    and path: "\<forall>c\<in>set path. plain c" and stored: "fv_files (view (vm_host s)) path = Some data"
  shows "\<exists>s2. qemu_agent_file_read repr agent lv vminst path s = (Inr (JStr (b64encode (take 4096 data))), s2) \<and>
    fv_files (view (vm_host s2)) = fv_files (view (vm_host s))"
proof -
  obtain ret h fd where o: "qemu_agent_command agent lv vminst (open_cmd path ''r'') s = (Inr ret, s\<lparr>vm_host := h\<rparr>)"
    "contains ''return'' ret" "return_of ret = Inr (JInt fd)"
    "view h = \<lparr>fv_files = fv_files (view (vm_host s)), fv_open = (fv_open (view (vm_host s)))(fd \<mapsto> (path, 0))\<rparr>"
    using agent_open(2) [OF laws defined path, of s] stored by blast
  then obtain ret' h' v where w: "qemu_agent_command agent lv vminst (read_cmd (fmt_dec fd)) (s\<lparr>vm_host := h\<rparr>)
      = (Inr ret', s\<lparr>vm_host := h'\<rparr>)" "return_of ret' = Inr v"
    "js_item v ''buf-b64'' = Inr (JStr (b64encode (take 4096 data)))"
    "view h' = \<lparr>fv_files = fv_files (view (vm_host s)), fv_open = (fv_open (view h))(fd \<mapsto> (path, min 4096 (length data)))\<rparr>"
    using agent_read [OF laws defined, of "s\<lparr>vm_host := h\<rparr>" fd path data] stored by auto
  then obtain ret'' h'' where c: "qemu_agent_command agent lv vminst (close_cmd '' '' (fmt_dec fd)) (s\<lparr>vm_host := h'\<rparr>)
      = (Inr ret'', s\<lparr>vm_host := h''\<rparr>)" "contains ''return'' ret''" "fv_files (view h'') = fv_files (view h')"
    using agent_close [OF laws defined, of fd "s\<lparr>vm_host := h'\<rparr>" "'' ''"] by auto
  show ?thesis
    using o w c by (simp add: qemu_agent_file_read_def assert_return_def)
qed


section \<open>A concrete agent\<close>

text \<open>It reads the command as JSON and keeps the files itself; every handle is number 1000.\<close>

definition demo_files_step :: "json \<Rightarrow> files_view \<Rightarrow> string \<times> files_view" where
  "demo_files_step j w =
     (case j of
        JObj [(e, JStr name), (a, JObj args)] \<Rightarrow>
          (if name = ''guest-file-open'' then
             (case args of
                [(p, JStr path), (m, JStr mode)] \<Rightarrow>
                  (''{\"return\": 1000}'',
                   \<lparr>fv_files = (if mode = ''w+'' then (fv_files w)(path \<mapsto> []) else fv_files w), fv_open = (fv_open w)(1000 \<mapsto> (path, 0))\<rparr>)
              | _ \<Rightarrow> ([], w))
           else
             (case args of
                [(k, JInt fd), (b, JStr buf)] \<Rightarrow>
                  (case (fv_open w fd, b64decode buf) of
                     (Some (path, n), Inr data) \<Rightarrow>
                       (''{\"return\": {}}'',
                        \<lparr>fv_files = (fv_files w)(path \<mapsto> data), fv_open = (fv_open w)(fd \<mapsto> (path, length data))\<rparr>)
                   | _ \<Rightarrow> ([], w))
              | [(k, JInt fd)] \<Rightarrow>
                  if name = ''guest-file-close'' then
                    (''{\"return\": {}}'', w\<lparr>fv_open := (fv_open w)(fd := None)\<rparr>)
                  else
                    (case fv_open w fd of
                       Some (path, n) \<Rightarrow>
                         (case fv_files w path of
                            Some data \<Rightarrow>
                              (''{\"return\": {\"buf-b64\": \"'' @ b64encode (take 4096 data) @ ''\"}}'',
                               w\<lparr>fv_open := (fv_open w)(fd \<mapsto> (path, min 4096 (length data)))\<rparr>)
                          | None \<Rightarrow> ([], w))
                     | None \<Rightarrow> ([], w))
              | _ \<Rightarrow> ([], w)))
      | _ \<Rightarrow> ([], w))"

definition demo_agent :: "files_view agent" where
  "demo_agent d cmd t f w =
     (case json_loads cmd of Inl e \<Rightarrow> (Inl libvirtError, w) | Inr j \<Rightarrow> (case demo_files_step j w of (ret, w') \<Rightarrow> (Inr ret, w')))"

lemma demo_returns:
  "return_of ''{\"return\": 1000}'' = Inr (JInt 1000)" "return_of ''{\"return\": {}}'' = Inr (JObj [])"
  "return_of (''{\"return\": {\"buf-b64\": \"'' @ b64encode data @ ''\"}}'') = Inr (JObj [(''buf-b64'', JStr (b64encode data))])"
  using tokenize_int [of "''}''" 1000] plain_b64encode [of data]
  by (simp_all add: return_of_def json_eval scan_str_plain key_of_def ends_number_def is_digit_def fmt_dec_def dec_digits.simps
      char_of_def bit_0)

lemma demo_agent_run:
  "json_loads cmd = Inr j \<Longrightarrow> demo_files_step j w = (ret, w') \<Longrightarrow> demo_agent d cmd t f w = (Inr ret, w')"
  by (simp add: demo_agent_def)

lemma demo_agent_laws: "agent_laws demo_agent d (\<lambda>w. w)"
proof -
  let ?run = "\<lambda>cmd. demo_agent (Some d) cmd 30 0"
  have "open_law ?run (\<lambda>w. w)"
    unfolding open_law_def replies_def
    by (auto simp: request_def demo_files_step_def demo_returns demo_agent_run intro!: exI [of _ 1000])
  moreover have "write_law ?run (\<lambda>w. w)"
    unfolding write_law_def replies_def by (auto simp: request_def demo_files_step_def demo_returns demo_agent_run)
  moreover have "close_law ?run (\<lambda>w. w)"
    unfolding close_law_def replies_def by (auto simp: request_def demo_files_step_def demo_returns demo_agent_run)
  moreover have "read_law ?run (\<lambda>w. w)"
    unfolding read_law_def replies_def
    using demo_returns(3) by (auto simp: request_def demo_files_step_def demo_agent_run key_of_def)
  ultimately show ?thesis by (simp add: agent_laws_def)
qed

definition agent_demo_libvirt :: "files_view libvirt" where
  "agent_demo_libvirt =
     \<lparr>lv_open = \<lambda>h. True, lv_lookup = \<lambda>d h. True, lv_define = \<lambda>x h. (None, h), lv_create = \<lambda>d h. (True, h),
      lv_destroy = \<lambda>d h. (True, h), lv_undefine = \<lambda>d h. (True, h), lv_suspend = \<lambda>d h. (True, h), lv_resume = \<lambda>d h. (True, h),
      lv_reboot = \<lambda>d h. (True, h), lv_shutdown = \<lambda>m d h. (True, h), lv_state = \<lambda>d h. Some Running, lv_active = \<lambda>d h. Some True,
      lv_xmldesc = \<lambda>d h. None, arp_stdout = \<lambda>h. [], sleep_1 = \<lambda>h. h, removable = \<lambda>f. True\<rparr>"

definition agent_demo_state :: "files_view vmm_state" where
  "agent_demo_state =
     \<lparr>vm_host = \<lparr>fv_files = Map.empty, fv_open = Map.empty\<rparr>, vm_docs = demo_docs, vm_files = {},
      vm_xml = VirtXml, vm_ip = None\<rparr>"


end
