(* ===== verification/Cluster.thy ===== *)
theory Cluster
  imports Py_Poll Py_Text
begin

text \<open>
  \<open>pycloudstack/cluster.py\<close>: namespaces, deployments, services and jobs of a Kubernetes cluster (class \<open>ClusterBase\<close>), and the
  accounting of SGX resources (class \<open>SGXCluster\<close>).  The Kubernetes client and the clock are parameters over a state \<open>'h\<close>
  of the cluster; a call gives the parts of the answer that the code reads, or raises.
\<close>

section \<open>The Kubernetes client\<close>

text \<open>An object of the client may lack a part: \<open>None\<close> is then the attribute.  The answers are the \<open>status\<close> of a namespace (its
  \<open>phase\<close>), of a deployment (its \<open>available_replicas\<close>) and of a job, the \<open>spec\<close> of a service, and nodes, conditions and
  containers.  The bodies that are created are opaque.\<close>

record job_status =
  failed :: "int option"
  succeeded :: "int option"

record service_spec =
  cluster_ip :: "string option"
  ports :: "int list option"

type_synonym quantities = "(string \<times> string) list"

record node_obj =
  labels :: "quantities option"
  capacity :: "quantities option"

record resources =
  requests :: "quantities option"
  limits :: "quantities option"

record ('b, 'h) kube =
  load_kube_config :: "string option \<Rightarrow> ('h, unit) eff"
  sleep :: "int \<Rightarrow> 'h \<Rightarrow> 'h"
  read_namespace :: "string \<Rightarrow> ('h, string option option) eff"
  api_create_namespace :: "string \<Rightarrow> ('h, unit) eff"
  api_delete_namespace :: "string \<Rightarrow> ('h, unit) eff"
  read_namespaced_deployment :: "string \<Rightarrow> string \<Rightarrow> ('h, int option option) eff"
  create_namespaced_deployment :: "'b \<Rightarrow> string \<Rightarrow> ('h, unit) eff"
  delete_namespaced_deployment :: "string \<Rightarrow> string \<Rightarrow> int \<Rightarrow> ('h, unit) eff"
  read_namespaced_service :: "string \<Rightarrow> string \<Rightarrow> ('h, service_spec option) eff"
  create_namespaced_service :: "'b \<Rightarrow> string \<Rightarrow> ('h, unit) eff"
  delete_namespaced_service :: "string \<Rightarrow> string \<Rightarrow> int \<Rightarrow> ('h, unit) eff"
  read_namespaced_job :: "string \<Rightarrow> string \<Rightarrow> ('h, job_status option) eff"
  create_namespaced_job :: "'b \<Rightarrow> string \<Rightarrow> ('h, unit) eff"
  delete_namespaced_job :: "string \<Rightarrow> string \<Rightarrow> int \<Rightarrow> ('h, unit) eff"
  list_namespaced_pod :: "string \<Rightarrow> string \<Rightarrow> nat \<Rightarrow> ('h, string list) eff"
  read_namespaced_pod_log :: "string \<Rightarrow> string \<Rightarrow> ('h, string) eff"
  read_node_status :: "string \<Rightarrow> ('h, (string \<times> string) list option option) eff"
  list_node :: "('h, string list) eff"
  read_node :: "string \<Rightarrow> ('h, node_obj) eff"
  list_pod_for_all_namespaces :: "('h, resources option list list) eff"

section \<open>The base class\<close>

definition WAIT_INTERVAL :: int where "WAIT_INTERVAL = 2"
definition WAIT_TIMEOUT :: int where "WAIT_TIMEOUT = 660"
definition CREATED :: string where "CREATED = ''created''"
definition DELETED :: string where "DELETED = ''deleted''"

record cluster =
  cl_interval :: int
  cl_timeout :: int

definition ClusterBase :: "('b, 'h) kube \<Rightarrow> string option \<Rightarrow> ('h, cluster) eff" where
  "ClusterBase K config_file =
     (\<lambda>s. case load_kube_config K config_file s of
        (Inr _, s') \<Rightarrow> (Inr \<lparr>cl_interval = WAIT_INTERVAL, cl_timeout = WAIT_TIMEOUT\<rparr>, s')
      | (Inl e, s') \<Rightarrow> (Inl (if e = ConfigException then AssertionError else e), s'))"

text \<open>A value that is assigned: \<open>isinstance(v, int)\<close> holds for integers and for booleans, which count as 0 and 1.\<close>

datatype setting = IntSetting int | BoolSetting bool | OtherSetting

fun as_int :: "setting \<Rightarrow> int option" where
  "as_int (IntSetting n) = Some n"
| "as_int (BoolSetting b) = Some (of_bool b)"
| "as_int OtherSetting = None"

definition set_interval :: "setting \<Rightarrow> cluster \<Rightarrow> cluster" where
  "set_interval v c =
     (case as_int v of
        None \<Rightarrow> c
      | Some n \<Rightarrow> if cl_interval c = n then c else if n > 0 then c\<lparr>cl_interval := n\<rparr> else c)"

definition set_timeout :: "setting \<Rightarrow> cluster \<Rightarrow> cluster" where
  "set_timeout v c =
     (case as_int v of
        None \<Rightarrow> c
      | Some n \<Rightarrow> if cl_timeout c = n then c else if n > cl_interval c then c\<lparr>cl_timeout := n\<rparr> else c)"

text \<open>The waiting loops: each has a round that reads the object, and the loop is \<open>poll\<close>.\<close>

definition wait_loop_for :: "('b, 'h) kube \<Rightarrow> cluster \<Rightarrow> ('h, 'a option) eff \<Rightarrow> 'a \<Rightarrow> ('h, 'a) leff" where
  "wait_loop_for K c check dflt = poll (cl_interval c) (cl_timeout c) (sleep K) check dflt 0"

definition namespace_round :: "('b, 'h) kube \<Rightarrow> string \<Rightarrow> string \<Rightarrow> ('h, bool option) eff" where
  "namespace_round K namespace_name expect =
     try_api
       (ebind (read_namespace K namespace_name) (\<lambda>_.
        eret (if CREATED = expect then Some True else None)))
       (\<lambda>_. eret (if DELETED = expect then Some True else None))"

definition wait_for_namespace :: "('b, 'h) kube \<Rightarrow> cluster \<Rightarrow> string \<Rightarrow> string \<Rightarrow> ('h, bool) leff" where
  "wait_for_namespace K c namespace_name expect = wait_loop_for K c (namespace_round K namespace_name expect) False"

definition create_namespace :: "('b, 'h) kube \<Rightarrow> cluster \<Rightarrow> string \<Rightarrow> ('h, bool) leff" where
  "create_namespace K c namespace_name =
     lbind
       (lift_eff
         (try_api
           (ebind (read_namespace K namespace_name) (\<lambda>status.
            ebind (eattr status) (\<lambda>phase.
            eret (Some (phase = Some ''Active'')))))
           (\<lambda>_. eret None)))
       (\<lambda>existing.
          case existing of
            Some active \<Rightarrow> lret active
          | None \<Rightarrow>
              lbind (lift_eff (api_create_namespace K namespace_name)) (\<lambda>_.
              wait_for_namespace K c namespace_name CREATED))"

definition delete_namespace :: "('b, 'h) kube \<Rightarrow> cluster \<Rightarrow> string \<Rightarrow> ('h, bool) leff" where
  "delete_namespace K c namespace_name =
     lbind (lift_eff (api_delete_namespace K namespace_name)) (\<lambda>_.
     wait_for_namespace K c namespace_name DELETED)"

definition deployment_round :: "('b, 'h) kube \<Rightarrow> string \<Rightarrow> string \<Rightarrow> string \<Rightarrow> ('h, bool option) eff" where
  "deployment_round K deployment_name namespace expect =
     try_api
       (ebind (read_namespaced_deployment K deployment_name namespace) (\<lambda>status.
        if CREATED = expect then
          ebind (eattr status) (\<lambda>available_replicas.
          eret (if available_replicas \<noteq> None then Some True else None))
        else eret None))
       (\<lambda>_. eret (if DELETED = expect then Some True else None))"

definition wait_for_deployement :: "('b, 'h) kube \<Rightarrow> cluster \<Rightarrow> string \<Rightarrow> string \<Rightarrow> string \<Rightarrow> ('h, bool) leff" where
  "wait_for_deployement K c deployment_name namespace expect =
     wait_loop_for K c (deployment_round K deployment_name namespace expect) False"

definition create_deployment :: "('b, 'h) kube \<Rightarrow> cluster \<Rightarrow> string \<Rightarrow> 'b \<Rightarrow> string \<Rightarrow> ('h, bool) leff" where
  "create_deployment K c deployment_name body namespace =
     lbind (lift_eff (create_namespaced_deployment K body namespace)) (\<lambda>_.
     wait_for_deployement K c deployment_name namespace CREATED)"

definition delete_deployment :: "('b, 'h) kube \<Rightarrow> cluster \<Rightarrow> string \<Rightarrow> string \<Rightarrow> ('h, bool) leff" where
  "delete_deployment K c deployment_name namespace =
     lbind (lift_eff (delete_namespaced_deployment K deployment_name namespace 5)) (\<lambda>_.
     wait_for_deployement K c deployment_name namespace DELETED)"

text \<open>\<open>(resp.spec.cluster_ip, resp.spec.ports[0].port)\<close>.\<close>

definition get_service_port :: "('b, 'h) kube \<Rightarrow> string \<Rightarrow> string \<Rightarrow> ('h, string option \<times> int) eff" where
  "get_service_port K service_name namespace =
     ebind (read_namespaced_service K service_name namespace) (\<lambda>spec.
     ebind (eattr spec) (\<lambda>sp.
     case ports sp of
       None \<Rightarrow> eraise TypeError
     | Some ps \<Rightarrow> ebind (eres (item_of ps 0)) (\<lambda>port. eret (cluster_ip sp, port))))"

definition service_round :: "('b, 'h) kube \<Rightarrow> string \<Rightarrow> string \<Rightarrow> string \<Rightarrow> ('h, bool option) eff" where
  "service_round K service_name namespace expect =
     try_api
       (ebind (read_namespaced_service K service_name namespace) (\<lambda>_.
        eret (if CREATED = expect then Some True else None)))
       (\<lambda>_. eret (if DELETED = expect then Some True else None))"

definition wait_for_service :: "('b, 'h) kube \<Rightarrow> cluster \<Rightarrow> string \<Rightarrow> string \<Rightarrow> string \<Rightarrow> ('h, bool) leff" where
  "wait_for_service K c service_name namespace expect =
     wait_loop_for K c (service_round K service_name namespace expect) False"

definition create_service :: "('b, 'h) kube \<Rightarrow> cluster \<Rightarrow> string \<Rightarrow> 'b \<Rightarrow> string \<Rightarrow> ('h, bool) leff" where
  "create_service K c service_name body namespace =
     lbind (lift_eff (create_namespaced_service K body namespace)) (\<lambda>_.
     wait_for_service K c service_name namespace CREATED)"

definition delete_service :: "('b, 'h) kube \<Rightarrow> cluster \<Rightarrow> string \<Rightarrow> string \<Rightarrow> ('h, bool) leff" where
  "delete_service K c service_name namespace =
     lbind (lift_eff (delete_namespaced_service K service_name namespace 5)) (\<lambda>_.
     wait_for_service K c service_name namespace DELETED)"

definition job_round :: "('b, 'h) kube \<Rightarrow> string \<Rightarrow> string \<Rightarrow> string \<Rightarrow> ('h, bool option) eff" where
  "job_round K job_name namespace expect =
     try_api
       (ebind (read_namespaced_job K job_name namespace) (\<lambda>status.
        if CREATED = expect then
          ebind (eattr status) (\<lambda>st.
          if failed st \<noteq> None then eret (Some False)
          else
            case succeeded st of
              None \<Rightarrow> eret None
            | Some n \<Rightarrow> eret (if n \<ge> 1 then Some True else None))
        else eret None))
       (\<lambda>_. eret (if DELETED = expect then Some True else None))"

definition wait_for_job :: "('b, 'h) kube \<Rightarrow> cluster \<Rightarrow> string \<Rightarrow> string \<Rightarrow> string \<Rightarrow> ('h, bool) leff" where
  "wait_for_job K c job_name namespace expect = wait_loop_for K c (job_round K job_name namespace expect) False"

definition create_job :: "('b, 'h) kube \<Rightarrow> cluster \<Rightarrow> string \<Rightarrow> 'b \<Rightarrow> string \<Rightarrow> ('h, bool) leff" where
  "create_job K c job_name body namespace =
     lbind (lift_eff (create_namespaced_job K body namespace)) (\<lambda>_.
     wait_for_job K c job_name namespace CREATED)"

definition delete_job :: "('b, 'h) kube \<Rightarrow> cluster \<Rightarrow> string \<Rightarrow> string \<Rightarrow> ('h, bool) leff" where
  "delete_job K c job_name namespace =
     lbind (lift_eff (delete_namespaced_job K job_name namespace 5)) (\<lambda>_.
     wait_for_job K c job_name namespace DELETED)"

definition get_pods_by_selector :: "('b, 'h) kube \<Rightarrow> string \<Rightarrow> string \<Rightarrow> ('h, string list) eff" where
  "get_pods_by_selector K selector namespace = list_namespaced_pod K namespace selector 1"

definition get_pod_log :: "('b, 'h) kube \<Rightarrow> string \<Rightarrow> string \<Rightarrow> ('h, string) eff" where
  "get_pod_log K pod_name namespace = read_namespaced_pod_log K pod_name namespace"

text \<open>The conditions of a node are pairs of a type and a status; iterating over \<open>None\<close> is a \<open>TypeError\<close>.\<close>

definition get_node_ready_status :: "('b, 'h) kube \<Rightarrow> string \<Rightarrow> ('h, string list) eff" where
  "get_node_ready_status K node_name =
     ebind (read_node_status K node_name) (\<lambda>status.
     ebind (eattr status) (\<lambda>conditions.
     case conditions of
       None \<Rightarrow> eraise TypeError
     | Some cs \<Rightarrow> eret [s. (t, s) \<leftarrow> cs, t = ''Ready'']))"

section \<open>The settings\<close>

definition cluster_ok :: "cluster \<Rightarrow> bool" where
  "cluster_ok c \<longleftrightarrow> 0 < cl_interval c \<and> 0 < cl_timeout c"

datatype assignment = Interval setting | Timeout setting

fun assign :: "assignment \<Rightarrow> cluster \<Rightarrow> cluster" where
  "assign (Interval v) = set_interval v"
| "assign (Timeout v) = set_timeout v"

lemma ClusterBase_InrE:
  assumes "ClusterBase K f s = (Inr c, s')"
  obtains "c = \<lparr>cl_interval = WAIT_INTERVAL, cl_timeout = WAIT_TIMEOUT\<rparr>" "load_kube_config K f s = (Inr (), s')"
  using assms by (auto simp: ClusterBase_def split: prod.splits sum.splits)

lemma cluster_ok_new: "ClusterBase K f s = (Inr c, s') \<Longrightarrow> cluster_ok c"
  by (erule ClusterBase_InrE) (simp add: cluster_ok_def WAIT_INTERVAL_def WAIT_TIMEOUT_def)

lemma cluster_ok_assign: "cluster_ok c \<Longrightarrow> cluster_ok (assign a c)"
  by (cases a) (auto simp: cluster_ok_def set_interval_def set_timeout_def split: option.splits)

lemma cluster_ok_assigns: "cluster_ok c \<Longrightarrow> cluster_ok (fold assign as c)"
  by (induction as arbitrary: c) (auto simp: cluster_ok_assign)

text \<open>C35: whatever values of whatever type are assigned to the interval and the timeout of a cluster, in whatever order, both
  stay positive integers; and a positive integer (or \<open>True\<close>, which counts as 1) that is assigned to the interval is the interval
  afterwards.\<close>

theorem settings_stay_positive:
  assumes "ClusterBase K config_file s = (Inr c, s')"
  shows "0 < cl_interval (fold assign vs c) \<and> 0 < cl_timeout (fold assign vs c) \<and>
    (\<forall>v. cl_interval (assign (Interval v) (fold assign vs c)) =
       (case as_int v of
          Some n \<Rightarrow> if 0 < n then n else cl_interval (fold assign vs c)
        | None \<Rightarrow> cl_interval (fold assign vs c)))"
  using cluster_ok_assigns [OF cluster_ok_new [OF assms], of vs]
  by (auto simp: cluster_ok_def set_interval_def split: option.splits)

section \<open>The waiting operations\<close>

interpretation ns: polling
  "\<lambda>c (K, name, expect). wait_for_namespace K c name expect" cl_interval cl_timeout cluster_ok
  "\<lambda>(K, name, expect). sleep K" "\<lambda>(K, name, expect). namespace_round K name expect" False
  by unfold_locales (auto simp: wait_for_namespace_def wait_loop_for_def cluster_ok_def split: prod.splits)

interpretation dep: polling
  "\<lambda>c (K, name, ns, expect). wait_for_deployement K c name ns expect" cl_interval cl_timeout cluster_ok
  "\<lambda>(K, name, ns, expect). sleep K" "\<lambda>(K, name, ns, expect). deployment_round K name ns expect" False
  by unfold_locales (auto simp: wait_for_deployement_def wait_loop_for_def cluster_ok_def split: prod.splits)

interpretation svc: polling
  "\<lambda>c (K, name, ns, expect). wait_for_service K c name ns expect" cl_interval cl_timeout cluster_ok
  "\<lambda>(K, name, ns, expect). sleep K" "\<lambda>(K, name, ns, expect). service_round K name ns expect" False
  by unfold_locales (auto simp: wait_for_service_def wait_loop_for_def cluster_ok_def split: prod.splits)

interpretation job: polling
  "\<lambda>c (K, name, ns, expect). wait_for_job K c name ns expect" cl_interval cl_timeout cluster_ok
  "\<lambda>(K, name, ns, expect). sleep K" "\<lambda>(K, name, ns, expect). job_round K name ns expect" False
  by unfold_locales (auto simp: wait_for_job_def wait_loop_for_def cluster_ok_def split: prod.splits)

lemmas wait_returns =
  ns.wait_returns [where k = "(K, name, expect)" for K name expect, unfolded prod.case]
  dep.wait_returns [where k = "(K, name, ns, expect)" for K name ns expect, unfolded prod.case]
  svc.wait_returns [where k = "(K, name, ns, expect)" for K name ns expect, unfolded prod.case]
  job.wait_returns [where k = "(K, name, ns, expect)" for K name ns expect, unfolded prod.case]

lemma create_namespace_returns:
  assumes "cluster_ok c"
  shows "create_namespace K c name s \<noteq> None"
  unfolding create_namespace_def
proof (rule lbind_total)
  have new: "lbind (lift_eff (api_create_namespace K name)) (\<lambda>_. wait_for_namespace K c name CREATED) h \<noteq> None" for h
    using assms by (intro call_then_wait_returns wait_returns)
  show "(case x of None \<Rightarrow> lbind (lift_eff (api_create_namespace K name)) (\<lambda>_. wait_for_namespace K c name CREATED)
      | Some active \<Rightarrow> lret active) h \<noteq> None" for x h
    using new [of h] by (cases x) auto
qed simp

text \<open>C32: with the settings that a cluster can have, each operation that creates or deletes a namespace, a deployment, a
  service or a job returns or raises: no sequence of answers of the cluster keeps it in its loop.\<close>

theorem cluster_operations_return:
  assumes "ClusterBase K config_file h = (Inr c, h')"
  shows "create_namespace K (fold assign vs c) name s \<noteq> None \<and>
    delete_namespace K (fold assign vs c) name s \<noteq> None \<and>
    create_deployment K (fold assign vs c) name body ns s \<noteq> None \<and>
    delete_deployment K (fold assign vs c) name ns s \<noteq> None \<and>
    create_service K (fold assign vs c) name body ns s \<noteq> None \<and>
    delete_service K (fold assign vs c) name ns s \<noteq> None \<and>
    create_job K (fold assign vs c) name body ns s \<noteq> None \<and>
    delete_job K (fold assign vs c) name ns s \<noteq> None"
proof -
  have "cluster_ok (fold assign vs c)"
    using assms by (intro cluster_ok_assigns cluster_ok_new)
  then show ?thesis
    unfolding delete_namespace_def create_deployment_def delete_deployment_def create_service_def delete_service_def
      create_job_def delete_job_def
    by (intro conjI create_namespace_returns call_then_wait_returns wait_returns)
qed

text \<open>What a round answers.\<close>

lemma namespace_round_answers:
  "namespace_round K name CREATED h = (Inr (Some True), h') \<longleftrightarrow> (\<exists>x. read_namespace K name h = (Inr x, h'))"
  "namespace_round K name DELETED h = (Inr (Some True), h') \<longleftrightarrow> (\<exists>r. read_namespace K name h = (Inl (ApiException r), h'))"
  "fst (namespace_round K name CREATED h) = Inr None \<longleftrightarrow> (\<exists>r. fst (read_namespace K name h) = Inl (ApiException r))"
  "fst (namespace_round K name DELETED h) = Inr None \<longleftrightarrow> (\<exists>x. fst (read_namespace K name h) = Inr x)"
  by (auto simp: namespace_round_def try_api_def ebind_def CREATED_def DELETED_def split: prod.splits sum.splits py_error.splits)

lemma lbind_SomeE:
  assumes "lbind m f s = Some (Inr y, s')"
  obtains x h where "m s = Some (Inr x, h)" "f x h = Some (Inr y, s')"
  using assms by (auto simp: lbind_def split: option.splits prod.splits sum.splits)

lemma wait_for_namespace_created:
  assumes "cluster_ok c" and "wait_for_namespace K c name CREATED s = Some (Inr True, s')"
  shows "\<exists>h x. read_namespace K name h = (Inr x, s')"
  using ns.wait_answer_iff [OF assms(1), of True "(K, name, CREATED)" s s'] assms(2) by (auto simp: namespace_round_answers)

lemma wait_for_namespace_deleted:
  assumes "cluster_ok c" and "wait_for_namespace K c name DELETED s = Some (Inr True, s')"
  shows "\<exists>h r. read_namespace K name h = (Inl (ApiException r), s')"
  using ns.wait_answer_iff [OF assms(1), of True "(K, name, DELETED)" s s'] assms(2) by (auto simp: namespace_round_answers)

text \<open>The state before a round, when reading does not change the cluster.\<close>

lemma at_round_pure:
  assumes "\<And>h. snd (check h) = h"
  shows "at_round itv slp check n s = (slp itv ^^ n) s"
proof -
  have "(\<lambda>s. slp itv (snd (check s))) = slp itv"
    by (rule ext) (simp add: assms)
  then show ?thesis by (simp add: at_round_def)
qed

definition job_failed :: "job_status option result \<Rightarrow> bool" where
  "job_failed r = (case r of Inr (Some st) \<Rightarrow> failed st \<noteq> None | _ \<Rightarrow> False)"

definition job_succeeded :: "job_status option result \<Rightarrow> bool" where
  "job_succeeded r =
     (case r of Inr (Some st) \<Rightarrow> (case succeeded st of Some n \<Rightarrow> 1 \<le> n | None \<Rightarrow> False) | _ \<Rightarrow> False)"

text \<open>A sensible answer: a status, or an \<open>ApiException\<close>.\<close>

definition job_answer :: "job_status option result \<Rightarrow> bool" where
  "job_answer r = (case r of Inr st \<Rightarrow> st \<noteq> None | Inl (ApiException q) \<Rightarrow> True | Inl _ \<Rightarrow> False)"

lemma job_round_created:
  assumes "read_namespaced_job K name ns h = (r, h)" and "job_answer r"
  shows "job_round K name ns CREATED h =
    (Inr (if job_failed r then Some False else if job_succeeded r then Some True else None), h)"
  using assms
  by (auto simp: job_round_def job_answer_def job_failed_def job_succeeded_def CREATED_def DELETED_def
      split: sum.splits py_error.splits option.splits)

text \<open>C31: creating a job answers whether the job succeeded in time.  When reading a job is an observation of the cluster that
  gives a status or an \<open>ApiException\<close>, the operation returns, and it returns \<open>True\<close> exactly if at some round
  within the timeout the job is seen with a success and it is not seen with a failure up to that round.\<close>

theorem create_job_verdict:
  assumes ok: "cluster_ok c"
    and created: "create_namespaced_job K body ns s0 = (Inr (), s)"
    and reads: "\<And>h. read_namespaced_job K name ns h = (answer h, h)" "\<And>h. job_answer (answer h)"
  shows "\<exists>s'. create_job K c name body ns s0 =
    Some (Inr (\<exists>n. int n * cl_interval c < cl_timeout c \<and>
                job_succeeded (answer ((sleep K (cl_interval c) ^^ n) s)) \<and>
                (\<forall>m\<le>n. \<not> job_failed (answer ((sleep K (cl_interval c) ^^ m) s)))), s')"
proof -
  let ?at = "\<lambda>n. (sleep K (cl_interval c) ^^ n) s"
  let ?k = "(K, name, ns, CREATED)"
  have round: "job_round K name ns CREATED h =
      (Inr (if job_failed (answer h) then Some False else if job_succeeded (answer h) then Some True else None), h)" for h
    using reads by (rule job_round_created)
  have at: "at_round (cl_interval c) (sleep K) (job_round K name ns CREATED) n s = ?at n" for n
    by (rule at_round_pure) (simp add: round)
  have eq: "create_job K c name body ns s0 = wait_for_job K c name ns CREATED s"
    by (simp add: create_job_def created)
  show ?thesis
  proof (cases rule: job.wait_cases [OF ok, of ?k s, case_names timeout decided raised])
    case timeout
    then have "\<not> job_succeeded (answer (?at n))" if "int n * cl_interval c < cl_timeout c" for n
      using that by (fastforce simp: at round split: if_splits)
    with timeout(2) show ?thesis by (auto simp: eq)
  next
    case (decided n r s')
    have none: "\<not> job_failed (answer (?at j)) \<and> \<not> job_succeeded (answer (?at j))" if "j < n" for j
      using decided(2) [OF that] by (auto simp: at round split: if_splits)
    have r: "r \<longleftrightarrow> \<not> job_failed (answer (?at n)) \<and> job_succeeded (answer (?at n))"
      "\<not> r \<longleftrightarrow> job_failed (answer (?at n))"
      using decided(3) by (auto simp: at round split: if_splits)
    have "r \<longleftrightarrow> (\<exists>n. int n * cl_interval c < cl_timeout c \<and> job_succeeded (answer (?at n)) \<and>
        (\<forall>m\<le>n. \<not> job_failed (answer (?at m))))"
      using decided(1) none r by (metis le_less not_less)
    with decided(4) show ?thesis by (auto simp: eq)
  next
    case (raised n e s')
    then show ?thesis by (simp add: round)
  qed
qed

section \<open>A concrete cluster\<close>

text \<open>The state is the time.  What is created is there after five seconds; a job has succeeded after three more.\<close>

definition demo_seen :: "'a \<Rightarrow> int \<Rightarrow> 'a result \<times> int" where
  "demo_seen x t = (if 5 \<le> t then Inr x else Inl (ApiException (Some ''Not Found'')), t)"

definition demo_kube :: "(unit, int) kube" where
  "demo_kube =
     \<lparr>load_kube_config = \<lambda>f. eret (), sleep = (+), read_namespace = \<lambda>n. demo_seen (Some (Some ''Active'')),
      api_create_namespace = \<lambda>n. eret (), api_delete_namespace = \<lambda>n. eput (\<lambda>t. 0),
      read_namespaced_deployment = \<lambda>n ns. demo_seen (Some (Some 1)), create_namespaced_deployment = \<lambda>b ns. eret (),
      delete_namespaced_deployment = \<lambda>n ns g. eput (\<lambda>t. 0),
      read_namespaced_service = \<lambda>n ns. demo_seen (Some \<lparr>cluster_ip = Some ''10.0.0.1'', ports = Some [80]\<rparr>),
      create_namespaced_service = \<lambda>b ns. eret (), delete_namespaced_service = \<lambda>n ns g. eput (\<lambda>t. 0),
      read_namespaced_job = \<lambda>n ns t. demo_seen (Some \<lparr>failed = None, succeeded = (if 8 \<le> t then Some 1 else None)\<rparr>) t,
      create_namespaced_job = \<lambda>b ns. eret (), delete_namespaced_job = \<lambda>n ns g. eput (\<lambda>t. 0),
      list_namespaced_pod = \<lambda>ns l m. eret [''pod-1''], read_namespaced_pod_log = \<lambda>n ns. eret ''ready'',
      read_node_status = \<lambda>n. eret (Some (Some [(''Ready'', ''True'')])), list_node = eret [''node-1''],
      read_node = \<lambda>n. eret \<lparr>labels = Some [], capacity = Some []\<rparr>,
      list_pod_for_all_namespaces = eret []\<rparr>"

definition demo_cluster :: cluster where
  "demo_cluster = \<lparr>cl_interval = 2, cl_timeout = 660\<rparr>"

lemma demo_cluster_made: "ClusterBase demo_kube None s = (Inr demo_cluster, s)"
  by (simp add: ClusterBase_def demo_kube_def demo_cluster_def WAIT_INTERVAL_def WAIT_TIMEOUT_def)

theorem settings_stay_positive_witness:
  "ClusterBase demo_kube None 0 = (Inr demo_cluster, 0) \<and>
   fold assign [Interval (IntSetting 700), Timeout (IntSetting 600)] demo_cluster = \<lparr>cl_interval = 700, cl_timeout = 660\<rparr> \<and>
   cl_interval (assign (Interval (BoolSetting True)) \<lparr>cl_interval = 700, cl_timeout = 660\<rparr>) = 1"
  using settings_stay_positive [OF demo_cluster_made [of 0], of "[Interval (IntSetting 700), Timeout (IntSetting 600)]"]
  by (simp add: demo_cluster_made demo_cluster_def set_interval_def set_timeout_def)

theorem cluster_operations_return_witness:
  "ClusterBase demo_kube None 0 = (Inr demo_cluster, 0) \<and> delete_job demo_kube demo_cluster ''j'' ''default'' 9 \<noteq> None"
  using cluster_operations_return [OF demo_cluster_made [of 0], of "[]" _ _ _ "''default''"] by (simp add: demo_cluster_made)

lemma demo_job_reads: "read_namespaced_job demo_kube n ns t = (fst (read_namespaced_job demo_kube n ns t), t)"
  "job_answer (fst (read_namespaced_job demo_kube n ns t))"
  by (simp_all add: demo_kube_def demo_seen_def job_answer_def)

lemma demo_sleeps: "(sleep demo_kube 2 ^^ n) t = t + 2 * int n"
  by (induction n) (simp_all add: demo_kube_def)

theorem create_job_verdict_witness:
  "\<exists>s'. create_job demo_kube demo_cluster ''j'' () ''default'' 0 = Some (Inr True, s')"
proof -
  have "job_succeeded (fst (read_namespaced_job demo_kube ''j'' ''default'' ((sleep demo_kube 2 ^^ 4) 0)))"
    unfolding demo_sleeps by (simp add: demo_kube_def demo_seen_def job_succeeded_def)
  moreover have "\<not> job_failed (fst (read_namespaced_job demo_kube ''j'' ''default'' t))" for t
    by (simp add: demo_kube_def demo_seen_def job_failed_def)
  ultimately have "\<exists>n. int n * 2 < 660 \<and>
      job_succeeded (fst (read_namespaced_job demo_kube ''j'' ''default'' ((sleep demo_kube 2 ^^ n) 0))) \<and>
      (\<forall>m\<le>n. \<not> job_failed (fst (read_namespaced_job demo_kube ''j'' ''default'' ((sleep demo_kube 2 ^^ m) 0))))"
    by (intro exI [of _ 4]) simp
  moreover have "cluster_ok demo_cluster" "cl_interval demo_cluster = 2" "cl_timeout demo_cluster = 660"
    "create_namespaced_job demo_kube () ''default'' 0 = (Inr (), 0)"
    by (simp_all add: demo_cluster_def cluster_ok_def demo_kube_def)
  ultimately show ?thesis
    using create_job_verdict [of demo_cluster demo_kube "()" "''default''" 0 0 "''j''", OF _ _ demo_job_reads] by simp
qed

end
