(* ===== verification/Cluster_Sgx.thy ===== *)
theory Cluster_Sgx
  imports Cluster
begin

text \<open>
  The class \<open>SGXCluster\<close> of \<open>pycloudstack/cluster.py\<close>: the nodes of a cluster with SGX, the totals of their enclave page cache
  and enclaves, and what the containers of the cluster ask for.
\<close>

section \<open>Definitions\<close>

definition SGXLC_LABEL :: string where "SGXLC_LABEL = ''feature.node.kubernetes.io/cpu-cpuid.SGXLC''"
definition HOSTNAME_LABEL :: string where "HOSTNAME_LABEL = ''kubernetes.io/hostname''"
definition ENCLAVE_RES :: string where "ENCLAVE_RES = ''sgx.intel.com/enclave''"
definition EPC_RES :: string where "EPC_RES = ''sgx.intel.com/epc''"

record sgx_cluster =
  sgx_base :: cluster
  sgx_epid_nodes :: "(string \<times> node_obj) list"
  sgx_dcap_nodes :: "(string \<times> node_obj) list"

definition has_key :: "'k \<Rightarrow> ('k \<times> 'v) list \<Rightarrow> bool" where
  "has_key k d \<longleftrightarrow> k \<in> fst ` set d"

fun efold :: "('a \<Rightarrow> 'b \<Rightarrow> ('s, 'b) eff) \<Rightarrow> 'a list \<Rightarrow> 'b \<Rightarrow> ('s, 'b) eff" where
  "efold f [] acc = eret acc"
| "efold f (x # xs) acc = ebind (f x acc) (\<lambda>acc'. efold f xs acc')"

text \<open>One round of \<open>_scan_sgx_nodes\<close>; the pair holds the EPID and the DCAP nodes.\<close>

type_synonym sgx_nodes = "(string \<times> node_obj) list \<times> (string \<times> node_obj) list"

definition scan_node :: "('b, 'h) kube \<Rightarrow> string \<Rightarrow> sgx_nodes \<Rightarrow> ('h, sgx_nodes) eff" where
  "scan_node K item nodes =
     ebind (read_node K item) (\<lambda>node.
     ebind (eattr (labels node)) (\<lambda>ls.
     if has_key SGXLC_LABEL ls then
       ebind (eattr (capacity node)) (\<lambda>cap.
       ebind (eres (key_of ls HOSTNAME_LABEL)) (\<lambda>host.
       eret (if has_key ENCLAVE_RES cap then (fst nodes, AList.update host node (snd nodes))
             else (AList.update host node (fst nodes), snd nodes))))
     else eret nodes))"

definition scan_sgx_nodes :: "('b, 'h) kube \<Rightarrow> ('h, sgx_nodes) eff" where
  "scan_sgx_nodes K = ebind (list_node K) (\<lambda>items. efold (scan_node K) items ([], []))"

definition SGXCluster :: "('b, 'h) kube \<Rightarrow> string option \<Rightarrow> ('h, sgx_cluster) eff" where
  "SGXCluster K config_file =
     ebind (ClusterBase K config_file) (\<lambda>base.
     ebind (scan_sgx_nodes K) (\<lambda>nodes.
     eret \<lparr>sgx_base = base, sgx_epid_nodes = fst nodes, sgx_dcap_nodes = snd nodes\<rparr>))"

text \<open>\<open>int(node.status.capacity[key])\<close>, and the loop that adds it up.\<close>

definition node_quantity :: "string \<Rightarrow> node_obj \<Rightarrow> int result" where
  "node_quantity key node =
     (case capacity node of
        None \<Rightarrow> Inl TypeError
      | Some cap \<Rightarrow> rbind (key_of cap key) int_base10)"

fun total_quantity :: "string \<Rightarrow> node_obj list \<Rightarrow> int \<Rightarrow> int result" where
  "total_quantity key [] tot = Inr tot"
| "total_quantity key (node # nodes) tot =
     rbind (node_quantity key node) (\<lambda>n. total_quantity key nodes (tot + n))"

definition get_total_epc_size :: "sgx_cluster \<Rightarrow> int result" where
  "get_total_epc_size c = total_quantity EPC_RES (map snd (sgx_dcap_nodes c)) 0"

definition get_total_enclave_number :: "sgx_cluster \<Rightarrow> int result" where
  "get_total_enclave_number c = total_quantity ENCLAVE_RES (map snd (sgx_dcap_nodes c)) 0"

text \<open>\<open>self._sgx_dcap_nodes.keys[node_name]\<close> subscripts a method, which is a \<open>TypeError\<close>; the statement after it is not reached.\<close>

definition get_epc_size :: "sgx_cluster \<Rightarrow> string \<Rightarrow> int option result" where
  "get_epc_size c node_name = (if \<not> has_key node_name (sgx_dcap_nodes c) then Inr None else Inl TypeError)"

definition get_enclave_size :: "sgx_cluster \<Rightarrow> string \<Rightarrow> int option result" where
  "get_enclave_size c node_name = (if \<not> has_key node_name (sgx_dcap_nodes c) then Inr None else Inl TypeError)"

definition request_value :: "string \<Rightarrow> int result" where
  "request_value s =
     (if s \<noteq> [] \<and> last s = CHR ''k'' then rbind (int_base10 (butlast s)) (\<lambda>n. Inr (n * 1024)) else int_base10 s)"

definition add_request :: "string \<Rightarrow> quantities \<Rightarrow> int \<Rightarrow> int result" where
  "add_request key reqs tot =
     (case map_of reqs key of
        None \<Rightarrow> Inr tot
      | Some s \<Rightarrow> rbind (request_value s) (\<lambda>n. Inr (tot + n)))"

text \<open>\<open>if j.resources.requests or j.resources.limits:\<close> is a test for a dictionary that is there and not empty.\<close>

definition truthy :: "'a list option \<Rightarrow> bool" where
  "truthy d = (case d of None \<Rightarrow> False | Some xs \<Rightarrow> xs \<noteq> [])"

definition add_container :: "resources option \<Rightarrow> int \<times> int \<Rightarrow> (int \<times> int) result" where
  "add_container res totals =
     (case res of
        None \<Rightarrow> Inl AttributeError
      | Some r \<Rightarrow>
          if truthy (requests r) \<or> truthy (limits r) then
            (case requests r of
               None \<Rightarrow> Inl AttributeError
             | Some reqs \<Rightarrow>
                 rbind (add_request EPC_RES reqs (fst totals)) (\<lambda>epc.
                 rbind (add_request ENCLAVE_RES reqs (snd totals)) (\<lambda>enclave.
                 Inr (epc, enclave))))
          else Inr totals)"

fun add_containers :: "resources option list \<Rightarrow> int \<times> int \<Rightarrow> (int \<times> int) result" where
  "add_containers [] totals = Inr totals"
| "add_containers (r # rs) totals = rbind (add_container r totals) (\<lambda>t. add_containers rs t)"

definition get_total_allocated_sgx :: "('b, 'h) kube \<Rightarrow> ('h, int \<times> int) eff" where
  "get_total_allocated_sgx K =
     ebind (list_pod_for_all_namespaces K) (\<lambda>pods.
     ebind (eres (add_containers (concat pods) (0, 0))) (\<lambda>(total_epc, total_enclave).
     eret (total_enclave, total_epc)))"

section \<open>Sums\<close>

lemma total_quantity_sum:
  "(\<And>node. node \<in> set nodes \<Longrightarrow> node_quantity key node = Inr (f node)) \<Longrightarrow>
   total_quantity key nodes tot = Inr (tot + sum_list (map f nodes))"
  by (induction nodes arbitrary: tot) auto

text \<open>The nodes that are kept: the last one for each host name.\<close>

definition is_dcap :: "node_obj \<Rightarrow> bool" where
  "is_dcap node \<longleftrightarrow>
     (case labels node of None \<Rightarrow> False | Some ls \<Rightarrow> has_key SGXLC_LABEL ls) \<and>
     (case capacity node of None \<Rightarrow> False | Some cap \<Rightarrow> has_key ENCLAVE_RES cap)"

definition host_of :: "node_obj \<Rightarrow> string" where
  "host_of node = (case labels node of None \<Rightarrow> [] | Some ls \<Rightarrow> (case map_of ls HOSTNAME_LABEL of None \<Rightarrow> [] | Some h \<Rightarrow> h))"

text \<open>A node as Kubernetes reports it: labels, with the host name, and a capacity.\<close>

definition node_ok :: "node_obj \<Rightarrow> bool" where
  "node_ok node \<longleftrightarrow>
     (case labels node of None \<Rightarrow> False | Some ls \<Rightarrow> has_key HOSTNAME_LABEL ls) \<and> capacity node \<noteq> None"

lemma scan_node_ok:
  assumes "read_node K item h = (Inr node, h)" and "node_ok node"
  shows "\<exists>epid. scan_node K item nodes h =
    (Inr (epid, if is_dcap node then AList.update (host_of node) node (snd nodes) else snd nodes), h)"
proof -
  obtain ls cap where ls: "labels node = Some ls" "capacity node = Some cap" "has_key HOSTNAME_LABEL ls"
    using assms(2) by (auto simp: node_ok_def split: option.splits)
  then obtain host where host: "map_of ls HOSTNAME_LABEL = Some host"
    using map_of_eq_None_iff [of ls HOSTNAME_LABEL] by (cases "map_of ls HOSTNAME_LABEL") (auto simp: has_key_def)
  show ?thesis
    using assms(1) ls host by (cases nodes) (auto simp: scan_node_def is_dcap_def host_of_def key_of_def)
qed

lemma efold_scan:
  assumes "\<And>item. item \<in> set items \<Longrightarrow> read_node K item h = (Inr (node item), h)"
    and "\<And>item. item \<in> set items \<Longrightarrow> node_ok (node item)"
  shows "\<exists>epid. efold (scan_node K) items nodes h =
    (Inr (epid, fold (\<lambda>n. AList.update (host_of n) n) (filter is_dcap (map node items)) (snd nodes)), h)"
  using assms
proof (induction items arbitrary: nodes)
  case Nil
  then show ?case by (cases nodes) simp
next
  case (Cons item items)
  then obtain epid where "scan_node K item nodes h =
      (Inr (epid, if is_dcap (node item) then AList.update (host_of (node item)) (node item) (snd nodes) else snd nodes), h)"
    using scan_node_ok [of K item h "node item" nodes] by auto
  then show ?case
    using Cons.IH [of "(epid, if is_dcap (node item) then AList.update (host_of (node item)) (node item) (snd nodes) else snd nodes)"]
      Cons.prems by (auto split: if_splits)
qed

lemma AList_update_new: "k \<notin> fst ` set d \<Longrightarrow> AList.update k v d = d @ [(k, v)]"
  by (induction d) auto

lemma fold_update_distinct:
  "\<lbrakk>distinct (map host_of ns); set (map host_of ns) \<inter> fst ` set d = {}\<rbrakk> \<Longrightarrow>
   fold (\<lambda>n. AList.update (host_of n) n) ns d = d @ map (\<lambda>n. (host_of n, n)) ns"
  by (induction ns arbitrary: d) (auto simp: AList_update_new)

text \<open>C36: an SGX cluster whose nodes are reported with their labels and capacities, the DCAP nodes with distinct host names, counts
  each DCAP node once: the totals are the sums of the page cache and of the enclaves of these nodes.  The size for one
  of these nodes can not be asked for: it raises a \<open>TypeError\<close>, and any other name gives \<open>None\<close>.\<close>

theorem sgx_totals:
  assumes config: "load_kube_config K f s = (Inr (), h)"
    and items: "list_node K h = (Inr items, h)"
    and reads: "\<And>item. item \<in> set items \<Longrightarrow> read_node K item h = (Inr (node item), h)"
      "\<And>item. item \<in> set items \<Longrightarrow> node_ok (node item)"
    and hosts: "distinct (map host_of (filter is_dcap (map node items)))"
    and numbers: "\<And>n. n \<in> set (filter is_dcap (map node items)) \<Longrightarrow> node_quantity EPC_RES n = Inr (epc n)"
      "\<And>n. n \<in> set (filter is_dcap (map node items)) \<Longrightarrow> node_quantity ENCLAVE_RES n = Inr (enclaves n)"
  shows "\<exists>c. SGXCluster K f s = (Inr c, h) \<and>
    get_total_epc_size c = Inr (\<Sum>n\<leftarrow>filter is_dcap (map node items). epc n) \<and>
    get_total_enclave_number c = Inr (\<Sum>n\<leftarrow>filter is_dcap (map node items). enclaves n) \<and>
    (\<forall>name. get_epc_size c name =
       (if name \<in> host_of ` set (filter is_dcap (map node items)) then Inl TypeError else Inr None))"
proof -
  let ?dcap = "filter is_dcap (map node items)"
  obtain epid where fold: "efold (scan_node K) items ([], []) h =
      (Inr (epid, fold (\<lambda>n. AList.update (host_of n) n) ?dcap []), h)"
    using efold_scan [of items K h node "([], [])"] reads by auto
  define c where "c = \<lparr>sgx_base = \<lparr>cl_interval = WAIT_INTERVAL, cl_timeout = WAIT_TIMEOUT\<rparr>,
      sgx_epid_nodes = epid, sgx_dcap_nodes = map (\<lambda>n. (host_of n, n)) ?dcap\<rparr>"
  have "ClusterBase K f s = (Inr (sgx_base c), h)"
    by (simp add: ClusterBase_def config c_def)
  then have "SGXCluster K f s = (Inr c, h)"
    using fold hosts by (simp add: SGXCluster_def scan_sgx_nodes_def items fold_update_distinct c_def)
  moreover have dcap: "sgx_dcap_nodes c = map (\<lambda>n. (host_of n, n)) ?dcap" by (simp add: c_def)
  have nodes: "map snd (sgx_dcap_nodes c) = ?dcap" unfolding dcap by (simp add: comp_def)
  have "get_total_epc_size c = Inr (\<Sum>n\<leftarrow>?dcap. epc n)"
    using total_quantity_sum [of ?dcap EPC_RES epc 0, OF numbers(1)] by (simp add: get_total_epc_size_def nodes)
  moreover have "get_total_enclave_number c = Inr (\<Sum>n\<leftarrow>?dcap. enclaves n)"
    using total_quantity_sum [of ?dcap ENCLAVE_RES enclaves 0, OF numbers(2)]
    by (simp add: get_total_enclave_number_def nodes)
  moreover have "get_epc_size c name = (if name \<in> host_of ` set ?dcap then Inl TypeError else Inr None)" for name
    unfolding get_epc_size_def dcap by (simp add: has_key_def image_image)
  ultimately show ?thesis by blast
qed

text \<open>What the containers ask for, when each that has resources has requests in a form that the code reads.\<close>

definition request_of :: "string \<Rightarrow> resources option \<Rightarrow> int" where
  "request_of key res =
     (case res of
        None \<Rightarrow> 0
      | Some r \<Rightarrow>
          (case requests r of
             None \<Rightarrow> 0
           | Some reqs \<Rightarrow>
               (case map_of reqs key of
                  None \<Rightarrow> 0
                | Some s \<Rightarrow> (case request_value s of Inl e \<Rightarrow> 0 | Inr n \<Rightarrow> n))))"

definition container_ok :: "resources option \<Rightarrow> bool" where
  "container_ok res \<longleftrightarrow>
     (case res of
        None \<Rightarrow> False
      | Some r \<Rightarrow>
          (case requests r of
             None \<Rightarrow> \<not> truthy (limits r)
           | Some reqs \<Rightarrow>
               (\<forall>key\<in>{EPC_RES, ENCLAVE_RES}. \<forall>s. map_of reqs key = Some s \<longrightarrow> (\<exists>n. request_value s = Inr n))))"

lemma add_request_of:
  assumes "\<And>s. map_of reqs key = Some s \<Longrightarrow> \<exists>n. request_value s = Inr n"
  shows "add_request key reqs tot = Inr (tot + request_of key (Some \<lparr>requests = Some reqs, limits = l\<rparr>))"
  using assms by (cases "map_of reqs key") (auto simp: add_request_def request_of_def)

lemma add_container_of:
  assumes "container_ok res"
  shows "add_container res (a, b) = Inr (a + request_of EPC_RES res, b + request_of ENCLAVE_RES res)"
proof -
  obtain r where r: "res = Some r" using assms by (auto simp: container_ok_def split: option.splits)
  show ?thesis
  proof (cases "requests r")
    case None
    then show ?thesis
      using assms by (simp add: r container_ok_def add_container_def request_of_def truthy_def)
  next
    case (Some reqs)
    have e: "r = \<lparr>requests = Some reqs, limits = limits r\<rparr>" using Some by simp
    have "add_request key reqs tot = Inr (tot + request_of key res)" if "key \<in> {EPC_RES, ENCLAVE_RES}" for key tot
      unfolding r using assms that by (subst e, intro add_request_of) (auto simp: container_ok_def r Some)
    moreover have "reqs = [] \<Longrightarrow> request_of key res = 0" for key
      by (simp add: r Some request_of_def)
    ultimately show ?thesis
      by (auto simp: r Some add_container_def truthy_def)
  qed
qed

lemma add_containers_of:
  "(\<And>res. res \<in> set rs \<Longrightarrow> container_ok res) \<Longrightarrow>
   add_containers rs (a, b) = Inr (a + (\<Sum>r\<leftarrow>rs. request_of EPC_RES r), b + (\<Sum>r\<leftarrow>rs. request_of ENCLAVE_RES r))"
  by (induction rs arbitrary: a b) (auto simp: add_container_of)

lemma get_total_allocated_sgx_sum:
  assumes "list_pod_for_all_namespaces K s = (Inr pods, s')" and "\<And>res. res \<in> set (concat pods) \<Longrightarrow> container_ok res"
  shows "get_total_allocated_sgx K s =
    (Inr (\<Sum>r\<leftarrow>concat pods. request_of ENCLAVE_RES r, \<Sum>r\<leftarrow>concat pods. request_of EPC_RES r), s')"
  using assms add_containers_of [of "concat pods" 0 0] by (simp add: get_total_allocated_sgx_def)

lemma limits_without_requests:
  "requests r = None \<Longrightarrow> truthy (limits r) \<Longrightarrow> add_container (Some r) totals = Inl AttributeError"
  by (simp add: add_container_def)

section \<open>A concrete cluster\<close>

text \<open>Two nodes with SGX and a third without.\<close>

definition sgx_demo_node :: "string \<Rightarrow> node_obj" where
  "sgx_demo_node item =
     (if item = ''c'' then \<lparr>labels = Some [(HOSTNAME_LABEL, item)], capacity = Some []\<rparr>
      else \<lparr>labels = Some [(SGXLC_LABEL, ''true''), (HOSTNAME_LABEL, item)],
            capacity = Some [(EPC_RES, if item = ''a'' then ''4096'' else ''8192''), (ENCLAVE_RES, ''110'')]\<rparr>)"

definition sgx_demo_kube :: "(unit, int) kube" where
  "sgx_demo_kube = demo_kube\<lparr>list_node := eret [''a'', ''b'', ''c''], read_node := \<lambda>item. eret (sgx_demo_node item)\<rparr>"

lemmas sgx_names = SGXLC_LABEL_def HOSTNAME_LABEL_def ENCLAVE_RES_def EPC_RES_def

lemma sgx_demo_dcap:
  "is_dcap (sgx_demo_node ''a'')" "is_dcap (sgx_demo_node ''b'')" "\<not> is_dcap (sgx_demo_node ''c'')"
  by (simp_all add: sgx_demo_node_def is_dcap_def has_key_def sgx_names)

lemma sgx_demo_numbers:
  "node_quantity EPC_RES (sgx_demo_node ''a'') = Inr 4096" "node_quantity EPC_RES (sgx_demo_node ''b'') = Inr 8192"
  "node_quantity ENCLAVE_RES (sgx_demo_node ''a'') = Inr 110" "node_quantity ENCLAVE_RES (sgx_demo_node ''b'') = Inr 110"
  by (simp_all add: node_quantity_def sgx_demo_node_def key_of_def sgx_names int_base10_def py_strip_def py_space_def)

theorem sgx_totals_witness:
  "\<exists>c. SGXCluster sgx_demo_kube None 0 = (Inr c, 0) \<and> get_total_epc_size c = Inr 12288 \<and>
     get_total_enclave_number c = Inr 220 \<and> get_epc_size c ''a'' = Inl TypeError"
proof -
  let ?epc = "\<lambda>n. if n = sgx_demo_node ''a'' then 4096 else 8192 :: int"
  have ne: "sgx_demo_node ''b'' \<noteq> sgx_demo_node ''a''" "host_of (sgx_demo_node x) = x" for x
    by (simp_all add: sgx_demo_node_def host_of_def sgx_names)
  have "node_ok (sgx_demo_node x)" for x
    by (simp add: node_ok_def sgx_demo_node_def has_key_def sgx_names)
  then have "\<exists>c. SGXCluster sgx_demo_kube None 0 = (Inr c, 0) \<and>
      get_total_epc_size c = Inr (\<Sum>n\<leftarrow>filter is_dcap (map sgx_demo_node [''a'', ''b'', ''c'']). ?epc n) \<and>
      get_total_enclave_number c = Inr (\<Sum>n\<leftarrow>filter is_dcap (map sgx_demo_node [''a'', ''b'', ''c'']). 110) \<and>
      (\<forall>name. get_epc_size c name = (if name \<in> host_of ` set (filter is_dcap (map sgx_demo_node [''a'', ''b'', ''c'']))
         then Inl TypeError else Inr None))"
    by (intro sgx_totals)
      (use ne in \<open>auto simp: sgx_demo_kube_def demo_kube_def sgx_demo_dcap sgx_demo_numbers\<close>)
  then show ?thesis
    by (auto simp: sgx_demo_dcap ne)
qed

end
