(* ===== verification/Cluster_Kubevirt.thy ===== *)
theory Cluster_Kubevirt
  imports Cluster Py_Json Vmm
begin

text \<open>
  The class \<open>KubeVirtCluster\<close> of \<open>pycloudstack/cluster.py\<close>, which keeps trust domains as custom objects of a Kubernetes cluster,
  and the manager \<open>VMMKubeVirt\<close> of \<open>pycloudstack/vmm.py\<close> on top of it.  The interface for custom objects is a parameter over
  the state of the cluster; an object is a JSON value.
\<close>

section \<open>Trust domains as custom objects\<close>

text \<open>The arguments are in the order group, version, namespace, plural, and then the name and the body.\<close>

record 'h crd_api =
  create_namespaced_custom_object :: "string \<Rightarrow> string \<Rightarrow> string \<Rightarrow> string \<Rightarrow> json \<Rightarrow> ('h, unit) eff"
  delete_namespaced_custom_object :: "string \<Rightarrow> string \<Rightarrow> string \<Rightarrow> string \<Rightarrow> string \<Rightarrow> ('h, unit) eff"
  patch_namespaced_custom_object :: "string \<Rightarrow> string \<Rightarrow> string \<Rightarrow> string \<Rightarrow> string \<Rightarrow> json \<Rightarrow> ('h, unit) eff"
  get_namespaced_custom_object :: "string \<Rightarrow> string \<Rightarrow> string \<Rightarrow> string \<Rightarrow> string \<Rightarrow> ('h, json) eff"

definition KUBEVIRT :: string where "KUBEVIRT = ''kubevirt.io''"
definition VMS :: string where "VMS = ''virtualmachines''"
definition VMIS :: string where "VMIS = ''virtualmachineinstances''"

text \<open>\<open>if word in ex.reason:\<close>, where \<open>None\<close> can not be searched.\<close>

definition reason_has :: "string \<Rightarrow> string option \<Rightarrow> ('h, bool) eff" where
  "reason_has word reason = (case reason of None \<Rightarrow> eraise TypeError | Some r \<Rightarrow> eret (contains word r))"

definition create_tdvm :: "'h crd_api \<Rightarrow> json \<Rightarrow> string \<Rightarrow> ('h, bool) eff" where
  "create_tdvm A tdvm namespace =
     try_api
       (ebind (create_namespaced_custom_object A KUBEVIRT ''v1'' namespace VMS tdvm) (\<lambda>_. eret True))
       (\<lambda>reason. reason_has ''Conflict'' reason)"

definition delete_tdvm :: "'h crd_api \<Rightarrow> string \<Rightarrow> string \<Rightarrow> ('h, bool) eff" where
  "delete_tdvm A tdvm_name namespace =
     try_api
       (ebind (delete_namespaced_custom_object A KUBEVIRT ''v1'' namespace VMS tdvm_name) (\<lambda>_. eret True))
       (\<lambda>reason. reason_has ''Not Found'' reason)"

definition running_patch :: "bool \<Rightarrow> json" where
  "running_patch b = JObj [(''spec'', JObj [(''running'', JBool b)])]"

definition get_tdvm :: "'h crd_api \<Rightarrow> string \<Rightarrow> string \<Rightarrow> ('h, json) eff" where
  "get_tdvm A tdvm_name namespace = get_namespaced_custom_object A KUBEVIRT ''v1'' namespace VMS tdvm_name"

definition get_tdvm_instance :: "'h crd_api \<Rightarrow> string \<Rightarrow> string \<Rightarrow> ('h, json) eff" where
  "get_tdvm_instance A tdvm_name namespace = get_namespaced_custom_object A KUBEVIRT ''v1'' namespace VMIS tdvm_name"

text \<open>\<open>"ready" in resource["status"] and resource["status"]["ready"] is True\<close>.\<close>

definition tdvm_ready :: "json \<Rightarrow> bool result" where
  "tdvm_ready resource =
     rbind (js_item resource ''status'') (\<lambda>status.
     rbind (js_has ''ready'' status) (\<lambda>there.
     if there then rbind (js_item status ''ready'') (\<lambda>ready. Inr (ready = JBool True)) else Inr False))"

definition tdvm_ready_round :: "'h crd_api \<Rightarrow> string \<Rightarrow> string \<Rightarrow> ('h, bool option) eff" where
  "tdvm_ready_round A tdvm_name namespace =
     try_api
       (ebind (get_tdvm A tdvm_name namespace) (\<lambda>resource.
        ebind (eres (tdvm_ready resource)) (\<lambda>ready.
        eret (if ready then Some True else None))))
       (\<lambda>_. eret None)"

definition wait_for_tdvm_ready :: "('b, 'h) kube \<Rightarrow> 'h crd_api \<Rightarrow> cluster \<Rightarrow> string \<Rightarrow> string \<Rightarrow> ('h, bool) leff" where
  "wait_for_tdvm_ready K A c tdvm_name namespace = wait_loop_for K c (tdvm_ready_round A tdvm_name namespace) False"

definition launch_tdvm :: "('b, 'h) kube \<Rightarrow> 'h crd_api \<Rightarrow> cluster \<Rightarrow> string \<Rightarrow> string \<Rightarrow> ('h, unit) leff" where
  "launch_tdvm K A c tdvm_name namespace =
     try_api_loop
       (lbind (lift_eff (patch_namespaced_custom_object A KUBEVIRT ''v1'' namespace VMS tdvm_name (running_patch True))) (\<lambda>_.
        lbind (wait_for_tdvm_ready K A c tdvm_name namespace) (\<lambda>_. lret ())))
       (\<lambda>_. lret ())"

definition shutdown_tdvm :: "'h crd_api \<Rightarrow> string \<Rightarrow> string \<Rightarrow> ('h, unit) eff" where
  "shutdown_tdvm A tdvm_name namespace =
     try_api
       (patch_namespaced_custom_object A KUBEVIRT ''v1'' namespace VMS tdvm_name (running_patch False))
       (\<lambda>_. eret ())"

text \<open>\<open>resource["status"]["interfaces"][0]["ipAddress"]\<close>, when there are interfaces.\<close>

definition tdvm_address :: "json \<Rightarrow> json option result" where
  "tdvm_address resource =
     rbind (js_item resource ''status'') (\<lambda>status.
     rbind (js_has ''interfaces'' status) (\<lambda>there.
     if there then
       rbind (js_item status ''interfaces'') (\<lambda>interfaces.
       rbind (js_first interfaces) (\<lambda>interface.
       rbind (js_item interface ''ipAddress'') (\<lambda>ip. Inr (Some ip))))
     else Inr None))"

definition tdvm_ip_round :: "'h crd_api \<Rightarrow> string \<Rightarrow> string \<Rightarrow> ('h, json option option) eff" where
  "tdvm_ip_round A tdvm_name namespace =
     try_api
       (ebind (get_tdvm_instance A tdvm_name namespace) (\<lambda>resource.
        ebind (eres (tdvm_address resource)) (\<lambda>ip.
        eret (case ip of None \<Rightarrow> None | Some a \<Rightarrow> Some (Some a)))))
       (\<lambda>_. eret None)"

definition get_tdvm_ip :: "('b, 'h) kube \<Rightarrow> 'h crd_api \<Rightarrow> cluster \<Rightarrow> string \<Rightarrow> string \<Rightarrow> ('h, json option) leff" where
  "get_tdvm_ip K A c tdvm_name namespace = wait_loop_for K c (tdvm_ip_round A tdvm_name namespace) None"

section \<open>The manager\<close>

text \<open>The attributes of \<open>VMMKubeVirt\<close>; \<open>JNull\<close> stands for the \<open>None\<close> before a template is loaded.\<close>

record kv_manager =
  kv_name :: string
  kv_cluster :: "cluster option"
  kv_tdvm :: json

definition VMMKubeVirt :: "vm_guest \<Rightarrow> kv_manager" where
  "VMMKubeVirt vminst = \<lparr>kv_name = g_name vminst, kv_cluster = None, kv_tdvm = JNull\<rparr>"

definition load_kubeconfig :: "('b, 'h) kube \<Rightarrow> string option \<Rightarrow> kv_manager \<Rightarrow> ('h, kv_manager) eff" where
  "load_kubeconfig K kubeconfig m = ebind (ClusterBase K kubeconfig) (\<lambda>c. eret (m\<lparr>kv_cluster := Some c\<rparr>))"

text \<open>The file is opened as text, so that its bytes are decoded and its line ends translated; \<open>None\<close> is a file that does not open.\<close>

definition load_tdvm_template :: "(string \<Rightarrow> bytes option) \<Rightarrow> string \<Rightarrow> kv_manager \<Rightarrow> kv_manager result" where
  "load_tdvm_template files tdvm_template m =
     (case files tdvm_template of
        None \<Rightarrow> Inl OSError
      | Some bs \<Rightarrow>
          rbind (decode bs) (\<lambda>s.
          rbind (json_loads (universal_newlines s)) (\<lambda>v.
          Inr (m\<lparr>kv_tdvm := v\<rparr>))))"

definition DEFAULT_NS :: string where "DEFAULT_NS = ''default''"

text \<open>A call of a method of \<open>self.kube_cluster\<close>.\<close>

definition on_cluster :: "kv_manager \<Rightarrow> (cluster \<Rightarrow> ('h, 'a) leff) \<Rightarrow> ('h, 'a) leff" where
  "on_cluster m f = (case kv_cluster m of None \<Rightarrow> lift_eff (eraise AttributeError) | Some c \<Rightarrow> f c)"

definition kv_create :: "('b, 'h) kube \<Rightarrow> 'h crd_api \<Rightarrow> kv_manager \<Rightarrow> bool \<Rightarrow> ('h, unit) leff" where
  "kv_create K A m stop_at_begining =
     on_cluster m (\<lambda>c.
     lbind (lift_eff (create_tdvm A (kv_tdvm m) DEFAULT_NS)) (\<lambda>_.
     if \<not> stop_at_begining then launch_tdvm K A c (kv_name m) DEFAULT_NS else lret ()))"

definition kv_start :: "('b, 'h) kube \<Rightarrow> 'h crd_api \<Rightarrow> kv_manager \<Rightarrow> ('h, unit) leff" where
  "kv_start K A m = on_cluster m (\<lambda>c. launch_tdvm K A c (kv_name m) DEFAULT_NS)"

definition kv_shutdown :: "'h crd_api \<Rightarrow> kv_manager \<Rightarrow> ('h, unit) leff" where
  "kv_shutdown A m = on_cluster m (\<lambda>c. lift_eff (shutdown_tdvm A (kv_name m) DEFAULT_NS))"

definition kv_destroy :: "'h crd_api \<Rightarrow> kv_manager \<Rightarrow> ('h, unit) leff" where
  "kv_destroy A m =
     on_cluster m (\<lambda>c. lbind (lift_eff (delete_tdvm A (kv_name m) DEFAULT_NS)) (\<lambda>_. lret ()))"

definition kv_reboot :: "('b, 'h) kube \<Rightarrow> 'h crd_api \<Rightarrow> kv_manager \<Rightarrow> ('h, unit) leff" where
  "kv_reboot K A m =
     on_cluster m (\<lambda>c.
     lbind (lift_eff (shutdown_tdvm A (kv_name m) DEFAULT_NS)) (\<lambda>_.
     launch_tdvm K A c (kv_name m) DEFAULT_NS))"

definition kv_state :: "'h crd_api \<Rightarrow> kv_manager \<Rightarrow> ('h, json) leff" where
  "kv_state A m =
     on_cluster m (\<lambda>c.
     lift_eff (ebind (get_tdvm A (kv_name m) DEFAULT_NS) (\<lambda>info.
     eres (rbind (js_item info ''status'') (\<lambda>status. js_item status ''printableStatus'')))))"

definition kv_get_ip :: "('b, 'h) kube \<Rightarrow> 'h crd_api \<Rightarrow> kv_manager \<Rightarrow> ('h, json option) leff" where
  "kv_get_ip K A m = on_cluster m (\<lambda>c. get_tdvm_ip K A c (kv_name m) DEFAULT_NS)"

text \<open>\<open>resume\<close>, \<open>suspend\<close>, \<open>update_kernel\<close>, \<open>update_kernel_cmdline\<close> and \<open>update_vmspec\<close> of this manager, and every operation of the base class
  \<open>VMMBase\<close>.\<close>

datatype kv_unsupported = Kv_resume | Kv_suspend | Kv_update_kernel string | Kv_update_kernel_cmdline kernel_cmdline | Kv_update_vmspec vm_spec

definition kv_refuse :: "kv_unsupported \<Rightarrow> ('h, unit) eff" where
  "kv_refuse op = eraise NotImplementedError"

datatype base_op =
    Base_create bool | Base_destroy bool | Base_start | Base_suspend | Base_resume | Base_reboot | Base_shutdown | Base_state
  | Base_get_ip bool | Base_update_kernel_cmdline kernel_cmdline | Base_update_kernel string | Base_update_vmspec vm_spec

definition vmm_base :: "base_op \<Rightarrow> ('h, 'a) eff" where
  "vmm_base op = eraise NotImplementedError"

section \<open>The loops return\<close>

interpretation ready: polling
  "\<lambda>c (K, A, name, ns). wait_for_tdvm_ready K A c name ns" cl_interval cl_timeout cluster_ok
  "\<lambda>(K, A, name, ns). sleep K" "\<lambda>(K, A, name, ns). tdvm_ready_round A name ns" False
  by unfold_locales (auto simp: wait_for_tdvm_ready_def wait_loop_for_def cluster_ok_def split: prod.splits)

interpretation ip: polling
  "\<lambda>c (K, A, name, ns). get_tdvm_ip K A c name ns" cl_interval cl_timeout cluster_ok
  "\<lambda>(K, A, name, ns). sleep K" "\<lambda>(K, A, name, ns). tdvm_ip_round A name ns" None
  by unfold_locales (auto simp: get_tdvm_ip_def wait_loop_for_def cluster_ok_def split: prod.splits)

section \<open>The life of a trust domain\<close>

text \<open>What the documentation of Kubernetes and KubeVirt says of the custom objects: \<open>vms\<close> reads the machines of the default
  namespace and whether each shall run.  Creating what is there is a conflict, changing or deleting what is not there
  is not found; reading and time change nothing of it, and an object that is read has a status.\<close>

definition tdvm_name_of :: "json \<Rightarrow> string option" where
  "tdvm_name_of body =
     (case rbind (js_item body ''metadata'') (\<lambda>meta. js_item meta ''name'') of Inr (JStr n) \<Rightarrow> Some n | _ \<Rightarrow> None)"

definition tdvm_runs :: "json \<Rightarrow> bool" where
  "tdvm_runs body \<longleftrightarrow> rbind (js_item body ''spec'') (\<lambda>spec. js_item spec ''running'') = Inr (JBool True)"

definition answers :: "('h \<Rightarrow> 'v) \<Rightarrow> 'a result \<times> 'h \<Rightarrow> 'a result \<Rightarrow> 'v \<Rightarrow> bool" where
  "answers vms out r v \<longleftrightarrow> fst out = r \<and> vms (snd out) = v"

definition crd_laws :: "(int \<Rightarrow> 'h \<Rightarrow> 'h) \<Rightarrow> 'h crd_api \<Rightarrow> ('h \<Rightarrow> string \<rightharpoonup> bool) \<Rightarrow> bool" where
  "crd_laws slp A vms \<longleftrightarrow>
     (\<forall>h body n. tdvm_name_of body = Some n \<longrightarrow>
        answers vms (create_namespaced_custom_object A KUBEVIRT ''v1'' DEFAULT_NS VMS body h)
          (if n \<in> dom (vms h) then Inl (ApiException (Some ''Conflict'')) else Inr ())
          (if n \<in> dom (vms h) then vms h else (vms h)(n \<mapsto> tdvm_runs body))) \<and>
     (\<forall>h n.
        answers vms (delete_namespaced_custom_object A KUBEVIRT ''v1'' DEFAULT_NS VMS n h)
          (if n \<in> dom (vms h) then Inr () else Inl (ApiException (Some ''Not Found'')))
          ((vms h)(n := None))) \<and>
     (\<forall>h n b.
        answers vms (patch_namespaced_custom_object A KUBEVIRT ''v1'' DEFAULT_NS VMS n (running_patch b) h)
          (if n \<in> dom (vms h) then Inr () else Inl (ApiException (Some ''Not Found'')))
          (if n \<in> dom (vms h) then (vms h)(n \<mapsto> b) else vms h)) \<and>
     (\<forall>h n.
        vms (snd (get_namespaced_custom_object A KUBEVIRT ''v1'' DEFAULT_NS VMS n h)) = vms h \<and>
        (case fst (get_namespaced_custom_object A KUBEVIRT ''v1'' DEFAULT_NS VMS n h) of
           Inr v \<Rightarrow> (\<exists>d. js_item v ''status'' = Inr (JObj d)) | Inl e \<Rightarrow> (\<exists>r. e = ApiException r))) \<and>
     (\<forall>h t. vms (slp t h) = vms h)"

lemma answers_iff: "answers vms out r v \<longleftrightarrow> (\<exists>h'. out = (r, h') \<and> vms h' = v)"
  by (cases out) (auto simp: answers_def)

lemma crd_lawD:
  assumes "crd_laws slp A vms"
  shows "tdvm_name_of body = Some n \<Longrightarrow>
      answers vms (create_namespaced_custom_object A KUBEVIRT ''v1'' DEFAULT_NS VMS body h)
        (if n \<in> dom (vms h) then Inl (ApiException (Some ''Conflict'')) else Inr ())
        (if n \<in> dom (vms h) then vms h else (vms h)(n \<mapsto> tdvm_runs body))"
    and "answers vms (delete_namespaced_custom_object A KUBEVIRT ''v1'' DEFAULT_NS VMS n h)
        (if n \<in> dom (vms h) then Inr () else Inl (ApiException (Some ''Not Found''))) ((vms h)(n := None))"
    and "answers vms (patch_namespaced_custom_object A KUBEVIRT ''v1'' DEFAULT_NS VMS n (running_patch b) h)
        (if n \<in> dom (vms h) then Inr () else Inl (ApiException (Some ''Not Found'')))
        (if n \<in> dom (vms h) then (vms h)(n \<mapsto> b) else vms h)"
    and "vms (snd (get_namespaced_custom_object A KUBEVIRT ''v1'' DEFAULT_NS VMS n h)) = vms h"
    and "case fst (get_namespaced_custom_object A KUBEVIRT ''v1'' DEFAULT_NS VMS n h) of
        Inr v \<Rightarrow> (\<exists>d. js_item v ''status'' = Inr (JObj d)) | Inl e \<Rightarrow> (\<exists>r. e = ApiException r)"
    and "vms (slp t h) = vms h"
  using assms unfolding crd_laws_def by blast+

text \<open>The operations of the cluster.\<close>

lemma create_tdvm_law:
  assumes "crd_laws slp A vms" and "tdvm_name_of body = Some n"
  shows "answers vms (create_tdvm A body DEFAULT_NS h) (Inr True)
    (if n \<in> dom (vms h) then vms h else (vms h)(n \<mapsto> tdvm_runs body))"
  using crd_lawD(1) [OF assms, of h] unfolding answers_iff create_tdvm_def
  by (cases "n \<in> dom (vms h)") (auto simp: reason_has_def simp del: fun_upd_apply)

lemma delete_tdvm_law:
  assumes "crd_laws slp A vms"
  shows "answers vms (delete_tdvm A n DEFAULT_NS h) (Inr True) ((vms h)(n := None))"
  using crd_lawD(2) [OF assms, of n h] unfolding answers_iff delete_tdvm_def
  by (cases "n \<in> dom (vms h)") (auto simp: reason_has_def simp del: fun_upd_apply)

definition switched :: "string \<Rightarrow> bool \<Rightarrow> (string \<rightharpoonup> bool) \<Rightarrow> string \<rightharpoonup> bool" where
  "switched n b v = (if n \<in> dom v then v(n \<mapsto> b) else v)"

lemma shutdown_tdvm_law:
  assumes "crd_laws slp A vms"
  shows "answers vms (shutdown_tdvm A n DEFAULT_NS h) (Inr ()) (switched n False (vms h))"
  using crd_lawD(3) [OF assms, of n False h] unfolding answers_iff shutdown_tdvm_def switched_def
  by (cases "n \<in> dom (vms h)") (auto simp del: fun_upd_apply)

lemma tdvm_ready_round_keeps:
  assumes "crd_laws slp A vms"
  shows "\<exists>r h'. tdvm_ready_round A n DEFAULT_NS h = (Inr r, h') \<and> vms h' = vms h"
proof -
  obtain r h' where get: "get_namespaced_custom_object A KUBEVIRT ''v1'' DEFAULT_NS VMS n h = (r, h')" by fastforce
  then have "vms h' = vms h"
    and r: "case r of Inr v \<Rightarrow> (\<exists>d. js_item v ''status'' = Inr (JObj d)) | Inl e \<Rightarrow> (\<exists>q. e = ApiException q)"
    using crd_lawD(4,5) [OF assms, of n h] by simp_all
  have ready: "\<exists>b. tdvm_ready v = Inr b" if "js_item v ''status'' = Inr (JObj d)" for v d
    using that by (cases "map_of d ''ready''") (auto simp: tdvm_ready_def key_of_def map_of_eq_None_iff)
  show ?thesis
  proof (cases r)
    case (Inr v)
    then obtain b where "tdvm_ready v = Inr b" using r ready by auto
    then show ?thesis
      using \<open>vms h' = vms h\<close> by (simp add: tdvm_ready_round_def get_tdvm_def get Inr)
  qed (use r \<open>vms h' = vms h\<close> in \<open>auto simp: tdvm_ready_round_def get_tdvm_def get\<close>)
qed

lemma launch_tdvm_law:
  assumes "crd_laws (sleep K) A vms" and "cluster_ok c"
  shows "\<exists>h'. launch_tdvm K A c n DEFAULT_NS h = Some (Inr (), h') \<and> vms h' = switched n True (vms h)"
proof -
  let ?patch = "patch_namespaced_custom_object A KUBEVIRT ''v1'' DEFAULT_NS VMS n (running_patch True)"
  obtain h1 where patch: "?patch h = (if n \<in> dom (vms h) then Inr () else Inl (ApiException (Some ''Not Found'')), h1)"
    and v1: "vms h1 = switched n True (vms h)"
    using crd_lawD(3) [OF assms(1), of n True h] unfolding answers_iff switched_def by auto
  have "\<exists>r h'. tdvm_ready_round A n DEFAULT_NS h = (Inr r, h') \<and> vms h' = vms h1" if "vms h = vms h1" for h
    using tdvm_ready_round_keeps [OF assms(1), of n h] that by simp
  then obtain r h2 where "wait_for_tdvm_ready K A c n DEFAULT_NS h1 = Some (Inr r, h2)" "vms h2 = vms h1"
    using ready.wait_keeps [OF assms(2), of "\<lambda>h. vms h = vms h1" "(K, A, n, DEFAULT_NS)" h1]
      crd_lawD(6) [OF assms(1)] by auto
  then show ?thesis
    using patch v1 by (cases "n \<in> dom (vms h)") (auto simp: launch_tdvm_def try_api_loop_def)
qed

text \<open>The abstract machine: what each operation of the manager does to the machines of the namespace.\<close>

datatype kv_op = KvCreate bool | KvStart | KvShutdown | KvReboot | KvDestroy

fun kv_spec :: "string \<Rightarrow> bool \<Rightarrow> kv_op \<Rightarrow> (string \<rightharpoonup> bool) \<Rightarrow> string \<rightharpoonup> bool" where
  "kv_spec n r (KvCreate stop) v = (let v' = (if n \<in> dom v then v else v(n \<mapsto> r)) in if stop then v' else v'(n \<mapsto> True))"
| "kv_spec n r KvStart v = switched n True v"
| "kv_spec n r KvShutdown v = switched n False v"
| "kv_spec n r KvReboot v = switched n True v"
| "kv_spec n r KvDestroy v = v(n := None)"

fun kv_run :: "('b, 'h) kube \<Rightarrow> 'h crd_api \<Rightarrow> kv_manager \<Rightarrow> kv_op \<Rightarrow> ('h, unit) leff" where
  "kv_run K A m (KvCreate stop) = kv_create K A m stop"
| "kv_run K A m KvStart = kv_start K A m"
| "kv_run K A m KvShutdown = kv_shutdown A m"
| "kv_run K A m KvReboot = kv_reboot K A m"
| "kv_run K A m KvDestroy = kv_destroy A m"

fun kv_runs :: "('b, 'h) kube \<Rightarrow> 'h crd_api \<Rightarrow> kv_manager \<Rightarrow> kv_op list \<Rightarrow> ('h, unit) leff" where
  "kv_runs K A m [] = lret ()"
| "kv_runs K A m (p # ps) = lbind (kv_run K A m p) (\<lambda>_. kv_runs K A m ps)"

lemma switched_simps [simp]: "switched n b (switched n a v) = switched n b v" "n \<in> dom v \<Longrightarrow> switched n b v = v(n \<mapsto> b)"
  by (auto simp: switched_def)

lemma kv_run_law:
  assumes laws: "crd_laws (sleep K) A vms" and c: "kv_cluster m = Some c" "cluster_ok c"
    and name: "tdvm_name_of (kv_tdvm m) = Some (kv_name m)"
  shows "\<exists>h'. kv_run K A m p h = Some (Inr (), h') \<and> vms h' = kv_spec (kv_name m) (tdvm_runs (kv_tdvm m)) p (vms h)"
proof (cases p)
  case (KvCreate stop)
  obtain h1 where h1: "create_tdvm A (kv_tdvm m) DEFAULT_NS h = (Inr True, h1)"
      "vms h1 = (if kv_name m \<in> dom (vms h) then vms h else (vms h)(kv_name m \<mapsto> tdvm_runs (kv_tdvm m)))"
    using create_tdvm_law [OF laws name, of h] by (auto simp: answers_iff)
  obtain h2 where h2: "launch_tdvm K A c (kv_name m) DEFAULT_NS h1 = Some (Inr (), h2)" "vms h2 = switched (kv_name m) True (vms h1)"
    using launch_tdvm_law [OF laws c(2)] by blast
  have "kv_name m \<in> dom (vms h1)" using h1(2) by auto
  with h2(2) have "vms h2 = (vms h1)(kv_name m \<mapsto> True)" by simp
  with h1 h2(1) show ?thesis
    by (cases stop) (simp_all add: KvCreate kv_create_def on_cluster_def c(1))
next
  case KvStart
  then show ?thesis
    using launch_tdvm_law [OF laws c(2), of "kv_name m" h] by (simp add: kv_start_def on_cluster_def c(1))
next
  case KvShutdown
  then show ?thesis
    using shutdown_tdvm_law [OF laws, of "kv_name m" h] by (auto simp: kv_shutdown_def on_cluster_def c(1) answers_iff)
next
  case KvReboot
  obtain h1 where "shutdown_tdvm A (kv_name m) DEFAULT_NS h = (Inr (), h1)" "vms h1 = switched (kv_name m) False (vms h)"
    using shutdown_tdvm_law [OF laws, of "kv_name m" h] by (auto simp: answers_iff)
  then show ?thesis
    using launch_tdvm_law [OF laws c(2), of "kv_name m" h1] by (auto simp: KvReboot kv_reboot_def on_cluster_def c(1))
next
  case KvDestroy
  then show ?thesis
    using delete_tdvm_law [OF laws, of "kv_name m" h] by (auto simp: kv_destroy_def on_cluster_def c(1) answers_iff)
qed

lemma load_kubeconfig_ok:
  assumes "load_kubeconfig K f m0 h0 = (Inr m, h)"
  shows "\<exists>c. kv_cluster m = Some c \<and> cluster_ok c \<and> kv_name m = kv_name m0"
  using assms cluster_ok_new [of K f h0] by (auto simp: load_kubeconfig_def ebind_def split: prod.splits sum.splits)

lemma load_tdvm_template_keeps:
  assumes "load_tdvm_template files template m0 = Inr m"
  shows "kv_cluster m = kv_cluster m0 \<and> kv_name m = kv_name m0"
  using assms by (auto simp: load_tdvm_template_def rbind_Inr_iff split: option.splits)


section \<open>A concrete cluster\<close>

text \<open>The state is the machines themselves; each is ready when it shall run.\<close>

definition kv_demo_kube :: "(unit, string \<rightharpoonup> bool) kube" where
  "kv_demo_kube =
     \<lparr>load_kube_config = \<lambda>f. eret (), sleep = \<lambda>t h. h, read_namespace = \<lambda>n. eraise KeyError,
      api_create_namespace = \<lambda>n. eret (), api_delete_namespace = \<lambda>n. eret (),
      read_namespaced_deployment = \<lambda>n ns. eraise KeyError, create_namespaced_deployment = \<lambda>b ns. eret (),
      delete_namespaced_deployment = \<lambda>n ns g. eret (), read_namespaced_service = \<lambda>n ns. eraise KeyError,
      create_namespaced_service = \<lambda>b ns. eret (), delete_namespaced_service = \<lambda>n ns g. eret (),
      read_namespaced_job = \<lambda>n ns. eraise KeyError, create_namespaced_job = \<lambda>b ns. eret (),
      delete_namespaced_job = \<lambda>n ns g. eret (), list_namespaced_pod = \<lambda>ns l m. eret [],
      read_namespaced_pod_log = \<lambda>n ns. eret [], read_node_status = \<lambda>n. eret None, list_node = eret [],
      read_node = \<lambda>n. eraise KeyError, list_pod_for_all_namespaces = eret []\<rparr>"

definition kv_demo_crd :: "(string \<rightharpoonup> bool) crd_api" where
  "kv_demo_crd =
     \<lparr>create_namespaced_custom_object = \<lambda>g v ns p body h.
        (case tdvm_name_of body of
           None \<Rightarrow> (Inl TypeError, h)
         | Some n \<Rightarrow> if n \<in> dom h then (Inl (ApiException (Some ''Conflict'')), h) else (Inr (), h(n \<mapsto> tdvm_runs body))),
      delete_namespaced_custom_object = \<lambda>g v ns p n h.
        (if n \<in> dom h then Inr () else Inl (ApiException (Some ''Not Found'')), h(n := None)),
      patch_namespaced_custom_object = \<lambda>g v ns p n body h.
        if n \<in> dom h then (Inr (), h(n \<mapsto> tdvm_runs body)) else (Inl (ApiException (Some ''Not Found'')), h),
      get_namespaced_custom_object = \<lambda>g v ns p n h.
        (case h n of
           None \<Rightarrow> Inl (ApiException (Some ''Not Found''))
         | Some b \<Rightarrow> Inr (JObj [(''status'', JObj [(''ready'', JBool b)])]), h)\<rparr>"

text \<open>A template file.\<close>

definition kv_demo_text :: string where
  "kv_demo_text = ''{\"metadata\": {\"name\": \"td\"}, \"spec\": {\"running\": false}}''"

definition kv_demo_files :: "string \<Rightarrow> bytes option" where
  "kv_demo_files p = (if p = ''td.json'' then Some (encode kv_demo_text) else None)"

definition kv_demo_tdvm :: json where
  "kv_demo_tdvm = JObj [(''metadata'', JObj [(''name'', JStr ''td'')]), (''spec'', JObj [(''running'', JBool False)])]"

lemma kv_demo_template: "load_tdvm_template kv_demo_files ''td.json'' m = Inr (m\<lparr>kv_tdvm := kv_demo_tdvm\<rparr>)"
proof -
  have "decode (encode kv_demo_text) = Inr kv_demo_text"
    by (rule decode_encode_ascii) (simp add: kv_demo_text_def ord_byte_def)
  moreover have "universal_newlines kv_demo_text = kv_demo_text"
    by (simp add: kv_demo_text_def)
  moreover have "json_loads kv_demo_text = Inr kv_demo_tdvm"
    by (simp add: kv_demo_text_def kv_demo_tdvm_def json_loads_def js_space_def js_punct_def mk_dict_def scan_atom_def js_words_def)
  ultimately show ?thesis
    by (simp add: load_tdvm_template_def kv_demo_files_def)
qed

lemma kv_demo_laws: "crd_laws (sleep kv_demo_kube) kv_demo_crd (\<lambda>h. h)"
  unfolding crd_laws_def answers_def
  by (auto simp: kv_demo_crd_def kv_demo_kube_def running_patch_def tdvm_runs_def key_of_def fun_eq_iff split: option.splits)


end
