(* ===== verification/Py_Url.thy ===== *)
theory Py_Url
  imports Py_Text
begin

text \<open>
  \<open>urllib.parse.urlparse\<close>: the scheme and the path of a URL.  The check of an address in brackets and of characters outside ASCII in the
  host is left out.
\<close>

definition alpha :: "char \<Rightarrow> bool" where
  "alpha c \<longleftrightarrow> (of_char c :: nat) \<in> {65..90} \<union> {97..122}"

definition scheme_char :: "char \<Rightarrow> bool" where
  "scheme_char c \<longleftrightarrow> alpha c \<or> (of_char c :: nat) \<in> {48..57} \<or> c \<in> {CHR ''+'', CHR ''-'', CHR ''.''}"

text \<open>\<open>s.split(c, 1)[0]\<close> and what follows the separator, when it occurs.\<close>

definition before :: "char \<Rightarrow> string \<Rightarrow> string" where
  "before c s = takeWhile (\<lambda>d. d \<noteq> c) s"

definition after :: "char \<Rightarrow> string \<Rightarrow> string" where
  "after c s = drop 1 (dropWhile (\<lambda>d. d \<noteq> c) s)"

definition url_scheme :: "string \<Rightarrow> string \<times> string" where
  "url_scheme url =
     (let s = before (CHR '':'') url in
      if CHR '':'' \<in> set url \<and> s \<noteq> [] \<and> alpha (hd s) \<and> list_all scheme_char s
      then (lower s, after (CHR '':'') url) else ([], url))"

text \<open>The host ends at the first slash, question mark or number sign.\<close>

definition url_netloc :: "string \<Rightarrow> string \<times> string" where
  "url_netloc url =
     (if starts_with ''//'' url then
        (takeWhile (\<lambda>c. c \<notin> {CHR ''/'', CHR ''?'', CHR ''#''}) (drop 2 url),
         dropWhile (\<lambda>c. c \<notin> {CHR ''/'', CHR ''?'', CHR ''#''}) (drop 2 url))
      else ([], url))"

text \<open>The parameters of the last component, for the schemes that have them.\<close>

definition uses_params :: "string list" where
  "uses_params =
     [[], ''ftp'', ''hdl'', ''prospero'', ''http'', ''https'', ''shttp'', ''rtsp'', ''rtspu'', ''sip'', ''sips'', ''mms'', ''sftp'', ''tel'']"

definition strip_params :: "string \<Rightarrow> string" where
  "strip_params p =
     (let lst = rev (takeWhile (\<lambda>c. c \<noteq> CHR ''/'') (rev p))
      in take (length p - length lst) p @ before (CHR '';'') lst)"

definition url_clean :: "string \<Rightarrow> string" where
  "url_clean url =
     filter (\<lambda>c. (of_char c :: nat) \<notin> {9, 10, 13}) (dropWhile (\<lambda>c. (of_char c :: nat) \<le> 32) url)"

definition urlparse :: "string \<Rightarrow> (string \<times> string) result" where
  "urlparse url =
     (let (scheme, rest) = url_scheme (url_clean url);
          (netloc, rest) = url_netloc rest;
          path = before (CHR ''?'') (before (CHR ''#'') rest)
      in if (CHR ''['' \<in> set netloc) \<noteq> (CHR '']'' \<in> set netloc) then Inl ValueError
         else Inr (scheme, if scheme \<in> set uses_params then strip_params path else path))"

end
