(* ===== verification/Sha256.thy ===== *)
theory Sha256
  imports Sha2 Py_Text
begin

text \<open>
  SHA-256, after FIPS 180-4, as \<open>hashlib.sha256\<close> gives it.  Its constants and its initial value are the upper halves of the first
  ones of SHA-512.  An object of \<open>hashlib\<close> is the bytes that it was given: several updates are one with all of them.
\<close>

unbundle bit_operations_syntax

type_synonym w32 = "32 word"

definition upper_half :: "w64 \<Rightarrow> w32" where
  "upper_half w = ucast (drop_bit 32 w)"

definition sha256_K :: "w32 list" where
  "sha256_K = map upper_half (take 64 sha512_K)"

definition sha256_init :: "w32 list" where
  "sha256_init = map upper_half sha512_init"

definition rotr32 :: "nat \<Rightarrow> w32 \<Rightarrow> w32" where
  "rotr32 n x = drop_bit n x OR push_bit (32 - n) x"

fun schedule32 :: "nat \<Rightarrow> w32 list \<Rightarrow> w32 list" where
  "schedule32 0 ws = []"
| "schedule32 (Suc n) ws =
     (let a = ws ! 14; b = ws ! 1;
          w = (rotr32 17 a XOR rotr32 19 a XOR drop_bit 10 a) + ws ! 9 + (rotr32 7 b XOR rotr32 18 b XOR drop_bit 3 b) + ws ! 0
      in ws ! 0 # schedule32 n (tl ws @ [w]))"

definition sha256_round :: "w32 \<times> w32 \<Rightarrow> w32 list \<Rightarrow> w32 list" where
  "sha256_round kw s =
     (case s of
        [a, b, c, d, e, f, g, h] \<Rightarrow>
          (let t1 = h + (rotr32 6 e XOR rotr32 11 e XOR rotr32 25 e) + ((e AND f) XOR (NOT e AND g)) + fst kw + snd kw;
               t2 = (rotr32 2 a XOR rotr32 13 a XOR rotr32 22 a) + ((a AND b) XOR (a AND c) XOR (b AND c))
           in [t1 + t2, a, b, c, d + t1, e, f, g])
      | _ \<Rightarrow> s)"

definition sha256_block :: "bytes \<Rightarrow> w32 list \<Rightarrow> w32 list" where
  "sha256_block blk hs =
     (let ws = schedule32 64 (map (\<lambda>b. word_of_nat (be_val b)) (blocks_of 4 blk))
      in map2 (+) hs (fold sha256_round (zip sha256_K ws) hs))"

definition sha256_pad :: "bytes \<Rightarrow> bytes" where
  "sha256_pad m =
     (let n = length m; z = (119 - n mod 64) mod 64
      in m @ [0x80] @ replicate z 0 @ be_bytes 8 (8 * n))"

definition sha256 :: "bytes \<Rightarrow> bytes" where
  "sha256 m = concat (map (\<lambda>w. be_bytes 4 (unat w)) (fold sha256_block (blocks_of 64 (sha256_pad m)) sha256_init))"

definition hexdigest :: "bytes \<Rightarrow> string" where
  "hexdigest m = hex_of_bytes (sha256 m)"

lemma length_sha256_round: "length s = 8 \<Longrightarrow> length (sha256_round kw s) = 8"
  by (auto simp: sha256_round_def Let_def split: list.splits)

lemma length_sha256_block: "length hs = 8 \<Longrightarrow> length (sha256_block blk hs) = 8"
proof -
  assume "length hs = 8"
  moreover have "length s = 8 \<Longrightarrow> length (fold sha256_round kws s) = 8" for kws s
    by (induction kws arbitrary: s) (auto simp: length_sha256_round)
  ultimately show ?thesis by (simp add: sha256_block_def Let_def)
qed

lemma length_sha256 [simp]: "length (sha256 m) = 32"
proof -
  have "length hs = 8 \<Longrightarrow> length (fold sha256_block bs hs) = 8" for bs hs
    by (induction bs arbitrary: hs) (auto simp: length_sha256_block)
  moreover have "length (concat (map (\<lambda>w. be_bytes 4 (unat (w :: w32))) ws)) = 4 * length ws" for ws
    by (induction ws) auto
  ultimately show ?thesis by (simp add: sha256_def sha256_init_def sha512_init_def)
qed

end
