(* ===== verification/Artifacts.thy ===== *)
theory Artifacts
  imports Py_Effect Py_Path Py_Url Py_Json Sha256
begin

text \<open>
  \<open>pycloudstack/artifacts.py\<close>: files that are downloaded into a cache, checked against a SHA-256 sum, unpacked and copied.  The network
  (\<open>requests\<close>), the unpacking of archives (\<open>tarfile\<close>), the YAML loader, the clock and the names of temporary files are parameters;
  the state is the network's, the files with the time of their last change, and the directories.
\<close>

section \<open>The environment\<close>

text \<open>A response: whether its status is an error, the header with the length, the pieces of at most a megabyte that \<open>iter_content\<close>
  yields, and whether the transfer then fails, which is an \<open>OSError\<close>.\<close>

record http_response =
  status_error :: bool
  content_length :: "string option"
  chunks :: "bytes list"
  broken :: bool

record 'n art_state =
  a_net :: 'n
  a_files :: "string \<rightharpoonup> bytes \<times> int"
  a_dirs :: "string set"

record 'n art_env =
  http_get :: "string \<Rightarrow> 'n \<Rightarrow> http_response result \<times> 'n"
  now :: "'n \<Rightarrow> int"
  can_write :: "string \<Rightarrow> bool"
  untar :: "bytes \<Rightarrow> (string \<times> bytes) list result"
  temp_name :: "'n art_state \<Rightarrow> string"

definition BLOCKSIZE :: nat where "BLOCKSIZE = 1024 * 4"

definition path_there :: "string \<Rightarrow> 'n art_state \<Rightarrow> bool" where
  "path_there p st \<longleftrightarrow> p \<in> dom (a_files st) \<or> p \<in> a_dirs st"

definition write_file :: "'n art_env \<Rightarrow> string \<Rightarrow> bytes \<Rightarrow> 'n art_state \<Rightarrow> 'n art_state" where
  "write_file env p bs st = st\<lparr>a_files := (a_files st)(p \<mapsto> (bs, now env (a_net st)))\<rparr>"

definition read_file :: "string \<Rightarrow> ('n art_state, bytes) eff" where
  "read_file p = (\<lambda>st. (case a_files st p of None \<Rightarrow> Inl OSError | Some (bs, t) \<Rightarrow> Inr bs, st))"

definition getctime :: "string \<Rightarrow> ('n art_state, int) eff" where
  "getctime p = (\<lambda>st. (case a_files st p of None \<Rightarrow> Inl OSError | Some (bs, t) \<Rightarrow> Inr t, st))"

definition remove_file :: "string \<Rightarrow> ('n art_state, unit) eff" where
  "remove_file p =
     (\<lambda>st. if p \<in> dom (a_files st) then (Inr (), st\<lparr>a_files := (a_files st)(p := None)\<rparr>) else (Inl OSError, st))"

text \<open>\<open>shutil.copyfile\<close>.\<close>

definition copyfile :: "'n art_env \<Rightarrow> string \<Rightarrow> string \<Rightarrow> ('n art_state, unit) eff" where
  "copyfile env src dst =
     ebind (read_file src) (\<lambda>bs st.
     if can_write env dst then (Inr (), write_file env dst bs st) else (Inl OSError, st))"

section \<open>Download\<close>

text \<open>\<open>DownloadExecutor.run\<close>.  The percentage in the message divides by the length of the file, so that a length of zero raises after the
  first piece was written; other failures of writing and of the transfer are only logged.\<close>

definition response_size :: "http_response \<Rightarrow> int result" where
  "response_size resp = (case content_length resp of None \<Rightarrow> Inr 0 | Some s \<Rightarrow> int_base10 s)"

definition download_run :: "'n art_env \<Rightarrow> string \<Rightarrow> string \<Rightarrow> ('n art_state, unit) eff" where
  "download_run env url filepath st =
     (case http_get env url (a_net st) of
        (Inl e, n) \<Rightarrow> (Inl e, st\<lparr>a_net := n\<rparr>)
      | (Inr resp, n) \<Rightarrow>
          (let st = st\<lparr>a_net := n\<rparr> in
           if status_error resp then (Inl OSError, st)
           else if \<not> can_write env filepath then (Inr (), st)
           else
             (case response_size resp of
                Inl e \<Rightarrow> (Inl e, write_file env filepath [] st)
              | Inr file_size \<Rightarrow>
                  if file_size = 0 \<and> chunks resp \<noteq> []
                  then (Inl ZeroDivisionError, write_file env filepath (hd (chunks resp)) st)
                  else (Inr (), write_file env filepath (concat (chunks resp)) st))))"

section \<open>Artifacts\<close>

record artifact =
  art_source :: string
  art_sha256sum :: "string option"
  art_schema :: string
  art_path :: string
  art_filename :: string

definition Artifact :: "string option \<Rightarrow> string option \<Rightarrow> artifact result" where
  "Artifact source sha256sum =
     (case source of
        None \<Rightarrow> Inl AssertionError
      | Some src \<Rightarrow>
          rbind (urlparse src) (\<lambda>(scheme, path).
          Inr \<lparr>art_source = src, art_sha256sum = sha256sum, art_schema = scheme, art_path = path,
               art_filename = basename path\<rparr>))"

text \<open>The lines of a file of checksums; a line that is not two words raises.\<close>

fun find_sum :: "string \<Rightarrow> string list \<Rightarrow> string option result" where
  "find_sum name [] = Inr None"
| "find_sum name (line # lines) =
     (case split_space line of
        [hash_data, filename] \<Rightarrow> if py_strip filename = name then Inr (Some (py_strip hash_data)) else find_sum name lines
      | _ \<Rightarrow> Inl ValueError)"

definition get_sha256sum_from_file :: "artifact \<Rightarrow> string \<Rightarrow> ('n art_state, string option) eff" where
  "get_sha256sum_from_file art sha256sum_filename =
     ebind (read_file sha256sum_filename) (\<lambda>bs st.
     (rbind (decode bs) (\<lambda>s. find_sum (art_filename art) (read_lines (universal_newlines s))), st))"

definition mkstemp :: "'n art_env \<Rightarrow> ('n art_state, string) eff" where
  "mkstemp env = (\<lambda>st. (Inr (temp_name env st), write_file env (temp_name env st) [] st))"

text \<open>The property \<open>sha256sum\<close>; \<open>urlparse(None)\<close> has an empty scheme.\<close>

definition sha256sum :: "'n art_env \<Rightarrow> artifact \<Rightarrow> ('n art_state, string option) eff" where
  "sha256sum env art =
     (case art_sha256sum art of
        None \<Rightarrow> eret None
      | Some given \<Rightarrow>
          (case urlparse given of
             Inl e \<Rightarrow> eraise e
           | Inr (scheme, path) \<Rightarrow>
               if scheme \<in> {''http'', ''https''} then
                 ebind (mkstemp env) (\<lambda>tmp.
                 ebind (download_run env given tmp) (\<lambda>_.
                 get_sha256sum_from_file art tmp))
               else if scheme = ''file'' then get_sha256sum_from_file art path
               else eret (Some given)))"

text \<open>The loop that hashes a file: each round reads a block and ends at an empty one.  The object of \<open>hashlib\<close> is the bytes so far.\<close>

function hash_blocks :: "bytes \<Rightarrow> bytes \<Rightarrow> bytes" where
  "hash_blocks acc rest =
     (let buf = take BLOCKSIZE rest in
      if length buf > 0 then hash_blocks (acc @ buf) (drop BLOCKSIZE rest) else acc)"
  by pat_completeness auto
termination
  by (relation "measure (\<lambda>(acc, rest). length rest)") (auto simp: BLOCKSIZE_def)

declare hash_blocks.simps [simp del]

definition validate_sha256sum :: "'n art_env \<Rightarrow> artifact \<Rightarrow> string \<Rightarrow> ('n art_state, bool) eff" where
  "validate_sha256sum env art filepath =
     ebind (read_file filepath) (\<lambda>content.
     ebind (sha256sum env art) (\<lambda>provider.
     eret (Some (hexdigest (hash_blocks [] content)) = provider)))"

text \<open>The loop of \<open>download\<close>, with the number of rounds that are left; the flag tells that a new file was downloaded.\<close>

fun fetch :: "'n art_env \<Rightarrow> artifact \<Rightarrow> string \<Rightarrow> nat \<Rightarrow> bool \<Rightarrow> ('n art_state, bool) eff" where
  "fetch env art cache_file 0 is_new st = (Inr is_new, st)"
| "fetch env art cache_file (Suc left) is_new st =
     (let again = (\<lambda>_. ebind (download_run env (art_source art) cache_file) (\<lambda>_. fetch env art cache_file left True)) in
      if path_there cache_file st then
        ebind (validate_sha256sum env art cache_file) (\<lambda>ok.
        if ok then eret is_new else ebind (remove_file cache_file) again) st
      else again () st)"

definition ends_with :: "string \<Rightarrow> string \<Rightarrow> bool" where
  "ends_with t s = starts_with (rev t) (rev s)"

fun extract_all :: "'n art_env \<Rightarrow> string \<Rightarrow> (string \<times> bytes) list \<Rightarrow> 'n art_state \<Rightarrow> 'n art_state" where
  "extract_all env dir [] st = st"
| "extract_all env dir ((name, bs) # members) st = extract_all env dir members (write_file env (path_join dir name) bs st)"

definition decompress :: "'n art_env \<Rightarrow> string \<Rightarrow> string \<Rightarrow> ('n art_state, unit) eff" where
  "decompress env cache_file cache_dir =
     ebind (read_file cache_file) (\<lambda>bs st.
     case untar env bs of Inl e \<Rightarrow> (Inl e, st) | Inr members \<Rightarrow> (Inr (), extract_all env cache_dir members st))"

definition copy_if_newer :: "'n art_env \<Rightarrow> string \<Rightarrow> string \<Rightarrow> ('n art_state, unit) eff" where
  "copy_if_newer env cache_file dest_file st =
     (if \<not> path_there dest_file st then copyfile env cache_file dest_file st
      else
        ebind (getctime cache_file) (\<lambda>cache_file_created.
        ebind (getctime dest_file) (\<lambda>dest_file_created.
        if cache_file_created > dest_file_created then copyfile env cache_file dest_file else eret ())) st)"

definition download :: "'n art_env \<Rightarrow> artifact \<Rightarrow> string \<Rightarrow> string \<Rightarrow> ('n art_state, string) eff" where
  "download env art dest_dir cache_dir =
     (\<lambda>st.
      let cache_file = path_join cache_dir (art_filename art);
          dest_file = path_join dest_dir (art_filename art)
      in
        ebind (eassert (path_there dest_dir st)) (\<lambda>_.
        ebind (eassert (path_there cache_dir st)) (\<lambda>_.
        ebind (fetch env art cache_file 5 False) (\<lambda>is_download_new.
        if ends_with ''tar.xz'' cache_file then
          (let plain_cache = take (length cache_file - 7) cache_file;
               plain_dest = take (length dest_file - 7) dest_file
           in
             ebind (\<lambda>st. if is_download_new \<or> \<not> path_there plain_cache st then decompress env cache_file cache_dir st
                          else (Inr (), st)) (\<lambda>_.
             ebind (copy_if_newer env plain_cache plain_dest) (\<lambda>_. eret plain_dest)))
        else ebind (copy_if_newer env cache_file dest_file) (\<lambda>_. eret dest_file)))) st)"

definition artifact_get :: "'n art_env \<Rightarrow> artifact \<Rightarrow> string \<Rightarrow> string \<Rightarrow> ('n art_state, string) eff" where
  "artifact_get env art dest_dir cache_dir =
     (if art_schema art \<in> {''http'', ''https''} then
        ebind (eassert (art_sha256sum art \<noteq> None)) (\<lambda>_. download env art dest_dir cache_dir)
      else if art_schema art = ''file'' then
        (\<lambda>st.
          ebind (eassert (path_there (art_path art) st)) (\<lambda>_.
          ebind (eassert (\<not> ends_with ''tar.xz'' (art_path art))) (\<lambda>_.
          eret (art_path art))) st)
      else eraise AssertionError)"

section \<open>Manifests\<close>

text \<open>\<open>ArtifactFactory\<close>, for a manifest in its documented form: a dictionary of dictionaries of strings.\<close>

type_synonym manifest = "(string \<times> (string \<times> string) list) list"

fun parse_manifest :: "manifest \<Rightarrow> (string \<times> artifact) list \<Rightarrow> (string \<times> artifact) list result" where
  "parse_manifest [] artifacts = Inr artifacts"
| "parse_manifest ((key, entry) # rest) artifacts =
     rbind (Artifact (map_of entry ''source'') (map_of entry ''sha256sum'')) (\<lambda>art.
     parse_manifest rest (AList.update key art artifacts))"

definition ArtifactFactory :: "manifest \<Rightarrow> (string \<times> artifact) list result" where
  "ArtifactFactory m = parse_manifest m []"

definition factory_item :: "(string \<times> artifact) list \<Rightarrow> string \<Rightarrow> artifact option" where
  "factory_item artifacts key = map_of artifacts key"

text \<open>\<open>_no_duplicates_constructor\<close>: the nodes of the YAML loader and how it makes objects of them are parameters.  \<open>in\<close> needs a hash.\<close>

fun check_keys :: "('node \<Rightarrow> 'v result) \<Rightarrow> ('v \<Rightarrow> bool) \<Rightarrow> ('node \<times> 'node) list \<Rightarrow> 'v list \<Rightarrow> unit result" where
  "check_keys construct hashable [] mapping = Inr ()"
| "check_keys construct hashable ((key_node, value_node) # rest) mapping =
     rbind (construct key_node) (\<lambda>key.
     rbind (construct value_node) (\<lambda>value.
     if \<not> hashable key then Inl TypeError
     else if key \<in> set mapping then Inl ConstructorError
     else check_keys construct hashable rest (key # mapping)))"

definition no_duplicates_constructor ::
  "('node \<Rightarrow> 'v result) \<Rightarrow> ('v \<Rightarrow> bool) \<Rightarrow> (('node \<times> 'node) list \<Rightarrow> 'v result) \<Rightarrow> ('node \<times> 'node) list \<Rightarrow> 'v result" where
  "no_duplicates_constructor construct hashable construct_mapping node =
     rbind (check_keys construct hashable node []) (\<lambda>_. construct_mapping node)"

text \<open>\<open>ArtifactManifest\<close>.  A YAML value is a JSON value here; \<open>files\<close> gives \<open>None\<close> for a file that can not be opened.\<close>

record artifact_manifest =
  mf_filepath :: string
  mf_dict :: "json option"

definition ArtifactManifest :: "(string \<Rightarrow> bool) \<Rightarrow> string \<Rightarrow> artifact_manifest result" where
  "ArtifactManifest there filepath =
     rbind (py_assert (there filepath)) (\<lambda>_. Inr \<lparr>mf_filepath = filepath, mf_dict = None\<rparr>)"

definition manifest_load ::
  "(string \<Rightarrow> bytes option) \<Rightarrow> (string \<Rightarrow> json result) \<Rightarrow> (artifact_manifest, (string \<times> json) list option) eff" where
  "manifest_load files yaml_load mf =
     (case files (mf_filepath mf) of
        None \<Rightarrow> (Inr None, mf)
      | Some bs \<Rightarrow>
          (case rbind (decode bs) (\<lambda>s. yaml_load (universal_newlines s)) of
             Inl e \<Rightarrow> (if e = ConstructorError \<or> e = OSError then Inr None else Inl e, mf)
           | Inr v \<Rightarrow> (Inr (case v of JObj d \<Rightarrow> Some d | _ \<Rightarrow> None), mf\<lparr>mf_dict := Some v\<rparr>)))"

definition manifest_keys :: "artifact_manifest \<Rightarrow> string list result" where
  "manifest_keys mf = (case mf_dict mf of Some (JObj d) \<Rightarrow> Inr (map fst d) | _ \<Rightarrow> Inl AttributeError)"

definition manifest_item :: "artifact_manifest \<Rightarrow> string \<Rightarrow> json option result" where
  "manifest_item mf key = (case mf_dict mf of Some (JObj d) \<Rightarrow> Inr (map_of d key) | _ \<Rightarrow> Inl AttributeError)"

section \<open>Hashing by blocks\<close>

lemma hash_blocks_all: "hash_blocks acc rest = acc @ rest"
proof (induction acc rest rule: hash_blocks.induct)
  case (1 acc rest)
  show ?case
  proof (cases "rest = []")
    case False
    then have "hash_blocks (acc @ take BLOCKSIZE rest) (drop BLOCKSIZE rest) = acc @ rest"
      using 1 [OF refl] by (simp add: BLOCKSIZE_def)
    then show ?thesis
      using False by (subst hash_blocks.simps) (simp add: BLOCKSIZE_def)
  qed (simp add: hash_blocks.simps)
qed

section \<open>Where the content comes from\<close>

text \<open>An artifact with its checksum as a plain string, which is no URL.\<close>

definition plain_sum :: "artifact \<Rightarrow> string \<Rightarrow> bool" where
  "plain_sum art h \<longleftrightarrow>
     art_sha256sum art = Some h \<and>
     (case urlparse h of Inr (scheme, path) \<Rightarrow> scheme \<notin> {''http'', ''https'', ''file''} | Inl e \<Rightarrow> False)"

lemma validate_plain:
  assumes "plain_sum art h" and "a_files st p = Some (bs, t)"
  shows "validate_sha256sum env art p st = (Inr (hexdigest bs = h), st)"
proof -
  have "sha256sum env art st = (Inr (Some h), st)"
    using assms(1) by (auto simp: plain_sum_def sha256sum_def split: sum.splits)
  then show ?thesis
    using assms(2) by (auto simp: validate_sha256sum_def read_file_def hash_blocks_all)
qed

text \<open>A server that answers each request with a body; the body and the state of the network depend on the state.\<close>

definition serves :: "'n art_env \<Rightarrow> string \<Rightarrow> ('n \<Rightarrow> bytes) \<Rightarrow> ('n \<Rightarrow> 'n) \<Rightarrow> bool" where
  "serves env url body nxt \<longleftrightarrow>
     (\<forall>n. \<exists>resp len. http_get env url n = (Inr resp, nxt n) \<and> \<not> status_error resp \<and>
        content_length resp = Some len \<and> (\<exists>k. int_base10 len = Inr k \<and> k \<noteq> 0) \<and> concat (chunks resp) = body n)"

lemma download_serves:
  assumes "serves env url body nxt" and "can_write env p"
  shows "download_run env url p st =
    (Inr (), write_file env p (body (a_net st)) (st\<lparr>a_net := nxt (a_net st)\<rparr>))"
proof -
  obtain resp len k where "http_get env url (a_net st) = (Inr resp, nxt (a_net st))" "\<not> status_error resp"
    "content_length resp = Some len" "int_base10 len = Inr k" "k \<noteq> 0" "concat (chunks resp) = body (a_net st)"
    using assms(1) unfolding serves_def by blast
  then show ?thesis
    using assms(2) by (simp add: download_run_def response_size_def)
qed

text \<open>The number of the download whose body is kept: the first good one of all but the last, or else the last.\<close>

fun kept_download :: "(nat \<Rightarrow> bool) \<Rightarrow> nat \<Rightarrow> nat" where
  "kept_download good 0 = 0"
| "kept_download good (Suc left) = (if good 0 then 0 else Suc (kept_download (\<lambda>k. good (Suc k)) left))"

lemma kept_download_le: "kept_download good m \<le> m"
  by (induction m arbitrary: good) auto

lemma kept_download_good: "kept_download good m < m \<Longrightarrow> good (kept_download good m)"
  by (induction m arbitrary: good) (auto split: if_splits)

lemma kept_download_least: "k < kept_download good m \<Longrightarrow> \<not> good k"
proof (induction m arbitrary: good k)
  case (Suc m)
  then show ?case by (cases k) (auto split: if_splits)
qed simp

text \<open>The rounds of the loop.\<close>

lemma fetch_missing:
  "\<not> path_there p st \<Longrightarrow>
   fetch env art p (Suc left) new st = ebind (download_run env (art_source art) p) (\<lambda>_. fetch env art p left True) st"
  by simp

lemma fetch_valid:
  assumes "plain_sum art h" and "a_files st p = Some (bs, t)" and "hexdigest bs = h"
  shows "fetch env art p (Suc left) new st = (Inr new, st)"
  using validate_plain [OF assms(1,2)] assms(2,3) by (auto simp: path_there_def)

lemma fetch_invalid:
  assumes "plain_sum art h" and "a_files st p = Some (bs, t)" and "hexdigest bs \<noteq> h" and "p \<notin> a_dirs st"
  shows "fetch env art p (Suc left) new st = fetch env art p (Suc left) new (st\<lparr>a_files := (a_files st)(p := None)\<rparr>)"
proof -
  have "path_there p st" "\<not> path_there p (st\<lparr>a_files := (a_files st)(p := None)\<rparr>)"
    "remove_file p st = (Inr (), st\<lparr>a_files := (a_files st)(p := None)\<rparr>)"
    using assms(2,4) by (auto simp: path_there_def remove_file_def)
  then show ?thesis
    using validate_plain [OF assms(1,2)] assms(3) by simp
qed

lemmas fetch_rounds = fetch_missing fetch_valid fetch_invalid

lemma fetch_serves:
  assumes serves: "serves env (art_source art) body nxt" and writable: "can_write env p" and sum: "plain_sum art h"
    and dir: "p \<notin> a_dirs st" and missing: "a_files st p = None"
  shows "\<exists>n t. fetch env art p (Suc left) new st = (Inr True,
    st\<lparr>a_net := n, a_files := (a_files st)(p \<mapsto>
      (body ((nxt ^^ kept_download (\<lambda>k. hexdigest (body ((nxt ^^ k) (a_net st))) = h) left) (a_net st)), t))\<rparr>)"
  using dir missing
proof (induction left arbitrary: new st)
  case 0
  then have "\<not> path_there p st" by (auto simp: path_there_def)
  then show ?case
    by (intro exI [of _ "nxt (a_net st)"] exI [of _ "now env (nxt (a_net st))"])
      (simp add: fetch_missing download_serves [OF serves writable] write_file_def fun_upd_def del: fetch.simps(2))
next
  case (Suc left)
  let ?n = "a_net st"
  let ?st = "write_file env p (body ?n) (st\<lparr>a_net := nxt ?n\<rparr>)"
  have "\<not> path_there p st" using Suc.prems by (auto simp: path_there_def)
  then have first: "fetch env art p (Suc (Suc left)) new st = fetch env art p (Suc left) True ?st"
    by (simp add: fetch_missing download_serves [OF serves writable] del: fetch.simps(2))
  have stored: "a_files ?st p = Some (body ?n, now env (nxt ?n))" by (simp add: write_file_def)
  show ?case
  proof (cases "hexdigest (body ?n) = h")
    case True
    then show ?thesis
      using fetch_valid [OF sum stored True, of env left True]
      by (intro exI [of _ "nxt ?n"] exI [of _ "now env (nxt ?n)"]) (simp add: first write_file_def fun_upd_def del: fetch.simps(2))
  next
    case False
    have "(a_files st)(p := None) = a_files st"
      using Suc.prems by auto
    then have "?st\<lparr>a_files := (a_files ?st)(p := None)\<rparr> = st\<lparr>a_net := nxt ?n\<rparr>"
      by (simp add: write_file_def)
    then have same: "fetch env art p (Suc left) True ?st = fetch env art p (Suc left) True (st\<lparr>a_net := nxt ?n\<rparr>)"
      using Suc.prems fetch_invalid [OF sum stored False, of env left True] by (simp add: write_file_def del: fetch.simps)
    show ?thesis
      using Suc.IH [of "st\<lparr>a_net := nxt ?n\<rparr>" True] Suc.prems False unfolding first same
      by (simp add: funpow_swap1 del: fetch.simps)
  qed
qed

lemma copy_if_missing:
  assumes "\<not> path_there dst st" and "a_files st src = Some (bs, t)" and "can_write env dst"
  shows "copy_if_newer env src dst st = (Inr (), write_file env dst bs st)"
  using assms by (simp add: copy_if_newer_def copyfile_def read_file_def)

text \<open>Download number \<open>k\<close> from a state of the network has the checksum.\<close>

definition good_body :: "('n \<Rightarrow> bytes) \<Rightarrow> ('n \<Rightarrow> 'n) \<Rightarrow> string \<Rightarrow> 'n \<Rightarrow> nat \<Rightarrow> bool" where
  "good_body body nxt h n k \<longleftrightarrow> hexdigest (body ((nxt ^^ k) n)) = h"


lemma artifact_cached:
  assumes "art_schema art \<in> {''http'', ''https''}" and "plain_sum art h"
    and "dest_dir \<in> a_dirs st" "cache_dir \<in> a_dirs st"
    and "a_files st (path_join cache_dir (art_filename art)) = Some (bs, t)" "hexdigest bs = h"
    and "\<not> path_there (path_join dest_dir (art_filename art)) st" "can_write env (path_join dest_dir (art_filename art))"
    and "\<not> ends_with ''tar.xz'' (path_join cache_dir (art_filename art))"
  shows "artifact_get env art dest_dir cache_dir st =
    (Inr (path_join dest_dir (art_filename art)), write_file env (path_join dest_dir (art_filename art)) bs st)"
proof -
  have "fetch env art (path_join cache_dir (art_filename art)) 5 False st = (Inr False, st)"
    using fetch_valid [OF assms(2,5,6), of env 4 False] by (simp add: numeral_eq_Suc)
  then show ?thesis
    using assms copy_if_missing [OF assms(7,5,8)]
    by (auto simp: artifact_get_def download_def Let_def path_there_def plain_sum_def simp del: fetch.simps)
qed

section \<open>A concrete server\<close>

lemma plain_sum_no_url:
  assumes "art_sha256sum art = Some h" and "CHR '':'' \<notin> set h" "CHR ''['' \<notin> set h" "CHR '']'' \<notin> set h"
  shows "plain_sum art h"
proof -
  have "CHR '':'' \<notin> set (url_clean h)" "CHR ''['' \<notin> set (url_clean h)" "CHR '']'' \<notin> set (url_clean h)"
    using assms by (auto simp: url_clean_def dest: set_dropWhileD)
  then have "url_scheme (url_clean h) = ([], url_clean h)"
    "CHR ''['' \<notin> set (fst (url_netloc (url_clean h)))" "CHR '']'' \<notin> set (fst (url_netloc (url_clean h)))"
    by (auto simp: url_scheme_def url_netloc_def dest!: set_takeWhileD in_set_dropD)
  then show ?thesis
    using assms(1) by (auto simp: plain_sum_def urlparse_def Let_def split: prod.splits)
qed

lemma hexdigest_no_url: "CHR '':'' \<notin> set (hexdigest m)" "CHR ''['' \<notin> set (hexdigest m)" "CHR '']'' \<notin> set (hexdigest m)"
proof -
  have "fmt_hex 2 (unat b) = hexn hex_digit 2 (unat b)" for b :: byte
    using unat_byte_less [of b] by (intro fmt_hex_hexn) simp_all
  moreover have "set (hexn hex_digit 2 n) \<subseteq> hex_digit ` {..<16}" for n
    by (auto simp: numeral_2_eq_2)
  ultimately have sub: "set (hexdigest m) \<subseteq> hex_digit ` {..<16}"
    by (fastforce simp: hexdigest_def hex_of_bytes_def)
  have no: "c \<notin> set (hexdigest m)" if "hex_value c = None" for c
  proof
    assume "c \<in> set (hexdigest m)"
    then obtain n where "n < 16" "c = hex_digit n" using sub by blast
    then show False using that by simp
  qed
  show "CHR '':'' \<notin> set (hexdigest m)" "CHR ''['' \<notin> set (hexdigest m)" "CHR '']'' \<notin> set (hexdigest m)"
    by (rule no, simp add: hex_value_def)+
qed

text \<open>The first download is damaged.\<close>

definition demo_body :: "int \<Rightarrow> bytes" where
  "demo_body n = (if n = 0 then [1] else [2])"

definition demo_art_env :: "int art_env" where
  "demo_art_env =
     \<lparr>http_get = \<lambda>url n. (Inr \<lparr>status_error = False, content_length = Some ''1'', chunks = [demo_body n], broken = False\<rparr>, n + 1),
      now = \<lambda>n. n, can_write = \<lambda>p. True, untar = \<lambda>bs. Inl ValueError, temp_name = \<lambda>st. ''/tmp/t''\<rparr>"

definition demo_art :: artifact where
  "demo_art = \<lparr>art_source = ''http://host/x'', art_sha256sum = Some (hexdigest [2]), art_schema = ''http'', art_path = ''/x'', art_filename = ''x''\<rparr>"

definition demo_art_state :: "int art_state" where
  "demo_art_state = \<lparr>a_net = 0, a_files = Map.empty, a_dirs = {''/cache'', ''/dest''}\<rparr>"


end
