(* ===== verification/Registry.thy ===== *)
theory Registry
  imports Py_Poll
begin

text \<open>
  \<open>pycloudstack/registry.py\<close>: logging in to a container registry, pulling an image and running it; and the two helpers of
  \<open>pycloudstack/util.py\<close>.  The Docker client is a parameter over the state of the Docker host; the operating system's sockets and
  its clock are parameters too.
\<close>

section \<open>The registry\<close>

type_synonym assoc = "(string \<times> string) list"

text \<open>A container is run with an image, the environment, the ports, the devices, the flag \<open>detach\<close>, and further arguments.\<close>

record ('h, 'c) docker_api =
  docker_login :: "string \<Rightarrow> string \<Rightarrow> string \<Rightarrow> ('h, assoc) eff"
  images_pull :: "string \<Rightarrow> ('h, unit) eff"
  containers_run :: "string \<Rightarrow> assoc \<Rightarrow> assoc \<Rightarrow> string list \<Rightarrow> bool \<Rightarrow> assoc \<Rightarrow> ('h, 'c) eff"

record 'h registry =
  r_host :: 'h
  r_username :: string
  r_token :: string
  r_address :: string
  r_is_login :: bool

text \<open>\<open>docker.from_env()\<close> gives the client or raises.\<close>

definition Registry :: "('h, unit) eff \<Rightarrow> string \<Rightarrow> string \<Rightarrow> string \<Rightarrow> 'h \<Rightarrow> 'h registry result \<times> 'h" where
  "Registry from_env username token address =
     ebind from_env (\<lambda>_ h.
     (Inr \<lparr>r_host = h, r_username = username, r_token = token, r_address = address, r_is_login = False\<rparr>, h))"

definition on_docker :: "('h, 'a) eff \<Rightarrow> ('h registry, 'a) eff" where
  "on_docker m = (\<lambda>r. case m (r_host r) of (x, h) \<Rightarrow> (x, r\<lparr>r_host := h\<rparr>))"

definition login :: "('h, 'c) docker_api \<Rightarrow> ('h registry, unit) eff" where
  "login D =
     (\<lambda>r. ebind (on_docker (docker_login D (r_username r) (r_token r) (r_address r))) (\<lambda>ret.
          ebind (eres (key_of ret ''Status'')) (\<lambda>status.
          ebind (eassert (status = ''Login Succeeded'')) (\<lambda>_.
          eput (\<lambda>r. r\<lparr>r_is_login := True\<rparr>)))) r)"

definition get_container_path :: "'h registry \<Rightarrow> string \<Rightarrow> string" where
  "get_container_path r image_name = r_address r @ ''/'' @ image_name"

definition pull :: "('h, 'c) docker_api \<Rightarrow> string \<Rightarrow> ('h registry, bool) eff" where
  "pull D image_name =
     (\<lambda>r. case on_docker (images_pull D (get_container_path r image_name)) r of
        (Inr _, r') \<Rightarrow> (Inr True, r')
      | (Inl e, r') \<Rightarrow> (if e = APIError then Inr False else Inl e, r'))"

definition or_empty :: "'a list option \<Rightarrow> 'a list" where
  "or_empty v = (case v of None \<Rightarrow> [] | Some x \<Rightarrow> x)"

definition run_image ::
  "('h, 'c) docker_api \<Rightarrow> string \<Rightarrow> assoc option \<Rightarrow> assoc option \<Rightarrow> string list option \<Rightarrow> bool \<Rightarrow> bool \<Rightarrow> bool \<Rightarrow> assoc \<Rightarrow> ('h registry, 'c) eff"
where
  "run_image D image_name environment ports devices detach refresh with_login kwargs =
     (\<lambda>r.
       ebind (if with_login \<and> \<not> r_is_login r then login D else eret ()) (\<lambda>_.
       ebind (if refresh then ebind (pull D image_name) eassert else eret ()) (\<lambda>_.
       on_docker (containers_run D (get_container_path r image_name) (or_empty environment) (or_empty ports)
         (or_empty devices) detach kwargs))) r)"

section \<open>Helpers\<close>

text \<open>\<open>tcp_port_available\<close>: bind a socket to a port that the system chooses, ask for its number, and close it.\<close>

record ('s, 'o) sockets =
  new_socket :: "('o, 's) eff"
  bind_any :: "'s \<Rightarrow> ('o, unit) eff"
  getsockname :: "'s \<Rightarrow> ('o, string \<times> int) eff"
  close_socket :: "'s \<Rightarrow> ('o, unit) eff"

definition tcp_port_available :: "('s, 'o) sockets \<Rightarrow> ('o, int) eff" where
  "tcp_port_available S =
     ebind (new_socket S) (\<lambda>sock.
     ebind (bind_any S sock) (\<lambda>_.
     ebind (getsockname S sock) (\<lambda>name.
     ebind (close_socket S sock) (\<lambda>_.
     eret (snd name)))))"

definition timeit :: "('s, int) eff \<Rightarrow> ('s, 'a) eff \<Rightarrow> ('s, 'a) eff" where
  "timeit perf_counter func =
     ebind perf_counter (\<lambda>start_time.
     ebind func (\<lambda>result.
     ebind perf_counter (\<lambda>end_time.
     eret result)))"

section \<open>Lemmas\<close>

lemma on_docker_keeps:
  "on_docker m r = (x, r') \<Longrightarrow>
   r_username r' = r_username r \<and> r_token r' = r_token r \<and> r_address r' = r_address r \<and> r_is_login r' = r_is_login r"
  by (auto simp: on_docker_def split: prod.splits)

text \<open>A login that returns sets the flag, and one that raises keeps it.\<close>

lemma login_flag: "login D r = (x, r') \<Longrightarrow> r_is_login r' = (r_is_login r \<or> x = Inr ())"
  by (auto simp: login_def ebind_def split: prod.splits sum.splits dest!: on_docker_keeps)

text \<open>An image that can not be pulled is not run: the operation raises, and the state is that after the pull.\<close>

lemma run_needs_pull:
  assumes "pull D image_name r = (Inr False, r')"
  shows "run_image D image_name environment ports devices detach True False kwargs r = (Inl AssertionError, r')"
  using assms by (simp add: run_image_def ebind_def)

lemma run_refused_pull:
  assumes "images_pull D (r_address r @ ''/'' @ image_name) (r_host r) = (Inl APIError, h)"
  shows "run_image D image_name environment ports devices detach True False kwargs r = (Inl AssertionError, r\<lparr>r_host := h\<rparr>)"
  using assms by (intro run_needs_pull) (simp add: pull_def on_docker_def get_container_path_def)

end
