(* ===== verification/Spec2Isabelle.thy ===== *)
theory Spec2Isabelle
  imports Cli Ovmf_Secure_Boot Msr Guest_Ssh Cmd_Thread Vmm_Agent Cluster_Sgx Cluster_Kubevirt Artifacts Registry
begin

text \<open>
  Verification of the Python code of tdx-tools, the tools for Intel Trust Domain Extensions.

  \<^bold>\<open>The program.\<close>  The repository holds three Python packages.  \<open>pytdxattest\<close> (src/attestation/pytdxattest) runs in a trust
  domain: it reads the event log that the firmware leaves in memory, replays it into the measurement registers and compares
  them with the registers of a report that it asks from the kernel; it asks for quotes and extends registers.  \<open>ovmfkeyenroll\<close>
  (src/utils/ovmfkeyenroll) changes the variable store in a firmware image to install the keys of secure boot.
  \<open>pycloudstack\<close> (src/utils/pycloudstack) creates and runs virtual machines through libvirt or on a Kubernetes cluster, and
  fetches what they need.

  \<^bold>\<open>How Python is modelled.\<close>  \<open>Py_Prelude\<close> has exceptions as values of a sum type (an exception that leaves a function is \<open>Inl\<close>), byte
  strings, slices and integers; \<open>Py_Struct\<close> the module \<open>struct\<close>; \<open>Py_Text\<close> strings, UTF-8, numbers as text; \<open>Py_Path\<close> the module
  \<open>os.path\<close>; \<open>Py_Base64\<close> the module \<open>base64\<close>; \<open>Py_Regex\<close> the regular expressions that occur; \<open>Py_Os\<close> memory and \<open>ioctl\<close>; \<open>Py_Effect\<close>
  operations that keep their effects when they raise; \<open>Py_Poll\<close> operations that may not return and loops that poll, with a locale \<open>polling\<close> for
  what a waiting operation relies on; \<open>Py_Json\<close> the module \<open>json\<close>; \<open>Py_Url\<close> \<open>urlparse\<close>; \<open>Sha2\<close> and \<open>Sha256\<close> the functions of \<open>hashlib\<close> that are used.  Text is ASCII where a
  function depends on the class of a character.  What is not in the repository is a parameter: the kernel
  behind \<open>ioctl\<close> and \<open>/dev/msr\<close>, libvirt and the agent in a guest, the Kubernetes and Docker clients, the network, paramiko, the commands of the operating system, the clock,
  the packages \<open>cpuinfo\<close> and \<open>numa\<close>; what a theorem needs
  of them is a hypothesis (\<open>libvirt_laws\<close>, \<open>agent_laws\<close>, \<open>crd_laws\<close>, \<open>msr_driver\<close> and so on), and each has a concrete instance in a witness.  Logging is
  left out everywhere.

  \<^bold>\<open>Attestation.\<close>  \<open>Binary_Blob\<close> (binaryblob.py): the readers, with a locale \<open>blob_reader\<close> for what the parsers rely on, and the
  dump as a state machine.  \<open>Td_Event_Log\<close> (tdeventlog.py): event types, algorithms, the records and their parsers.
  \<open>Ccel\<close> (ccel.py): the ACPI table.  \<open>Rtmr\<close> (rtmr.py and examples/extend\_ima.py): the registers; a locale \<open>hash_chain\<close> gives the value
  after a sequence of extensions.  \<open>Device_Node\<close> (utility.py): the device, report and quote requests with their buffers in
  memory.  \<open>Td_Report\<close>, \<open>Td_Quote\<close>, \<open>Measurement_Actor\<close>, \<open>Cli\<close> (tdreport.py, tdquote.py, actor.py, cli.py).  The theorems show that the
  parser inverts the encoding of a log, that replaying is the fold of the hash over the events of each register, that
  two replays with the same result had the same digests or give a collision, that the verdict on each register is the comparison with
  the report, that report and quote requests carry the data of the caller, and the failures on wrong input.
  The loop over the log is a function with a termination proof (each event is at least one byte long).

  \<^bold>\<open>Key enrolment.\<close>  \<open>Ovmf_Guid\<close>, \<open>Ovmf_Variable\<close>, \<open>Ovmf_Store\<close>, \<open>Ovmf_Enroll\<close> (var\_enroll.py): identifiers, headers, the variable store
  with reading and writing, and the command; \<open>Ovmf_Secure_Boot\<close> (secure\_boot.py and tools/image/enroll\_vars.py): the sequence of
  enrolments.  The store is a keyed list (locale \<open>keyed_store\<close>); the theorems show that writing and reading are inverse, that an enrolment
  persists in the image and refines the abstract update of the list, and that the secure boot
  command installs every key that is configured.  The search for the firmware volume may run forever: it is a partial
  function to \<open>option\<close>, with theorems about when it returns and that it diverges on a volume of length zero.

  \<^bold>\<open>Virtual machines.\<close>  \<open>Vm_Param\<close> (vmparam.py): the kernel command line and the topology.  \<open>Dut\<close> (dut.py): queries of the host.
  \<open>Msr\<close> (msr.py): registers of the processor.  \<open>Virt_Xml\<close> (virtxml.py): the document of a machine, where a change through a reference
  to an element is a function on the tree; the locales \<open>cached_text\<close> and \<open>cached_boot_text\<close> state what a setter relies
  on, and the relation \<open>vx_step\<close> has one rule per operation.  \<open>Virt_Texts\<close>: rules for sequences of
  operations on a document.  \<open>Vmm\<close> (vmm.py): the description of a domain and the libvirt manager.  \<open>Vmm_Laws\<close>: the documented behaviour of
  libvirt, the life cycle as an abstract machine, and the refinement.  \<open>Cmd_Runner\<close> (cmdrunner.py, vmimg.py): commands and
  images.  \<open>Cmd_Thread\<close>: the thread of a command and its process as one relation with a rule per step of either.
  \<open>Vm_Guest\<close> (vmguest.py): guests, polling, and the factory.  \<open>Guest_Ssh\<close>: waiting for the SSH port, the vTPM domain and the
  SSH client of the same file.  \<open>Vmm_Agent\<close>: the messages of vmm.py to the agent in a guest, as texts that the agent reads
  as JSON.  The theorems show that the document, the object and the file never
  differ, that the description built for a guest describes that guest, that the manager implements the life cycle,
  that the polling loops end with the right answer, that a factory can always remove its guests, when the thread of a command and its
  process block each other, and that a file written through the agent is read back.
  The loops with a counter are bounded by it, so that no fuel is needed; those that look at the clock are partial
  functions to \<open>option\<close>, and that they return is proved from what the clock does.

  \<^bold>\<open>Clusters.\<close>  \<open>Cluster\<close> (cluster.py): the settings of a cluster, and creating, deleting and waiting for namespaces, deployments, services and
  jobs; each waiting loop is an interpretation of \<open>polling\<close>.  \<open>Cluster_Sgx\<close>: the nodes with SGX and their totals.  \<open>Cluster_Kubevirt\<close>: trust
  domains as custom objects, and the manager of vmm.py on top of them.  The theorems show that the settings stay such that
  every waiting operation returns, when a job is reported as done, and that the manager implements the abstract life of a trust domain.

  \<^bold>\<open>Artifacts and containers.\<close>  \<open>Artifacts\<close> (artifacts.py): downloads, checksums, the cache, and manifests; the theorem says which content an
  artifact gets.  \<open>Registry\<close> (registry.py and util.py): the container registry and two helpers.

  \<^bold>\<open>Not modelled.\<close>  Logging, the parsing of command lines by \<open>argparse\<close>, the printed form of values that only a log shows,
  the depth limit of the JSON parser, and the class of the build log in secure\_boot.py.  The packaging scripts, the tests on real hardware, the
  eBPF trace script and the code in other languages are outside of the development.
\<close>

end
